(* ===== verification/Prelude.thy ===== *)
theory Prelude
  imports Main "HOL-Library.Word" "HOL-Library.AList"
begin

text \<open>
  Shared vocabulary of the development.

  \<^item> Names for the scalar types of the program: aware datetimes are instants
    counted in microseconds, UUIDs are 128-bit words, strings are lists of
    (ASCII) characters.
  \<^item> Python \<open>dict\<close> values as association lists: assignment keeps the position
    of an existing key and appends a new one, as insertion-ordered dicts do.
  \<^item> JSON values, used for job payloads and audit metadata.
  \<^item> Exceptions and outcomes: a call either returns a value or raises, and an
    action on a store returns the outcome together with the store it leaves.
    A transaction keeps the new store when its body returns and restores the
    old one when its body raises.
  \<^item> Tables as lists of rows in scan order, with the \<open>SELECT\<close>, \<open>UPDATE\<close> and
    \<open>DELETE\<close> patterns the repositories use, and the lemmas the component
    theories share about them.
\<close>

named_theorems table_simps
named_theorems outcome_simps

type_synonym datetime = int
type_synonym uuid = "128 word"

abbreviation seconds :: "int \<Rightarrow> int" where
  "seconds n \<equiv> n * 1000000"

abbreviation minutes :: "int \<Rightarrow> int" where
  "minutes n \<equiv> n * 60000000"

abbreviation days :: "int \<Rightarrow> int" where
  "days n \<equiv> n * 86400000000"


text \<open>A Python datetime with or without \<open>tzinfo\<close>, where the code tells them apart.\<close>

datatype py_datetime = Naive datetime | Aware datetime


subsection \<open>Dictionaries\<close>

type_synonym ('k, 'v) dict = "('k \<times> 'v) list"

definition dict_get :: "('k, 'v) dict \<Rightarrow> 'k \<Rightarrow> 'v option" where
  "dict_get d k = map_of d k"

definition dict_has :: "('k, 'v) dict \<Rightarrow> 'k \<Rightarrow> bool" where
  "dict_has d k = (k \<in> fst ` set d)"

definition dict_set :: "('k, 'v) dict \<Rightarrow> 'k \<Rightarrow> 'v \<Rightarrow> ('k, 'v) dict" where
  "dict_set d k v = AList.update k v d"

definition dict_pop :: "('k, 'v) dict \<Rightarrow> 'k \<Rightarrow> ('k, 'v) dict" where
  "dict_pop d k = AList.delete k d"

definition dict_keys :: "('k, 'v) dict \<Rightarrow> 'k set" where
  "dict_keys d = fst ` set d"

lemma dict_get_set [simp]:
  "dict_get (dict_set d k v) k' = (if k' = k then Some v else dict_get d k')"
  by (simp add: dict_get_def dict_set_def update_conv')

lemma dict_get_pop [simp]:
  "dict_get (dict_pop d k) k' = (if k' = k then None else dict_get d k')"
  by (simp add: dict_get_def dict_pop_def delete_conv')

lemma dict_get_Nil [simp]: "dict_get [] k = None"
  by (simp add: dict_get_def)

lemma dict_has_iff [simp]: "dict_has d k \<longleftrightarrow> dict_get d k \<noteq> None"
  by (simp add: dict_has_def dict_get_def map_of_eq_None_iff)

lemma dict_keys_iff [simp]: "k \<in> dict_keys d \<longleftrightarrow> dict_get d k \<noteq> None"
  by (simp add: dict_keys_def dict_get_def map_of_eq_None_iff)

lemma finite_dict_keys [simp, intro]: "finite (dict_keys d)"
  by (simp add: dict_keys_def)

lemma dict_keys_set [simp]: "dict_keys (dict_set d k v) = insert k (dict_keys d)"
  by (auto split: if_splits)

lemma dict_keys_pop [simp]: "dict_keys (dict_pop d k) = dict_keys d - {k}"
  by (auto split: if_splits)


subsection \<open>JSON values\<close>

datatype json =
    JNull
  | JBool bool
  | JInt int
  | JStr string
  | JList "json list"
  | JObj "(string \<times> json) list"

type_synonym json_object = "(string, json) dict"


subsection \<open>Exceptions, outcomes and transactions\<close>

datatype exn =
    ValueError
  | KeyError
  | RuntimeError
  | TypeError
  | IntegrityError
  | OSError
  | RedisError
  | UnwrapError
  | AssertionError
  | ConfigurationError
  | InvalidHashError
  | OverflowError
  | UnknownActionError
  | NotAuthorizedError
  | UnknownJobError string
  | UnknownTemplateError string
  | HandlerAlreadyRegisteredError string
  | TemplateAlreadyRegisteredError string
  | OtherException string

datatype 'a outcome = Returns 'a | Raises exn

type_synonym ('s, 'a) action = "'s \<Rightarrow> 'a outcome \<times> 's"

fun bind_outcome :: "'a outcome \<Rightarrow> ('a \<Rightarrow> 'b outcome) \<Rightarrow> 'b outcome" where
  "bind_outcome (Returns x) f = f x"
| "bind_outcome (Raises e) f = Raises e"

definition andthen ::
  "('s, 'a) action \<Rightarrow> ('a \<Rightarrow> ('s, 'b) action) \<Rightarrow> ('s, 'b) action" where
  "andthen m f s =
     (case m s of (Returns x, s') \<Rightarrow> f x s' | (Raises e, s') \<Rightarrow> (Raises e, s'))"

definition transaction :: "('s, 'a) action \<Rightarrow> ('s, 'a) action" where
  "transaction m s =
     (case m s of (Returns x, s') \<Rightarrow> (Returns x, s') | (Raises e, s') \<Rightarrow> (Raises e, s))"

lemma bind_outcome_Returns_iff [outcome_simps]:
  "bind_outcome m f = Returns y \<longleftrightarrow> (\<exists>x. m = Returns x \<and> f x = Returns y)"
  by (cases m) auto

lemma transaction_Raises [outcome_simps]:
  "m s = (Raises e, s') \<Longrightarrow> transaction m s = (Raises e, s)"
  by (simp add: transaction_def)

lemma transaction_Returns [outcome_simps]:
  "m s = (Returns x, s') \<Longrightarrow> transaction m s = (Returns x, s')"
  by (simp add: transaction_def)

lemma transaction_Raises_unchanged:
  "transaction m s = (Raises e, s') \<Longrightarrow> s' = s"
  by (auto simp: transaction_def split: prod.splits outcome.splits)

lemma transaction_ReturnsD:
  "transaction m s = (Returns x, s') \<Longrightarrow> m s = (Returns x, s')"
  by (auto simp: transaction_def split: prod.splits outcome.splits)


subsection \<open>Tables\<close>

definition update_where :: "('r \<Rightarrow> bool) \<Rightarrow> ('r \<Rightarrow> 'r) \<Rightarrow> 'r list \<Rightarrow> 'r list" where
  "update_where P f rows = map (\<lambda>r. if P r then f r else r) rows"

definition delete_where :: "('r \<Rightarrow> bool) \<Rightarrow> 'r list \<Rightarrow> 'r list" where
  "delete_where P rows = filter (\<lambda>r. \<not> P r) rows"

definition count_where :: "('r \<Rightarrow> bool) \<Rightarrow> 'r list \<Rightarrow> nat" where
  "count_where P rows = length (filter P rows)"

lemma set_update_where [table_simps]:
  "set (update_where P f rows) = f ` {r \<in> set rows. P r} \<union> {r \<in> set rows. \<not> P r}"
  by (auto simp: update_where_def)

lemma in_update_where_iff:
  "r' \<in> set (update_where P f rows) \<longleftrightarrow>
     (\<exists>r\<in>set rows. r' = (if P r then f r else r))"
  by (auto simp: update_where_def)

lemma update_where_Nil [simp]: "update_where P f [] = []"
  by (simp add: update_where_def)

lemma update_where_Cons [simp]:
  "update_where P f (r # rows) = (if P r then f r else r) # update_where P f rows"
  by (simp add: update_where_def)

lemma update_where_append [simp]:
  "update_where P f (xs @ ys) = update_where P f xs @ update_where P f ys"
  by (simp add: update_where_def)

lemma length_update_where [simp]: "length (update_where P f rows) = length rows"
  by (simp add: update_where_def)

lemma map_update_where:
  assumes "\<And>r. P r \<Longrightarrow> g (f r) = g r"
  shows "map g (update_where P f rows) = map g rows"
  using assms by (auto simp: update_where_def)

lemma update_where_none:
  assumes "\<And>r. r \<in> set rows \<Longrightarrow> \<not> P r"
  shows "update_where P f rows = rows"
  using assms by (induction rows) (auto simp: update_where_def)

lemma set_delete_where [table_simps]:
  "set (delete_where P rows) = {r \<in> set rows. \<not> P r}"
  by (auto simp: delete_where_def)

lemma delete_where_Nil [simp]: "delete_where P [] = []"
  by (simp add: delete_where_def)

lemma delete_where_append [simp]:
  "delete_where P (xs @ ys) = delete_where P xs @ delete_where P ys"
  by (simp add: delete_where_def)

lemma distinct_map_delete_where:
  "distinct (map f rows) \<Longrightarrow> distinct (map f (delete_where P rows))"
  by (simp add: delete_where_def distinct_map_filter)

lemma length_delete_where:
  "length (delete_where P rows) + count_where P rows = length rows"
  by (induction rows) (auto simp: delete_where_def count_where_def)

lemma find_update_where_other:
  assumes "\<And>r. P r \<Longrightarrow> Q (f r) = Q r"
    and "\<And>r. r \<in> set rows \<Longrightarrow> Q r \<Longrightarrow> \<not> P r"
  shows "find Q (update_where P f rows) = find Q rows"
  using assms by (induction rows) (auto simp: update_where_def)

lemma find_update_where_same:
  assumes "\<And>r. P r \<Longrightarrow> Q (f r) = Q r"
  shows "find Q (update_where P f rows) =
    map_option (\<lambda>r. if P r then f r else r) (find Q rows)"
  using assms by (induction rows) (auto simp: update_where_def)

lemma find_Some_in: "find P xs = Some x \<Longrightarrow> x \<in> set xs \<and> P x"
  by (induction xs) (auto split: if_splits)

lemma find_None_iff_all: "find P xs = None \<longleftrightarrow> (\<forall>x\<in>set xs. \<not> P x)"
  by (induction xs) auto

lemma find_append:
  "find P (xs @ ys) = (case find P xs of None \<Rightarrow> find P ys | Some x \<Rightarrow> Some x)"
  by (induction xs) auto

lemma find_unique_key:
  assumes "distinct (map key rows)" and "r \<in> set rows" and "key r = k"
  shows "find (\<lambda>r. key r = k) rows = Some r"
  using assms by (induction rows) (auto simp: image_iff)

end
