(* ===== verification/Registry_Contract.thy ===== *)
theory Registry_Contract
  imports Prelude
begin

text \<open>
  The contract shared by the three start-up registries of the program (the
  authorization registry, the background-job handler registry and the email
  template registry): entries are added while the registry is open, a key is
  registered at most once, and sealing freezes the contents. The lemmas of the
  locale are what a composition root relies on when it runs a sequence of
  registrations; each registry interprets the locale on its own operations.
\<close>

locale sealable_registry =
  fixes sealed :: "'r \<Rightarrow> bool"
    and lookup :: "'r \<Rightarrow> 'k \<Rightarrow> 'v option"
    and register :: "'k \<Rightarrow> 'v \<Rightarrow> 'r \<Rightarrow> 'r outcome"
    and seal :: "'r \<Rightarrow> 'r"
  assumes register_sealed: "sealed r \<Longrightarrow> \<exists>e. register k v r = Raises e"
    and register_taken: "lookup r k \<noteq> None \<Longrightarrow> \<exists>e. register k v r = Raises e"
    and register_new: "\<not> sealed r \<Longrightarrow> lookup r k = None \<Longrightarrow>
          \<exists>r'. register k v r = Returns r' \<and> \<not> sealed r' \<and>
            lookup r' = (lookup r)(k \<mapsto> v)"
    and seal_sealed: "sealed (seal r)"
    and seal_lookup: "lookup (seal r) = lookup r"
begin

fun register_all :: "('k \<times> 'v) list \<Rightarrow> 'r \<Rightarrow> 'r outcome" where
  "register_all [] r = Returns r"
| "register_all ((k, v) # kvs) r = bind_outcome (register k v r) (register_all kvs)"

lemma register_Returns_iff:
  "register k v r = Returns r' \<Longrightarrow>
     \<not> sealed r \<and> lookup r k = None \<and> \<not> sealed r' \<and> lookup r' = (lookup r)(k \<mapsto> v)"
  using register_sealed [of r k v] register_taken [of r k v] register_new [of r k v]
  by fastforce

lemma register_all_sealed:
  assumes "sealed r" and "kvs \<noteq> []"
  shows "\<exists>e. register_all kvs r = Raises e"
proof -
  obtain k v rest where kvs: "kvs = (k, v) # rest"
    using assms(2) by (metis neq_Nil_conv surj_pair)
  obtain e where "register k v r = Raises e"
    using register_sealed [OF assms(1)] by blast
  then show ?thesis
    by (simp add: kvs)
qed

lemma register_all_taken:
  "lookup r k \<noteq> None \<Longrightarrow> k \<in> fst ` set kvs \<Longrightarrow> \<exists>e. register_all kvs r = Raises e"
proof (induction kvs arbitrary: r)
  case (Cons kv kvs)
  obtain k' v' where kv: "kv = (k', v')"
    by (cases kv)
  show ?case
  proof (cases "register k' v' r")
    case (Returns r1)
    then have "lookup r k' = None" "lookup r1 = (lookup r)(k' \<mapsto> v')"
      using register_Returns_iff [of k' v' r r1] by simp_all
    moreover from this have "k \<noteq> k'"
      using Cons.prems(1) by metis
    ultimately have "\<exists>e. register_all kvs r1 = Raises e"
      using Cons.IH [of r1] Cons.prems kv by simp
    then show ?thesis
      by (simp add: kv Returns)
  qed (simp add: kv)
qed simp

lemma register_all_keeps:
  "register_all kvs r = Returns r' \<Longrightarrow> lookup r k = Some v \<Longrightarrow> lookup r' k = Some v"
proof (induction kvs arbitrary: r)
  case (Cons kv kvs)
  obtain k' v' where kv: "kv = (k', v')"
    by (cases kv)
  then obtain r1 where "register k' v' r = Returns r1" and rest: "register_all kvs r1 = Returns r'"
    using Cons.prems by (auto simp: outcome_simps)
  then have "lookup r1 k = Some v"
    using register_Returns_iff [of k' v' r r1] Cons.prems by auto
  then show ?case
    using Cons.IH rest by blast
qed simp

lemma register_all_lookup:
  "register_all kvs r = Returns r' \<Longrightarrow>
     distinct (map fst kvs) \<and> lookup r' = lookup r ++ map_of kvs"
proof (induction kvs arbitrary: r)
  case (Cons kv kvs)
  obtain k v where kv: "kv = (k, v)"
    by (cases kv)
  then obtain r1 where r1: "register k v r = Returns r1" and rest: "register_all kvs r1 = Returns r'"
    using Cons.prems by (auto simp: outcome_simps)
  have lookup1: "lookup r1 = (lookup r)(k \<mapsto> v)"
    using register_Returns_iff [OF r1] by blast
  have IH: "distinct (map fst kvs)" "lookup r' = lookup r1 ++ map_of kvs"
    using Cons.IH [OF rest] by auto
  have "k \<notin> fst ` set kvs"
    using register_all_taken [of r1 k kvs] rest lookup1 by force
  then have "map_of kvs k = None"
    by (simp add: map_of_eq_None_iff)
  then show ?case
    using IH lookup1 kv \<open>k \<notin> fst ` set kvs\<close>
    by (simp add: fun_eq_iff map_add_def split: option.splits)
qed simp

end

end
