(* ===== verification/Authz_Registry.thy ===== *)
theory Authz_Registry
  imports Registry_Contract
begin

text \<open>
  The authorization registry
  (\<open>src/features/authorization/application/registry.py\<close>): leaf resource types
  with their action map and relation hierarchy, inherited types that walk to a
  parent, sealing, and the read API the engine uses. A callable \<open>parent_of\<close> is a
  function from a child id to an optional pair of parent type and parent id.

  The registry satisfies the contract \<open>sealable_registry\<close>; resolving a type to
  its nearest leaf terminates on every registry and agrees with the inductive
  relation \<open>resolves\<close>.
\<close>

record leaf_entry =
  le_actions :: "(string, string set) dict"
  le_hierarchy :: "(string, string set) dict"

record parent_entry =
  pe_parent_of :: "string \<Rightarrow> (string \<times> string) option"
  pe_inherits_from :: string

record authorization_registry =
  ar_leaves :: "(string, leaf_entry) dict"
  ar_parents :: "(string, parent_entry) dict"
  ar_sealed :: bool

definition empty_authorization_registry :: authorization_registry where
  "empty_authorization_registry = \<lparr>ar_leaves = [], ar_parents = [], ar_sealed = False\<rparr>"

definition authz_guard_unsealed :: "authorization_registry \<Rightarrow> unit outcome" where
  "authz_guard_unsealed reg = (if ar_sealed reg then Raises RuntimeError else Returns ())"

definition authz_guard_unique :: "authorization_registry \<Rightarrow> string \<Rightarrow> unit outcome" where
  "authz_guard_unique reg rt =
     (if dict_has (ar_leaves reg) rt \<or> dict_has (ar_parents reg) rt then Raises ValueError
      else Returns ())"

definition register_resource_type ::
  "string \<Rightarrow> (string, string set) dict \<Rightarrow> (string, string set) dict \<Rightarrow>
   authorization_registry \<Rightarrow> authorization_registry outcome" where
  "register_resource_type rt actions hierarchy reg =
     bind_outcome (authz_guard_unsealed reg) (\<lambda>_.
     bind_outcome (authz_guard_unique reg rt) (\<lambda>_.
     Returns (reg\<lparr>ar_leaves :=
       dict_set (ar_leaves reg) rt \<lparr>le_actions = actions, le_hierarchy = hierarchy\<rparr>\<rparr>)))"

definition register_parent ::
  "string \<Rightarrow> (string \<Rightarrow> (string \<times> string) option) \<Rightarrow> string \<Rightarrow>
   authorization_registry \<Rightarrow> authorization_registry outcome" where
  "register_parent rt parent_of inherits_from reg =
     bind_outcome (authz_guard_unsealed reg) (\<lambda>_.
     bind_outcome (authz_guard_unique reg rt) (\<lambda>_.
     Returns (reg\<lparr>ar_parents :=
       dict_set (ar_parents reg) rt
         \<lparr>pe_parent_of = parent_of, pe_inherits_from = inherits_from\<rparr>\<rparr>)))"

definition authz_seal :: "authorization_registry \<Rightarrow> authorization_registry" where
  "authz_seal reg = reg\<lparr>ar_sealed := True\<rparr>"

function nearest_leaf_walk ::
  "authorization_registry \<Rightarrow> string set \<Rightarrow> string \<Rightarrow> string outcome" where
  "nearest_leaf_walk reg seen current =
     (if dict_has (ar_leaves reg) current then Returns current
      else if current \<in> seen then Raises UnknownActionError
      else (case dict_get (ar_parents reg) current of
              None \<Rightarrow> Raises UnknownActionError
            | Some parent \<Rightarrow>
                nearest_leaf_walk reg (insert current seen) (pe_inherits_from parent)))"
  by pat_completeness auto
termination
proof (relation "measure (\<lambda>(reg, seen, current). card (dict_keys (ar_parents reg) - seen))",
    goal_cases)
  case 1
  show ?case
    by (rule wf_measure)
next
  case (2 reg seen current parent)
  then have "current \<in> dict_keys (ar_parents reg) - seen"
    by simp
  then have "dict_keys (ar_parents reg) - insert current seen \<subset> dict_keys (ar_parents reg) - seen"
    by blast
  then have "card (dict_keys (ar_parents reg) - insert current seen) < card (dict_keys (ar_parents reg) - seen)"
    by (intro psubset_card_mono) auto
  then show ?case
    by (simp only: in_measure prod.case)
qed

declare nearest_leaf_walk.simps [simp del]

definition nearest_leaf_type :: "authorization_registry \<Rightarrow> string \<Rightarrow> string outcome" where
  "nearest_leaf_type reg rt = nearest_leaf_walk reg {} rt"

definition resolve_leaf :: "authorization_registry \<Rightarrow> string \<Rightarrow> leaf_entry outcome" where
  "resolve_leaf reg rt =
     bind_outcome (nearest_leaf_type reg rt) (\<lambda>l.
       case dict_get (ar_leaves reg) l of None \<Rightarrow> Raises KeyError | Some leaf \<Rightarrow> Returns leaf)"

definition relations_for ::
  "authorization_registry \<Rightarrow> string \<Rightarrow> string \<Rightarrow> string set outcome" where
  "relations_for reg rt act =
     bind_outcome (resolve_leaf reg rt) (\<lambda>leaf.
       case dict_get (le_actions leaf) act of
         None \<Rightarrow> Raises UnknownActionError | Some relations \<Rightarrow> Returns relations)"

definition expand_relations ::
  "authorization_registry \<Rightarrow> string \<Rightarrow> string set \<Rightarrow> string set outcome" where
  "expand_relations reg rt relations =
     bind_outcome (resolve_leaf reg rt) (\<lambda>leaf.
       if \<forall>relation\<in>relations. dict_has (le_hierarchy leaf) relation
       then Returns (\<Union>relation\<in>relations. the (dict_get (le_hierarchy leaf) relation))
       else Raises UnknownActionError)"

definition registry_parent_of ::
  "authorization_registry \<Rightarrow> string \<Rightarrow> string \<Rightarrow> (string \<times> string) option" where
  "registry_parent_of reg rt rid =
     (case dict_get (ar_parents reg) rt of
        None \<Rightarrow> None
      | Some entry \<Rightarrow> pe_parent_of entry rid)"

definition has_stored_relations :: "authorization_registry \<Rightarrow> string \<Rightarrow> bool" where
  "has_stored_relations reg rt = dict_has (ar_leaves reg) rt"

definition registered_resource_types :: "authorization_registry \<Rightarrow> string set" where
  "registered_resource_types reg = dict_keys (ar_leaves reg) \<union> dict_keys (ar_parents reg)"


subsection \<open>The registry contract\<close>

definition authz_lookup ::
  "authorization_registry \<Rightarrow> string \<Rightarrow> (leaf_entry + parent_entry) option" where
  "authz_lookup reg rt =
     (case dict_get (ar_leaves reg) rt of
        Some leaf \<Rightarrow> Some (Inl leaf)
      | None \<Rightarrow> map_option Inr (dict_get (ar_parents reg) rt))"

definition authz_register ::
  "string \<Rightarrow> leaf_entry + parent_entry \<Rightarrow> authorization_registry \<Rightarrow>
   authorization_registry outcome" where
  "authz_register rt entry reg =
     (case entry of
        Inl leaf \<Rightarrow> register_resource_type rt (le_actions leaf) (le_hierarchy leaf) reg
      | Inr parent \<Rightarrow> register_parent rt (pe_parent_of parent) (pe_inherits_from parent) reg)"

lemmas authz_register_defs =
  authz_register_def authz_lookup_def register_resource_type_def register_parent_def
  authz_guard_unsealed_def authz_guard_unique_def authz_seal_def

interpretation areg: sealable_registry ar_sealed authz_lookup authz_register authz_seal
proof (unfold_locales, goal_cases)
  case (3 r k v)
  then show ?case
    by (auto simp: authz_register_defs fun_eq_iff split: sum.splits option.splits)
qed (auto simp: authz_register_defs split: sum.splits option.splits)

lemma authz_lookup_registered:
  "rt \<in> registered_resource_types reg \<longleftrightarrow> authz_lookup reg rt \<noteq> None"
  by (auto simp: registered_resource_types_def authz_lookup_def split: option.splits)


subsection \<open>Resolution to the nearest leaf\<close>

inductive resolves :: "authorization_registry \<Rightarrow> string \<Rightarrow> string \<Rightarrow> bool" for reg where
  leaf: "dict_has (ar_leaves reg) rt \<Longrightarrow> resolves reg rt rt"
| inherit: "\<not> dict_has (ar_leaves reg) rt \<Longrightarrow> dict_get (ar_parents reg) rt = Some parent \<Longrightarrow>
    resolves reg (pe_inherits_from parent) l \<Longrightarrow> resolves reg rt l"

inductive_cases resolvesE: "resolves reg rt l"

lemma resolves_is_leaf: "resolves reg rt l \<Longrightarrow> dict_has (ar_leaves reg) l"
  by (induction rule: resolves.induct) auto

lemma nearest_leaf_walk_sound:
  "nearest_leaf_walk reg seen rt = Returns l \<Longrightarrow> resolves reg rt l"
proof (induction reg seen rt rule: nearest_leaf_walk.induct)
  case (1 reg seen current)
  show ?case
    using "1.IH" "1.prems" [unfolded nearest_leaf_walk.simps [of reg seen current]]
    by (auto split: if_splits option.splits intro: resolves.intros)
qed

text \<open>The leaf reached in exactly \<open>n\<close> steps; the step count of a type is unique.\<close>

primrec leaf_in :: "authorization_registry \<Rightarrow> nat \<Rightarrow> string \<Rightarrow> string option" where
  "leaf_in reg 0 rt = (if dict_has (ar_leaves reg) rt then Some rt else None)"
| "leaf_in reg (Suc n) rt =
     (if dict_has (ar_leaves reg) rt then None
      else (case dict_get (ar_parents reg) rt of
              None \<Rightarrow> None
            | Some parent \<Rightarrow> leaf_in reg n (pe_inherits_from parent)))"

lemma leaf_in_unique:
  "leaf_in reg n rt = Some l \<Longrightarrow> leaf_in reg m rt = Some l' \<Longrightarrow> n = m"
  by (induction n arbitrary: m rt; case_tac m) (auto split: if_splits option.splits)

lemma resolves_leaf_in: "resolves reg rt l \<Longrightarrow> \<exists>n. leaf_in reg n rt = Some l"
proof (induction rule: resolves.induct)
  case (leaf rt)
  then have "leaf_in reg 0 rt = Some rt"
    by simp
  then show ?case ..
next
  case (inherit rt parent l)
  then obtain n where "leaf_in reg n (pe_inherits_from parent) = Some l"
    by blast
  then have "leaf_in reg (Suc n) rt = Some l"
    using inherit by simp
  then show ?case ..
qed

lemma nearest_leaf_walk_complete:
  "leaf_in reg n rt = Some l \<Longrightarrow> (\<And>s. s \<in> seen \<Longrightarrow> \<exists>m > n. leaf_in reg m s \<noteq> None) \<Longrightarrow>
     nearest_leaf_walk reg seen rt = Returns l"
proof (induction n arbitrary: rt seen)
  case 0
  then show ?case
    by (subst nearest_leaf_walk.simps) (auto split: if_splits)
next
  case (Suc n)
  have fresh: "rt \<notin> seen"
    using Suc.prems leaf_in_unique [of reg "Suc n" rt l] by (metis less_irrefl not_None_eq)
  obtain parent where parent: "\<not> dict_has (ar_leaves reg) rt" "dict_get (ar_parents reg) rt = Some parent"
    "leaf_in reg n (pe_inherits_from parent) = Some l"
    using Suc.prems(1) by (auto split: if_splits option.splits)
  have "\<exists>m > n. leaf_in reg m s \<noteq> None" if "s \<in> insert rt seen" for s
    using that Suc.prems by (metis Suc_lessD insertE lessI option.distinct(1))
  then have "nearest_leaf_walk reg (insert rt seen) (pe_inherits_from parent) = Returns l"
    by (rule Suc.IH [OF parent(3)])
  then show ?case
    using parent fresh by (subst nearest_leaf_walk.simps) simp
qed

lemma nearest_leaf_walk_raises:
  "nearest_leaf_walk reg seen rt = Raises e \<Longrightarrow> e = UnknownActionError"
proof (induction reg seen rt rule: nearest_leaf_walk.induct)
  case (1 reg seen current)
  show ?case
    using "1.IH" "1.prems" [unfolded nearest_leaf_walk.simps [of reg seen current]]
    by (auto split: if_splits option.splits)
qed

lemma nearest_leaf_type_iff: "nearest_leaf_type reg rt = Returns l \<longleftrightarrow> resolves reg rt l"
  using nearest_leaf_walk_sound resolves_leaf_in nearest_leaf_walk_complete
  unfolding nearest_leaf_type_def by (metis emptyE)

lemma nearest_leaf_type_Raises:
  "nearest_leaf_type reg rt = Raises e \<Longrightarrow> e = UnknownActionError"
  by (simp add: nearest_leaf_type_def nearest_leaf_walk_raises)

lemma resolves_unique: "resolves reg rt l \<Longrightarrow> resolves reg rt l' \<Longrightarrow> l = l'"
  by (metis nearest_leaf_type_iff outcome.inject(1))

lemma resolve_leaf_iff:
  "resolve_leaf reg rt = Returns leaf \<longleftrightarrow>
     (\<exists>l. resolves reg rt l \<and> dict_get (ar_leaves reg) l = Some leaf)"
  by (auto simp: resolve_leaf_def nearest_leaf_type_iff outcome_simps split: option.splits)

lemma resolve_leaf_Raises: "resolve_leaf reg rt = Raises e \<Longrightarrow> e = UnknownActionError"
  using resolves_is_leaf nearest_leaf_type_iff nearest_leaf_type_Raises
  by (cases "nearest_leaf_type reg rt") (fastforce simp: resolve_leaf_def split: option.splits)+

end
