(* ===== verification/Py_Uuid.thy ===== *)
theory Py_Uuid
  imports Prelude
begin

unbundle bit_operations_syntax

text \<open>
  The parts of Python's \<open>uuid.UUID\<close> and of \<open>int(s, 16)\<close> that the program relies
  on: \<open>str(u)\<close> prints the 8-4-4-4-12 lower-case hexadecimal form, and the
  one-argument constructor accepts every spelling CPython accepts (URN prefix,
  braces, hyphens anywhere, and whatever \<open>int\<close> tolerates among 32 characters).
  The main result is that the constructor inverts \<open>str\<close>.
\<close>

subsection \<open>Hexadecimal digits\<close>

definition hex_digit :: "nat \<Rightarrow> char" where
  "hex_digit n = ''0123456789abcdef'' ! n"

fun hex_val :: "char \<Rightarrow> nat option" where
  "hex_val c =
     (let n = (of_char c :: nat) in
      if 48 \<le> n \<and> n \<le> 57 then Some (n - 48)
      else if 97 \<le> n \<and> n \<le> 102 then Some (n - 87)
      else if 65 \<le> n \<and> n \<le> 70 then Some (n - 55)
      else None)"

fun hex_fixed :: "nat \<Rightarrow> nat \<Rightarrow> string" where
  "hex_fixed 0 n = []"
| "hex_fixed (Suc w) n = hex_fixed w (n div 16) @ [hex_digit (n mod 16)]"

fun hex_digits_val :: "nat \<Rightarrow> string \<Rightarrow> nat option" where
  "hex_digits_val acc [] = Some acc"
| "hex_digits_val acc (c # cs) =
     (case hex_val c of None \<Rightarrow> None | Some d \<Rightarrow> hex_digits_val (16 * acc + d) cs)"

lemma nat_less_16_cases: "n < (16::nat) \<Longrightarrow> n \<in> {0, 1, 2, 3, 4, 5, 6, 7, 8, 9, 10, 11, 12, 13, 14, 15}"
  by (simp, presburger)

lemma hex_val_hex_digit [simp]: "n < 16 \<Longrightarrow> hex_val (hex_digit n) = Some n"
  by (drule nat_less_16_cases) (elim insertE emptyE; simp add: hex_digit_def)

lemma hex_digit_in: "n < 16 \<Longrightarrow> hex_digit n \<in> set ''0123456789abcdef''"
  by (simp add: hex_digit_def nth_mem del: set_simps list.set)

lemma length_hex_fixed [simp]: "length (hex_fixed w n) = w"
  by (induction w arbitrary: n) auto

lemma set_hex_fixed: "set (hex_fixed w n) \<subseteq> set ''0123456789abcdef''"
proof (induction w arbitrary: n)
  case (Suc w)
  then show ?case
    using hex_digit_in [of "n mod 16"] by (simp del: set_simps list.set) auto
qed simp

lemma hex_digits_val_append:
  "hex_digits_val acc (xs @ ys) =
     (case hex_digits_val acc xs of None \<Rightarrow> None | Some a \<Rightarrow> hex_digits_val a ys)"
  by (induction xs arbitrary: acc) (auto split: option.splits simp del: hex_val.simps)

lemma hex_digits_val_hex_fixed:
  "n < 16 ^ w \<Longrightarrow> hex_digits_val acc (hex_fixed w n) = Some (acc * 16 ^ w + n)"
proof (induction w arbitrary: n acc)
  case (Suc w)
  have "n div 16 < 16 ^ w"
    using Suc.prems by (simp add: less_mult_imp_div_less mult.commute)
  then have "hex_digits_val acc (hex_fixed w (n div 16)) = Some (acc * 16 ^ w + n div 16)"
    by (rule Suc.IH)
  then show ?case
    by (simp add: hex_digits_val_append algebra_simps del: hex_val.simps)
qed simp


subsection \<open>int(s, 16)\<close>

definition is_space :: "char \<Rightarrow> bool" where
  "is_space c = (let n = (of_char c :: nat) in n = 32 \<or> (9 \<le> n \<and> n \<le> 13) \<or> (28 \<le> n \<and> n \<le> 31))"

definition strip_by :: "(char \<Rightarrow> bool) \<Rightarrow> string \<Rightarrow> string" where
  "strip_by P s = rev (dropWhile P (rev (dropWhile P s)))"

text \<open>
  Digits with single underscores between them; the flag says whether an
  underscore is allowed at this position (after a digit or after the prefix).
\<close>

fun int16_digits :: "bool \<Rightarrow> nat \<Rightarrow> string \<Rightarrow> nat option" where
  "int16_digits us acc [] = None"
| "int16_digits us acc (c # cs) =
     (if c = CHR ''_'' then (if us then int16_digits False acc cs else None)
      else (case hex_val c of
              None \<Rightarrow> None
            | Some d \<Rightarrow> if cs = [] then Some (16 * acc + d) else int16_digits True (16 * acc + d) cs))"

definition int16_prefix :: "string \<Rightarrow> nat option" where
  "int16_prefix s =
     (if take 2 s \<in> {''0x'', ''0X''} then int16_digits True 0 (drop 2 s)
      else int16_digits False 0 s)"

definition int16 :: "string \<Rightarrow> int option" where
  "int16 s =
     (let t = strip_by is_space s in
      if take 1 t = ''-'' then map_option (\<lambda>n. - int n) (int16_prefix (drop 1 t))
      else if take 1 t = ''+'' then map_option int (int16_prefix (drop 1 t))
      else map_option int (int16_prefix t))"


subsection \<open>The constructor and str\<close>

function replace_empty :: "string \<Rightarrow> string \<Rightarrow> string" where
  "replace_empty p [] = []"
| "replace_empty p (c # cs) =
     (if p \<noteq> [] \<and> take (length p) (c # cs) = p then replace_empty p (drop (length p) (c # cs))
      else c # replace_empty p cs)"
  by pat_completeness auto
termination
  by (relation "measure (\<lambda>(p, s). length s)") auto

definition UUID :: "string \<Rightarrow> uuid option" where
  "UUID s =
     (let h = replace_empty ''uuid:'' (replace_empty ''urn:'' s);
          h = filter (\<lambda>c. c \<noteq> CHR ''-'') (strip_by (\<lambda>c. c \<in> set ''{}'') h)
      in if length h \<noteq> 32 then None
         else (case int16 h of
                 None \<Rightarrow> None
               | Some i \<Rightarrow> if 0 \<le> i \<and> i < 2 ^ 128 then Some (word_of_int i) else None))"

definition str_uuid :: "uuid \<Rightarrow> string" where
  "str_uuid u =
     (let h = hex_fixed 32 (unat u) in
      take 8 h @ ''-'' @ take 4 (drop 8 h) @ ''-'' @ take 4 (drop 12 h) @ ''-'' @
      take 4 (drop 16 h) @ ''-'' @ drop 20 h)"


subsection \<open>The constructor inverts str\<close>

lemma replace_empty_id:
  "p = c # cs \<Longrightarrow> c \<notin> set s \<Longrightarrow> replace_empty p s = s"
  by (induction p s rule: replace_empty.induct) auto

lemma strip_by_id:
  assumes "\<forall>c\<in>set s. \<not> P c"
  shows "strip_by P s = s"
proof -
  have "dropWhile P s = s" and "dropWhile P (rev s) = rev s"
    using assms by (auto simp: dropWhile_eq_self_iff hd_rev)
  then show ?thesis
    by (simp add: strip_by_def)
qed

lemma int16_digits_hex:
  "s \<noteq> [] \<Longrightarrow> set s \<subseteq> set ''0123456789abcdef'' \<Longrightarrow>
    int16_digits us acc s = hex_digits_val acc s"
proof (induction s arbitrary: us acc)
  case (Cons c cs)
  then have "c \<noteq> CHR ''_''"
    by auto
  then show ?case
    using Cons by (cases cs) (auto split: option.splits simp del: hex_val.simps)
qed simp

lemma int16_hex:
  assumes "s \<noteq> []" and "set s \<subseteq> set ''0123456789abcdef''"
  shows "int16 s = map_option int (hex_digits_val 0 s)"
proof -
  have no_space: "\<forall>c\<in>set s. \<not> is_space c"
    using assms(2) by (auto simp: is_space_def)
  have "CHR ''-'' \<notin> set s" "CHR ''+'' \<notin> set s" "CHR ''x'' \<notin> set s" "CHR ''X'' \<notin> set s"
    using assms(2) by auto
  then have "take 1 s \<noteq> ''-''" "take 1 s \<noteq> ''+''" "take 2 s \<notin> {''0x'', ''0X''}"
    by (metis in_set_takeD list.set_intros(1) list.set_intros(2) insertE singletonD)+
  then show ?thesis
    using assms by (simp add: int16_def Let_def strip_by_id [OF no_space] int16_prefix_def int16_digits_hex)
qed

lemma filter_str_uuid:
  "filter (\<lambda>c. c \<noteq> CHR ''-'') (str_uuid u) = hex_fixed 32 (unat u)"
proof -
  let ?h = "hex_fixed 32 (unat u)"
  have "\<forall>c\<in>set ?h. c \<noteq> CHR ''-''"
    using set_hex_fixed [of 32 "unat u"] by auto
  then have keep: "filter (\<lambda>c. c \<noteq> CHR ''-'') t = t" if "set t \<subseteq> set ?h" for t
    using that by (auto simp: filter_id_conv)
  have "drop 20 ?h = drop 4 (drop 16 ?h)" "drop 16 ?h = drop 4 (drop 12 ?h)"
    "drop 12 ?h = drop 4 (drop 8 ?h)"
    by simp_all
  then have "take 8 ?h @ take 4 (drop 8 ?h) @ take 4 (drop 12 ?h) @ take 4 (drop 16 ?h) @ drop 20 ?h = ?h"
    by (metis append_take_drop_id)
  moreover have "set (take k (drop m ?h)) \<subseteq> set ?h" "set (drop m ?h) \<subseteq> set ?h" "set (take k ?h) \<subseteq> set ?h" for k m
    by (meson set_drop_subset set_take_subset subset_trans)+
  ultimately show ?thesis
    by (simp add: str_uuid_def Let_def keep)
qed

lemma set_str_uuid: "set (str_uuid u) \<subseteq> insert (CHR ''-'') (set ''0123456789abcdef'')"
proof
  fix c assume "c \<in> set (str_uuid u)"
  then have "c = CHR ''-'' \<or> c \<in> set (filter (\<lambda>c. c \<noteq> CHR ''-'') (str_uuid u))"
    by auto
  then show "c \<in> insert (CHR ''-'') (set ''0123456789abcdef'')"
    using set_hex_fixed [of 32 "unat u"] by (auto simp only: filter_str_uuid)
qed

text \<open>Parsing the canonical form of a UUID gives the UUID back.\<close>

lemma UUID_str_uuid [simp]: "UUID (str_uuid u) = Some u"
proof -
  let ?s = "str_uuid u" and ?h = "hex_fixed 32 (unat u)"
  have unat_u: "unat u < 2 ^ 128"
    using unsigned_less [of u] by simp
  have "CHR ''u'' \<notin> set ?s" "\<forall>c\<in>set ?s. \<not> c \<in> set ''{}''"
    using set_str_uuid [of u] by auto
  then have "filter (\<lambda>c. c \<noteq> CHR ''-'') (strip_by (\<lambda>c. c \<in> set ''{}'')
      (replace_empty ''uuid:'' (replace_empty ''urn:'' ?s))) = ?h"
    by (simp add: replace_empty_id strip_by_id filter_str_uuid del: set_simps list.set)
  moreover have "int16 ?h = Some (int (unat u))"
  proof -
    have "unat u < 16 ^ 32"
      using unat_u by simp
    then show ?thesis
      using int16_hex [of ?h] set_hex_fixed [of 32 "unat u"] length_hex_fixed [of 32 "unat u"]
        hex_digits_val_hex_fixed [of "unat u" 32 0]
      by (metis (no_types, lifting) add_0 list.size(3) map_option_eq_Some mult_zero_left zero_neq_numeral)
  qed
  moreover have "int (unat u) < 2 ^ 128"
    using unat_u by (metis of_nat_less_iff of_nat_numeral of_nat_power)
  ultimately show ?thesis
    by (simp add: UUID_def Let_def)
qed

lemma str_uuid_inject [simp]: "str_uuid u = str_uuid v \<longleftrightarrow> u = v"
  by (metis UUID_str_uuid option.inject)

end
