(* ===== verification/Database.thy ===== *)
theory Database
  imports Py_Uuid
begin

text \<open>
  The relational store: one record per SQLModel table class, with the columns
  the classes declare, and the \<open>database\<close> record holding the tables as lists of
  rows. A timestamp column is \<open>timestamptz\<close>, so a stored instant is an aware
  datetime. Values that the classes draw from \<open>default_factory\<close> (ids, creation
  times) are arguments of the operations that insert rows. The predicate
  \<open>db_ok\<close> collects the primary-key, unique and check constraints the table
  classes declare.
\<close>

record user_row =
  u_id :: uuid
  u_email :: string
  u_is_active :: bool
  u_is_verified :: bool
  u_is_erased :: bool
  u_authz_version :: int
  u_created_at :: datetime
  u_updated_at :: datetime
  u_last_login_at :: "datetime option"

record credential_row =
  cr_id :: uuid
  cr_user_id :: uuid
  cr_algorithm :: string
  cr_hash :: string
  cr_last_changed_at :: datetime
  cr_created_at :: datetime

record refresh_token_row =
  rt_id :: uuid
  rt_user_id :: uuid
  rt_token_hash :: string
  rt_family_id :: uuid
  rt_expires_at :: datetime
  rt_revoked_at :: "datetime option"
  rt_replaced_by_token_id :: "uuid option"
  rt_created_at :: datetime
  rt_created_ip :: "string option"
  rt_user_agent :: "string option"

record audit_event_row =
  ae_id :: uuid
  ae_user_id :: "uuid option"
  ae_event_type :: string
  ae_ip_address :: "string option"
  ae_user_agent :: "string option"
  ae_metadata :: json_object
  ae_created_at :: datetime

record internal_token_row =
  it_id :: uuid
  it_user_id :: "uuid option"
  it_purpose :: string
  it_token_hash :: string
  it_expires_at :: datetime
  it_used_at :: "datetime option"
  it_created_at :: datetime
  it_created_ip :: "string option"

record relationship_row =
  rel_id :: uuid
  rel_resource_type :: string
  rel_resource_id :: string
  rel_relation :: string
  rel_subject_type :: string
  rel_subject_id :: string
  rel_created_at :: datetime

record outbox_row =
  om_id :: uuid
  om_job_name :: string
  om_payload :: json_object
  om_trace_context :: json_object
  om_available_at :: datetime
  om_status :: string
  om_attempts :: int
  om_last_error :: "string option"
  om_locked_at :: "datetime option"
  om_locked_by :: "string option"
  om_created_at :: datetime
  om_delivered_at :: "datetime option"
  om_failed_at :: "datetime option"

record processed_row =
  pm_id :: uuid
  pm_processed_at :: datetime

record database =
  users :: "user_row list"
  credentials :: "credential_row list"
  refresh_tokens :: "refresh_token_row list"
  internal_tokens :: "internal_token_row list"
  audit_events :: "audit_event_row list"
  relationships :: "relationship_row list"
  outbox_messages :: "outbox_row list"
  processed_marks :: "processed_row list"

definition empty_db :: database where
  "empty_db = \<lparr>users = [], credentials = [], refresh_tokens = [], internal_tokens = [],
     audit_events = [], relationships = [], outbox_messages = [], processed_marks = []\<rparr>"

lemma empty_db_sel [simp]:
  "users empty_db = []" "credentials empty_db = []" "refresh_tokens empty_db = []"
  "internal_tokens empty_db = []" "audit_events empty_db = []" "relationships empty_db = []"
  "outbox_messages empty_db = []" "processed_marks empty_db = []"
  by (simp_all add: empty_db_def)


subsection \<open>Declared constraints\<close>

definition rel_key :: "relationship_row \<Rightarrow> string \<times> string \<times> string \<times> string \<times> string" where
  "rel_key r = (rel_resource_type r, rel_resource_id r, rel_relation r,
                rel_subject_type r, rel_subject_id r)"

definition cr_key :: "credential_row \<Rightarrow> uuid \<times> string" where
  "cr_key r = (cr_user_id r, cr_algorithm r)"

definition users_ok :: "user_row list \<Rightarrow> bool" where
  "users_ok rows \<longleftrightarrow> distinct (map u_id rows) \<and> distinct (map u_email rows) \<and>
     (\<forall>r\<in>set rows. 1 \<le> u_authz_version r)"

definition credentials_ok :: "credential_row list \<Rightarrow> bool" where
  "credentials_ok rows \<longleftrightarrow> distinct (map cr_id rows) \<and> distinct (map cr_key rows)"

definition refresh_tokens_ok :: "refresh_token_row list \<Rightarrow> bool" where
  "refresh_tokens_ok rows \<longleftrightarrow> distinct (map rt_id rows) \<and> distinct (map rt_token_hash rows)"

definition internal_tokens_ok :: "internal_token_row list \<Rightarrow> bool" where
  "internal_tokens_ok rows \<longleftrightarrow> distinct (map it_id rows) \<and> distinct (map it_token_hash rows)"

definition relationships_ok :: "relationship_row list \<Rightarrow> bool" where
  "relationships_ok rows \<longleftrightarrow> distinct (map rel_key rows)"

definition db_ok :: "database \<Rightarrow> bool" where
  "db_ok db \<longleftrightarrow> users_ok (users db) \<and> credentials_ok (credentials db) \<and>
     refresh_tokens_ok (refresh_tokens db) \<and> internal_tokens_ok (internal_tokens db) \<and>
     relationships_ok (relationships db) \<and>
     distinct (map om_id (outbox_messages db)) \<and> distinct (map pm_id (processed_marks db))"

end
