(* ===== verification/Authz_Engine.thy ===== *)
theory Authz_Engine
  imports Authz_Registry Database
begin

text \<open>
  The relationship engine
  (\<open>src/features/authorization/adapters/outbound/sqlmodel/adapter.py\<close>) over the
  \<open>relationships\<close> table, together with the version counter it bumps
  (\<open>src/features/users/adapters/outbound/authz_version/sqlmodel.py\<close>).

  The parent walk of \<open>check\<close> has no cycle guard, so it is a partial function:
  \<open>None\<close> is a walk that never ends. The \<open>ORDER BY\<close> of \<open>lookup_resources\<close> uses the
  collation of the database, a parameter \<open>coll\<close> giving the sort key of a string.
  The n-th id drawn and the n-th clock reading of a call are \<open>ids n\<close> and \<open>clk n\<close>.
\<close>

record relationship =
  resource_type :: string
  resource_id :: string
  relation :: string
  subject_type :: string
  subject_id :: string

definition tuple_key :: "relationship \<Rightarrow> string \<times> string \<times> string \<times> string \<times> string" where
  "tuple_key t = (resource_type t, resource_id t, relation t, subject_type t, subject_id t)"

definition LOOKUP_DEFAULT_LIMIT :: int where
  "LOOKUP_DEFAULT_LIMIT = 100"

definition LOOKUP_MAX_LIMIT :: int where
  "LOOKUP_MAX_LIMIT = 1000"


subsection \<open>The authorization version of a user\<close>

definition bump_one :: "datetime \<Rightarrow> uuid \<Rightarrow> database \<Rightarrow> database" where
  "bump_one now user_id db =
     db\<lparr>users := update_where (\<lambda>u. u_id u = user_id)
        (\<lambda>u. u\<lparr>u_authz_version := u_authz_version u + 1, u_updated_at := now\<rparr>) (users db)\<rparr>"

definition read_one :: "uuid \<Rightarrow> database \<Rightarrow> int" where
  "read_one user_id db =
     (case find (\<lambda>u. u_id u = user_id) (users db) of None \<Rightarrow> 0 | Some u \<Rightarrow> u_authz_version u)"

definition user_subject_ids :: "relationship list \<Rightarrow> uuid list" where
  "user_subject_ids tuples =
     remdups (List.map_filter
       (\<lambda>t. if subject_type t \<noteq> ''user'' then None else UUID (subject_id t)) tuples)"

fun bump_users :: "(nat \<Rightarrow> datetime) \<Rightarrow> nat \<Rightarrow> uuid list \<Rightarrow> database \<Rightarrow> database" where
  "bump_users clk n [] db = db"
| "bump_users clk n (u # us) db = bump_users clk (Suc n) us (bump_one (clk n) u db)"

definition bump_affected_users ::
  "(nat \<Rightarrow> datetime) \<Rightarrow> relationship list \<Rightarrow> database \<Rightarrow> database" where
  "bump_affected_users clk tuples db = bump_users clk (length tuples) (user_subject_ids tuples) db"


subsection \<open>Reads\<close>

definition exists_relation ::
  "database \<Rightarrow> string \<Rightarrow> string \<Rightarrow> string set \<Rightarrow> uuid \<Rightarrow> bool" where
  "exists_relation db rt rid relations user_id =
     list_ex (\<lambda>r. rel_resource_type r = rt \<and> rel_resource_id r = rid \<and>
        rel_relation r \<in> relations \<and> rel_subject_type r = ''user'' \<and>
        rel_subject_id r = str_uuid user_id) (relationships db)"

partial_function (option) walk_to_stored ::
  "authorization_registry \<Rightarrow> string \<Rightarrow> string \<Rightarrow> (string \<times> string) option option" where
  "walk_to_stored reg rt rid =
     (if has_stored_relations reg rt then Some (Some (rt, rid))
      else (case registry_parent_of reg rt rid of
              None \<Rightarrow> Some None
            | Some parent \<Rightarrow> walk_to_stored reg (fst parent) (snd parent)))"

definition authz_check ::
  "authorization_registry \<Rightarrow> database \<Rightarrow> uuid \<Rightarrow> string \<Rightarrow> string \<Rightarrow> string \<Rightarrow>
   bool outcome option" where
  "authz_check reg db user_id act rt rid =
     (case relations_for reg rt act of
        Raises e \<Rightarrow> Some (Raises e)
      | Returns required \<Rightarrow>
          (case walk_to_stored reg rt rid of
             None \<Rightarrow> None
           | Some None \<Rightarrow> Some (Returns False)
           | Some (Some (walked_type, walked_id)) \<Rightarrow>
               Some (bind_outcome (expand_relations reg walked_type required) (\<lambda>expanded.
                 Returns (exists_relation db walked_type walked_id expanded user_id)))))"

fun dedupe_from :: "'a set \<Rightarrow> 'a list \<Rightarrow> 'a list" where
  "dedupe_from seen [] = []"
| "dedupe_from seen (x # xs) =
     (if x \<in> seen then dedupe_from seen xs else x # dedupe_from (insert x seen) xs)"

definition matching_rows ::
  "database \<Rightarrow> string \<Rightarrow> string set \<Rightarrow> uuid \<Rightarrow> relationship_row list" where
  "matching_rows db rt relations user_id =
     filter (\<lambda>r. rel_resource_type r = rt \<and> rel_relation r \<in> relations \<and>
        rel_subject_type r = ''user'' \<and> rel_subject_id r = str_uuid user_id) (relationships db)"

definition lookup_resources ::
  "(string \<Rightarrow> 'k::linorder) \<Rightarrow> authorization_registry \<Rightarrow> database \<Rightarrow> uuid \<Rightarrow> string \<Rightarrow> string \<Rightarrow>
   int \<Rightarrow> string list outcome" where
  "lookup_resources coll reg db user_id act rt limit =
     (let capped_limit = max 1 (min limit LOOKUP_MAX_LIMIT) in
      bind_outcome (relations_for reg rt act) (\<lambda>required.
      bind_outcome (nearest_leaf_type reg rt) (\<lambda>stored_type.
      bind_outcome (expand_relations reg stored_type required) (\<lambda>expanded.
        let rows = take (nat capped_limit)
              (sort_key coll (map rel_resource_id (matching_rows db stored_type expanded user_id)))
        in Returns (dedupe_from {} rows)))))"

definition lookup_subjects ::
  "authorization_registry \<Rightarrow> database \<Rightarrow> string \<Rightarrow> string \<Rightarrow> string \<Rightarrow> int option \<Rightarrow>
   uuid list outcome" where
  "lookup_subjects reg db rt rid rel limit =
     (let capped_limit = (case limit of None \<Rightarrow> LOOKUP_MAX_LIMIT
                          | Some l \<Rightarrow> max 1 (min l LOOKUP_MAX_LIMIT)) in
      bind_outcome (expand_relations reg rt {rel}) (\<lambda>expanded.
        let rows = take (nat capped_limit)
              (map rel_subject_id (filter (\<lambda>r. rel_resource_type r = rt \<and> rel_resource_id r = rid \<and>
                 rel_relation r \<in> expanded \<and> rel_subject_type r = ''user'') (relationships db)))
        in Returns (dedupe_from {} (List.map_filter UUID rows))))"


subsection \<open>Writes\<close>

definition tuple_exists :: "relationship \<Rightarrow> database \<Rightarrow> bool" where
  "tuple_exists t db = list_ex (\<lambda>r. rel_key r = tuple_key t) (relationships db)"

definition new_relationship_row :: "uuid \<Rightarrow> datetime \<Rightarrow> relationship \<Rightarrow> relationship_row" where
  "new_relationship_row new_id now t =
     \<lparr>rel_id = new_id, rel_resource_type = resource_type t, rel_resource_id = resource_id t,
      rel_relation = relation t, rel_subject_type = subject_type t,
      rel_subject_id = subject_id t, rel_created_at = now\<rparr>"

fun insert_tuples ::
  "(nat \<Rightarrow> datetime) \<Rightarrow> (nat \<Rightarrow> uuid) \<Rightarrow> nat \<Rightarrow> relationship list \<Rightarrow> (database, unit) action" where
  "insert_tuples clk ids n [] db = (Returns (), db)"
| "insert_tuples clk ids n (t # ts) db =
     (if tuple_exists t db then insert_tuples clk ids (Suc n) ts db
      else if list_ex (\<lambda>r. rel_id r = ids n) (relationships db) then (Raises IntegrityError, db)
      else insert_tuples clk ids (Suc n) ts
        (db\<lparr>relationships := relationships db @ [new_relationship_row (ids n) (clk n) t]\<rparr>))"

definition write_relationships_session ::
  "(nat \<Rightarrow> datetime) \<Rightarrow> (nat \<Rightarrow> uuid) \<Rightarrow> relationship list \<Rightarrow> (database, unit) action" where
  "write_relationships_session clk ids tuples db =
     (if tuples = [] then (Returns (), db)
      else andthen (insert_tuples clk ids 0 tuples)
             (\<lambda>_ db. (Returns (), bump_affected_users clk tuples db)) db)"

definition write_relationships ::
  "(nat \<Rightarrow> datetime) \<Rightarrow> (nat \<Rightarrow> uuid) \<Rightarrow> relationship list \<Rightarrow> (database, unit) action" where
  "write_relationships clk ids tuples = transaction (write_relationships_session clk ids tuples)"

fun delete_tuples :: "relationship list \<Rightarrow> database \<Rightarrow> database" where
  "delete_tuples [] db = db"
| "delete_tuples (t # ts) db =
     delete_tuples ts (db\<lparr>relationships :=
       delete_where (\<lambda>r. rel_key r = tuple_key t) (relationships db)\<rparr>)"

definition delete_relationships_session ::
  "(nat \<Rightarrow> datetime) \<Rightarrow> relationship list \<Rightarrow> (database, unit) action" where
  "delete_relationships_session clk tuples db =
     (if tuples = [] then (Returns (), db)
      else (Returns (), bump_affected_users clk tuples (delete_tuples tuples db)))"

definition delete_relationships ::
  "(nat \<Rightarrow> datetime) \<Rightarrow> relationship list \<Rightarrow> (database, unit) action" where
  "delete_relationships clk tuples = transaction (delete_relationships_session clk tuples)"


subsection \<open>Version counters under writes\<close>

lemma bump_one_frame [simp]:
  "relationships (bump_one now u db) = relationships db"
  "credentials (bump_one now u db) = credentials db"
  "refresh_tokens (bump_one now u db) = refresh_tokens db"
  "internal_tokens (bump_one now u db) = internal_tokens db"
  "audit_events (bump_one now u db) = audit_events db"
  "outbox_messages (bump_one now u db) = outbox_messages db"
  "processed_marks (bump_one now u db) = processed_marks db"
  by (simp_all add: bump_one_def)

lemma bump_users_frame [simp]:
  "relationships (bump_users clk n us db) = relationships db"
  "credentials (bump_users clk n us db) = credentials db"
  "refresh_tokens (bump_users clk n us db) = refresh_tokens db"
  "internal_tokens (bump_users clk n us db) = internal_tokens db"
  "audit_events (bump_users clk n us db) = audit_events db"
  "outbox_messages (bump_users clk n us db) = outbox_messages db"
  "processed_marks (bump_users clk n us db) = processed_marks db"
  by (induction us arbitrary: n db) simp_all

lemma map_u_id_bump_one [simp]: "map u_id (users (bump_one now u db)) = map u_id (users db)"
  by (simp add: bump_one_def map_update_where)

lemma read_one_bump_one:
  "read_one v (bump_one now u db) =
     (if v = u \<and> u \<in> u_id ` set (users db) then read_one v db + 1 else read_one v db)"
proof -
  have "find (\<lambda>r. u_id r = v) (users (bump_one now u db)) =
      map_option (\<lambda>r. if u_id r = u then r\<lparr>u_authz_version := u_authz_version r + 1, u_updated_at := now\<rparr> else r)
        (find (\<lambda>r. u_id r = v) (users db))"
    unfolding bump_one_def by (simp add: find_update_where_same)
  note found = this
  show ?thesis
  proof (cases "find (\<lambda>r. u_id r = v) (users db)")
    case None
    then have "v \<notin> u_id ` set (users db)"
      by (auto simp: find_None_iff_all)
    then show ?thesis
      using None found by (auto simp: read_one_def)
  next
    case (Some r)
    then have "u_id r = v" "v \<in> u_id ` set (users db)"
      using find_Some_in [OF Some] by auto
    then show ?thesis
      using Some found by (cases "v = u") (simp_all add: read_one_def)
  qed
qed

lemma read_one_bump_users:
  "distinct us \<Longrightarrow> read_one v (bump_users clk n us db) =
     (if v \<in> set us \<and> v \<in> u_id ` set (users db) then read_one v db + 1 else read_one v db)"
proof (induction us arbitrary: n db)
  case (Cons u us)
  have "u_id ` set (users (bump_one (clk n) u db)) = u_id ` set (users db)"
    by (metis list.set_map map_u_id_bump_one)
  then show ?case
    using Cons by (auto simp: read_one_bump_one)
qed simp

lemma read_one_bump_affected:
  "read_one v (bump_affected_users clk ts db) =
     (if v \<in> set (user_subject_ids ts) \<and> v \<in> u_id ` set (users db)
      then read_one v db + 1 else read_one v db)"
  by (simp add: bump_affected_users_def read_one_bump_users user_subject_ids_def)

lemma users_ok_bump_one: "users_ok (users db) \<Longrightarrow> users_ok (users (bump_one now u db))"
  by (force simp: users_ok_def bump_one_def map_update_where in_update_where_iff)

lemma users_ok_bump_users: "users_ok (users db) \<Longrightarrow> users_ok (users (bump_users clk n us db))"
  by (induction us arbitrary: n db) (auto simp: users_ok_bump_one)

lemma user_subject_ids_iff:
  "u \<in> set (user_subject_ids ts) \<longleftrightarrow>
     (\<exists>t\<in>set ts. subject_type t = ''user'' \<and> UUID (subject_id t) = Some u)"
  by (force simp: user_subject_ids_def List.map_filter_def)


subsection \<open>Tuples under writes\<close>

lemma tuple_exists_iff: "tuple_exists t db \<longleftrightarrow> tuple_key t \<in> rel_key ` set (relationships db)"
  by (force simp: tuple_exists_def list_ex_iff)

lemma rel_key_new_row [simp]: "rel_key (new_relationship_row i now t) = tuple_key t"
  by (simp add: new_relationship_row_def rel_key_def tuple_key_def)

lemma insert_tuples_Returns:
  "insert_tuples clk ids n ts db = (Returns x, db') \<Longrightarrow>
     rel_key ` set (relationships db') = rel_key ` set (relationships db) \<union> tuple_key ` set ts \<and>
     (relationships_ok (relationships db) \<longrightarrow> relationships_ok (relationships db')) \<and>
     (\<exists>rows. db' = db\<lparr>relationships := rows\<rparr>)"
proof (induction ts arbitrary: n db)
  case (Cons t ts)
  show ?case
  proof (cases "tuple_exists t db")
    case True
    then show ?thesis
      using Cons by (force simp: tuple_exists_iff)
  next
    case False
    let ?db1 = "db\<lparr>relationships := relationships db @ [new_relationship_row (ids n) (clk n) t]\<rparr>"
    have step: "insert_tuples clk ids (Suc n) ts ?db1 = (Returns x, db')"
      using Cons.prems False by (simp split: if_splits)
    have "rel_key ` set (relationships ?db1) = insert (tuple_key t) (rel_key ` set (relationships db))"
      by simp
    moreover have "relationships_ok (relationships ?db1)" if "relationships_ok (relationships db)"
      using that False by (force simp: relationships_ok_def tuple_exists_iff)
    ultimately show ?thesis
      using Cons.IH [OF step] by auto
  qed
next
  case Nil
  then show ?case
    by (auto intro: exI [of _ "relationships db"])
qed

lemma insert_tuples_raises:
  "insert_tuples clk ids n ts db = (Raises e, db') \<Longrightarrow> e = IntegrityError"
  by (induction ts arbitrary: n db) (auto split: if_splits)

lemma insert_tuples_fresh:
  assumes "inj ids" and "\<forall>m\<ge>n. ids m \<notin> rel_id ` set (relationships db)"
  shows "\<exists>db'. insert_tuples clk ids n ts db = (Returns (), db')"
  using assms(2)
proof (induction ts arbitrary: n db)
  case (Cons t ts)
  let ?db1 = "db\<lparr>relationships := relationships db @ [new_relationship_row (ids n) (clk n) t]\<rparr>"
  have "ids m \<notin> rel_id ` set (relationships db)" if "Suc n \<le> m" for m
    using Cons.prems that by simp
  moreover have "ids m \<noteq> ids n" if "Suc n \<le> m" for m
    using assms(1) that by (auto dest: injD)
  ultimately have later: "\<forall>m\<ge>Suc n. ids m \<notin> rel_id ` set (relationships db)"
      "\<forall>m\<ge>Suc n. ids m \<notin> rel_id ` set (relationships ?db1)"
    by (simp_all add: new_relationship_row_def)
  have "\<not> list_ex (\<lambda>r. rel_id r = ids n) (relationships db)"
    using Cons.prems by (force simp: list_ex_iff)
  then show ?case
    using Cons.IH [OF later(1)] Cons.IH [OF later(2)] by simp
qed simp

lemma delete_tuples_eq:
  "delete_tuples ts db =
     db\<lparr>relationships := filter (\<lambda>r. rel_key r \<notin> tuple_key ` set ts) (relationships db)\<rparr>"
  by (induction ts arbitrary: db) (simp_all add: delete_where_def)


lemma bump_affected_frame [simp]:
  "relationships (bump_affected_users clk ts db) = relationships db"
  "audit_events (bump_affected_users clk ts db) = audit_events db"
  by (simp_all add: bump_affected_users_def)

lemma users_bump_users:
  "\<exists>rows. bump_users clk n us db = db\<lparr>users := rows\<rparr>"
proof (induction us arbitrary: n db)
  case (Cons u us)
  obtain rows where "bump_users clk (Suc n) us (bump_one (clk n) u db) = (bump_one (clk n) u db)\<lparr>users := rows\<rparr>"
    using Cons.IH by blast
  then show ?case
    by (auto simp: bump_one_def)
next
  case Nil
  show ?case
    by (auto intro: exI [of _ "users db"])
qed

lemma map_u_id_bump_users [simp]: "map u_id (users (bump_users clk n us db)) = map u_id (users db)"
  by (induction us arbitrary: n db) simp_all

lemma user_ids_bump_affected [simp]:
  "u_id ` set (users (bump_affected_users clk ts db)) = u_id ` set (users db)"
  by (metis bump_affected_users_def list.set_map map_u_id_bump_users)

lemma bump_affected_users_Nil [simp]: "bump_affected_users clk [] db = db"
  by (simp add: bump_affected_users_def user_subject_ids_def List.map_filter_def)

lemma write_relationships_session_eq:
  "write_relationships_session clk ids ts db =
     andthen (insert_tuples clk ids 0 ts) (\<lambda>_ db. (Returns (), bump_affected_users clk ts db)) db"
  by (simp add: write_relationships_session_def andthen_def)

lemma write_relationships_session_ReturnsE:
  assumes "write_relationships_session clk ids ts db = (Returns x, db')"
  obtains rels where "insert_tuples clk ids 0 ts db = (Returns (), db\<lparr>relationships := rels\<rparr>)"
    and "db' = bump_affected_users clk ts (db\<lparr>relationships := rels\<rparr>)"
proof -
  obtain db1 where ins: "insert_tuples clk ids 0 ts db = (Returns (), db1)"
      and db': "db' = bump_affected_users clk ts db1"
    using assms by (auto simp: write_relationships_session_eq andthen_def split: prod.splits outcome.splits)
  obtain rels where "db1 = db\<lparr>relationships := rels\<rparr>"
    using insert_tuples_Returns [OF ins] by blast
  then show thesis
    using that ins db' by blast
qed

lemma write_relationships_session_Returns:
  assumes "write_relationships_session clk ids ts db = (Returns x, db')"
  shows "rel_key ` set (relationships db') = rel_key ` set (relationships db) \<union> tuple_key ` set ts"
    and "relationships_ok (relationships db) \<Longrightarrow> relationships_ok (relationships db')"
    and "read_one v db' = (if v \<in> set (user_subject_ids ts) \<and> v \<in> u_id ` set (users db)
           then read_one v db + 1 else read_one v db)"
    and "u_id ` set (users db') = u_id ` set (users db)"
    and "\<exists>us rels. db' = db\<lparr>users := us, relationships := rels\<rparr>"
proof -
  from assms obtain rels where ins: "insert_tuples clk ids 0 ts db = (Returns (), db\<lparr>relationships := rels\<rparr>)"
      and db': "db' = bump_affected_users clk ts (db\<lparr>relationships := rels\<rparr>)"
    by (rule write_relationships_session_ReturnsE)
  show "rel_key ` set (relationships db') = rel_key ` set (relationships db) \<union> tuple_key ` set ts"
    "relationships_ok (relationships db) \<Longrightarrow> relationships_ok (relationships db')"
    "u_id ` set (users db') = u_id ` set (users db)"
    using insert_tuples_Returns [OF ins] by (simp_all add: db')
  show "read_one v db' = (if v \<in> set (user_subject_ids ts) \<and> v \<in> u_id ` set (users db)
      then read_one v db + 1 else read_one v db)"
    by (simp add: db' read_one_bump_affected) (simp add: read_one_def)
  obtain us where "db' = (db\<lparr>relationships := rels\<rparr>)\<lparr>users := us\<rparr>"
    using users_bump_users unfolding bump_affected_users_def db' by blast
  then show "\<exists>us rels. db' = db\<lparr>users := us, relationships := rels\<rparr>"
    by (intro exI [of _ us] exI [of _ rels]) simp
qed

lemma write_relationships_ReturnsD:
  "write_relationships clk ids ts db = (Returns x, db') \<Longrightarrow>
     write_relationships_session clk ids ts db = (Returns x, db')"
  unfolding write_relationships_def by (rule transaction_ReturnsD)

lemmas write_relationships_Returns =
  write_relationships_session_Returns [OF write_relationships_ReturnsD]

lemma write_relationships_Raises:
  "write_relationships clk ids ts db = (Raises e, db') \<Longrightarrow> db' = db"
  unfolding write_relationships_def by (rule transaction_Raises_unchanged)

lemma write_relationships_fresh:
  assumes "inj ids" and "\<forall>n. ids n \<notin> rel_id ` set (relationships db)"
  shows "\<exists>db'. write_relationships clk ids ts db = (Returns (), db')"
proof -
  obtain db1 where "insert_tuples clk ids 0 ts db = (Returns (), db1)"
    using insert_tuples_fresh [of ids 0 db clk ts] assms by blast
  then show ?thesis
    by (simp add: write_relationships_def transaction_def write_relationships_session_def andthen_def)
qed

lemma delete_relationships_session_eq:
  "delete_relationships_session clk ts db =
     (Returns (), bump_affected_users clk ts (delete_tuples ts db))"
  by (simp add: delete_relationships_session_def)

lemma delete_relationships_eq:
  "delete_relationships clk ts db =
     (Returns (), bump_affected_users clk ts (delete_tuples ts db))"
  by (simp add: delete_relationships_def delete_relationships_session_eq transaction_def)

lemma delete_relationships_tuples:
  "relationships (snd (delete_relationships clk ts db)) =
     filter (\<lambda>r. rel_key r \<notin> tuple_key ` set ts) (relationships db)"
  by (simp add: delete_relationships_eq delete_tuples_eq)

lemma delete_relationships_version:
  "read_one v (snd (delete_relationships clk ts db)) =
     (if v \<in> set (user_subject_ids ts) \<and> v \<in> u_id ` set (users db)
      then read_one v db + 1 else read_one v db)"
proof -
  have "read_one v (delete_tuples ts db) = read_one v db"
    by (simp add: read_one_def delete_tuples_eq)
  then show ?thesis
    by (simp add: delete_relationships_eq read_one_bump_affected) (simp add: delete_tuples_eq)
qed

lemma delete_relationships_user_ids:
  "u_id ` set (users (snd (delete_relationships clk ts db))) = u_id ` set (users db)"
  by (simp add: delete_relationships_eq) (simp add: delete_tuples_eq)

end
