(* ===== verification/Authz_Spec.thy ===== *)
theory Authz_Spec
  imports Authz_Engine
begin

text \<open>
  What the relationship engine promises, and that it does.

  \<^item> The locales \<open>tuple_store\<close> and \<open>atomic_tuple_store\<close> are the interface a caller
    of the write API relies on: which tuples a grant or revoke leaves behind and
    how it moves the version counters. The session-borrowing adapter satisfies
    the first, the engine-owning adapter both.
  \<^item> \<open>allowed\<close> is the declarative meaning of a check: a stored tuple on the
    resource, or on an ancestor of it, whose relation satisfies the action.
  \<^item> The properties relate \<open>authz_check\<close>, the lookups and the writes to it.
\<close>

subsection \<open>The store contract\<close>

datatype ('e, 't) authz_op = Grant 'e "'t list" | Revoke 'e "'t list"

fun op_tuples :: "('e, 't) authz_op \<Rightarrow> 't list" where
  "op_tuples (Grant e ts) = ts"
| "op_tuples (Revoke e ts) = ts"

locale tuple_store =
  fixes holds :: "'s \<Rightarrow> 't \<Rightarrow> bool"
    and known :: "'s \<Rightarrow> 'u \<Rightarrow> bool"
    and version :: "'s \<Rightarrow> 'u \<Rightarrow> int"
    and subjects :: "'t list \<Rightarrow> 'u list"
    and grant :: "'e \<Rightarrow> 't list \<Rightarrow> ('s, unit) action"
    and revoke :: "'e \<Rightarrow> 't list \<Rightarrow> ('s, unit) action"
  assumes grant_holds: "grant e ts s = (Returns (), s') \<Longrightarrow> holds s' t \<longleftrightarrow> holds s t \<or> t \<in> set ts"
    and grant_version: "grant e ts s = (Returns (), s') \<Longrightarrow>
          version s' u = version s u + (if u \<in> set (subjects ts) \<and> known s u then 1 else 0)"
    and grant_known: "grant e ts s = (Returns (), s') \<Longrightarrow> known s' u = known s u"
    and revoke_holds: "revoke e ts s = (Returns (), s') \<Longrightarrow> holds s' t \<longleftrightarrow> holds s t \<and> t \<notin> set ts"
    and revoke_version: "revoke e ts s = (Returns (), s') \<Longrightarrow>
          version s' u = version s u + (if u \<in> set (subjects ts) \<and> known s u then 1 else 0)"
    and revoke_known: "revoke e ts s = (Returns (), s') \<Longrightarrow> known s' u = known s u"
begin

fun run_op :: "('e, 't) authz_op \<Rightarrow> ('s, unit) action" where
  "run_op (Grant e ts) = grant e ts"
| "run_op (Revoke e ts) = revoke e ts"

fun run_ops :: "('e, 't) authz_op list \<Rightarrow> ('s, unit) action" where
  "run_ops [] s = (Returns (), s)"
| "run_ops (p # ps) s = andthen (run_op p) (\<lambda>_. run_ops ps) s"

fun tuple_after :: "bool \<Rightarrow> ('e, 't) authz_op list \<Rightarrow> 't \<Rightarrow> bool" where
  "tuple_after b [] t = b"
| "tuple_after b (Grant e ts # ps) t = tuple_after (b \<or> t \<in> set ts) ps t"
| "tuple_after b (Revoke e ts # ps) t = tuple_after (b \<and> t \<notin> set ts) ps t"

lemma run_op_laws:
  assumes "run_op p s = (Returns (), s')"
  shows "holds s' t = tuple_after (holds s t) [p] t"
    and "version s' u = version s u + (if u \<in> set (subjects (op_tuples p)) \<and> known s u then 1 else 0)"
    and "known s' u = known s u"
  using assms grant_holds grant_version grant_known revoke_holds revoke_version revoke_known
  by (cases p; force)+

lemma run_ops_ConsE:
  assumes "run_ops (p # ps) s = (Returns (), s')"
  obtains s1 where "run_op p s = (Returns (), s1)" and "run_ops ps s1 = (Returns (), s')"
  using assms by (auto simp: andthen_def split: prod.splits outcome.splits)

lemma run_ops_holds:
  "run_ops ps s = (Returns (), s') \<Longrightarrow> holds s' t = tuple_after (holds s t) ps t"
proof (induction ps arbitrary: s)
  case (Cons p ps)
  from Cons.prems obtain s1 where s1: "run_op p s = (Returns (), s1)" "run_ops ps s1 = (Returns (), s')"
    by (rule run_ops_ConsE)
  then show ?case
    using Cons.IH [OF s1(2)] run_op_laws(1) [OF s1(1), of t] by (cases p) simp_all
qed simp

lemma run_ops_version:
  "run_ops ps s = (Returns (), s') \<Longrightarrow>
     known s' u = known s u \<and>
     version s' u = version s u +
       (if known s u then int (length (filter (\<lambda>p. u \<in> set (subjects (op_tuples p))) ps)) else 0)"
proof (induction ps arbitrary: s)
  case (Cons p ps)
  from Cons.prems obtain s1 where s1: "run_op p s = (Returns (), s1)" "run_ops ps s1 = (Returns (), s')"
    by (rule run_ops_ConsE)
  then show ?case
    using Cons.IH [OF s1(2)] run_op_laws(2) [OF s1(1), of u] run_op_laws(3) [OF s1(1), of u]
    by simp
qed simp

end

locale atomic_tuple_store = tuple_store +
  assumes grant_raises: "grant e ts s = (Raises x, s') \<Longrightarrow> s' = s"
    and revoke_raises: "revoke e ts s = (Raises x, s') \<Longrightarrow> s' = s"
begin

lemma run_op_raises: "run_op p s = (Raises x, s') \<Longrightarrow> s' = s"
  using grant_raises revoke_raises by (cases p) auto

text \<open>A sequence that stops with an exception keeps exactly the operations before it.\<close>

lemma run_ops_prefix:
  "run_ops ps s = (Raises x, s') \<Longrightarrow>
     \<exists>pre p post. ps = pre @ p # post \<and> run_ops pre s = (Returns (), s') \<and> run_op p s' = (Raises x, s')"
proof (induction ps arbitrary: s)
  case (Cons p ps)
  show ?case
  proof (cases "run_op p s")
    case (Pair r s1)
    show ?thesis
    proof (cases r)
      case (Raises y)
      then have "s1 = s" "y = x" "s' = s"
        using Pair run_op_raises Cons.prems by (auto simp: andthen_def)
      then show ?thesis
        using Pair Raises by (intro exI [of _ "[]"] exI [of _ p] exI [of _ ps]) simp
    next
      case (Returns a)
      then have "run_ops ps s1 = (Raises x, s')"
        using Pair Cons.prems by (simp add: andthen_def)
      then obtain pre q post where "ps = pre @ q # post" "run_ops pre s1 = (Returns (), s')"
          "run_op q s' = (Raises x, s')"
        using Cons.IH by blast
      then show ?thesis
        using Pair Returns
        by (intro exI [of _ "p # pre"] exI [of _ q] exI [of _ post]) (simp add: andthen_def)
    qed
  qed
qed simp

end


subsection \<open>The two adapters\<close>

type_synonym call_env = "(nat \<Rightarrow> datetime) \<times> (nat \<Rightarrow> uuid)"

lemma tuple_key_inject [simp]: "tuple_key t = tuple_key t' \<longleftrightarrow> t = t'"
  by (auto simp: tuple_key_def)

lemma tuple_exists_write:
  "write_relationships_session clk ids ts db = (Returns x, db') \<Longrightarrow>
     tuple_exists t db' \<longleftrightarrow> tuple_exists t db \<or> t \<in> set ts"
  using write_relationships_session_Returns(1) [of clk ids ts db x db'] by (auto simp: tuple_exists_iff)

lemma tuple_exists_delete:
  "tuple_exists t (snd (delete_relationships clk ts db)) \<longleftrightarrow> tuple_exists t db \<and> t \<notin> set ts"
proof -
  have "tuple_key t \<in> tuple_key ` set ts \<longleftrightarrow> t \<in> set ts"
    by auto
  then show ?thesis
    by (auto simp: tuple_exists_iff delete_relationships_tuples)
qed

lemma delete_relationships_session_same:
  "delete_relationships_session clk ts db = delete_relationships clk ts db"
  by (simp add: delete_relationships_session_eq delete_relationships_eq)

interpretation borrowed: tuple_store
  "\<lambda>db t. tuple_exists t db" "\<lambda>db u. u \<in> u_id ` set (users db)" "\<lambda>db u. read_one u db"
  user_subject_ids "\<lambda>e::call_env. write_relationships_session (fst e) (snd e)"
  "\<lambda>e::call_env. delete_relationships_session (fst e)"
proof (unfold_locales, goal_cases)
  case (1 e ts s s' t)
  then show ?case by (rule tuple_exists_write)
next
  case (2 e ts s s' u)
  then show ?case using write_relationships_session_Returns(3) by simp
next
  case (3 e ts s s' u)
  then show ?case using write_relationships_session_Returns(4) by simp
next
  case (4 e ts s s' t)
  then show ?case
    using tuple_exists_delete [of t "fst e" ts s] by (simp add: delete_relationships_session_same)
next
  case (5 e ts s s' u)
  then show ?case
    using delete_relationships_version [of u "fst e" ts s] by (simp add: delete_relationships_session_same)
next
  case (6 e ts s s' u)
  then show ?case
    using delete_relationships_user_ids [of "fst e" ts s] by (simp add: delete_relationships_session_same)
qed

interpretation engine: atomic_tuple_store
  "\<lambda>db t. tuple_exists t db" "\<lambda>db u. u \<in> u_id ` set (users db)" "\<lambda>db u. read_one u db"
  user_subject_ids "\<lambda>e::call_env. write_relationships (fst e) (snd e)"
  "\<lambda>e::call_env. delete_relationships (fst e)"
proof (unfold_locales, goal_cases)
  case (1 e ts s s' t)
  then show ?case by (rule borrowed.grant_holds [OF write_relationships_ReturnsD])
next
  case (2 e ts s s' u)
  then show ?case by (rule borrowed.grant_version [OF write_relationships_ReturnsD])
next
  case (3 e ts s s' u)
  then show ?case by (rule borrowed.grant_known [OF write_relationships_ReturnsD])
next
  case (4 e ts s s' t)
  then show ?case
    using borrowed.revoke_holds [of e ts s s' t] by (simp add: delete_relationships_session_same)
next
  case (5 e ts s s' u)
  then show ?case
    using borrowed.revoke_version [of e ts s s' u] by (simp add: delete_relationships_session_same)
next
  case (6 e ts s s' u)
  then show ?case
    using borrowed.revoke_known [of e ts s s' u] by (simp add: delete_relationships_session_same)
next
  case (7 e ts s x s')
  then show ?case by (rule write_relationships_Raises)
next
  case (8 e ts s x s')
  then show ?case by (simp add: delete_relationships_eq)
qed


subsection \<open>What a check decides\<close>

definition system_registry :: "authorization_registry outcome" where
  "system_registry =
     register_resource_type ''system''
       [(''manage_users'', {''admin''}), (''read_audit'', {''admin''})]
       [(''admin'', {''admin''})] empty_authorization_registry"

inductive walks ::
  "authorization_registry \<Rightarrow> string \<Rightarrow> string \<Rightarrow> string \<Rightarrow> string \<Rightarrow> bool" for reg where
  stored: "has_stored_relations reg rt \<Longrightarrow> walks reg rt rid rt rid"
| parent: "\<not> has_stored_relations reg rt \<Longrightarrow> registry_parent_of reg rt rid = Some (rt', rid') \<Longrightarrow>
    walks reg rt' rid' l j \<Longrightarrow> walks reg rt rid l j"

definition allowed ::
  "authorization_registry \<Rightarrow> database \<Rightarrow> uuid \<Rightarrow> string \<Rightarrow> string \<Rightarrow> string \<Rightarrow> bool" where
  "allowed reg db user_id act rt rid \<longleftrightarrow>
     (\<exists>required l j leaf r members m.
        relations_for reg rt act = Returns required \<and> walks reg rt rid l j \<and>
        dict_get (ar_leaves reg) l = Some leaf \<and> r \<in> required \<and>
        dict_get (le_hierarchy leaf) r = Some members \<and> m \<in> members \<and>
        (l, j, m, ''user'', str_uuid user_id) \<in> rel_key ` set (relationships db))"

text \<open>
  The callables registered with \<open>register_parent\<close> return parents of the declared
  ancestor type, and every relation an action lists has a hierarchy entry.
\<close>

definition well_parented :: "authorization_registry \<Rightarrow> bool" where
  "well_parented reg \<longleftrightarrow>
     (\<forall>rt parent rid q. dict_get (ar_parents reg) rt = Some parent \<longrightarrow>
        pe_parent_of parent rid = Some q \<longrightarrow> fst q = pe_inherits_from parent)"

definition hierarchy_closed :: "authorization_registry \<Rightarrow> bool" where
  "hierarchy_closed reg \<longleftrightarrow>
     (\<forall>leaf\<in>snd ` set (ar_leaves reg). \<forall>relations\<in>snd ` set (le_actions leaf).
        relations \<subseteq> dict_keys (le_hierarchy leaf))"

lemma walk_to_stored_sound:
  assumes "walk_to_stored reg rt rid = Some r"
  shows "\<forall>l j. r = Some (l, j) \<longrightarrow> walks reg rt rid l j"
  using assms
proof (rule walk_to_stored.raw_induct [rotated], goal_cases)
  case (1 walk reg rt rid r)
  then show ?case
    by (auto split: if_splits option.splits intro: walks.stored walks.parent)
qed

lemma walk_to_stored_complete:
  "walks reg rt rid l j \<Longrightarrow> walk_to_stored reg rt rid = Some (Some (l, j))"
proof (induction rule: walks.induct)
  case (stored rt rid)
  then show ?case
    by (subst walk_to_stored.simps) simp
next
  case (parent rt rid rt' rid' l j)
  then show ?case
    by (subst walk_to_stored.simps) simp
qed

lemma walk_to_stored_walks:
  "walk_to_stored reg rt rid = Some (Some (l, j)) \<longleftrightarrow> walks reg rt rid l j"
  using walk_to_stored_sound walk_to_stored_complete by blast

lemma walk_to_stored_total:
  assumes "well_parented reg" and "resolves reg rt l"
  shows "\<exists>r. walk_to_stored reg rt rid = Some r \<and> (\<forall>q. r = Some q \<longrightarrow> fst q = l)"
  using assms(2)
proof (induction arbitrary: rid rule: resolves.induct)
  case (leaf rt)
  then show ?case
    by (simp add: walk_to_stored.simps has_stored_relations_def)
next
  case (inherit rt parent l)
  show ?case
  proof (cases "pe_parent_of parent rid")
    case None
    then show ?thesis
      using inherit by (simp add: walk_to_stored.simps has_stored_relations_def registry_parent_of_def)
  next
    case (Some q)
    then have "fst q = pe_inherits_from parent"
      using assms(1) inherit.hyps(2) unfolding well_parented_def by blast
    then show ?thesis
      using Some inherit.hyps inherit.IH [of "snd q"]
      by (simp add: walk_to_stored.simps [of reg rt] has_stored_relations_def registry_parent_of_def)
  qed
qed

lemma walks_leaf: "walks reg rt rid l j \<Longrightarrow> dict_has (ar_leaves reg) l"
  by (induction rule: walks.induct) (auto simp: has_stored_relations_def)

lemma resolve_leaf_of_leaf:
  "dict_get (ar_leaves reg) l = Some leaf \<Longrightarrow> resolve_leaf reg l = Returns leaf"
  using resolves.leaf [of reg l] by (auto simp: resolve_leaf_iff)

lemma expand_relations_leaf:
  assumes "dict_get (ar_leaves reg) l = Some leaf"
  shows "expand_relations reg l req =
     (if req \<subseteq> dict_keys (le_hierarchy leaf)
      then Returns {m. \<exists>r\<in>req. \<exists>members. dict_get (le_hierarchy leaf) r = Some members \<and> m \<in> members}
      else Raises UnknownActionError)"
  using resolve_leaf_of_leaf [OF assms] by (auto simp: expand_relations_def subset_iff) force+

lemma exists_relation_iff:
  "exists_relation db rt rid relations u \<longleftrightarrow>
     (\<exists>m\<in>relations. (rt, rid, m, ''user'', str_uuid u) \<in> rel_key ` set (relationships db))"
  by (force simp: exists_relation_def list_ex_iff rel_key_def)

lemma relations_for_Raises: "relations_for reg rt act = Raises e \<Longrightarrow> e = UnknownActionError"
  by (cases "resolve_leaf reg rt") (auto simp: relations_for_def resolve_leaf_Raises split: option.splits)

lemma relations_for_closed:
  assumes "relations_for reg rt act = Returns req" and "hierarchy_closed reg"
  obtains l leaf where "resolves reg rt l" and "dict_get (ar_leaves reg) l = Some leaf"
    and "req \<subseteq> dict_keys (le_hierarchy leaf)"
proof -
  obtain l leaf where l: "resolves reg rt l" "dict_get (ar_leaves reg) l = Some leaf"
      "dict_get (le_actions leaf) act = Some req"
    using assms(1) by (auto simp: relations_for_def outcome_simps resolve_leaf_iff split: option.splits)
  have "leaf \<in> snd ` set (ar_leaves reg)" "req \<in> snd ` set (le_actions leaf)"
    using l by (force simp: dict_get_def dest: map_of_SomeD)+
  then show thesis
    using that l assms(2) unfolding hierarchy_closed_def by blast
qed

lemma authz_check_cases:
  assumes "relations_for reg rt act = Returns req"
    and "dict_get (ar_leaves reg) l = Some leaf" and "walks reg rt rid l j"
    and "req \<subseteq> dict_keys (le_hierarchy leaf)"
  shows "authz_check reg db u act rt rid = Some (Returns (allowed reg db u act rt rid))"
proof -
  have unique: "l' = l \<and> j' = j" if "walks reg rt rid l' j'" for l' j'
    using that assms(3) walk_to_stored_walks by (metis option.inject prod.inject)
  have "allowed reg db u act rt rid \<longleftrightarrow>
      (\<exists>r\<in>req. \<exists>members. dict_get (le_hierarchy leaf) r = Some members \<and>
         (\<exists>m\<in>members. (l, j, m, ''user'', str_uuid u) \<in> rel_key ` set (relationships db)))"
    (is "_ \<longleftrightarrow> ?R")
  proof
    assume "allowed reg db u act rt rid"
    then obtain l' j' leaf' r members m where "walks reg rt rid l' j'"
        "dict_get (ar_leaves reg) l' = Some leaf'" "r \<in> req"
        "dict_get (le_hierarchy leaf') r = Some members" "m \<in> members"
        "(l', j', m, ''user'', str_uuid u) \<in> rel_key ` set (relationships db)"
      unfolding allowed_def assms(1) outcome.inject(1) by blast
    then show ?R
      using unique assms(2) by (metis option.inject)
  next
    assume ?R
    then show "allowed reg db u act rt rid"
      unfolding allowed_def using assms(1,2,3) by blast
  qed
  also have "\<dots> \<longleftrightarrow> exists_relation db l j
      {m. \<exists>r\<in>req. \<exists>members. dict_get (le_hierarchy leaf) r = Some members \<and> m \<in> members} u"
    unfolding exists_relation_iff by blast
  finally show ?thesis
    using assms walk_to_stored_walks [of reg rt rid l j]
    by (simp add: authz_check_def expand_relations_leaf)
qed

lemma not_allowed_no_walk:
  "walk_to_stored reg rt rid = Some None \<Longrightarrow> \<not> allowed reg db u act rt rid"
  unfolding allowed_def using walk_to_stored_walks by (metis option.distinct(1) option.inject)


subsection \<open>Lookups\<close>

lemma set_dedupe_from: "set (dedupe_from seen xs) = set xs - seen"
  by (induction seen xs rule: dedupe_from.induct) auto

lemma distinct_dedupe_from: "distinct (dedupe_from seen xs)"
  by (induction seen xs rule: dedupe_from.induct) (auto simp: set_dedupe_from)

lemma length_dedupe_from: "length (dedupe_from seen xs) \<le> length xs"
  by (induction seen xs rule: dedupe_from.induct) auto

lemma sorted_dedupe_from: "sorted (map f xs) \<Longrightarrow> sorted (map f (dedupe_from seen xs))"
  by (induction seen xs rule: dedupe_from.induct) (auto simp: set_dedupe_from)

lemma matching_rows_iff:
  "i \<in> rel_resource_id ` set (matching_rows db rt relations u) \<longleftrightarrow> exists_relation db rt i relations u"
  by (force simp: matching_rows_def exists_relation_def list_ex_iff)

lemma lookup_resources_ReturnsE:
  assumes "lookup_resources coll reg db u act rt limit = Returns out"
  obtains req l leaf expanded where "relations_for reg rt act = Returns req" and "resolves reg rt l"
    and "dict_get (ar_leaves reg) l = Some leaf" and "req \<subseteq> dict_keys (le_hierarchy leaf)"
    and "expand_relations reg l req = Returns expanded"
    and "out = dedupe_from {} (take (nat (max 1 (min limit LOOKUP_MAX_LIMIT)))
           (sort_key coll (map rel_resource_id (matching_rows db l expanded u))))"
proof -
  obtain req l expanded where *: "relations_for reg rt act = Returns req"
      "nearest_leaf_type reg rt = Returns l" "expand_relations reg l req = Returns expanded"
      "out = dedupe_from {} (take (nat (max 1 (min limit LOOKUP_MAX_LIMIT)))
           (sort_key coll (map rel_resource_id (matching_rows db l expanded u))))"
    using assms by (auto simp: lookup_resources_def Let_def outcome_simps)
  have l: "resolves reg rt l"
    using * by (simp add: nearest_leaf_type_iff)
  then obtain leaf where leaf: "dict_get (ar_leaves reg) l = Some leaf"
    using resolves_is_leaf by fastforce
  then have "req \<subseteq> dict_keys (le_hierarchy leaf)"
    using *(3) by (simp add: expand_relations_leaf split: if_splits)
  then show thesis
    using that * l leaf by blast
qed

lemma relations_for_of_leaf:
  assumes "resolves reg rt l"
  shows "relations_for reg l act = relations_for reg rt act"
proof -
  have "nearest_leaf_type reg rt = Returns l" "nearest_leaf_type reg l = Returns l"
    using assms resolves.leaf [OF resolves_is_leaf [OF assms]] by (simp_all add: nearest_leaf_type_iff)
  then show ?thesis
    by (simp add: relations_for_def resolve_leaf_def)
qed

lemma allowed_on_leaf:
  assumes "relations_for reg rt act = Returns req" and "resolves reg rt l"
    and "dict_get (ar_leaves reg) l = Some leaf" and "expand_relations reg l req = Returns expanded"
  shows "allowed reg db u act l i \<longleftrightarrow> exists_relation db l i expanded u"
proof -
  have "req \<subseteq> dict_keys (le_hierarchy leaf)"
    using assms(3,4) by (simp add: expand_relations_leaf split: if_splits)
  moreover have walk: "walks reg l i l i"
    using assms(3) by (intro walks.stored) (simp add: has_stored_relations_def)
  moreover have rel: "relations_for reg l act = Returns req"
    using assms(1,2) by (simp add: relations_for_of_leaf)
  ultimately have "authz_check reg db u act l i = Some (Returns (allowed reg db u act l i))"
    using assms(3) by (intro authz_check_cases)
  then show ?thesis
    using rel walk assms(4) by (simp add: authz_check_def walk_to_stored_walks [symmetric])
qed


subsection \<open>Sequences of grants and revokes\<close>

fun apply_op :: "(call_env, relationship) authz_op \<Rightarrow> (database, unit) action" where
  "apply_op (Grant e ts) = write_relationships (fst e) (snd e) ts"
| "apply_op (Revoke e ts) = delete_relationships (fst e) ts"

fun apply_ops :: "(call_env, relationship) authz_op list \<Rightarrow> (database, unit) action" where
  "apply_ops [] db = (Returns (), db)"
| "apply_ops (p # ps) db = andthen (apply_op p) (\<lambda>_. apply_ops ps) db"

lemma engine_run_ops: "engine.run_ops ps db = apply_ops ps db"
proof (induction ps arbitrary: db)
  case (Cons p ps)
  have "engine.run_op p = apply_op p"
    by (cases p) auto
  then show ?case
    using Cons.IH by (simp add: andthen_def split: prod.splits outcome.splits)
qed simp

subsection \<open>Properties\<close>

text \<open>
  C1. Authorization decisions are exact. When every registered parent callable
  returns resources of the declared ancestor type and every relation named by an
  action has a hierarchy entry, \<open>check\<close> always ends: it raises
  \<open>UnknownActionError\<close> when the type or action is unknown, and otherwise returns
  true exactly when the user holds, on the resource itself or on the stored
  ancestor reached through \<open>parent_of\<close>, a relation that satisfies the action.
\<close>

theorem check_decides:
  assumes "well_parented reg" and "hierarchy_closed reg"
  shows "authz_check reg db u act rt rid =
    Some (case relations_for reg rt act of
            Returns _ \<Rightarrow> Returns (allowed reg db u act rt rid)
          | Raises _ \<Rightarrow> Raises UnknownActionError)"
proof (cases "relations_for reg rt act")
  case (Raises e)
  then show ?thesis
    using relations_for_Raises by (simp add: authz_check_def)
next
  case (Returns req)
  obtain l leaf where l: "resolves reg rt l" "dict_get (ar_leaves reg) l = Some leaf"
      "req \<subseteq> dict_keys (le_hierarchy leaf)"
    using Returns assms(2) by (rule relations_for_closed)
  obtain r where r: "walk_to_stored reg rt rid = Some r" "\<forall>q. r = Some q \<longrightarrow> fst q = l"
    using walk_to_stored_total [OF assms(1) l(1)] by blast
  show ?thesis
  proof (cases r)
    case None
    then show ?thesis
      using Returns r by (simp add: authz_check_def not_allowed_no_walk)
  next
    case (Some q)
    then have "walks reg rt rid l (snd q)"
      using r by (metis prod.collapse walk_to_stored_walks)
    then show ?thesis
      using authz_check_cases Returns l by simp
  qed
qed

text \<open>
  Data for the witnesses: the program's own \<open>system\<close> type, an inherited type
  whose single instance hangs below \<open>system:main\<close>, and one administrator.
\<close>

definition sample_registry :: authorization_registry where
  "sample_registry =
     \<lparr>ar_leaves = [(''system'', \<lparr>le_actions = [(''manage_users'', {''admin''}), (''read_audit'', {''admin''})],
                                 le_hierarchy = [(''admin'', {''admin''})]\<rparr>)],
      ar_parents = [(''report'', \<lparr>pe_parent_of = (\<lambda>i. if i = ''r1'' then Some (''system'', ''main'') else None),
                                 pe_inherits_from = ''system''\<rparr>)],
      ar_sealed = True\<rparr>"

definition sample_tuple :: relationship where
  "sample_tuple = \<lparr>resource_type = ''system'', resource_id = ''main'', relation = ''admin'',
     subject_type = ''user'', subject_id = str_uuid 7\<rparr>"

definition sample_user :: user_row where
  "sample_user = \<lparr>u_id = 7, u_email = ''a@x'', u_is_active = True, u_is_verified = False,
     u_is_erased = False, u_authz_version = 1, u_created_at = 0, u_updated_at = 0, u_last_login_at = None\<rparr>"

definition sample_db :: database where
  "sample_db = empty_db\<lparr>users := [sample_user],
     relationships := [new_relationship_row 1 0 sample_tuple]\<rparr>"

lemmas sample_registry_sel =
  arg_cong [where f = ar_leaves, OF sample_registry_def, simplified authorization_registry.simps]
  arg_cong [where f = ar_parents, OF sample_registry_def, simplified authorization_registry.simps]

lemmas sample_db_sel =
  arg_cong [where f = relationships, OF sample_db_def, simplified database.simps]
  arg_cong [where f = users, OF sample_db_def, simplified database.simps]

lemma sample_registry_ok: "well_parented sample_registry" "hierarchy_closed sample_registry"
  by (auto simp: well_parented_def hierarchy_closed_def sample_registry_def dict_get_def split: if_splits)

lemma sample_relations_for:
  "relations_for sample_registry ''report'' ''read_audit'' = Returns {''admin''}"
  by (simp add: relations_for_def resolve_leaf_def nearest_leaf_type_def nearest_leaf_walk.simps
      sample_registry_sel dict_get_def)

lemma sample_check:
  "authz_check sample_registry sample_db 7 ''read_audit'' ''report'' ''r1'' = Some (Returns True)"
  by (simp add: authz_check_def sample_relations_for walk_to_stored.simps has_stored_relations_def
      registry_parent_of_def expand_relations_def resolve_leaf_def nearest_leaf_type_def
      nearest_leaf_walk.simps sample_registry_sel sample_db_sel sample_tuple_def new_relationship_row_def
      exists_relation_def dict_get_def)

theorem check_decides_witness:
  "well_parented sample_registry \<and> hierarchy_closed sample_registry \<and>
   allowed sample_registry sample_db 7 ''read_audit'' ''report'' ''r1''"
  using check_decides [OF sample_registry_ok, of sample_db 7 "''read_audit''" "''report''" "''r1''"]
    sample_check sample_registry_ok
  by (simp add: sample_relations_for)

text \<open>
  Resolving an inherited resource type always ends, also on registries whose
  \<open>inherits_from\<close> declarations are cyclic or dangling: it returns the leaf type at
  the end of the chain when there is one and raises \<open>UnknownActionError\<close> exactly
  when there is none.
\<close>

theorem nearest_leaf_type_correct:
  "(nearest_leaf_type reg rt = Returns l \<longleftrightarrow> resolves reg rt l) \<and>
   (nearest_leaf_type reg rt = Raises UnknownActionError \<longleftrightarrow> \<not> (\<exists>l. resolves reg rt l))"
  using nearest_leaf_type_iff nearest_leaf_type_Raises
  by (metis outcome.distinct(1) outcome.exhaust)



text \<open>
  C3. The version counter counts permission changes. After any sequence of grants
  and revokes that all succeed, an existing user's \<open>authz_version\<close> has grown by
  exactly the number of calls that mention the user, so an access token minted
  before is stale as soon as one of them did; and the tuples stored are those
  that the last call mentioning each of them left.
\<close>

theorem grants_and_revokes_tracked:
  assumes "apply_ops ops db = (Returns (), db')" and "u \<in> u_id ` set (users db)"
  shows "read_one u db' = read_one u db +
      int (length (filter (\<lambda>p. u \<in> set (user_subject_ids (op_tuples p))) ops)) \<and>
    (tuple_exists t db' \<longleftrightarrow>
      foldl (\<lambda>b p. case p of Grant _ ts \<Rightarrow> b \<or> t \<in> set ts | Revoke _ ts \<Rightarrow> b \<and> t \<notin> set ts)
        (tuple_exists t db) ops)"
proof -
  have run: "engine.run_ops ops db = (Returns (), db')"
    using assms(1) by (simp only: engine_run_ops)
  have "engine.tuple_after b ops t =
      foldl (\<lambda>b p. case p of Grant _ ts \<Rightarrow> b \<or> t \<in> set ts | Revoke _ ts \<Rightarrow> b \<and> t \<notin> set ts) b ops" for b
  proof (induction ops arbitrary: b)
    case (Cons p ops)
    then show ?case
      by (cases p) simp_all
  qed simp
  then show ?thesis
    using engine.run_ops_version [OF run, of u] engine.run_ops_holds [OF run, of t] assms(2) by simp
qed

lemma sample_ops:
  "\<exists>db'. apply_ops [Grant (\<lambda>n. int n, \<lambda>n. word_of_nat (n + 5)) [sample_tuple], Revoke (\<lambda>n. 9, \<lambda>n. 0) [sample_tuple]]
     sample_db = (Returns (), db')"
  by (simp add: andthen_def write_relationships_def write_relationships_session_def transaction_def
      tuple_exists_def sample_db_sel delete_relationships_eq)

theorem grants_and_revokes_tracked_witness:
  "\<exists>db'. apply_ops [Grant (\<lambda>n. int n, \<lambda>n. word_of_nat (n + 5)) [sample_tuple], Revoke (\<lambda>n. 9, \<lambda>n. 0) [sample_tuple]]
     sample_db = (Returns (), db') \<and> read_one 7 db' = 3 \<and> \<not> tuple_exists sample_tuple db'"
proof -
  let ?ops = "[Grant (\<lambda>n. int n, \<lambda>n. word_of_nat (n + 5)) [sample_tuple], Revoke (\<lambda>n. 9, \<lambda>n. 0) [sample_tuple]]"
  obtain db' where db': "apply_ops ?ops sample_db = (Returns (), db')"
    using sample_ops by blast
  have user: "7 \<in> u_id ` set (users sample_db)"
    by (simp add: sample_db_sel sample_user_def)
  have "read_one 7 sample_db = 1"
    by (simp add: read_one_def sample_db_sel sample_user_def)
  moreover have "7 \<in> set (user_subject_ids [sample_tuple])"
    by (simp add: user_subject_ids_iff sample_tuple_def)
  ultimately show ?thesis
    using db' grants_and_revokes_tracked [OF db' user, of sample_tuple] by auto
qed

fun register_types ::
  "(string \<times> (leaf_entry + parent_entry)) list \<Rightarrow> authorization_registry \<Rightarrow>
   authorization_registry outcome" where
  "register_types [] reg = Returns reg"
| "register_types ((rt, entry) # es) reg = bind_outcome (authz_register rt entry reg) (register_types es)"

lemma register_types_all: "register_types es reg = areg.register_all es reg"
proof (induction es reg rule: register_types.induct)
  case (2 rt entry es reg)
  then show ?case
    by (cases "authz_register rt entry reg") simp_all
qed simp

text \<open>
  The authorization registry is write-once. A successful sequence of
  registrations has pairwise different type names and stores exactly the given
  entries besides the earlier ones, and once the registry is sealed every further
  registration raises and every lookup stays as it was.
\<close>

theorem registry_write_once:
  assumes "register_types es reg = Returns reg'"
  shows "distinct (map fst es) \<and> authz_lookup reg' = authz_lookup reg ++ map_of es \<and>
    authz_lookup (authz_seal reg') = authz_lookup reg' \<and>
    (\<exists>e. authz_register rt entry (authz_seal reg') = Raises e)"
  using areg.register_all_lookup [OF assms [unfolded register_types_all]] areg.seal_lookup
    areg.register_sealed [OF areg.seal_sealed]
  by blast

theorem registry_write_once_witness:
  "\<exists>reg'. register_types [(''system'', Inl \<lparr>le_actions = [], le_hierarchy = []\<rparr>),
      (''report'', Inr \<lparr>pe_parent_of = (\<lambda>i. None), pe_inherits_from = ''system''\<rparr>)]
      empty_authorization_registry = Returns reg' \<and> authz_lookup reg' ''report'' \<noteq> None"
proof -
  let ?es = "[(''system'', Inl \<lparr>le_actions = [], le_hierarchy = []\<rparr>),
      (''report'', Inr \<lparr>pe_parent_of = (\<lambda>i. None), pe_inherits_from = ''system''\<rparr>)]"
  have "\<exists>reg'. register_types ?es empty_authorization_registry = Returns reg'"
    by (simp add: authz_register_defs empty_authorization_registry_def)
  then obtain reg' where "register_types ?es empty_authorization_registry = Returns reg'"
    by blast
  then show ?thesis
    using registry_write_once [of ?es empty_authorization_registry reg' undefined undefined]
    by (auto simp: map_add_def split: option.splits)
qed

end
