(* ===== verification/Result.thy ===== *)
theory Result
  imports Prelude
begin

text \<open>
  The result type of the program (\<open>src/app_platform/shared/result.py\<close>) and its
  combinators. Use cases return expected failures as \<open>Err\<close> values; the accessors
  that raise on the wrong branch return an outcome.
\<close>

datatype ('t, 'e) result = Ok 't | Err 'e

definition is_ok :: "('t, 'e) result \<Rightarrow> bool" where
  "is_ok r = (case r of Ok _ \<Rightarrow> True | Err _ \<Rightarrow> False)"

definition is_err :: "('t, 'e) result \<Rightarrow> bool" where
  "is_err r = (case r of Ok _ \<Rightarrow> False | Err _ \<Rightarrow> True)"

definition unwrap :: "('t, 'e) result \<Rightarrow> 't outcome" where
  "unwrap r = (case r of Ok v \<Rightarrow> Returns v | Err _ \<Rightarrow> Raises UnwrapError)"

definition unwrap_err :: "('t, 'e) result \<Rightarrow> 'e outcome" where
  "unwrap_err r = (case r of Err e \<Rightarrow> Returns e | Ok _ \<Rightarrow> Raises UnwrapError)"

definition expect :: "('t, 'e) result \<Rightarrow> string \<Rightarrow> 't outcome" where
  "expect r message = (case r of Ok v \<Rightarrow> Returns v | Err _ \<Rightarrow> Raises UnwrapError)"

definition expect_err :: "('t, 'e) result \<Rightarrow> string \<Rightarrow> 'e outcome" where
  "expect_err r message = (case r of Err e \<Rightarrow> Returns e | Ok _ \<Rightarrow> Raises UnwrapError)"

definition result_map :: "('t, 'e) result \<Rightarrow> ('t \<Rightarrow> 'u) \<Rightarrow> ('u, 'e) result" where
  "result_map r f = (case r of Ok v \<Rightarrow> Ok (f v) | Err e \<Rightarrow> Err e)"

definition result_map_err :: "('t, 'e) result \<Rightarrow> ('e \<Rightarrow> 'f) \<Rightarrow> ('t, 'f) result" where
  "result_map_err r f = (case r of Ok v \<Rightarrow> Ok v | Err e \<Rightarrow> Err (f e))"

definition result_and_then ::
  "('t, 'e) result \<Rightarrow> ('t \<Rightarrow> ('u, 'e) result) \<Rightarrow> ('u, 'e) result" where
  "result_and_then r f = (case r of Ok v \<Rightarrow> f v | Err e \<Rightarrow> Err e)"

definition expect_ok :: "('t, 'e) result \<Rightarrow> 't outcome" where
  "expect_ok r = (case r of Ok v \<Rightarrow> Returns v | Err _ \<Rightarrow> Raises AssertionError)"

lemmas result_defs = is_ok_def is_err_def unwrap_def unwrap_err_def expect_def expect_err_def
  result_map_def result_map_err_def result_and_then_def expect_ok_def


subsection \<open>Error-propagating computations\<close>

text \<open>
  The laws a chain of fallible calls relies on. Both carriers of errors in the
  program satisfy them: \<open>Result\<close> values and exceptions.
\<close>

locale fallible =
  fixes good :: "'t \<Rightarrow> 'm" and chain :: "'m \<Rightarrow> ('t \<Rightarrow> 'm) \<Rightarrow> 'm"
  assumes chain_good: "chain (good x) f = f x"
    and chain_bad: "\<not> (\<exists>x. m = good x) \<Longrightarrow> chain m f = m"
begin

lemma chain_good_right: "chain m good = m"
  using chain_good chain_bad by metis

lemma chain_assoc: "chain (chain m f) g = chain m (\<lambda>x. chain (f x) g)"
  using chain_good chain_bad by metis

fun chain_all :: "('t \<Rightarrow> 'm) list \<Rightarrow> 't \<Rightarrow> 'm" where
  "chain_all [] x = good x"
| "chain_all (f # fs) x = chain (f x) (chain_all fs)"

text \<open>A pipeline stops at its first failing stage, whatever stages follow.\<close>

lemma chain_all_append: "chain_all (fs @ gs) x = chain (chain_all fs x) (chain_all gs)"
proof (induction fs arbitrary: x)
  case (Cons f fs)
  have "chain_all (fs @ gs) = (\<lambda>x. chain (chain_all fs x) (chain_all gs))"
    using Cons.IH by (rule ext)
  then show ?case
    by (simp add: chain_assoc)
qed (simp add: chain_good)

lemma chain_all_stops: "\<not> (\<exists>y. chain_all fs x = good y) \<Longrightarrow> chain_all (fs @ gs) x = chain_all fs x"
  by (simp add: chain_all_append chain_bad)

end

interpretation res: fallible Ok result_and_then
proof (unfold_locales, goal_cases)
  case (2 m f)
  then show ?case by (cases m) (auto simp: result_and_then_def)
qed (simp add: result_and_then_def)

interpretation out: fallible Returns bind_outcome
proof (unfold_locales, goal_cases)
  case (2 m f)
  then show ?case by (cases m) auto
qed simp

end
