(* ===== verification/Normalization.thy ===== *)
theory Normalization
  imports Py_Uuid
begin

text \<open>
  String handling: the Python string methods the program uses (on the ASCII
  range), and \<open>src/features/authentication/application/normalization.py\<close>.
\<close>

definition lower_char :: "char \<Rightarrow> char" where
  "lower_char c = (let n = (of_char c :: nat) in if 65 \<le> n \<and> n \<le> 90 then char_of (n + 32) else c)"

definition lower :: "string \<Rightarrow> string" where
  "lower s = map lower_char s"

definition strip :: "string \<Rightarrow> string" where
  "strip s = strip_by is_space s"

definition rstrip_char :: "char \<Rightarrow> string \<Rightarrow> string" where
  "rstrip_char c s = rev (dropWhile (\<lambda>x. x = c) (rev s))"

definition normalize_email :: "string \<Rightarrow> string" where
  "normalize_email email = lower (strip email)"

definition normalize_role_name :: "string \<Rightarrow> string" where
  "normalize_role_name name = map (\<lambda>c. if c = CHR ''-'' then CHR ''_'' else c) (lower (strip name))"

definition normalize_permission_name :: "string \<Rightarrow> string" where
  "normalize_permission_name name = lower (strip name)"

definition is_lower_letter :: "char \<Rightarrow> bool" where
  "is_lower_letter c = (let n = (of_char c :: nat) in 97 \<le> n \<and> n \<le> 122)"

definition is_digit :: "char \<Rightarrow> bool" where
  "is_digit c = (let n = (of_char c :: nat) in 48 \<le> n \<and> n \<le> 57)"

definition is_name_char :: "char \<Rightarrow> bool" where
  "is_name_char c = (is_lower_letter c \<or> is_digit c \<or> c = CHR ''_'')"

definition is_role_name :: "string \<Rightarrow> bool" where
  "is_role_name value =
     (case value of [] \<Rightarrow> False | c # cs \<Rightarrow> is_lower_letter c \<and> list_all is_name_char cs)"

text \<open>
  \<open>fullmatch\<close> of \<open>[a-z][a-z0-9_]*:[a-z][a-z0-9_:]*\<close>: the first colon ends the
  resource part, since that part contains no colon.
\<close>

definition is_permission_name :: "string \<Rightarrow> bool" where
  "is_permission_name value =
     (let res = takeWhile (\<lambda>c. c \<noteq> CHR '':'') value;
          rest = dropWhile (\<lambda>c. c \<noteq> CHR '':'') value
      in is_role_name res \<and>
         (case rest of
            _ # c # cs \<Rightarrow> is_lower_letter c \<and> list_all (\<lambda>c. is_name_char c \<or> c = CHR '':'') cs
          | _ \<Rightarrow> False))"


subsection \<open>Normalization is idempotent\<close>

lemma of_char_of_less [simp]: "n < 256 \<Longrightarrow> (of_char (char_of n) :: nat) = n"
  by (simp add: of_char_of)

lemma lower_char_idem [simp]: "lower_char (lower_char c) = lower_char c"
  by (simp add: lower_char_def Let_def)

lemma is_space_lower_char [simp]: "is_space (lower_char c) = is_space c"
  by (auto simp: is_space_def lower_char_def Let_def)

lemma lower_idem [simp]: "lower (lower s) = lower s"
  by (simp add: lower_def)

lemma strip_by_map:
  assumes "\<And>c. P (f c) = P c"
  shows "strip_by P (map f s) = map f (strip_by P s)"
proof -
  have "P \<circ> f = P"
    using assms by auto
  then show ?thesis
    by (simp add: strip_by_def dropWhile_map rev_map)
qed

lemma dropWhile_idem [simp]: "dropWhile P (dropWhile P xs) = dropWhile P xs"
  by (induction xs) auto

lemma strip_by_idem [simp]: "strip_by P (strip_by P s) = strip_by P s"
proof -
  define t where "t = dropWhile P (rev (dropWhile P s))"
  obtain pre where "rev (dropWhile P s) = pre @ t"
    unfolding t_def by (metis takeWhile_dropWhile_id)
  then have split: "dropWhile P s = rev t @ rev pre"
    by (metis rev_append rev_rev_ident)
  have "dropWhile P (rev t) = rev t"
  proof (cases "rev t")
    case (Cons c cs)
    then have "dropWhile P s = c # cs @ rev pre"
      using split by simp
    then have "\<not> P c"
      using hd_dropWhile [of P s] by simp
    then show ?thesis
      using Cons by simp
  qed simp
  moreover have "dropWhile P t = t"
    by (simp add: t_def)
  ultimately show ?thesis
    by (simp add: strip_by_def t_def [symmetric])
qed

lemma normalize_email_idem [simp]: "normalize_email (normalize_email e) = normalize_email e"
  by (simp add: normalize_email_def strip_def lower_def strip_by_map)

lemma lower_normalize_email [simp]: "lower (normalize_email e) = normalize_email e"
  by (simp add: normalize_email_def)

end
