(* ===== verification/Users.thy ===== *)
theory Users
  imports Database Result Normalization
begin

text \<open>
  The user repository
  (\<open>src/features/users/adapters/outbound/persistence/sqlmodel/repository.py\<close>).
  The engine-owning and the session-bound adapter run the same statements; the
  definitions below are the statements, and the caller decides the transaction
  they belong to. \<open>now\<close> is the clock reading of the call; a domain \<open>User\<close> has the
  fields of its row.
\<close>

datatype user_error = UserNotFoundError | UserAlreadyExistsError

definition find_user :: "uuid \<Rightarrow> database \<Rightarrow> user_row option" where
  "find_user user_id db = find (\<lambda>u. u_id u = user_id) (users db)"

definition update_user :: "uuid \<Rightarrow> (user_row \<Rightarrow> user_row) \<Rightarrow> database \<Rightarrow> database" where
  "update_user user_id f db = db\<lparr>users := update_where (\<lambda>u. u_id u = user_id) f (users db)\<rparr>"

definition get_by_id :: "uuid \<Rightarrow> database \<Rightarrow> user_row option" where
  "get_by_id user_id db =
     (case find_user user_id db of
        None \<Rightarrow> None
      | Some row \<Rightarrow> if u_is_erased row then None else Some row)"

definition get_by_email :: "string \<Rightarrow> database \<Rightarrow> user_row option" where
  "get_by_email email db =
     find (\<lambda>u. u_email u = lower email \<and> \<not> u_is_erased u) (users db)"

definition create_user ::
  "uuid \<Rightarrow> datetime \<Rightarrow> datetime \<Rightarrow> string \<Rightarrow> database \<Rightarrow>
   (user_row, user_error) result \<times> database" where
  "create_user new_id created updated email db =
     (if list_ex (\<lambda>u. u_email u = lower email \<or> u_id u = new_id) (users db)
      then (Err UserAlreadyExistsError, db)
      else let row = \<lparr>u_id = new_id, u_email = lower email, u_is_active = True,
                      u_is_verified = False, u_is_erased = False, u_authz_version = 1,
                      u_created_at = created, u_updated_at = updated, u_last_login_at = None\<rparr>
           in (Ok row, db\<lparr>users := users db @ [row]\<rparr>))"

definition keyset_less :: "datetime \<times> uuid \<Rightarrow> datetime \<times> uuid \<Rightarrow> bool" where
  "keyset_less a b \<longleftrightarrow> fst a < fst b \<or> (fst a = fst b \<and> snd a < snd b)"

fun insert_by :: "('a \<Rightarrow> 'a \<Rightarrow> bool) \<Rightarrow> 'a \<Rightarrow> 'a list \<Rightarrow> 'a list" where
  "insert_by lt x [] = [x]"
| "insert_by lt x (y # ys) = (if lt y x then y # insert_by lt x ys else x # y # ys)"

definition order_by :: "('a \<Rightarrow> 'a \<Rightarrow> bool) \<Rightarrow> 'a list \<Rightarrow> 'a list" where
  "order_by lt xs = foldr (insert_by lt) xs []"

definition user_keyset :: "user_row \<Rightarrow> datetime \<times> uuid" where
  "user_keyset u = (u_created_at u, u_id u)"

definition list_paginated ::
  "(datetime \<times> uuid) option \<Rightarrow> nat \<Rightarrow> database \<Rightarrow> user_row list" where
  "list_paginated cursor limit db =
     take limit (order_by (\<lambda>a b. keyset_less (user_keyset a) (user_keyset b))
       (case cursor of
          None \<Rightarrow> users db
        | Some c \<Rightarrow> filter (\<lambda>u. keyset_less c (user_keyset u)) (users db)))"

definition mark_verified :: "datetime \<Rightarrow> uuid \<Rightarrow> database \<Rightarrow> database" where
  "mark_verified now user_id db =
     update_user user_id
       (\<lambda>u. if u_is_verified u then u else u\<lparr>u_is_verified := True, u_updated_at := now\<rparr>) db"

definition bump_authz_version :: "datetime \<Rightarrow> uuid \<Rightarrow> database \<Rightarrow> database" where
  "bump_authz_version now user_id db =
     update_user user_id
       (\<lambda>u. u\<lparr>u_authz_version := u_authz_version u + 1, u_updated_at := now\<rparr>) db"

definition update_email ::
  "datetime \<Rightarrow> uuid \<Rightarrow> string \<Rightarrow> database \<Rightarrow> (user_row, user_error) result \<times> database" where
  "update_email now user_id new_email db =
     (let normalized = lower (strip new_email) in
      case find_user user_id db of
        None \<Rightarrow> (Err UserNotFoundError, db)
      | Some row \<Rightarrow>
          if list_ex (\<lambda>u. u_id u \<noteq> user_id \<and> u_email u = normalized) (users db)
          then (Err UserAlreadyExistsError, db)
          else (Ok (row\<lparr>u_email := normalized, u_updated_at := now\<rparr>),
                update_user user_id (\<lambda>u. u\<lparr>u_email := normalized, u_updated_at := now\<rparr>) db))"

definition set_active :: "datetime \<Rightarrow> uuid \<Rightarrow> bool \<Rightarrow> database \<Rightarrow> database" where
  "set_active now user_id is_active db =
     update_user user_id
       (\<lambda>u. u\<lparr>u_is_active := is_active, u_authz_version := u_authz_version u + 1,
              u_updated_at := now\<rparr>) db"

definition update_last_login :: "uuid \<Rightarrow> datetime \<Rightarrow> database \<Rightarrow> database" where
  "update_last_login user_id when db =
     update_user user_id (\<lambda>u. u\<lparr>u_last_login_at := Some when, u_updated_at := when\<rparr>) db"

definition get_raw_by_id :: "uuid \<Rightarrow> database \<Rightarrow> user_row option" where
  "get_raw_by_id user_id db = find_user user_id db"

definition erased_email :: "uuid \<Rightarrow> string" where
  "erased_email user_id = ''erased+'' @ str_uuid user_id @ ''@erased.invalid''"

definition apply_erasure_scrub :: "datetime \<Rightarrow> user_row \<Rightarrow> user_row" where
  "apply_erasure_scrub now row =
     row\<lparr>u_email := erased_email (u_id row), u_is_active := False, u_is_erased := True,
         u_last_login_at := None, u_authz_version := u_authz_version row + 1,
         u_updated_at := now\<rparr>"

definition scrub_for_erasure :: "datetime \<Rightarrow> uuid \<Rightarrow> database \<Rightarrow> bool \<times> database" where
  "scrub_for_erasure now user_id db =
     (case find_user user_id db of
        None \<Rightarrow> (False, db)
      | Some row \<Rightarrow>
          if u_is_erased row then (False, db)
          else (True, update_user user_id (apply_erasure_scrub now) db))"


subsection \<open>Updates of one user\<close>

lemma update_user_frame [simp]:
  "credentials (update_user i f db) = credentials db"
  "refresh_tokens (update_user i f db) = refresh_tokens db"
  "internal_tokens (update_user i f db) = internal_tokens db"
  "audit_events (update_user i f db) = audit_events db"
  "relationships (update_user i f db) = relationships db"
  "outbox_messages (update_user i f db) = outbox_messages db"
  "processed_marks (update_user i f db) = processed_marks db"
  by (simp_all add: update_user_def)

lemma users_update_user: "users (update_user i f db) = update_where (\<lambda>u. u_id u = i) f (users db)"
  by (simp add: update_user_def)

lemma find_user_update_user:
  assumes "\<And>u. u_id (f u) = u_id u"
  shows "find_user j (update_user i f db) =
    map_option (\<lambda>u. if u_id u = i then f u else u) (find_user j db)"
  using assms by (simp add: find_user_def users_update_user find_update_where_same)

lemma find_user_Some: "find_user i db = Some u \<Longrightarrow> u_id u = i \<and> u \<in> set (users db)"
  by (auto simp: find_user_def dest: find_Some_in)

lemma find_user_None: "find_user i db = None \<longleftrightarrow> i \<notin> u_id ` set (users db)"
  by (auto simp: find_user_def find_None_iff_all)

lemma find_user_in:
  "users_ok (users db) \<Longrightarrow> u \<in> set (users db) \<Longrightarrow> find_user (u_id u) db = Some u"
  by (simp add: find_user_def users_ok_def find_unique_key)

text \<open>The version a reader sees for a user; 0 when there is no row.\<close>

definition version_of :: "uuid \<Rightarrow> database \<Rightarrow> int" where
  "version_of i db = (case find_user i db of None \<Rightarrow> 0 | Some u \<Rightarrow> u_authz_version u)"

lemma version_update_user:
  assumes "\<And>u. u_id (f u) = u_id u"
  shows "version_of j (update_user i f db) =
    (case find_user j db of None \<Rightarrow> 0 | Some u \<Rightarrow> u_authz_version (if j = i then f u else u))"
  using find_user_Some
  by (auto simp: version_of_def find_user_update_user [of f, OF assms] split: option.splits)

lemmas user_update_defs = mark_verified_def bump_authz_version_def set_active_def
  update_last_login_def

lemma user_updates_keep_id [simp]:
  "u_id (apply_erasure_scrub now u) = u_id u"
  by (simp add: apply_erasure_scrub_def)

end
