(* ===== verification/Batch_Drain.thy ===== *)
theory Batch_Drain
  imports Prelude
begin

text \<open>
  Batched deletion loops. Several maintenance routines delete at most a fixed
  number of rows per transaction and repeat until a batch deletes nothing. The
  loop is a partial function (\<open>None\<close> would be a loop that never ends); the locale
  gives the contract of a batch, under which the loop ends, reports the number
  of eligible rows and leaves none behind.
\<close>

partial_function (option) drain_loop ::
  "('s \<Rightarrow> nat \<times> 's) \<Rightarrow> nat \<Rightarrow> 's \<Rightarrow> (nat \<times> 's) option" where
  "drain_loop step acc s =
     (let r = step s in
      if fst r = 0 then Some (acc, snd r) else drain_loop step (acc + fst r) (snd r))"

lemma drain_loop_invariant:
  assumes "drain_loop step acc s = Some r" and "P s" and step: "\<And>s. P s \<Longrightarrow> P (snd (step s))"
  shows "P (snd r)"
proof -
  have "(\<forall>s. P s \<longrightarrow> P (snd (f s))) \<longrightarrow> P s \<longrightarrow> P (snd r)" if "drain_loop f acc s = Some r" for f acc s r
    using that
  proof (rule drain_loop.raw_induct [rotated], goal_cases)
    case (1 loop f acc s r)
    then show ?case
      by (auto simp: Let_def split: if_splits)
  qed
  then show ?thesis
    using assms by blast
qed

locale batch_drain =
  fixes eligible :: "'s \<Rightarrow> nat" and rest :: "'s \<Rightarrow> 'c" and step :: "'s \<Rightarrow> nat \<times> 's" and batch :: nat
  assumes batch_pos: "0 < batch"
    and step_count: "fst (step s) = min batch (eligible s)"
    and step_eligible: "eligible (snd (step s)) = eligible s - min batch (eligible s)"
    and step_rest: "rest (snd (step s)) = rest s"
begin

lemma drain_loop_ends:
  "\<exists>s'. drain_loop step acc s = Some (acc + eligible s, s') \<and> eligible s' = 0 \<and> rest s' = rest s"
proof (induction "eligible s" arbitrary: s acc rule: less_induct)
  case less
  show ?case
  proof (cases "eligible s = 0")
    case True
    then show ?thesis
      using step_count [of s] step_eligible [of s] step_rest [of s]
      by (subst drain_loop.simps) (simp add: Let_def)
  next
    case False
    let ?s1 = "snd (step s)"
    have deleted: "fst (step s) = min batch (eligible s)" "0 < fst (step s)"
      using False batch_pos by (simp_all add: step_count)
    have smaller: "eligible ?s1 < eligible s"
      using False batch_pos by (simp add: step_eligible)
    obtain s' where s': "drain_loop step (acc + fst (step s)) ?s1 = Some (acc + fst (step s) + eligible ?s1, s')"
        "eligible s' = 0" "rest s' = rest ?s1"
      using less [OF smaller] by blast
    have "acc + fst (step s) + eligible ?s1 = acc + eligible s"
      by (simp add: deleted(1) step_eligible)
    then have "drain_loop step acc s = Some (acc + eligible s, s')"
      using s'(1) deleted(2) by (subst drain_loop.simps) (simp add: Let_def)
    then show ?thesis
      using s' step_rest by auto
  qed
qed

end

lemma count_where_0: "count_where P rows = 0 \<Longrightarrow> filter (\<lambda>r. \<not> P r) rows = rows"
  by (auto simp: count_where_def filter_empty_conv filter_id_conv)

text \<open>Deleting the first \<open>k\<close> rows that satisfy a predicate, in scan order.\<close>

fun delete_first :: "nat \<Rightarrow> ('r \<Rightarrow> bool) \<Rightarrow> 'r list \<Rightarrow> 'r list" where
  "delete_first k P [] = []"
| "delete_first 0 P rows = rows"
| "delete_first (Suc k) P (r # rows) =
     (if P r then delete_first k P rows else r # delete_first (Suc k) P rows)"

lemma delete_first_0 [simp]: "delete_first 0 P rows = rows"
  by (cases rows) simp_all

lemma count_delete_first:
  "count_where P (delete_first k P rows) = count_where P rows - min k (count_where P rows)"
  by (induction k P rows rule: delete_first.induct) (auto simp: count_where_def)

lemma delete_first_rest:
  "filter (\<lambda>r. \<not> P r) (delete_first k P rows) = filter (\<lambda>r. \<not> P r) rows"
  by (induction k P rows rule: delete_first.induct) auto

lemma delete_first_subset: "set (delete_first k P rows) \<subseteq> set rows"
  by (induction k P rows rule: delete_first.induct) auto

lemma distinct_delete_first: "distinct (map f rows) \<Longrightarrow> distinct (map f (delete_first k P rows))"
  using delete_first_subset
  by (induction k P rows rule: delete_first.induct) (auto, fastforce)

end
