(* ===== verification/Auth_Repository.thy ===== *)
theory Auth_Repository
  imports Users Batch_Drain
begin

text \<open>
  The authentication repository
  (\<open>src/features/authentication/adapters/outbound/persistence/sqlmodel/repository.py\<close>):
  refresh tokens, single-use internal tokens, credentials and the audit log. An
  operation that inserts takes the drawn id, one that stamps takes the clock
  reading. The unique constraint on token hashes is enforced by the inserts
  (\<open>IntegrityError\<close>); freshly drawn UUIDs do not collide.
\<close>

subsection \<open>Refresh tokens\<close>

definition get_refresh_token_for_update :: "string \<Rightarrow> database \<Rightarrow> refresh_token_row option" where
  "get_refresh_token_for_update h db = find (\<lambda>t. rt_token_hash t = h) (refresh_tokens db)"

definition get_refresh_token_by_hash :: "string \<Rightarrow> database \<Rightarrow> refresh_token_row option" where
  "get_refresh_token_by_hash h db = find (\<lambda>t. rt_token_hash t = h) (refresh_tokens db)"

definition new_refresh_token ::
  "uuid \<Rightarrow> datetime \<Rightarrow> uuid \<Rightarrow> string \<Rightarrow> uuid \<Rightarrow> datetime \<Rightarrow> string option \<Rightarrow> string option \<Rightarrow>
   refresh_token_row" where
  "new_refresh_token new_id now user_id token_hash family_id expires_at created_ip user_agent =
     \<lparr>rt_id = new_id, rt_user_id = user_id, rt_token_hash = token_hash, rt_family_id = family_id,
      rt_expires_at = expires_at, rt_revoked_at = None, rt_replaced_by_token_id = None,
      rt_created_at = now, rt_created_ip = created_ip, rt_user_agent = user_agent\<rparr>"

definition create_refresh_token_session ::
  "uuid \<Rightarrow> datetime \<Rightarrow> uuid \<Rightarrow> string \<Rightarrow> uuid \<Rightarrow> datetime \<Rightarrow> string option \<Rightarrow> string option \<Rightarrow>
   (database, refresh_token_row) action" where
  "create_refresh_token_session new_id now user_id token_hash family_id expires_at created_ip
     user_agent db =
     (if (case find (\<lambda>t. rt_family_id t = family_id) (refresh_tokens db) of
            None \<Rightarrow> False
          | Some t \<Rightarrow> rt_user_id t \<noteq> user_id)
      then (Raises ValueError, db)
      else if list_ex (\<lambda>t. rt_token_hash t = token_hash) (refresh_tokens db)
      then (Raises IntegrityError, db)
      else let row = new_refresh_token new_id now user_id token_hash family_id expires_at
             created_ip user_agent
           in (Returns row, db\<lparr>refresh_tokens := refresh_tokens db @ [row]\<rparr>))"

definition create_refresh_token ::
  "uuid \<Rightarrow> datetime \<Rightarrow> uuid \<Rightarrow> string \<Rightarrow> uuid \<Rightarrow> datetime \<Rightarrow> string option \<Rightarrow> string option \<Rightarrow>
   (database, refresh_token_row) action" where
  "create_refresh_token new_id now user_id token_hash family_id expires_at created_ip user_agent =
     transaction (create_refresh_token_session new_id now user_id token_hash family_id expires_at
       created_ip user_agent)"

definition stamp_revoked :: "datetime \<Rightarrow> refresh_token_row \<Rightarrow> refresh_token_row" where
  "stamp_revoked now t =
     t\<lparr>rt_revoked_at := Some (case rt_revoked_at t of None \<Rightarrow> now | Some r \<Rightarrow> r)\<rparr>"

definition revoke_refresh_token ::
  "datetime \<Rightarrow> uuid \<Rightarrow> uuid option \<Rightarrow> database \<Rightarrow> database" where
  "revoke_refresh_token now token_id replaced_by db =
     db\<lparr>refresh_tokens := update_where (\<lambda>t. rt_id t = token_id)
       (\<lambda>t. (stamp_revoked now t)\<lparr>rt_replaced_by_token_id := replaced_by\<rparr>) (refresh_tokens db)\<rparr>"

definition revoke_refresh_family :: "datetime \<Rightarrow> uuid \<Rightarrow> database \<Rightarrow> database" where
  "revoke_refresh_family now family_id db =
     db\<lparr>refresh_tokens := update_where (\<lambda>t. rt_family_id t = family_id) (stamp_revoked now)
       (refresh_tokens db)\<rparr>"

definition revoke_user_refresh_tokens :: "datetime \<Rightarrow> uuid \<Rightarrow> database \<Rightarrow> database" where
  "revoke_user_refresh_tokens now user_id db =
     db\<lparr>refresh_tokens :=
       update_where (\<lambda>t. rt_user_id t = user_id \<and> rt_revoked_at t = None)
         (\<lambda>t. t\<lparr>rt_revoked_at := Some now\<rparr>) (refresh_tokens db)\<rparr>"


subsection \<open>Internal tokens\<close>

definition get_internal_token_for_update ::
  "string \<Rightarrow> string \<Rightarrow> database \<Rightarrow> internal_token_row option" where
  "get_internal_token_for_update token_hash purpose db =
     find (\<lambda>t. it_token_hash t = token_hash \<and> it_purpose t = purpose) (internal_tokens db)"

definition get_internal_token :: "string \<Rightarrow> string \<Rightarrow> database \<Rightarrow> internal_token_row option" where
  "get_internal_token token_hash purpose db =
     find (\<lambda>t. it_token_hash t = token_hash \<and> it_purpose t = purpose) (internal_tokens db)"

definition create_internal_token ::
  "uuid \<Rightarrow> datetime \<Rightarrow> uuid option \<Rightarrow> string \<Rightarrow> string \<Rightarrow> datetime \<Rightarrow> string option \<Rightarrow>
   (database, internal_token_row) action" where
  "create_internal_token new_id now user_id purpose token_hash expires_at created_ip db =
     (if list_ex (\<lambda>t. it_token_hash t = token_hash) (internal_tokens db)
      then (Raises IntegrityError, db)
      else let row = \<lparr>it_id = new_id, it_user_id = user_id, it_purpose = purpose,
             it_token_hash = token_hash, it_expires_at = expires_at, it_used_at = None,
             it_created_at = now, it_created_ip = created_ip\<rparr>
           in (Returns row, db\<lparr>internal_tokens := internal_tokens db @ [row]\<rparr>))"

definition mark_internal_token_used :: "datetime \<Rightarrow> uuid \<Rightarrow> database \<Rightarrow> database" where
  "mark_internal_token_used now token_id db =
     db\<lparr>internal_tokens := update_where (\<lambda>t. it_id t = token_id)
       (\<lambda>t. t\<lparr>it_used_at := Some (case it_used_at t of None \<Rightarrow> now | Some u \<Rightarrow> u)\<rparr>)
       (internal_tokens db)\<rparr>"

definition invalidate_unused_tokens_for ::
  "datetime \<Rightarrow> uuid \<Rightarrow> string \<Rightarrow> database \<Rightarrow> nat \<times> database" where
  "invalidate_unused_tokens_for now user_id purpose db =
     (let P = (\<lambda>t. it_user_id t = Some user_id \<and> it_purpose t = purpose \<and> it_used_at t = None)
      in (count_where P (internal_tokens db),
          db\<lparr>internal_tokens := update_where P (\<lambda>t. t\<lparr>it_used_at := Some now\<rparr>)
            (internal_tokens db)\<rparr>))"


subsection \<open>Credentials and audit events\<close>

definition get_credential_for_user :: "uuid \<Rightarrow> string \<Rightarrow> database \<Rightarrow> credential_row option" where
  "get_credential_for_user user_id algorithm db =
     find (\<lambda>c. cr_user_id c = user_id \<and> cr_algorithm c = algorithm) (credentials db)"

definition upsert_credential ::
  "uuid \<Rightarrow> datetime \<Rightarrow> uuid \<Rightarrow> string \<Rightarrow> string \<Rightarrow> database \<Rightarrow> database" where
  "upsert_credential new_id now user_id algorithm hash db =
     (case get_credential_for_user user_id algorithm db of
        None \<Rightarrow> db\<lparr>credentials := credentials db @
          [\<lparr>cr_id = new_id, cr_user_id = user_id, cr_algorithm = algorithm, cr_hash = hash,
            cr_last_changed_at = now, cr_created_at = now\<rparr>]\<rparr>
      | Some _ \<Rightarrow> db\<lparr>credentials :=
          update_where (\<lambda>c. cr_user_id c = user_id \<and> cr_algorithm c = algorithm)
            (\<lambda>c. c\<lparr>cr_hash := hash, cr_last_changed_at := now\<rparr>) (credentials db)\<rparr>)"

definition record_audit_event ::
  "uuid \<Rightarrow> datetime \<Rightarrow> string \<Rightarrow> uuid option \<Rightarrow> string option \<Rightarrow> string option \<Rightarrow>
   json_object \<Rightarrow> database \<Rightarrow> database" where
  "record_audit_event new_id now event_type user_id ip_address user_agent metadata db =
     db\<lparr>audit_events := audit_events db @
       [\<lparr>ae_id = new_id, ae_user_id = user_id, ae_event_type = event_type,
         ae_ip_address = ip_address, ae_user_agent = user_agent, ae_metadata = metadata,
         ae_created_at = now\<rparr>]\<rparr>"

definition audit_keyset :: "audit_event_row \<Rightarrow> datetime \<times> uuid" where
  "audit_keyset e = (ae_created_at e, ae_id e)"

definition list_audit_events ::
  "uuid option \<Rightarrow> string option \<Rightarrow> datetime option \<Rightarrow> (datetime \<times> uuid) option \<Rightarrow> nat \<Rightarrow>
   database \<Rightarrow> audit_event_row list" where
  "list_audit_events user_id event_type since before limit db =
     take limit (order_by (\<lambda>a b. keyset_less (audit_keyset b) (audit_keyset a))
       (filter (\<lambda>e.
            (case user_id of None \<Rightarrow> True | Some u \<Rightarrow> ae_user_id e = Some u) \<and>
            (case event_type of None \<Rightarrow> True | Some ty \<Rightarrow> ae_event_type e = ty) \<and>
            (case since of None \<Rightarrow> True | Some t \<Rightarrow> t \<le> ae_created_at e) \<and>
            (case before of None \<Rightarrow> True | Some c \<Rightarrow> keyset_less (audit_keyset e) c))
          (audit_events db)))"


subsection \<open>Retention\<close>

definition refresh_expired :: "datetime \<Rightarrow> refresh_token_row \<Rightarrow> bool" where
  "refresh_expired cutoff t \<longleftrightarrow>
     rt_expires_at t < cutoff \<or>
     (case rt_revoked_at t of None \<Rightarrow> False | Some r \<Rightarrow> r < cutoff)"

definition internal_expired :: "datetime \<Rightarrow> internal_token_row \<Rightarrow> bool" where
  "internal_expired cutoff t \<longleftrightarrow>
     (case it_used_at t of None \<Rightarrow> False | Some u \<Rightarrow> u < cutoff) \<or> it_expires_at t < cutoff"

text \<open>The foreign key on \<open>replaced_by_token_id\<close> is \<open>ON DELETE SET NULL\<close>.\<close>

definition null_replaced_by :: "uuid set \<Rightarrow> refresh_token_row \<Rightarrow> refresh_token_row" where
  "null_replaced_by gone t =
     (case rt_replaced_by_token_id t of
        None \<Rightarrow> t
      | Some i \<Rightarrow> if i \<in> gone then t\<lparr>rt_replaced_by_token_id := None\<rparr> else t)"

definition delete_refresh_batch :: "datetime \<Rightarrow> database \<Rightarrow> nat \<times> database" where
  "delete_refresh_batch cutoff db =
     (let P = refresh_expired cutoff;
          victims = take 10000 (filter P (refresh_tokens db))
      in (length victims,
          db\<lparr>refresh_tokens := map (null_replaced_by (rt_id ` set victims))
            (delete_first 10000 P (refresh_tokens db))\<rparr>))"

definition delete_internal_batch :: "datetime \<Rightarrow> database \<Rightarrow> nat \<times> database" where
  "delete_internal_batch cutoff db =
     (let P = internal_expired cutoff
      in (length (take 10000 (filter P (internal_tokens db))),
          db\<lparr>internal_tokens := delete_first 10000 P (internal_tokens db)\<rparr>))"

definition delete_expired_refresh_tokens :: "datetime \<Rightarrow> database \<Rightarrow> (nat \<times> database) option" where
  "delete_expired_refresh_tokens cutoff db = drain_loop (delete_refresh_batch cutoff) 0 db"

definition delete_expired_internal_tokens :: "datetime \<Rightarrow> database \<Rightarrow> (nat \<times> database) option" where
  "delete_expired_internal_tokens cutoff db = drain_loop (delete_internal_batch cutoff) 0 db"

definition forget_replaced_by :: "refresh_token_row \<Rightarrow> refresh_token_row" where
  "forget_replaced_by t = t\<lparr>rt_replaced_by_token_id := None\<rparr>"

lemma null_replaced_by_simps [simp]:
  "rt_id (null_replaced_by g t) = rt_id t" "rt_user_id (null_replaced_by g t) = rt_user_id t"
  "rt_token_hash (null_replaced_by g t) = rt_token_hash t"
  "rt_family_id (null_replaced_by g t) = rt_family_id t"
  "rt_expires_at (null_replaced_by g t) = rt_expires_at t"
  "rt_revoked_at (null_replaced_by g t) = rt_revoked_at t"
  "forget_replaced_by (null_replaced_by g t) = forget_replaced_by t"
  "refresh_expired cutoff (null_replaced_by g t) = refresh_expired cutoff t"
  by (simp_all add: null_replaced_by_def forget_replaced_by_def refresh_expired_def split: option.splits)

lemma count_where_map: "(\<And>r. P (f r) = P r) \<Longrightarrow> count_where P (map f rows) = count_where P rows"
  by (induction rows) (auto simp: count_where_def)

lemma filter_map_same: "(\<And>r. P (f r) = P r) \<Longrightarrow> filter P (map f rows) = map f (filter P rows)"
  by (induction rows) auto

interpretation refresh_purge: batch_drain
  "\<lambda>db. count_where (refresh_expired cutoff) (refresh_tokens db)"
  "\<lambda>db. (map forget_replaced_by (filter (\<lambda>t. \<not> refresh_expired cutoff t) (refresh_tokens db)),
        db\<lparr>refresh_tokens := []\<rparr>)"
  "delete_refresh_batch cutoff" 10000 for cutoff
proof (unfold_locales, goal_cases)
  case (2 s)
  then show ?case
    by (simp add: delete_refresh_batch_def Let_def count_where_def)
next
  case (3 s)
  then show ?case
    by (simp add: delete_refresh_batch_def Let_def count_where_map count_delete_first)
next
  case (4 s)
  then show ?case
    by (simp add: delete_refresh_batch_def Let_def filter_map_same delete_first_rest comp_def)
qed simp

interpretation internal_purge: batch_drain
  "\<lambda>db. count_where (internal_expired cutoff) (internal_tokens db)"
  "\<lambda>db. (filter (\<lambda>t. \<not> internal_expired cutoff t) (internal_tokens db), db\<lparr>internal_tokens := []\<rparr>)"
  "delete_internal_batch cutoff" 10000 for cutoff
proof (unfold_locales, goal_cases)
  case (2 s)
  then show ?case
    by (simp add: delete_internal_batch_def Let_def count_where_def)
next
  case (3 s)
  then show ?case
    by (simp add: delete_internal_batch_def Let_def count_delete_first)
next
  case (4 s)
  then show ?case
    by (simp add: delete_internal_batch_def Let_def delete_first_rest)
qed simp

end
