(* ===== verification/Crypto.thy ===== *)
theory Crypto
  imports Py_Uuid
begin

unbundle bit_operations_syntax

text \<open>
  Token fingerprints (\<open>src/features/authentication/application/crypto.py\<close>).
  \<open>hash_token\<close> is \<open>hashlib.sha256(token.encode("utf-8")).hexdigest()\<close>; the digest
  is the one of FIPS 180-4, written out on 32-bit words. Argon2 (package \<open>argon2-cffi\<close>) is a parameter: a hashing
  function and a verifying function that may also raise.
\<close>

subsection \<open>SHA-256\<close>

text \<open>The constants of the standard, in decimal.\<close>

definition sha_K :: "32 word list" where
  "sha_K =
    [1116352408, 1899447441, 3049323471, 3921009573, 961987163, 1508970993, 2453635748, 2870763221,
     3624381080, 310598401, 607225278, 1426881987, 1925078388, 2162078206, 2614888103, 3248222580,
     3835390401, 4022224774, 264347078, 604807628, 770255983, 1249150122, 1555081692, 1996064986,
     2554220882, 2821834349, 2952996808, 3210313671, 3336571891, 3584528711, 113926993, 338241895,
     666307205, 773529912, 1294757372, 1396182291, 1695183700, 1986661051, 2177026350, 2456956037,
     2730485921, 2820302411, 3259730800, 3345764771, 3516065817, 3600352804, 4094571909, 275423344,
     430227734, 506948616, 659060556, 883997877, 958139571, 1322822218, 1537002063, 1747873779,
     1955562222, 2024104815, 2227730452, 2361852424, 2428436474, 2756734187, 3204031479, 3329325298]"

definition sha_H0 :: "32 word list" where
  "sha_H0 =
    [1779033703, 3144134277, 1013904242, 2773480762, 1359893119, 2600822924, 528734635, 1541459225]"

definition rotr32 :: "nat \<Rightarrow> 32 word \<Rightarrow> 32 word" where
  "rotr32 n w = drop_bit n w OR push_bit (32 - n) w"

definition sha_ch :: "32 word \<Rightarrow> 32 word \<Rightarrow> 32 word \<Rightarrow> 32 word" where
  "sha_ch x y z = (x AND y) XOR (NOT x AND z)"

definition sha_maj :: "32 word \<Rightarrow> 32 word \<Rightarrow> 32 word \<Rightarrow> 32 word" where
  "sha_maj x y z = (x AND y) XOR (x AND z) XOR (y AND z)"

definition sha_S0 :: "32 word \<Rightarrow> 32 word" where
  "sha_S0 x = rotr32 2 x XOR rotr32 13 x XOR rotr32 22 x"

definition sha_S1 :: "32 word \<Rightarrow> 32 word" where
  "sha_S1 x = rotr32 6 x XOR rotr32 11 x XOR rotr32 25 x"

definition sha_s0 :: "32 word \<Rightarrow> 32 word" where
  "sha_s0 x = rotr32 7 x XOR rotr32 18 x XOR drop_bit 3 x"

definition sha_s1 :: "32 word \<Rightarrow> 32 word" where
  "sha_s1 x = rotr32 17 x XOR rotr32 19 x XOR drop_bit 10 x"

text \<open>
  The message schedule keeps the last sixteen words, newest first, and emits
  the words in order.
\<close>

fun sha_schedule :: "nat \<Rightarrow> 32 word list \<Rightarrow> 32 word list" where
  "sha_schedule 0 recent = []"
| "sha_schedule (Suc n) recent =
     (let w = sha_s1 (recent ! 1) + recent ! 6 + sha_s0 (recent ! 14) + recent ! 15
      in w # sha_schedule n (w # take 15 recent))"

fun sha_round :: "32 word list \<Rightarrow> 32 word \<times> 32 word \<Rightarrow> 32 word list" where
  "sha_round [a, b, c, d, e, f, g, h] (k, w) =
     (let t1 = h + sha_S1 e + sha_ch e f g + k + w;
          t2 = sha_S0 a + sha_maj a b c
      in [t1 + t2, a, b, c, d + t1, e, f, g])"
| "sha_round s kw = s"

definition sha_compress :: "32 word list \<Rightarrow> 32 word list \<Rightarrow> 32 word list" where
  "sha_compress h block =
     map2 (+) h (foldl sha_round h (zip sha_K (block @ sha_schedule 48 (rev block))))"

fun sha_blocks :: "32 word list \<Rightarrow> 32 word list list \<Rightarrow> 32 word list" where
  "sha_blocks h [] = h"
| "sha_blocks h (b # bs) = sha_blocks (sha_compress h b) bs"

fun be_word :: "nat list \<Rightarrow> 32 word" where
  "be_word bs = word_of_nat (foldl (\<lambda>acc b. 256 * acc + b) 0 bs)"

function chunks :: "nat \<Rightarrow> 'a list \<Rightarrow> 'a list list" where
  "chunks n [] = []"
| "chunks n (x # xs) = (if n = 0 then [] else take n (x # xs) # chunks n (drop n (x # xs)))"
  by pat_completeness auto
termination
  by (relation "measure (\<lambda>(n, xs). length xs)") auto

declare chunks.simps [simp del]

definition sha_pad :: "nat list \<Rightarrow> nat list" where
  "sha_pad msg =
     msg @ [128] @ replicate ((119 - length msg mod 64) mod 64) 0 @
     map (\<lambda>i. 8 * length msg div 256 ^ (7 - i) mod 256) [0..<8]"

definition sha256 :: "nat list \<Rightarrow> 32 word list" where
  "sha256 msg = sha_blocks sha_H0 (map (\<lambda>b. map be_word (chunks 4 b)) (chunks 64 (sha_pad msg)))"

definition hexdigest :: "32 word list \<Rightarrow> string" where
  "hexdigest ws = concat (map (\<lambda>w. hex_fixed 8 (unat w)) ws)"


subsection \<open>Tokens\<close>

text \<open>UTF-8 of the code points below 256 that a model string consists of.\<close>

definition utf8_char :: "char \<Rightarrow> nat list" where
  "utf8_char c = (let n = of_char c in if n < 128 then [n] else [192 + n div 64, 128 + n mod 64])"

definition utf8_encode :: "string \<Rightarrow> nat list" where
  "utf8_encode s = concat (map utf8_char s)"

definition hash_token :: "string \<Rightarrow> string" where
  "hash_token token = hexdigest (sha256 (utf8_encode token))"

lemma length_sha_round: "length s = 8 \<Longrightarrow> length (sha_round s kw) = 8"
  by (cases "(s, kw)" rule: sha_round.cases) (auto simp: Let_def)

lemma length_foldl_sha_round: "length s = 8 \<Longrightarrow> length (foldl sha_round s kws) = 8"
  by (induction kws arbitrary: s) (simp_all add: length_sha_round)

lemma length_sha_blocks: "length h = 8 \<Longrightarrow> length (sha_blocks h bs) = 8"
  by (induction h bs rule: sha_blocks.induct) (simp_all add: sha_compress_def length_foldl_sha_round)

lemma length_sha256 [simp]: "length (sha256 msg) = 8"
  by (simp add: sha256_def length_sha_blocks sha_H0_def)

lemma length_hexdigest: "length (hexdigest ws) = 8 * length ws"
  by (induction ws) (simp_all add: hexdigest_def)

lemma set_hexdigest: "set (hexdigest ws) \<subseteq> set ''0123456789abcdef''"
proof
  fix c assume "c \<in> set (hexdigest ws)"
  then obtain w :: "32 word" where "c \<in> set (hex_fixed 8 (unat w))"
    by (auto simp: hexdigest_def)
  then show "c \<in> set ''0123456789abcdef''"
    using set_hex_fixed by blast
qed

end
