(* ===== verification/Access_Tokens.thy ===== *)
theory Access_Tokens
  imports Crypto Settings Result
begin

text \<open>
  Password checking (\<open>crypto.py\<close>), access tokens (\<open>jwt_tokens.py\<close>) and the value
  types of \<open>src/features/authentication/application\<close>.

  The packages \<open>argon2-cffi\<close> and \<open>PyJWT\<close> are parameters. A hasher has a \<open>hash\<close>
  function and a \<open>verify\<close> function whose result is true or one of the exceptions
  the package documents. A JWT library has \<open>encode\<close>, and \<open>decode\<close> which reads the
  clock and gives the verified payload or fails with a \<open>PyJWTError\<close>; the type of
  encoded tokens is left open. \<open>jwt_laws\<close> states the documented behaviour the
  program relies on: decoding with the same key gives the payload back, with
  timestamps in whole seconds, exactly while the registered time claims allow it
  and issuer and audience match.
\<close>

datatype auth_error =
    DuplicateEmailError
  | InvalidCredentialsError
  | InvalidTokenError
  | StaleTokenError
  | InactiveUserError
  | EmailNotVerifiedError
  | PermissionDeniedError
  | TokenAlreadyUsedError
  | NotFoundError
  | ConflictError
  | RateLimitExceededError int
  | AuthConfigurationError

record principal =
  p_user_id :: uuid
  p_email :: string
  p_is_active :: bool
  p_is_verified :: bool
  p_authz_version :: int

record access_token_payload =
  tp_subject :: uuid
  tp_authz_version :: int
  tp_expires_at :: datetime
  tp_token_id :: string

record 'tok issued_tokens =
  access_token :: 'tok
  refresh_token :: string
  token_type :: string
  expires_in :: int

record internal_token_result =
  ir_token :: "string option"
  ir_expires_at :: "datetime option"


subsection \<open>Passwords\<close>

datatype verify_result = Verified | VerifyMismatchError | VerificationError | InvalidHash

record hasher =
  ph_hash :: "string \<Rightarrow> string"
  ph_verify :: "string \<Rightarrow> string \<Rightarrow> verify_result"

definition FIXED_DUMMY_ARGON2_HASH :: string where
  "FIXED_DUMMY_ARGON2_HASH =
     ''$argon2id$v=19$m=65536,t=3,p=4$'' @ ''7+JuBWe0Hx8Q5eFgxf9fVQ$'' @
     ''ZCoHJmWona5G0bfuPaZxJ/q2Jht4yAxCSvoP0IDkQ4U''"

definition hash_password :: "hasher \<Rightarrow> string \<Rightarrow> string" where
  "hash_password ph password = ph_hash ph password"

definition verify_password :: "hasher \<Rightarrow> string \<Rightarrow> string \<Rightarrow> bool outcome" where
  "verify_password ph password_hash password =
     (case ph_verify ph password_hash password of
        Verified \<Rightarrow> Returns True
      | VerifyMismatchError \<Rightarrow> Returns False
      | VerificationError \<Rightarrow> Returns False
      | InvalidHash \<Rightarrow> Raises InvalidHashError)"

definition hasher_laws :: "hasher \<Rightarrow> bool" where
  "hasher_laws ph \<longleftrightarrow>
     (\<forall>p q. ph_verify ph (ph_hash ph p) q = (if p = q then Verified else VerifyMismatchError)) \<and>
     (\<forall>p. ph_verify ph FIXED_DUMMY_ARGON2_HASH p = VerifyMismatchError)"


subsection \<open>Decimal integers\<close>

fun int10_digits :: "bool \<Rightarrow> nat \<Rightarrow> string \<Rightarrow> nat option" where
  "int10_digits us acc [] = None"
| "int10_digits us acc (c # cs) =
     (if c = CHR ''_'' then (if us then int10_digits False acc cs else None)
      else let n = (of_char c :: nat) in
           if 48 \<le> n \<and> n \<le> 57
           then (if cs = [] then Some (10 * acc + (n - 48))
                 else int10_digits True (10 * acc + (n - 48)) cs)
           else None)"

definition int10 :: "string \<Rightarrow> int option" where
  "int10 s =
     (let t = strip_by is_space s in
      if take 1 t = ''-'' then map_option (\<lambda>n. - int n) (int10_digits False 0 (drop 1 t))
      else if take 1 t = ''+'' then map_option int (int10_digits False 0 (drop 1 t))
      else map_option int (int10_digits False 0 t))"

fun int_of_json :: "json \<Rightarrow> int option" where
  "int_of_json (JInt n) = Some n"
| "int_of_json (JBool b) = Some (if b then 1 else 0)"
| "int_of_json (JStr s) = int10 s"
| "int_of_json _ = None"


subsection \<open>Access tokens\<close>

record jwt_claims =
  cl_sub :: string
  cl_exp :: datetime
  cl_iat :: datetime
  cl_nbf :: datetime
  cl_jti :: string
  cl_authz_version :: int
  cl_iss :: "string option"
  cl_aud :: "string option"

record jwt_payload =
  pl_sub :: string
  pl_exp :: int
  pl_jti :: string
  pl_authz_version :: json

record 'tok jwt_lib =
  jwt_encode :: "jwt_claims \<Rightarrow> string \<Rightarrow> string \<Rightarrow> 'tok"
  jwt_decode :: "datetime \<Rightarrow> 'tok \<Rightarrow> string \<Rightarrow> string \<Rightarrow> int \<Rightarrow> string option \<Rightarrow> string option \<Rightarrow>
    jwt_payload option"

definition numeric_date :: "datetime \<Rightarrow> int" where
  "numeric_date t = t div 1000000"

definition jwt_accepts ::
  "datetime \<Rightarrow> jwt_claims \<Rightarrow> int \<Rightarrow> string option \<Rightarrow> string option \<Rightarrow> bool" where
  "jwt_accepts now cl leeway iss aud \<longleftrightarrow>
     seconds (numeric_date (cl_iat cl)) \<le> now + seconds leeway \<and>
     seconds (numeric_date (cl_nbf cl)) \<le> now + seconds leeway \<and>
     now - seconds leeway < seconds (numeric_date (cl_exp cl)) \<and>
     (iss = None \<or> cl_iss cl = iss) \<and> (aud = None \<or> cl_aud cl = aud)"

definition jwt_laws :: "'tok jwt_lib \<Rightarrow> bool" where
  "jwt_laws lib \<longleftrightarrow>
     (\<forall>cl secret now leeway iss aud.
        jwt_decode lib now (jwt_encode lib cl secret ''HS256'') secret ''HS256'' leeway iss aud =
        (if jwt_accepts now cl leeway iss aud
         then Some \<lparr>pl_sub = cl_sub cl, pl_exp = numeric_date (cl_exp cl), pl_jti = cl_jti cl,
                    pl_authz_version = JInt (cl_authz_version cl)\<rparr>
         else None))"

definition when_truthy :: "string option \<Rightarrow> string option" where
  "when_truthy s = (if truthy s then s else None)"

definition jwt_secret :: "app_settings \<Rightarrow> string outcome" where
  "jwt_secret st =
     (case auth_jwt_secret_key st of
        None \<Rightarrow> Raises ConfigurationError
      | Some s \<Rightarrow> if s = [] then Raises ConfigurationError else Returns s)"

definition issue_access_token ::
  "'tok jwt_lib \<Rightarrow> app_settings \<Rightarrow> datetime \<Rightarrow> uuid \<Rightarrow> uuid \<Rightarrow> int \<Rightarrow> ('tok \<times> int) outcome" where
  "issue_access_token lib st now new_id subject authz_version =
     bind_outcome (jwt_secret st) (\<lambda>secret.
       Returns
         (jwt_encode lib
            \<lparr>cl_sub = str_uuid subject,
             cl_exp = now + minutes (auth_access_token_expire_minutes st),
             cl_iat = now, cl_nbf = now, cl_jti = str_uuid new_id,
             cl_authz_version = authz_version,
             cl_iss = when_truthy (auth_jwt_issuer st),
             cl_aud = when_truthy (auth_jwt_audience st)\<rparr>
            secret (auth_jwt_algorithm st),
          60 * auth_access_token_expire_minutes st))"

definition decode_access_token ::
  "'tok jwt_lib \<Rightarrow> app_settings \<Rightarrow> datetime \<Rightarrow> 'tok \<Rightarrow>
   (access_token_payload, auth_error) result outcome" where
  "decode_access_token lib st now token =
     bind_outcome (jwt_secret st) (\<lambda>secret.
       Returns
         (case jwt_decode lib now token secret (auth_jwt_algorithm st) (auth_jwt_leeway_seconds st)
                 (when_truthy (auth_jwt_issuer st)) (when_truthy (auth_jwt_audience st)) of
            None \<Rightarrow> Err InvalidTokenError
          | Some pl \<Rightarrow>
              (case (UUID (pl_sub pl), int_of_json (pl_authz_version pl)) of
                 (Some subject, Some version) \<Rightarrow>
                   Ok \<lparr>tp_subject = subject, tp_authz_version = version,
                       tp_expires_at = seconds (pl_exp pl), tp_token_id = pl_jti pl\<rparr>
               | _ \<Rightarrow> Err InvalidTokenError)))"

lemma numeric_date_bounds:
  "seconds (numeric_date t) \<le> t" "t < seconds (numeric_date t) + 1000000"
  by (auto simp: numeric_date_def)

lemma decode_issued:
  assumes "jwt_laws lib" and "auth_jwt_algorithm st = ''HS256''"
    and "issue_access_token lib st now0 i subject version = Returns (token, ttl)"
  shows "decode_access_token lib st now token =
    Returns (if seconds (numeric_date now0) \<le> now + seconds (auth_jwt_leeway_seconds st) \<and>
                now - seconds (auth_jwt_leeway_seconds st) <
                  seconds (numeric_date (now0 + minutes (auth_access_token_expire_minutes st)))
             then Ok \<lparr>tp_subject = subject, tp_authz_version = version,
                      tp_expires_at = seconds (numeric_date (now0 + minutes (auth_access_token_expire_minutes st))),
                      tp_token_id = str_uuid i\<rparr>
             else Err InvalidTokenError)"
proof -
  obtain secret where secret: "jwt_secret st = Returns secret"
    using assms(3) by (auto simp: issue_access_token_def outcome_simps)
  show ?thesis
    using assms(1,2,3)
    by (auto simp: issue_access_token_def decode_access_token_def secret jwt_laws_def jwt_accepts_def)
qed

end
