(* ===== verification/Principal_Cache.thy ===== *)
theory Principal_Cache
  imports Access_Tokens
begin

text \<open>
  The principal cache (\<open>src/features/authentication/application/cache.py\<close>).

  \<open>cache_port\<close> is the protocol \<open>PrincipalCachePort\<close>: operations on some cache
  state, each at a clock reading. \<open>cache_contract\<close> is what the use cases rely on:
  an entry is returned only if it was put there and not evicted since, and after
  \<open>invalidate_user\<close> no entry of that user is returned.

  \<open>InProcessPrincipalCache\<close> keeps a \<open>TTLCache\<close> (package \<open>cachetools\<close>) and a
  secondary index from user ids to token ids. The \<open>TTLCache\<close> is a parameter with
  the documented behaviour \<open>ttl_laws\<close>: it may drop entries at any time (expiry,
  capacity) but never invents or changes one.
\<close>

record 'c cache_port =
  pc_get :: "datetime \<Rightarrow> 'c \<Rightarrow> string \<Rightarrow> principal option"
  pc_set :: "datetime \<Rightarrow> string \<Rightarrow> principal \<Rightarrow> 'c \<Rightarrow> 'c"
  pc_pop :: "datetime \<Rightarrow> string \<Rightarrow> 'c \<Rightarrow> 'c"
  pc_invalidate_user :: "datetime \<Rightarrow> uuid \<Rightarrow> 'c \<Rightarrow> 'c"

definition cache_contract :: "'c cache_port \<Rightarrow> (datetime \<Rightarrow> 'c \<Rightarrow> bool) \<Rightarrow> bool" where
  "cache_contract port ok \<longleftrightarrow>
     (\<forall>now later c. ok now c \<longrightarrow> now \<le> later \<longrightarrow>
        ok later c \<and> pc_get port later c \<subseteq>\<^sub>m pc_get port now c) \<and>
     (\<forall>now c tid p. ok now c \<longrightarrow>
        ok now (pc_set port now tid p c) \<and>
        pc_get port now (pc_set port now tid p c) \<subseteq>\<^sub>m (pc_get port now c)(tid \<mapsto> p)) \<and>
     (\<forall>now c tid. ok now c \<longrightarrow>
        ok now (pc_pop port now tid c) \<and>
        pc_get port now (pc_pop port now tid c) \<subseteq>\<^sub>m (pc_get port now c)(tid := None)) \<and>
     (\<forall>now c u. ok now c \<longrightarrow>
        ok now (pc_invalidate_user port now u c) \<and>
        pc_get port now (pc_invalidate_user port now u c) \<subseteq>\<^sub>m
          (\<lambda>t. case pc_get port now c t of
                 None \<Rightarrow> None
               | Some p \<Rightarrow> if p_user_id p = u then None else Some p))"


subsection \<open>The in-process cache\<close>

record 't ttl_cache =
  ttl_get :: "datetime \<Rightarrow> 't \<Rightarrow> string \<Rightarrow> principal option"
  ttl_set :: "datetime \<Rightarrow> string \<Rightarrow> principal \<Rightarrow> 't \<Rightarrow> 't"
  ttl_pop :: "datetime \<Rightarrow> string \<Rightarrow> 't \<Rightarrow> 't"

definition ttl_laws :: "'t ttl_cache \<Rightarrow> bool" where
  "ttl_laws lib \<longleftrightarrow>
     (\<forall>now later t. now \<le> later \<longrightarrow> ttl_get lib later t \<subseteq>\<^sub>m ttl_get lib now t) \<and>
     (\<forall>now t k p. ttl_get lib now (ttl_set lib now k p t) \<subseteq>\<^sub>m (ttl_get lib now t)(k \<mapsto> p)) \<and>
     (\<forall>now t k. ttl_get lib now (ttl_pop lib now k t) \<subseteq>\<^sub>m (ttl_get lib now t)(k := None))"

record 't inprocess_cache =
  ip_cache :: 't
  ip_user_index :: "(string, string list) dict"

definition inprocess_get ::
  "'t ttl_cache \<Rightarrow> datetime \<Rightarrow> 't inprocess_cache \<Rightarrow> string \<Rightarrow> principal option" where
  "inprocess_get lib now c token_id = ttl_get lib now (ip_cache c) token_id"

definition inprocess_set ::
  "'t ttl_cache \<Rightarrow> datetime \<Rightarrow> string \<Rightarrow> principal \<Rightarrow> 't inprocess_cache \<Rightarrow> 't inprocess_cache" where
  "inprocess_set lib now token_id p c =
     (let uid = str_uuid (p_user_id p);
          ids = (case dict_get (ip_user_index c) uid of None \<Rightarrow> [] | Some ids \<Rightarrow> ids)
      in c\<lparr>ip_cache := ttl_set lib now token_id p (ip_cache c),
           ip_user_index := dict_set (ip_user_index c) uid (List.insert token_id ids)\<rparr>)"

definition inprocess_pop ::
  "'t ttl_cache \<Rightarrow> datetime \<Rightarrow> string \<Rightarrow> 't inprocess_cache \<Rightarrow> 't inprocess_cache" where
  "inprocess_pop lib now token_id c = c\<lparr>ip_cache := ttl_pop lib now token_id (ip_cache c)\<rparr>"

definition inprocess_invalidate_user ::
  "'t ttl_cache \<Rightarrow> datetime \<Rightarrow> uuid \<Rightarrow> 't inprocess_cache \<Rightarrow> 't inprocess_cache" where
  "inprocess_invalidate_user lib now user_id c =
     (let uid = str_uuid user_id;
          token_ids = (case dict_get (ip_user_index c) uid of None \<Rightarrow> [] | Some ids \<Rightarrow> ids)
      in c\<lparr>ip_cache := fold (ttl_pop lib now) token_ids (ip_cache c),
           ip_user_index := dict_pop (ip_user_index c) uid\<rparr>)"

definition inprocess_port :: "'t ttl_cache \<Rightarrow> 't inprocess_cache cache_port" where
  "inprocess_port lib =
     \<lparr>pc_get = inprocess_get lib, pc_set = inprocess_set lib, pc_pop = inprocess_pop lib,
      pc_invalidate_user = inprocess_invalidate_user lib\<rparr>"

text \<open>Every cached principal is listed under its user in the index.\<close>

definition index_ok :: "'t ttl_cache \<Rightarrow> datetime \<Rightarrow> 't inprocess_cache \<Rightarrow> bool" where
  "index_ok lib now c \<longleftrightarrow>
     (\<forall>tid p. ttl_get lib now (ip_cache c) tid = Some p \<longrightarrow>
        (\<exists>ids. dict_get (ip_user_index c) (str_uuid (p_user_id p)) = Some ids \<and> tid \<in> set ids))"

lemma map_leD: "m \<subseteq>\<^sub>m m' \<Longrightarrow> m k = Some v \<Longrightarrow> m' k = Some v"
  by (force simp: map_le_def dom_def)

lemma map_leI: "(\<And>k v. m k = Some v \<Longrightarrow> m' k = Some v) \<Longrightarrow> m \<subseteq>\<^sub>m m'"
  by (force simp: map_le_def)

lemma ttl_lawsD:
  assumes "ttl_laws lib"
  shows "now \<le> later \<Longrightarrow> ttl_get lib later t k = Some p \<Longrightarrow> ttl_get lib now t k = Some p"
    and "ttl_get lib now (ttl_set lib now k q t) k' = Some p \<Longrightarrow>
           ((ttl_get lib now t)(k \<mapsto> q)) k' = Some p"
    and "ttl_get lib now (ttl_pop lib now k t) k' = Some p \<Longrightarrow>
           k' \<noteq> k \<and> ttl_get lib now t k' = Some p"
proof -
  have 1: "ttl_get lib later t \<subseteq>\<^sub>m ttl_get lib now t" if "now \<le> later"
    using assms that unfolding ttl_laws_def by blast
  have 2: "ttl_get lib now (ttl_set lib now k q t) \<subseteq>\<^sub>m (ttl_get lib now t)(k \<mapsto> q)"
    using assms unfolding ttl_laws_def by blast
  have 3: "ttl_get lib now (ttl_pop lib now k t) \<subseteq>\<^sub>m (ttl_get lib now t)(k := None)"
    using assms unfolding ttl_laws_def by blast
  show "now \<le> later \<Longrightarrow> ttl_get lib later t k = Some p \<Longrightarrow> ttl_get lib now t k = Some p"
    using map_leD [OF 1] .
  show "ttl_get lib now (ttl_set lib now k q t) k' = Some p \<Longrightarrow>
      ((ttl_get lib now t)(k \<mapsto> q)) k' = Some p"
    using map_leD [OF 2] .
  show "ttl_get lib now (ttl_pop lib now k t) k' = Some p \<Longrightarrow>
      k' \<noteq> k \<and> ttl_get lib now t k' = Some p"
    using map_leD [OF 3, of k' p] by (auto split: if_splits)
qed

lemma ttl_pop_fold:
  assumes "ttl_laws lib"
  shows "ttl_get lib now (fold (ttl_pop lib now) ks t) k = Some p \<Longrightarrow>
    k \<notin> set ks \<and> ttl_get lib now t k = Some p"
proof (induction ks arbitrary: t)
  case (Cons a ks)
  then have "k \<notin> set ks \<and> ttl_get lib now (ttl_pop lib now a t) k = Some p"
    by simp
  then show ?case
    using ttl_lawsD(3) [OF assms, of now a t k p] by simp
qed simp

lemma index_ok_set:
  assumes "ttl_laws lib" and "index_ok lib now c"
  shows "index_ok lib now (inprocess_set lib now token_id p c)"
  unfolding index_ok_def
proof (intro allI impI)
  fix tid q
  assume "ttl_get lib now (ip_cache (inprocess_set lib now token_id p c)) tid = Some q"
  then have "((ttl_get lib now (ip_cache c))(token_id \<mapsto> p)) tid = Some q"
    using ttl_lawsD(2) [OF assms(1)] by (simp add: inprocess_set_def Let_def)
  note entry = this
  show "\<exists>ids. dict_get (ip_user_index (inprocess_set lib now token_id p c))
      (str_uuid (p_user_id q)) = Some ids \<and> tid \<in> set ids"
  proof (cases "tid = token_id")
    case True
    then have "q = p"
      using entry by simp
    then show ?thesis
      using True by (simp add: inprocess_set_def Let_def)
  next
    case False
    then have "ttl_get lib now (ip_cache c) tid = Some q"
      using entry by simp
    then obtain ids where ids: "dict_get (ip_user_index c) (str_uuid (p_user_id q)) = Some ids" "tid \<in> set ids"
      using assms(2) unfolding index_ok_def by blast
    then show ?thesis
      by (cases "p_user_id q = p_user_id p") (simp_all add: inprocess_set_def Let_def)
  qed
qed

lemma index_ok_pop:
  "ttl_laws lib \<Longrightarrow> index_ok lib now c \<Longrightarrow> index_ok lib now (inprocess_pop lib now token_id c)"
  unfolding index_ok_def inprocess_pop_def by (auto dest: ttl_lawsD(3))

lemma index_ok_later:
  assumes "ttl_laws lib" and "index_ok lib now c" and "now \<le> later"
  shows "index_ok lib later c"
  unfolding index_ok_def
proof (intro allI impI)
  fix tid p
  assume "ttl_get lib later (ip_cache c) tid = Some p"
  then have "ttl_get lib now (ip_cache c) tid = Some p"
    by (rule ttl_lawsD(1) [OF assms(1) assms(3)])
  then show "\<exists>ids. dict_get (ip_user_index c) (str_uuid (p_user_id p)) = Some ids \<and> tid \<in> set ids"
    using assms(2) unfolding index_ok_def by blast
qed

lemma invalidate_evicts:
  assumes "ttl_laws lib" and "index_ok lib now c"
    and "ttl_get lib now (ip_cache (inprocess_invalidate_user lib now u c)) tid = Some p"
  shows "p_user_id p \<noteq> u \<and> ttl_get lib now (ip_cache c) tid = Some p"
proof -
  let ?ids = "case dict_get (ip_user_index c) (str_uuid u) of None \<Rightarrow> [] | Some ids \<Rightarrow> ids"
  have kept: "tid \<notin> set ?ids \<and> ttl_get lib now (ip_cache c) tid = Some p"
    using assms(3) ttl_pop_fold [OF assms(1), of now ?ids "ip_cache c" tid p]
    by (simp add: inprocess_invalidate_user_def Let_def)
  then obtain ids where "dict_get (ip_user_index c) (str_uuid (p_user_id p)) = Some ids" "tid \<in> set ids"
    using assms(2) unfolding index_ok_def by blast
  then show ?thesis
    using kept by auto
qed

lemma index_ok_invalidate:
  assumes "ttl_laws lib" and "index_ok lib now c"
  shows "index_ok lib now (inprocess_invalidate_user lib now u c)"
  unfolding index_ok_def
proof (intro allI impI)
  fix tid p
  assume "ttl_get lib now (ip_cache (inprocess_invalidate_user lib now u c)) tid = Some p"
  then have "p_user_id p \<noteq> u" "ttl_get lib now (ip_cache c) tid = Some p"
    using invalidate_evicts [OF assms, of u tid p] by auto
  then obtain ids where "dict_get (ip_user_index c) (str_uuid (p_user_id p)) = Some ids" "tid \<in> set ids"
    using assms(2) unfolding index_ok_def by blast
  then show "\<exists>ids. dict_get (ip_user_index (inprocess_invalidate_user lib now u c))
      (str_uuid (p_user_id p)) = Some ids \<and> tid \<in> set ids"
    using \<open>p_user_id p \<noteq> u\<close> by (simp add: inprocess_invalidate_user_def Let_def)
qed


text \<open>The in-process cache fulfils the contract of the port.\<close>

lemma inprocess_cache_contract:
  assumes "ttl_laws lib"
  shows "cache_contract (inprocess_port lib) (index_ok lib)"
  unfolding cache_contract_def
proof (intro conjI allI impI, goal_cases)
  case (1 now later c)
  then show ?case by (rule index_ok_later [OF assms])
next
  case (2 now later c)
  then show ?case
    by (intro map_leI) (simp add: inprocess_port_def inprocess_get_def ttl_lawsD(1) [OF assms 2(2)])
next
  case (3 now c tid p)
  then show ?case by (simp add: inprocess_port_def index_ok_set assms)
next
  case (4 now c tid p)
  show ?case
  proof (rule map_leI)
    fix k v
    assume "pc_get (inprocess_port lib) now (pc_set (inprocess_port lib) now tid p c) k = Some v"
    then show "((pc_get (inprocess_port lib) now c)(tid \<mapsto> p)) k = Some v"
      using ttl_lawsD(2) [OF assms, of now tid p "ip_cache c" k v]
      by (simp add: inprocess_port_def inprocess_get_def inprocess_set_def Let_def split: if_splits)
  qed
next
  case (5 now c tid)
  then show ?case by (simp add: inprocess_port_def index_ok_pop assms)
next
  case (6 now c tid)
  show ?case
  proof (rule map_leI)
    fix k v
    assume "pc_get (inprocess_port lib) now (pc_pop (inprocess_port lib) now tid c) k = Some v"
    then show "((pc_get (inprocess_port lib) now c)(tid := None)) k = Some v"
      using ttl_lawsD(3) [OF assms, of now tid "ip_cache c" k v]
      by (simp add: inprocess_port_def inprocess_get_def inprocess_pop_def)
  qed
next
  case (7 now c u)
  then show ?case by (simp add: inprocess_port_def index_ok_invalidate assms)
next
  case (8 now c u)
  show ?case
  proof (rule map_leI)
    fix k v
    assume "pc_get (inprocess_port lib) now (pc_invalidate_user (inprocess_port lib) now u c) k = Some v"
    then have "p_user_id v \<noteq> u \<and> ttl_get lib now (ip_cache c) k = Some v"
      using invalidate_evicts [OF assms 8, of u k v] by (simp add: inprocess_port_def inprocess_get_def)
    then show "(case pc_get (inprocess_port lib) now c k of None \<Rightarrow> None
        | Some p \<Rightarrow> if p_user_id p = u then None else Some p) = Some v"
      by (simp add: inprocess_port_def inprocess_get_def)
  qed
qed

end
