(* ===== verification/Outbox_Store.thy ===== *)
theory Outbox_Store
  imports Users Batch_Drain
begin

text \<open>
  The outbox tables: the producer side
  (\<open>src/features/outbox/adapters/outbound/sqlmodel/adapter.py\<close>), the relay's
  repository (\<open>repository.py\<close> beside it), the handler-side dedup marks
  (\<open>src/features/outbox/composition/handler_dedupe.py\<close>) and the operator command
  of \<open>src/features/outbox/management.py\<close>.

  The trace carrier captured at enqueue time comes from OpenTelemetry and is an
  argument. \<open>FOR UPDATE SKIP LOCKED\<close> skips the rows that other open transactions
  hold; their ids are the argument \<open>locked\<close> of the claim.
\<close>

subsection \<open>Producing\<close>

definition outbox_enqueue ::
  "uuid \<Rightarrow> datetime \<Rightarrow> datetime \<Rightarrow> json_object \<Rightarrow> string \<Rightarrow> json_object \<Rightarrow> py_datetime option \<Rightarrow>
   (database, unit) action" where
  "outbox_enqueue new_id avail_now created_now carrier job_name payload available_at db =
     (case available_at of
        Some (Naive _) \<Rightarrow> (Raises ValueError, db)
      | _ \<Rightarrow>
          (Returns (),
           db\<lparr>outbox_messages := outbox_messages db @
             [\<lparr>om_id = new_id, om_job_name = job_name, om_payload = payload,
               om_trace_context = carrier,
               om_available_at = (case available_at of Some (Aware t) \<Rightarrow> t | _ \<Rightarrow> avail_now),
               om_status = ''pending'', om_attempts = 0, om_last_error = None,
               om_locked_at = None, om_locked_by = None, om_created_at = created_now,
               om_delivered_at = None, om_failed_at = None\<rparr>]\<rparr>))"


subsection \<open>The relay's repository\<close>

definition om_keyset :: "outbox_row \<Rightarrow> datetime \<times> uuid" where
  "om_keyset m = (om_available_at m, om_id m)"

definition claimable :: "datetime \<Rightarrow> uuid set \<Rightarrow> outbox_row \<Rightarrow> bool" where
  "claimable now locked m \<longleftrightarrow>
     om_status m = ''pending'' \<and> om_available_at m \<le> now \<and> om_id m \<notin> locked"

definition claim_batch ::
  "datetime \<Rightarrow> int \<Rightarrow> string \<Rightarrow> uuid set \<Rightarrow> database \<Rightarrow> outbox_row list \<times> database" where
  "claim_batch now batch_size worker_id locked db =
     (if batch_size \<le> 0 then ([], db)
      else let rows = take (nat batch_size)
                 (order_by (\<lambda>a b. keyset_less (om_keyset a) (om_keyset b))
                    (filter (claimable now locked) (outbox_messages db)));
               stamp = (\<lambda>m. m\<lparr>om_locked_at := Some now, om_locked_by := Some worker_id\<rparr>)
           in (map stamp rows,
               db\<lparr>outbox_messages :=
                 update_where (\<lambda>m. om_id m \<in> om_id ` set rows) stamp (outbox_messages db)\<rparr>))"

definition update_message :: "uuid \<Rightarrow> (outbox_row \<Rightarrow> outbox_row) \<Rightarrow> database \<Rightarrow> database" where
  "update_message i f db =
     db\<lparr>outbox_messages := update_where (\<lambda>m. om_id m = i) f (outbox_messages db)\<rparr>"

definition mark_delivered :: "uuid \<Rightarrow> datetime \<Rightarrow> database \<Rightarrow> database" where
  "mark_delivered i delivered_at =
     update_message i (\<lambda>m. m\<lparr>om_status := ''delivered'', om_delivered_at := Some delivered_at,
       om_locked_at := None, om_locked_by := None\<rparr>)"

definition mark_retry :: "uuid \<Rightarrow> int \<Rightarrow> string \<Rightarrow> datetime \<Rightarrow> database \<Rightarrow> database" where
  "mark_retry i attempts last_error available_at =
     update_message i (\<lambda>m. m\<lparr>om_attempts := attempts, om_last_error := Some last_error,
       om_available_at := available_at, om_locked_at := None, om_locked_by := None\<rparr>)"

definition mark_failed :: "uuid \<Rightarrow> int \<Rightarrow> string \<Rightarrow> datetime \<Rightarrow> database \<Rightarrow> database" where
  "mark_failed i attempts last_error failed_at =
     update_message i (\<lambda>m. m\<lparr>om_status := ''failed'', om_attempts := attempts,
       om_last_error := Some last_error, om_failed_at := Some failed_at,
       om_locked_at := None, om_locked_by := None\<rparr>)"

text \<open>Deleting the \<open>k\<close> oldest rows that satisfy a predicate, by row identity.\<close>

definition delete_oldest ::
  "nat \<Rightarrow> ('r \<Rightarrow> datetime) \<Rightarrow> ('r \<Rightarrow> bool) \<Rightarrow> 'r list \<Rightarrow> nat \<times> 'r list" where
  "delete_oldest k key P rows =
     (let victims = take k (sort_key key (filter P rows))
      in (length victims, fold remove1 victims rows))"

definition delivered_before :: "datetime \<Rightarrow> outbox_row \<Rightarrow> bool" where
  "delivered_before cutoff m \<longleftrightarrow>
     om_status m = ''delivered'' \<and>
     (case om_delivered_at m of None \<Rightarrow> False | Some d \<Rightarrow> d < cutoff)"

definition failed_before :: "datetime \<Rightarrow> outbox_row \<Rightarrow> bool" where
  "failed_before cutoff m \<longleftrightarrow>
     om_status m = ''failed'' \<and>
     (case om_failed_at m of None \<Rightarrow> False | Some d \<Rightarrow> d < cutoff)"

definition delete_delivered_before :: "datetime \<Rightarrow> int \<Rightarrow> database \<Rightarrow> nat \<times> database" where
  "delete_delivered_before cutoff limit db =
     (if limit \<le> 0 then (0, db)
      else let r = delete_oldest (nat limit) (\<lambda>m. the (om_delivered_at m))
                     (delivered_before cutoff) (outbox_messages db)
           in (fst r, db\<lparr>outbox_messages := snd r\<rparr>))"

definition delete_failed_before :: "datetime \<Rightarrow> int \<Rightarrow> database \<Rightarrow> nat \<times> database" where
  "delete_failed_before cutoff limit db =
     (if limit \<le> 0 then (0, db)
      else let r = delete_oldest (nat limit) (\<lambda>m. the (om_failed_at m))
                     (failed_before cutoff) (outbox_messages db)
           in (fst r, db\<lparr>outbox_messages := snd r\<rparr>))"

definition delete_processed_marks_before :: "datetime \<Rightarrow> int \<Rightarrow> database \<Rightarrow> nat \<times> database" where
  "delete_processed_marks_before cutoff limit db =
     (if limit \<le> 0 then (0, db)
      else let r = delete_oldest (nat limit) pm_processed_at
                     (\<lambda>p. pm_processed_at p < cutoff) (processed_marks db)
           in (fst r, db\<lparr>processed_marks := snd r\<rparr>))"


subsection \<open>Dedup marks and the operator command\<close>

definition handler_dedupe :: "datetime \<Rightarrow> string \<Rightarrow> database \<Rightarrow> bool \<times> database" where
  "handler_dedupe now message_id db =
     (case UUID message_id of
        None \<Rightarrow> (True, db)
      | Some row_id \<Rightarrow>
          if list_ex (\<lambda>p. pm_id p = row_id) (processed_marks db) then (False, db)
          else (True, db\<lparr>processed_marks := processed_marks db @
                 [\<lparr>pm_id = row_id, pm_processed_at = now\<rparr>]\<rparr>))"

definition retry_failed :: "datetime \<Rightarrow> database \<Rightarrow> nat \<times> database" where
  "retry_failed now db =
     (count_where (\<lambda>m. om_status m = ''failed'') (outbox_messages db),
      db\<lparr>outbox_messages := update_where (\<lambda>m. om_status m = ''failed'')
        (\<lambda>m. m\<lparr>om_status := ''pending'', om_attempts := 0, om_last_error := None,
               om_available_at := now, om_locked_at := None, om_locked_by := None\<rparr>)
        (outbox_messages db)\<rparr>)"

end
