(* ===== verification/Auth_UseCases.thy ===== *)
theory Auth_UseCases
  imports Auth_Repository Principal_Cache Outbox_Store
begin

text \<open>
  The authentication use cases
  (\<open>src/features/authentication/application/use_cases\<close>): login, refresh-token
  rotation, logout, resolving an access token, registration, and the request and
  confirm halves of password reset and email verification.

  \<open>clk n\<close> is the n-th clock reading and \<open>ids n\<close> the n-th drawn UUID of a call, in
  program order; \<open>raw\<close> is the opaque token the call generates. A use case returns
  its result, or the exception it lets escape, and the database it leaves. Metric
  counters, tracing spans and log lines have no effect on these and are left out.
\<close>

definition principal_from_user :: "user_row \<Rightarrow> principal" where
  "principal_from_user user =
     \<lparr>p_user_id = u_id user, p_email = u_email user, p_is_active = u_is_active user,
      p_is_verified = u_is_verified user, p_authz_version = u_authz_version user\<rparr>"


subsection \<open>Login\<close>

definition login_credential :: "user_row option \<Rightarrow> database \<Rightarrow> credential_row option" where
  "login_credential user db =
     (case user of None \<Rightarrow> None | Some u \<Rightarrow> get_credential_for_user (u_id u) ''argon2'' db)"

definition login_failed ::
  "(nat \<Rightarrow> datetime) \<Rightarrow> (nat \<Rightarrow> uuid) \<Rightarrow> user_row option \<Rightarrow> string option \<Rightarrow> string option \<Rightarrow>
   string \<Rightarrow> database \<Rightarrow> database" where
  "login_failed clk ids user ip ua reason db =
     record_audit_event (ids 0) (clk 0) ''auth.login_failed'' (map_option u_id user) ip ua
       [(''reason'', JStr reason)] db"

definition login_issue ::
  "'tok jwt_lib \<Rightarrow> app_settings \<Rightarrow> (nat \<Rightarrow> datetime) \<Rightarrow> (nat \<Rightarrow> uuid) \<Rightarrow> string \<Rightarrow> user_row \<Rightarrow>
   string option \<Rightarrow> string option \<Rightarrow>
   (database, ('tok issued_tokens \<times> principal, auth_error) result) action" where
  "login_issue lib st clk ids raw u ip ua db =
     (let db1 = update_last_login (u_id u) (clk 0) db;
          principal = principal_from_user u
      in case issue_access_token lib st (clk 1) (ids 0) (u_id u) (p_authz_version principal) of
           Raises e \<Rightarrow> (Raises e, db1)
         | Returns (token, ttl) \<Rightarrow>
             andthen
               (create_refresh_token (ids 2) (clk 3) (u_id u) (hash_token raw) (ids 1)
                  (clk 2 + days (auth_refresh_token_expire_days st)) ip ua)
               (\<lambda>_ db2.
                  (Returns (Ok (\<lparr>access_token = token, refresh_token = raw,
                                 token_type = ''bearer'', expires_in = ttl\<rparr>, principal)),
                   record_audit_event (ids 3) (clk 4) ''auth.login_succeeded'' (Some (u_id u))
                     ip ua [] db2)) db1)"

definition login_user ::
  "hasher \<Rightarrow> 'tok jwt_lib \<Rightarrow> app_settings \<Rightarrow> (nat \<Rightarrow> datetime) \<Rightarrow> (nat \<Rightarrow> uuid) \<Rightarrow> string \<Rightarrow>
   string \<Rightarrow> string \<Rightarrow> string option \<Rightarrow> string option \<Rightarrow>
   (database, ('tok issued_tokens \<times> principal, auth_error) result) action" where
  "login_user ph lib st clk ids raw email password ip ua db =
     (let user = get_by_email (normalize_email email) db;
          credential = login_credential user db;
          password_hash = (case credential of None \<Rightarrow> FIXED_DUMMY_ARGON2_HASH | Some c \<Rightarrow> cr_hash c)
      in case verify_password ph password_hash password of
           Raises e \<Rightarrow> (Raises e, db)
         | Returns verified \<Rightarrow>
             (case user of
                None \<Rightarrow>
                  (Returns (Err InvalidCredentialsError),
                   login_failed clk ids user ip ua ''invalid_credentials'' db)
              | Some u \<Rightarrow>
                  if \<not> verified then
                    (Returns (Err InvalidCredentialsError),
                     login_failed clk ids user ip ua ''invalid_credentials'' db)
                  else if \<not> u_is_active u then
                    (Returns (Err InactiveUserError),
                     login_failed clk ids user ip ua ''inactive_user'' db)
                  else if auth_require_email_verification st \<and> \<not> u_is_verified u then
                    (Returns (Err EmailNotVerifiedError),
                     login_failed clk ids user ip ua ''email_not_verified'' db)
                  else
                    login_issue lib st clk ids raw u ip ua db))"


subsection \<open>Refresh-token rotation\<close>

definition rotate_refresh_token_body ::
  "'tok jwt_lib \<Rightarrow> app_settings \<Rightarrow> (nat \<Rightarrow> datetime) \<Rightarrow> (nat \<Rightarrow> uuid) \<Rightarrow> string \<Rightarrow>
   string \<Rightarrow> string option \<Rightarrow> string option \<Rightarrow>
   (database, ('tok issued_tokens \<times> principal, auth_error) result) action" where
  "rotate_refresh_token_body lib st clk ids raw presented ip ua db =
     (case get_refresh_token_for_update (hash_token presented) db of
        None \<Rightarrow> (Returns (Err InvalidTokenError), db)
      | Some record \<Rightarrow>
          if rt_revoked_at record \<noteq> None then
            (Returns (Err InvalidTokenError),
             record_audit_event (ids 0) (clk 2) ''auth.refresh_reuse_detected''
               (Some (rt_user_id record)) ip ua
               [(''family_id'', JStr (str_uuid (rt_family_id record)))]
               (revoke_refresh_family (clk 1) (rt_family_id record) db))
          else if rt_expires_at record \<le> clk 0 then
            (Returns (Err InvalidTokenError),
             revoke_refresh_token (clk 1) (rt_id record) None db)
          else
            (case get_by_id (rt_user_id record) db of
               None \<Rightarrow> (Returns (Err InvalidCredentialsError), db)
             | Some user \<Rightarrow>
                 if \<not> u_is_active user then (Returns (Err InactiveUserError), db)
                 else
                   (let principal = principal_from_user user
                    in case issue_access_token lib st (clk 1) (ids 0) (rt_user_id record)
                              (p_authz_version principal) of
                         Raises e \<Rightarrow> (Raises e, db)
                       | Returns (token, ttl) \<Rightarrow>
                           andthen
                             (create_refresh_token_session (ids 1) (clk 2) (rt_user_id record)
                                (hash_token raw) (rt_family_id record)
                                (clk 0 + days (auth_refresh_token_expire_days st)) ip ua)
                             (\<lambda>replacement db1.
                                (Returns (Ok (\<lparr>access_token = token, refresh_token = raw,
                                               token_type = ''bearer'', expires_in = ttl\<rparr>, principal)),
                                 record_audit_event (ids 2) (clk 4) ''auth.refresh_succeeded''
                                   (Some (rt_user_id record)) ip ua []
                                   (revoke_refresh_token (clk 3) (rt_id record)
                                      (Some (rt_id replacement)) db1))) db)))"

definition rotate_refresh_token ::
  "'tok jwt_lib \<Rightarrow> app_settings \<Rightarrow> (nat \<Rightarrow> datetime) \<Rightarrow> (nat \<Rightarrow> uuid) \<Rightarrow> string \<Rightarrow>
   string option \<Rightarrow> string option \<Rightarrow> string option \<Rightarrow>
   (database, ('tok issued_tokens \<times> principal, auth_error) result) action" where
  "rotate_refresh_token lib st clk ids raw presented ip ua db =
     (case presented of
        None \<Rightarrow> (Returns (Err InvalidTokenError), db)
      | Some tok \<Rightarrow>
          if tok = [] then (Returns (Err InvalidTokenError), db)
          else transaction (rotate_refresh_token_body lib st clk ids raw tok ip ua) db)"


subsection \<open>Logout\<close>

definition logout_user :: "(nat \<Rightarrow> datetime) \<Rightarrow> string option \<Rightarrow> database \<Rightarrow> database" where
  "logout_user clk presented db =
     (case presented of
        None \<Rightarrow> db
      | Some tok \<Rightarrow>
          if tok = [] then db
          else (case get_refresh_token_by_hash (hash_token tok) db of
                  None \<Rightarrow> db
                | Some record \<Rightarrow>
                    if rt_revoked_at record = None
                    then revoke_refresh_token (clk 0) (rt_id record) None db
                    else db))"

definition logout_all_sessions ::
  "'c cache_port option \<Rightarrow> (nat \<Rightarrow> datetime) \<Rightarrow> (nat \<Rightarrow> uuid) \<Rightarrow> uuid \<Rightarrow> string option \<Rightarrow>
   string option \<Rightarrow> database \<times> 'c \<Rightarrow> database \<times> 'c" where
  "logout_all_sessions port clk ids user_id ip ua s =
     (let db1 = revoke_user_refresh_tokens (clk 0) user_id (fst s);
          c1 = (case port of None \<Rightarrow> snd s | Some pc \<Rightarrow> pc_invalidate_user pc (clk 1) user_id (snd s))
      in (record_audit_event (ids 0) (clk 2) ''auth.logout_all'' (Some user_id) ip ua [] db1, c1))"


subsection \<open>Resolving an access token\<close>

definition resolve_principal ::
  "'tok jwt_lib \<Rightarrow> app_settings \<Rightarrow> 'c cache_port \<Rightarrow> datetime \<Rightarrow> 'tok \<Rightarrow> database \<Rightarrow>
   ('c, (principal, auth_error) result) action" where
  "resolve_principal lib st port now token db c =
     (case decode_access_token lib st now token of
        Raises e \<Rightarrow> (Raises e, c)
      | Returns (Err e) \<Rightarrow> (Returns (Err e), c)
      | Returns (Ok payload) \<Rightarrow>
          (let token_id = tp_token_id payload
           in case pc_get port now c token_id of
                Some cached \<Rightarrow> (Returns (Ok cached), c)
              | None \<Rightarrow>
                  (case get_by_id (tp_subject payload) db of
                     None \<Rightarrow> (Returns (Err InvalidTokenError), c)
                   | Some user \<Rightarrow>
                       if \<not> u_is_active user then (Returns (Err InactiveUserError), c)
                       else
                         (let principal = principal_from_user user
                          in if p_authz_version principal \<noteq> tp_authz_version payload
                             then (Returns (Err StaleTokenError), pc_pop port now token_id c)
                             else (Returns (Ok principal), pc_set port now token_id principal c)))))"


subsection \<open>Registration\<close>

definition register_user ::
  "hasher \<Rightarrow> bool \<Rightarrow> (nat \<Rightarrow> datetime) \<Rightarrow> (nat \<Rightarrow> uuid) \<Rightarrow> string \<Rightarrow> string \<Rightarrow> string option \<Rightarrow>
   string option \<Rightarrow> (database, (user_row, auth_error) result) action" where
  "register_user ph writer clk ids email password ip ua db =
     (let password_hash = hash_password ph password
      in if \<not> writer then (Raises RuntimeError, db)
         else transaction (\<lambda>db.
           case create_user (ids 0) (clk 0) (clk 1) (normalize_email email) db of
             (Err UserAlreadyExistsError, db1) \<Rightarrow> (Returns (Err DuplicateEmailError), db1)
           | (Err UserNotFoundError, db1) \<Rightarrow> (Returns (Err NotFoundError), db1)
           | (Ok user, db1) \<Rightarrow>
               (Returns (Ok user),
                record_audit_event (ids 2) (clk 3) ''auth.user_registered'' (Some (u_id user)) ip ua []
                  (upsert_credential (ids 1) (clk 2) (u_id user) ''argon2'' password_hash db1))) db)"


subsection \<open>Confirming single-use tokens\<close>

definition EMAIL_VERIFY_PURPOSE :: string where
  "EMAIL_VERIFY_PURPOSE = ''email_verify''"

definition PASSWORD_RESET_PURPOSE :: string where
  "PASSWORD_RESET_PURPOSE = ''password_reset''"

text \<open>
  \<open>writer\<close> says whether the repository was built with a user-writer factory; the
  transaction's user-row operations raise without one.
\<close>

definition confirm_email_verification_body ::
  "bool \<Rightarrow> (nat \<Rightarrow> datetime) \<Rightarrow> (nat \<Rightarrow> uuid) \<Rightarrow> string \<Rightarrow>
   (database, (uuid, auth_error) result) action" where
  "confirm_email_verification_body writer clk ids token db =
     (case get_internal_token_for_update (hash_token token) EMAIL_VERIFY_PURPOSE db of
        None \<Rightarrow> (Returns (Err InvalidTokenError), db)
      | Some record \<Rightarrow>
          if it_expires_at record \<le> clk 0 then (Returns (Err InvalidTokenError), db)
          else if it_used_at record \<noteq> None then (Returns (Err TokenAlreadyUsedError), db)
          else
            (case it_user_id record of
               None \<Rightarrow> (Returns (Err InvalidTokenError), db)
             | Some user_id \<Rightarrow>
                 if \<not> writer then (Raises RuntimeError, db)
                 else
                   (Returns (Ok user_id),
                    record_audit_event (ids 0) (clk 3) ''auth.email_verified'' (Some user_id)
                      None None []
                      (mark_internal_token_used (clk 2) (it_id record)
                        (mark_verified (clk 1) user_id db)))))"

definition confirm_password_reset_body ::
  "bool \<Rightarrow> (nat \<Rightarrow> datetime) \<Rightarrow> (nat \<Rightarrow> uuid) \<Rightarrow> string \<Rightarrow> string \<Rightarrow>
   (database, (uuid, auth_error) result) action" where
  "confirm_password_reset_body writer clk ids new_hash token db =
     (case get_internal_token_for_update (hash_token token) PASSWORD_RESET_PURPOSE db of
        None \<Rightarrow> (Returns (Err InvalidTokenError), db)
      | Some record \<Rightarrow>
          if it_expires_at record \<le> clk 0 then (Returns (Err InvalidTokenError), db)
          else if it_used_at record \<noteq> None then (Returns (Err TokenAlreadyUsedError), db)
          else
            (case it_user_id record of
               None \<Rightarrow> (Returns (Err InvalidTokenError), db)
             | Some user_id \<Rightarrow>
                 (let db1 = upsert_credential (ids 0) (clk 1) user_id ''argon2'' new_hash db
                  in if \<not> writer then (Raises RuntimeError, db1)
                     else
                       (Returns (Ok user_id),
                        record_audit_event (ids 1) (clk 5) ''auth.password_reset_completed''
                          (Some user_id) None None []
                          (revoke_user_refresh_tokens (clk 4) user_id
                            (mark_internal_token_used (clk 3) (it_id record)
                              (bump_authz_version (clk 2) user_id db1)))))))"

definition invalidate_after ::
  "'c cache_port option \<Rightarrow> datetime \<Rightarrow> (uuid, auth_error) result outcome \<times> database \<Rightarrow> 'c \<Rightarrow>
   (unit, auth_error) result outcome \<times> database \<times> 'c" where
  "invalidate_after port now r c =
     (case r of
        (Raises e, db) \<Rightarrow> (Raises e, db, c)
      | (Returns (Err e), db) \<Rightarrow> (Returns (Err e), db, c)
      | (Returns (Ok user_id), db) \<Rightarrow>
          (Returns (Ok ()), db,
           case port of None \<Rightarrow> c | Some pc \<Rightarrow> pc_invalidate_user pc now user_id c))"

definition confirm_email_verification ::
  "'c cache_port option \<Rightarrow> bool \<Rightarrow> (nat \<Rightarrow> datetime) \<Rightarrow> (nat \<Rightarrow> uuid) \<Rightarrow> string \<Rightarrow>
   (database \<times> 'c, (unit, auth_error) result) action" where
  "confirm_email_verification port writer clk ids token s =
     invalidate_after port (clk 4)
       (transaction (confirm_email_verification_body writer clk ids token) (fst s)) (snd s)"

definition confirm_password_reset ::
  "hasher \<Rightarrow> 'c cache_port option \<Rightarrow> bool \<Rightarrow> (nat \<Rightarrow> datetime) \<Rightarrow> (nat \<Rightarrow> uuid) \<Rightarrow> string \<Rightarrow>
   string \<Rightarrow> (database \<times> 'c, (unit, auth_error) result) action" where
  "confirm_password_reset ph port writer clk ids token new_password s =
     (let new_hash = hash_password ph new_password
      in invalidate_after port (clk 6)
           (transaction (confirm_password_reset_body writer clk ids new_hash token) (fst s)) (snd s))"


subsection \<open>Requesting single-use tokens\<close>

definition SEND_EMAIL_JOB :: string where
  "SEND_EMAIL_JOB = ''send_email''"

definition reset_url :: "string \<Rightarrow> string \<Rightarrow> string" where
  "reset_url public_url token =
     rstrip_char (CHR ''/'') public_url @ ''/auth/password/reset?token='' @ token"

definition verify_url :: "string \<Rightarrow> string \<Rightarrow> string" where
  "verify_url public_url token =
     rstrip_char (CHR ''/'') public_url @ ''/auth/email/verify?token='' @ token"

definition issue_internal_token ::
  "(nat \<Rightarrow> datetime) \<Rightarrow> (nat \<Rightarrow> uuid) \<Rightarrow> json_object \<Rightarrow> user_row \<Rightarrow> string \<Rightarrow> string \<Rightarrow> string \<Rightarrow>
   datetime \<Rightarrow> string option \<Rightarrow> json_object \<Rightarrow> (database, unit) action" where
  "issue_internal_token clk ids carrier user purpose event raw expires_at ip payload db =
     andthen
       (create_internal_token (ids 0) (clk 2) (Some (u_id user)) purpose (hash_token raw)
          expires_at ip)
       (\<lambda>_ db1. outbox_enqueue (ids 2) (clk 4) (clk 5) carrier SEND_EMAIL_JOB payload None
          (record_audit_event (ids 1) (clk 3) event (Some (u_id user)) ip None [] db1))
       (snd (invalidate_unused_tokens_for (clk 1) (u_id user) purpose db))"

definition request_password_reset ::
  "hasher \<Rightarrow> app_settings \<Rightarrow> bool \<Rightarrow> json_object \<Rightarrow> (nat \<Rightarrow> datetime) \<Rightarrow> (nat \<Rightarrow> uuid) \<Rightarrow> string \<Rightarrow>
   string \<Rightarrow> string option \<Rightarrow> (database, (internal_token_result, auth_error) result) action" where
  "request_password_reset ph st uow carrier clk ids raw email ip db =
     (let found = get_by_email (normalize_email email) db in
      case verify_password ph FIXED_DUMMY_ARGON2_HASH email of
        Raises e \<Rightarrow> (Raises e, db)
      | Returns _ \<Rightarrow>
          (case found of
             None \<Rightarrow> (Returns (Ok \<lparr>ir_token = None, ir_expires_at = None\<rparr>), db)
           | Some user \<Rightarrow>
               (let expires_at = clk 0 + minutes (auth_password_reset_token_expire_minutes st);
                    payload =
                      [(''to'', JStr (u_email user)),
                       (''template_name'', JStr ''authentication/password_reset''),
                       (''context'', JObj
                         [(''app_name'', JStr (app_display_name st)),
                          (''email'', JStr (u_email user)),
                          (''reset_url'', JStr (reset_url (app_public_url st) raw)),
                          (''expires_in_minutes'',
                           JInt (auth_password_reset_token_expire_minutes st))])]
                in if \<not> uow then (Raises RuntimeError, db)
                   else
                     andthen
                       (transaction (issue_internal_token clk ids carrier user ''password_reset''
                          ''auth.password_reset_requested'' raw expires_at ip payload))
                       (\<lambda>_ db1. (Returns (Ok
                          \<lparr>ir_token = (if auth_return_internal_tokens st then Some raw else None),
                           ir_expires_at = Some expires_at\<rparr>), db1)) db)))"

definition request_email_verification ::
  "hasher \<Rightarrow> app_settings \<Rightarrow> bool \<Rightarrow> json_object \<Rightarrow> (nat \<Rightarrow> datetime) \<Rightarrow> (nat \<Rightarrow> uuid) \<Rightarrow> string \<Rightarrow>
   uuid \<Rightarrow> string option \<Rightarrow> (database, (internal_token_result, auth_error) result) action" where
  "request_email_verification ph st uow carrier clk ids raw user_id ip db =
     (let found = get_by_id user_id db in
      case verify_password ph FIXED_DUMMY_ARGON2_HASH (str_uuid user_id) of
        Raises e \<Rightarrow> (Raises e, db)
      | Returns _ \<Rightarrow>
          (case found of
             None \<Rightarrow> (Returns (Err NotFoundError), db)
           | Some user \<Rightarrow>
               (let expires_at = clk 0 + minutes (auth_email_verify_token_expire_minutes st);
                    payload =
                      [(''to'', JStr (u_email user)),
                       (''template_name'', JStr ''authentication/verify_email''),
                       (''context'', JObj
                         [(''app_name'', JStr (app_display_name st)),
                          (''email'', JStr (u_email user)),
                          (''verify_url'', JStr (verify_url (app_public_url st) raw)),
                          (''expires_in_minutes'',
                           JInt (auth_email_verify_token_expire_minutes st))])]
                in if \<not> uow then (Raises RuntimeError, db)
                   else
                     andthen
                       (transaction (issue_internal_token clk ids carrier user ''email_verify''
                          ''auth.email_verify_requested'' raw expires_at ip payload))
                       (\<lambda>_ db1. (Returns (Ok
                          \<lparr>ir_token = (if auth_return_internal_tokens st then Some raw else None),
                           ir_expires_at = Some expires_at\<rparr>), db1)) db)))"

record internal_token_response =
  itr_message :: string
  itr_dev_token :: "string option"
  itr_expires_at :: "datetime option"

definition forgot_password_reply :: "internal_token_result \<Rightarrow> internal_token_response" where
  "forgot_password_reply token_result =
     \<lparr>itr_message = ''If the account exists, a reset token has been created'',
      itr_dev_token = ir_token token_result, itr_expires_at = ir_expires_at token_result\<rparr>"


subsection \<open>Maintenance and audit\<close>

record purge_report =
  refresh_tokens_deleted :: nat
  internal_tokens_deleted :: nat

definition purge_expired_tokens :: "datetime \<Rightarrow> int \<Rightarrow> database \<Rightarrow> (purge_report \<times> database) option" where
  "purge_expired_tokens now retention_days db =
     (let cutoff = now - days retention_days in
      case delete_expired_refresh_tokens cutoff db of
        None \<Rightarrow> None
      | Some (r, db1) \<Rightarrow>
          (case delete_expired_internal_tokens cutoff db1 of
             None \<Rightarrow> None
           | Some (i, db2) \<Rightarrow>
               Some (\<lparr>refresh_tokens_deleted = r, internal_tokens_deleted = i\<rparr>, db2)))"

definition list_audit_events_use_case ::
  "uuid option \<Rightarrow> string option \<Rightarrow> datetime option \<Rightarrow> (datetime \<times> uuid) option \<Rightarrow> int \<Rightarrow>
   database \<Rightarrow> audit_event_row list" where
  "list_audit_events_use_case user_id event_type since before limit db =
     list_audit_events user_id event_type since before (nat (max 1 (min limit 500))) db"

end
