(* ===== verification/Auth_Sessions.thy ===== *)
theory Auth_Sessions
  imports Auth_UseCases
begin

text \<open>
  Refresh-token sessions. The invariant \<open>sessions_ok\<close> says that token ids and
  hashes are unique, that all tokens of a family belong to one user, and that a
  family has at most one token that is not revoked. Every operation that writes
  the \<open>refresh_tokens\<close> table keeps it, so it holds in every reachable state of the
  step relation \<open>session_step\<close>. Rotation and reuse detection are stated over it.
\<close>

subsection \<open>Rows\<close>

definition live :: "refresh_token_row \<Rightarrow> bool" where
  "live t \<longleftrightarrow> rt_revoked_at t = None"

definition family_user_ok :: "refresh_token_row list \<Rightarrow> bool" where
  "family_user_ok rows \<longleftrightarrow>
     (\<forall>t\<in>set rows. \<forall>t'\<in>set rows. rt_family_id t = rt_family_id t' \<longrightarrow> rt_user_id t = rt_user_id t')"

definition one_live :: "refresh_token_row list \<Rightarrow> bool" where
  "one_live rows \<longleftrightarrow>
     (\<forall>t\<in>set rows. \<forall>t'\<in>set rows.
        rt_family_id t = rt_family_id t' \<longrightarrow> live t \<longrightarrow> live t' \<longrightarrow> rt_id t = rt_id t')"

definition sessions_ok :: "refresh_token_row list \<Rightarrow> bool" where
  "sessions_ok rows \<longleftrightarrow> refresh_tokens_ok rows \<and> family_user_ok rows \<and> one_live rows"

text \<open>
  An update that keeps identity, owner, family and hash of a row and never turns
  a revoked token live again keeps the invariant; so does dropping rows.
\<close>

definition revoking :: "(refresh_token_row \<Rightarrow> refresh_token_row) \<Rightarrow> bool" where
  "revoking f \<longleftrightarrow>
     (\<forall>t. rt_id (f t) = rt_id t \<and> rt_token_hash (f t) = rt_token_hash t \<and>
        rt_family_id (f t) = rt_family_id t \<and> rt_user_id (f t) = rt_user_id t \<and>
        (live (f t) \<longrightarrow> live t))"

lemma sessions_ok_map:
  assumes "revoking f" and "sessions_ok rows"
  shows "sessions_ok (map f rows)"
proof -
  have f: "rt_id (f t) = rt_id t" "rt_token_hash (f t) = rt_token_hash t"
      "rt_family_id (f t) = rt_family_id t" "rt_user_id (f t) = rt_user_id t" for t
    using assms(1) by (simp_all add: revoking_def)
  have live: "live t" if "live (f t)" for t
    using assms(1) that by (simp add: revoking_def)
  have "refresh_tokens_ok (map f rows)"
    using assms(2) by (simp add: sessions_ok_def refresh_tokens_ok_def comp_def f)
  moreover have "family_user_ok (map f rows)"
    unfolding family_user_ok_def
  proof (intro ballI impI)
    fix t t' assume "t \<in> set (map f rows)" "t' \<in> set (map f rows)" "rt_family_id t = rt_family_id t'"
    then obtain s s' where "s \<in> set rows" "s' \<in> set rows" "t = f s" "t' = f s'"
      "rt_family_id s = rt_family_id s'"
      by (auto simp: f)
    then show "rt_user_id t = rt_user_id t'"
      using assms(2) unfolding sessions_ok_def family_user_ok_def f by (metis f(4))
  qed
  moreover have "one_live (map f rows)"
    unfolding one_live_def
  proof (intro ballI impI)
    fix t t' assume "t \<in> set (map f rows)" "t' \<in> set (map f rows)" "rt_family_id t = rt_family_id t'"
      "live t" "live t'"
    then obtain s s' where "s \<in> set rows" "s' \<in> set rows" "t = f s" "t' = f s'"
      "rt_family_id s = rt_family_id s'" "live s" "live s'"
      using live by (auto simp: f)
    then show "rt_id t = rt_id t'"
      using assms(2) unfolding sessions_ok_def one_live_def by (metis f(1))
  qed
  ultimately show ?thesis
    by (simp add: sessions_ok_def)
qed

lemma revoking_if: "revoking f \<Longrightarrow> revoking (\<lambda>t. if P t then f t else t)"
  by (simp add: revoking_def)

lemma sessions_ok_update:
  "revoking f \<Longrightarrow> sessions_ok rows \<Longrightarrow> sessions_ok (update_where P f rows)"
  unfolding update_where_def by (rule sessions_ok_map [OF revoking_if])

lemma sessions_ok_subset:
  assumes "sessions_ok rows" and "set rows' \<subseteq> set rows"
    and "distinct (map rt_id rows')" and "distinct (map rt_token_hash rows')"
  shows "sessions_ok rows'"
  using assms unfolding sessions_ok_def refresh_tokens_ok_def family_user_ok_def one_live_def
  by blast

lemma revoking_stamp [simp]: "revoking (stamp_revoked now)"
  by (simp add: revoking_def stamp_revoked_def live_def)

lemma revoking_stamp_replaced [simp]:
  "revoking (\<lambda>t. (stamp_revoked now t)\<lparr>rt_replaced_by_token_id := r\<rparr>)"
  by (simp add: revoking_def stamp_revoked_def live_def)

lemma revoking_set [simp]: "revoking (\<lambda>t. t\<lparr>rt_revoked_at := Some now\<rparr>)"
  by (simp add: revoking_def live_def)

lemma revoking_null [simp]: "revoking (null_replaced_by gone)"
  by (simp add: revoking_def live_def)

lemma not_live_stamp [simp]: "\<not> live (stamp_revoked now t)"
  by (simp add: live_def stamp_revoked_def)


subsection \<open>Repository operations\<close>

lemma refresh_tokens_frame [simp]:
  "refresh_tokens (record_audit_event i now ev ou ip ua md db) = refresh_tokens db"
  "refresh_tokens (upsert_credential i now u al h db) = refresh_tokens db"
  "refresh_tokens (mark_internal_token_used now i db) = refresh_tokens db"
  "refresh_tokens (snd (invalidate_unused_tokens_for now u pu db)) = refresh_tokens db"
  "refresh_tokens (update_last_login u now db) = refresh_tokens db"
  "refresh_tokens (bump_authz_version now u db) = refresh_tokens db"
  "refresh_tokens (mark_verified now u db) = refresh_tokens db"
  by (simp_all add: record_audit_event_def upsert_credential_def mark_internal_token_used_def
      invalidate_unused_tokens_for_def Let_def user_update_defs split: option.splits)

lemma sessions_ok_revoke_token:
  "sessions_ok (refresh_tokens db) \<Longrightarrow> sessions_ok (refresh_tokens (revoke_refresh_token now i r db))"
  by (simp add: revoke_refresh_token_def sessions_ok_update)

lemma sessions_ok_revoke_family:
  "sessions_ok (refresh_tokens db) \<Longrightarrow> sessions_ok (refresh_tokens (revoke_refresh_family now f db))"
  by (simp add: revoke_refresh_family_def sessions_ok_update)

lemma sessions_ok_revoke_user:
  "sessions_ok (refresh_tokens db) \<Longrightarrow> sessions_ok (refresh_tokens (revoke_user_refresh_tokens now u db))"
  by (simp add: revoke_user_refresh_tokens_def sessions_ok_update)

lemma create_refresh_token_session_Returns:
  assumes "create_refresh_token_session i now u h f ex ip ua db = (Returns row, db')"
  shows "row = new_refresh_token i now u h f ex ip ua"
    and "db' = db\<lparr>refresh_tokens := refresh_tokens db @ [row]\<rparr>"
    and "h \<notin> rt_token_hash ` set (refresh_tokens db)"
    and "family_user_ok (refresh_tokens db) \<Longrightarrow> t \<in> set (refresh_tokens db) \<Longrightarrow>
           rt_family_id t = f \<Longrightarrow> rt_user_id t = u"
proof -
  have ok: "\<not> (case find (\<lambda>t. rt_family_id t = f) (refresh_tokens db) of None \<Rightarrow> False
      | Some t \<Rightarrow> rt_user_id t \<noteq> u)" and hash: "\<not> list_ex (\<lambda>t. rt_token_hash t = h) (refresh_tokens db)"
    and row: "row = new_refresh_token i now u h f ex ip ua"
      "db' = db\<lparr>refresh_tokens := refresh_tokens db @ [row]\<rparr>"
    using assms by (auto simp: create_refresh_token_session_def Let_def split: if_splits)
  show "row = new_refresh_token i now u h f ex ip ua"
    "db' = db\<lparr>refresh_tokens := refresh_tokens db @ [row]\<rparr>"
    by (fact row)+
  show "h \<notin> rt_token_hash ` set (refresh_tokens db)"
    using hash by (auto simp: list_ex_iff)
  show "rt_user_id t = u" if "family_user_ok (refresh_tokens db)" "t \<in> set (refresh_tokens db)" "rt_family_id t = f"
  proof (cases "find (\<lambda>t. rt_family_id t = f) (refresh_tokens db)")
    case None
    then show ?thesis
      using that by (auto simp: find_None_iff_all)
  next
    case (Some s)
    then have s: "s \<in> set (refresh_tokens db)" "rt_family_id s = f"
      using find_Some_in [OF Some] by auto
    have "rt_user_id s = u"
      using ok Some by simp
    then show ?thesis
      using that s unfolding family_user_ok_def by metis
  qed
qed

lemma create_refresh_token_session_Raises:
  "create_refresh_token_session i now u h f ex ip ua db = (Raises e, db') \<Longrightarrow> db' = db"
  by (auto simp: create_refresh_token_session_def Let_def split: if_splits)

text \<open>Adding a token to a family without a live token.\<close>

lemma sessions_ok_append:
  assumes "sessions_ok rows" and "rt_id t \<notin> rt_id ` set rows" and "rt_token_hash t \<notin> rt_token_hash ` set rows"
    and "\<And>s. s \<in> set rows \<Longrightarrow> rt_family_id s = rt_family_id t \<Longrightarrow> rt_user_id s = rt_user_id t"
    and "\<And>s. s \<in> set rows \<Longrightarrow> rt_family_id s = rt_family_id t \<Longrightarrow> \<not> live s"
  shows "sessions_ok (rows @ [t])"
proof -
  have "refresh_tokens_ok (rows @ [t])"
    using assms(1,2,3) by (auto simp: sessions_ok_def refresh_tokens_ok_def)
  moreover have "family_user_ok (rows @ [t])"
    unfolding family_user_ok_def
  proof (intro ballI impI)
    fix a b assume ab: "a \<in> set (rows @ [t])" "b \<in> set (rows @ [t])" "rt_family_id a = rt_family_id b"
    have "rt_user_id a = rt_user_id b" if "a \<in> set rows" "b \<in> set rows"
      using assms(1) that ab(3) unfolding sessions_ok_def family_user_ok_def by blast
    then show "rt_user_id a = rt_user_id b"
      using ab assms(4) [of a] assms(4) [of b] by auto
  qed
  moreover have "one_live (rows @ [t])"
    unfolding one_live_def
  proof (intro ballI impI)
    fix a b assume ab: "a \<in> set (rows @ [t])" "b \<in> set (rows @ [t])" "rt_family_id a = rt_family_id b"
      "live a" "live b"
    have "rt_id a = rt_id b" if "a \<in> set rows" "b \<in> set rows"
      using assms(1) that ab unfolding sessions_ok_def one_live_def by blast
    then show "rt_id a = rt_id b"
      using ab assms(5) [of a] assms(5) [of b] by auto
  qed
  ultimately show ?thesis
    by (simp add: sessions_ok_def)
qed


subsection \<open>Rotation\<close>

lemma refresh_tokens_revoke_token:
  "refresh_tokens (revoke_refresh_token now i r db) =
     update_where (\<lambda>t. rt_id t = i) (\<lambda>t. (stamp_revoked now t)\<lparr>rt_replaced_by_token_id := r\<rparr>)
       (refresh_tokens db)"
  by (simp add: revoke_refresh_token_def)

lemma rotate_body_OkE:
  assumes "rotate_refresh_token_body lib st clk ids raw tok ip ua db = (Returns (Ok (tokens, p)), db')"
  obtains rec user where "get_refresh_token_for_update (hash_token tok) db = Some rec"
    and "rt_revoked_at rec = None" and "clk 0 < rt_expires_at rec"
    and "get_by_id (rt_user_id rec) db = Some user" and "u_is_active user"
    and "p = principal_from_user user" and "refresh_token tokens = raw"
    and "hash_token raw \<notin> rt_token_hash ` set (refresh_tokens db)"
    and "refresh_tokens db' =
      update_where (\<lambda>t. rt_id t = rt_id rec)
        (\<lambda>t. (stamp_revoked (clk 3) t)\<lparr>rt_replaced_by_token_id := Some (ids 1)\<rparr>)
        (refresh_tokens db @ [new_refresh_token (ids 1) (clk 2) (rt_user_id rec) (hash_token raw)
           (rt_family_id rec) (clk 0 + days (auth_refresh_token_expire_days st)) ip ua])"
    and "users db' = users db"
proof -
  obtain rec where rec: "get_refresh_token_for_update (hash_token tok) db = Some rec"
      "rt_revoked_at rec = None" "clk 0 < rt_expires_at rec"
    using assms by (auto simp: rotate_refresh_token_body_def split: option.splits if_splits)
  then obtain user where user: "get_by_id (rt_user_id rec) db = Some user" "u_is_active user"
    using assms by (auto simp: rotate_refresh_token_body_def split: option.splits if_splits)
  let ?create = "create_refresh_token_session (ids 1) (clk 2) (rt_user_id rec) (hash_token raw)
    (rt_family_id rec) (clk 0 + days (auth_refresh_token_expire_days st)) ip ua db"
  have simp: "rotate_refresh_token_body lib st clk ids raw tok ip ua db =
      (case issue_access_token lib st (clk 1) (ids 0) (rt_user_id rec) (u_authz_version user) of
         Raises e \<Rightarrow> (Raises e, db)
       | Returns (token, ttl) \<Rightarrow>
           (case ?create of
              (Returns replacement, db1) \<Rightarrow>
                (Returns (Ok (\<lparr>access_token = token, refresh_token = raw, token_type = ''bearer'', expires_in = ttl\<rparr>,
                   principal_from_user user)),
                 record_audit_event (ids 2) (clk 4) ''auth.refresh_succeeded'' (Some (rt_user_id rec)) ip ua []
                   (revoke_refresh_token (clk 3) (rt_id rec) (Some (rt_id replacement)) db1))
            | (Raises e, db1) \<Rightarrow> (Raises e, db1)))"
    using rec user
    by (simp add: rotate_refresh_token_body_def andthen_def principal_from_user_def Let_def
        split: outcome.splits prod.splits)
  obtain token ttl replacement db1 where create: "?create = (Returns replacement, db1)"
      and res: "tokens = \<lparr>access_token = token, refresh_token = raw, token_type = ''bearer'', expires_in = ttl\<rparr>"
        "p = principal_from_user user"
        "db' = record_audit_event (ids 2) (clk 4) ''auth.refresh_succeeded'' (Some (rt_user_id rec)) ip ua []
           (revoke_refresh_token (clk 3) (rt_id rec) (Some (rt_id replacement)) db1)"
    using assms unfolding simp by (auto split: outcome.splits prod.splits)
  note created = create_refresh_token_session_Returns [OF create]
  have "rt_id replacement = ids 1"
    by (simp add: created(1) new_refresh_token_def)
  then show thesis
    using that [OF rec user] res created(1-3)
    by (simp add: refresh_tokens_revoke_token) (simp add: record_audit_event_def revoke_refresh_token_def)
qed

text \<open>What the other results leave: nothing, a revoked family, or one revoked token.\<close>

lemma rotate_body_other:
  assumes "rotate_refresh_token_body lib st clk ids raw tok ip ua db = (res, db')"
    and "\<And>x. res \<noteq> Returns (Ok x)"
  shows "refresh_tokens db' = refresh_tokens db \<or>
    (\<exists>now f. refresh_tokens db' = refresh_tokens (revoke_refresh_family now f db)) \<or>
    (\<exists>now i. refresh_tokens db' = refresh_tokens (revoke_refresh_token now i None db))"
  using assms create_refresh_token_session_Raises
  by (fastforce simp: rotate_refresh_token_body_def andthen_def Let_def
      split: option.splits if_splits outcome.splits prod.splits)

lemma get_refresh_token_Some:
  "get_refresh_token_for_update h db = Some t \<Longrightarrow> t \<in> set (refresh_tokens db) \<and> rt_token_hash t = h"
  unfolding get_refresh_token_for_update_def by (rule find_Some_in)

lemma sessions_ok_rotate_body:
  assumes "rotate_refresh_token_body lib st clk ids raw tok ip ua db = (res, db')"
    and "sessions_ok (refresh_tokens db)" and "ids 1 \<notin> rt_id ` set (refresh_tokens db)"
  shows "sessions_ok (refresh_tokens db')"
proof (cases "\<exists>x. res = Returns (Ok x)")
  case False
  then show ?thesis
    using rotate_body_other [OF assms(1)] assms(2)
    by (auto simp: sessions_ok_revoke_token sessions_ok_revoke_family)
next
  case True
  then obtain tokens p where "rotate_refresh_token_body lib st clk ids raw tok ip ua db = (Returns (Ok (tokens, p)), db')"
    using assms(1) by fastforce
  then obtain rec user where rec: "get_refresh_token_for_update (hash_token tok) db = Some rec"
      and live: "rt_revoked_at rec = None"
      and fresh: "hash_token raw \<notin> rt_token_hash ` set (refresh_tokens db)"
      and rows: "refresh_tokens db' =
        update_where (\<lambda>t. rt_id t = rt_id rec)
          (\<lambda>t. (stamp_revoked (clk 3) t)\<lparr>rt_replaced_by_token_id := Some (ids 1)\<rparr>)
          (refresh_tokens db @ [new_refresh_token (ids 1) (clk 2) (rt_user_id rec) (hash_token raw)
             (rt_family_id rec) (clk 0 + days (auth_refresh_token_expire_days st)) ip ua])"
    by (rule rotate_body_OkE)
  have rec_in: "rec \<in> set (refresh_tokens db)"
    using get_refresh_token_Some [OF rec] by blast
  then have new_id: "ids 1 \<noteq> rt_id rec"
    using assms(3) by auto
  let ?old = "update_where (\<lambda>t. rt_id t = rt_id rec)
    (\<lambda>t. (stamp_revoked (clk 3) t)\<lparr>rt_replaced_by_token_id := Some (ids 1)\<rparr>) (refresh_tokens db)"
  let ?new = "new_refresh_token (ids 1) (clk 2) (rt_user_id rec) (hash_token raw)
             (rt_family_id rec) (clk 0 + days (auth_refresh_token_expire_days st)) ip ua"
  have old_ok: "sessions_ok ?old"
    using assms(2) by (simp add: sessions_ok_update)
  have same: "rt_family_id s = rt_family_id rec \<longrightarrow> rt_user_id s = rt_user_id rec \<and> \<not> live s"
    if s_in: "s \<in> set ?old" for s
  proof
    assume fam: "rt_family_id s = rt_family_id rec"
    obtain t where t: "t \<in> set (refresh_tokens db)" "s = (if rt_id t = rt_id rec
        then (stamp_revoked (clk 3) t)\<lparr>rt_replaced_by_token_id := Some (ids 1)\<rparr> else t)"
      using s_in by (auto simp: in_update_where_iff)
    then have tfam: "rt_family_id t = rt_family_id rec" "rt_user_id s = rt_user_id t"
      using fam by (auto simp: stamp_revoked_def split: if_splits)
    then have "rt_user_id t = rt_user_id rec"
      using assms(2) t(1) rec_in unfolding sessions_ok_def family_user_ok_def by blast
    moreover have "\<not> live s"
    proof (cases "rt_id t = rt_id rec")
      case True
      then show ?thesis using t by (simp add: live_def stamp_revoked_def)
    next
      case False
      then have "\<not> live t"
        using assms(2) t(1) rec_in tfam live unfolding sessions_ok_def one_live_def live_def by blast
      then show ?thesis using False t by simp
    qed
    ultimately show "rt_user_id s = rt_user_id rec \<and> \<not> live s"
      using tfam by simp
  qed
  have ids: "rt_id ` set ?old = rt_id ` set (refresh_tokens db)" "rt_token_hash ` set ?old = rt_token_hash ` set (refresh_tokens db)"
    unfolding set_map [symmetric] by (simp_all add: map_update_where stamp_revoked_def del: set_map)
  have "sessions_ok (?old @ [?new])"
    using old_ok same ids assms(3) fresh
    by (intro sessions_ok_append) (auto simp: new_refresh_token_def)
  then show ?thesis
    using new_id by (simp add: rows) (simp add: new_refresh_token_def)
qed


subsection \<open>The other writers of the table\<close>

lemma sessions_ok_rotate:
  assumes "rotate_refresh_token lib st clk ids raw presented ip ua db = (res, db')"
    and "sessions_ok (refresh_tokens db)" and "ids 1 \<notin> rt_id ` set (refresh_tokens db)"
  shows "sessions_ok (refresh_tokens db')"
proof (cases "presented = None \<or> presented = Some []")
  case True
  then show ?thesis
    using assms by (auto simp: rotate_refresh_token_def)
next
  case False
  then obtain tok where "transaction (rotate_refresh_token_body lib st clk ids raw tok ip ua) db = (res, db')"
    using assms(1) by (auto simp: rotate_refresh_token_def split: option.splits)
  moreover obtain r db1 where body: "rotate_refresh_token_body lib st clk ids raw tok ip ua db = (r, db1)"
    by force
  ultimately have "db' = db \<or> db' = db1"
    by (auto simp: transaction_def split: outcome.splits)
  then show ?thesis
    using sessions_ok_rotate_body [OF body] assms by auto
qed

lemma create_refresh_token_cases:
  assumes "create_refresh_token i now u h f ex ip ua db = (r, db')"
  shows "refresh_tokens db' = refresh_tokens db \<or>
    (h \<notin> rt_token_hash ` set (refresh_tokens db) \<and>
     refresh_tokens db' = refresh_tokens db @ [new_refresh_token i now u h f ex ip ua])"
proof (cases "create_refresh_token_session i now u h f ex ip ua db")
  case (Pair r' db1)
  show ?thesis
  proof (cases r')
    case (Raises e)
    then show ?thesis
      using assms Pair by (simp add: create_refresh_token_def transaction_def)
  next
    case (Returns row)
    then have "create_refresh_token_session i now u h f ex ip ua db = (Returns row, db1)" "db' = db1"
      using assms Pair by (simp_all add: create_refresh_token_def transaction_def)
    then show ?thesis
      using create_refresh_token_session_Returns(1,2,3) by fastforce
  qed
qed

lemma refresh_tokens_login_failed [simp]:
  "refresh_tokens (login_failed clk ids user ip ua reason db) = refresh_tokens db"
  by (simp add: login_failed_def)

lemma login_issue_refresh_tokens:
  assumes "login_issue lib st clk ids raw u ip ua db = (res, db')"
  shows "refresh_tokens db' = refresh_tokens db \<or>
    (hash_token raw \<notin> rt_token_hash ` set (refresh_tokens db) \<and>
     refresh_tokens db' = refresh_tokens db @
       [new_refresh_token (ids 2) (clk 3) (u_id u) (hash_token raw) (ids 1)
          (clk 2 + days (auth_refresh_token_expire_days st)) ip ua])"
proof -
  obtain r db2 where create: "create_refresh_token (ids 2) (clk 3) (u_id u) (hash_token raw) (ids 1)
      (clk 2 + days (auth_refresh_token_expire_days st)) ip ua (update_last_login (u_id u) (clk 0) db) = (r, db2)"
    by force
  have "refresh_tokens db' = refresh_tokens db \<or> refresh_tokens db' = refresh_tokens db2"
    using assms create unfolding login_issue_def Let_def andthen_def
    by (auto split: outcome.splits simp del: One_nat_def)
  then show ?thesis
    using create_refresh_token_cases [OF create] by auto
qed

lemma login_refresh_tokens:
  assumes "login_user ph lib st clk ids raw email password ip ua db = (res, db')"
  shows "refresh_tokens db' = refresh_tokens db \<or>
    (\<exists>u. hash_token raw \<notin> rt_token_hash ` set (refresh_tokens db) \<and>
     refresh_tokens db' = refresh_tokens db @
       [new_refresh_token (ids 2) (clk 3) u (hash_token raw) (ids 1)
          (clk 2 + days (auth_refresh_token_expire_days st)) ip ua])"
proof -
  have "refresh_tokens db' = refresh_tokens db \<or>
      (\<exists>u. login_issue lib st clk ids raw u ip ua db = (res, db'))"
    using assms unfolding login_user_def Let_def
    by (auto split: outcome.splits option.splits if_splits)
  then show ?thesis
    using login_issue_refresh_tokens by blast
qed

lemma sessions_ok_login:
  assumes "login_user ph lib st clk ids raw email password ip ua db = (res, db')"
    and "sessions_ok (refresh_tokens db)" and "ids 2 \<notin> rt_id ` set (refresh_tokens db)"
    and "ids 1 \<notin> rt_family_id ` set (refresh_tokens db)"
  shows "sessions_ok (refresh_tokens db')"
  using login_refresh_tokens [OF assms(1)]
proof (elim disjE exE conjE)
  fix u
  assume fresh: "hash_token raw \<notin> rt_token_hash ` set (refresh_tokens db)"
    and rows: "refresh_tokens db' = refresh_tokens db @
       [new_refresh_token (ids 2) (clk 3) u (hash_token raw) (ids 1)
          (clk 2 + days (auth_refresh_token_expire_days st)) ip ua]"
  show ?thesis
    unfolding rows using assms(2,3,4) fresh
    by (intro sessions_ok_append) (auto simp: new_refresh_token_def image_iff)
qed (simp add: assms(2))

lemma sessions_ok_logout:
  "sessions_ok (refresh_tokens db) \<Longrightarrow> sessions_ok (refresh_tokens (logout_user clk presented db))"
  by (auto simp: logout_user_def sessions_ok_revoke_token split: option.splits)

lemma sessions_ok_logout_all:
  "sessions_ok (refresh_tokens (fst s)) \<Longrightarrow>
     sessions_ok (refresh_tokens (fst (logout_all_sessions port clk ids u ip ua s)))"
  by (simp add: logout_all_sessions_def Let_def sessions_ok_revoke_user)

lemma refresh_tokens_confirm_reset_body:
  assumes "confirm_password_reset_body writer clk ids h token db = (r, db')"
  shows "refresh_tokens db' = refresh_tokens db \<or>
    (\<exists>now u. refresh_tokens db' = refresh_tokens (revoke_user_refresh_tokens now u db))"
proof -
  have "refresh_tokens (revoke_user_refresh_tokens now u (mark_internal_token_used t1 i (bump_authz_version t2 u
      (upsert_credential j t3 u a h db)))) = refresh_tokens (revoke_user_refresh_tokens now u db)" for now u t1 i t2 j t3 a h
    by (simp add: revoke_user_refresh_tokens_def)
  then show ?thesis
    using assms by (auto simp: confirm_password_reset_body_def Let_def split: option.splits if_splits) blast+
qed

lemma fst_invalidate_after [simp]: "fst (snd (invalidate_after port now r c)) = snd r"
  by (auto simp: invalidate_after_def split: prod.splits outcome.splits result.splits)

lemma sessions_ok_confirm_reset:
  assumes "confirm_password_reset ph port writer clk ids token pw (db, c) = (r, db', c')"
    and "sessions_ok (refresh_tokens db)"
  shows "sessions_ok (refresh_tokens db')"
proof -
  let ?body = "confirm_password_reset_body writer clk ids (hash_password ph pw) token"
  have "db' = snd (transaction ?body db)"
    using assms(1) fst_invalidate_after [of port "clk 6" "transaction ?body db" c]
    by (simp add: confirm_password_reset_def Let_def)
  moreover obtain r1 db1 where body: "?body db = (r1, db1)"
    by force
  ultimately have "db' = db \<or> db' = db1"
    by (auto simp: transaction_def split: outcome.splits)
  then show ?thesis
    using refresh_tokens_confirm_reset_body [OF body] assms(2) by (auto simp: sessions_ok_revoke_user)
qed

lemma sessions_ok_delete_batch:
  assumes "sessions_ok (refresh_tokens db)"
  shows "sessions_ok (refresh_tokens (snd (delete_refresh_batch cutoff db)))"
proof -
  let ?rows = "delete_first 10000 (refresh_expired cutoff) (refresh_tokens db)"
  have "sessions_ok ?rows"
    using assms delete_first_subset [of 10000 "refresh_expired cutoff" "refresh_tokens db"]
    by (intro sessions_ok_subset [OF assms])
      (simp_all add: distinct_delete_first sessions_ok_def refresh_tokens_ok_def)
  then show ?thesis
    by (simp add: delete_refresh_batch_def Let_def sessions_ok_map)
qed

lemma purge_refresh_tokens:
  assumes "purge_expired_tokens now d db = Some (rep, db')"
  obtains n db1 where "delete_expired_refresh_tokens (now - days d) db = Some (n, db1)"
    and "refresh_tokens db' = refresh_tokens db1"
proof -
  let ?cutoff = "now - days d"
  obtain n db1 m where 1: "delete_expired_refresh_tokens ?cutoff db = Some (n, db1)"
      "delete_expired_internal_tokens ?cutoff db1 = Some (m, db')"
    using assms by (auto simp: purge_expired_tokens_def Let_def split: option.splits)
  have "refresh_tokens (snd (m, db')) = refresh_tokens db1"
    using 1(2) unfolding delete_expired_internal_tokens_def
    by (rule drain_loop_invariant) (simp_all add: delete_internal_batch_def Let_def)
  then show thesis
    using that 1(1) by simp
qed

lemma sessions_ok_purge:
  assumes "purge_expired_tokens now d db = Some (rep, db')" and "sessions_ok (refresh_tokens db)"
  shows "sessions_ok (refresh_tokens db')"
proof -
  obtain n db1 where 1: "delete_expired_refresh_tokens (now - days d) db = Some (n, db1)"
      and 2: "refresh_tokens db' = refresh_tokens db1"
    using assms(1) by (rule purge_refresh_tokens)
  have "sessions_ok (refresh_tokens (snd (n, db1)))"
    using 1 unfolding delete_expired_refresh_tokens_def
    by (rule drain_loop_invariant) (simp_all add: assms(2) sessions_ok_delete_batch)
  then show ?thesis
    by (simp add: 2)
qed

end
