(* ===== verification/Samples.thy ===== *)
theory Samples
  imports Auth_UseCases
begin

text \<open>
  Concrete data for the witnesses of the authentication properties: the default
  settings of the source with a signing secret, a password hasher, a JWT library
  and a cache library that satisfy the laws assumed of the packages.
\<close>

definition sample_settings :: app_settings where
  "sample_settings = default_settings\<lparr>auth_jwt_secret_key := Some ''secret''\<rparr>"

lemma sample_settings_sel [simp]:
  "auth_jwt_secret_key sample_settings = Some ''secret''"
  "auth_jwt_algorithm sample_settings = ''HS256''"
  "auth_jwt_issuer sample_settings = None" "auth_jwt_audience sample_settings = None"
  "auth_jwt_leeway_seconds sample_settings = 10"
  "auth_access_token_expire_minutes sample_settings = 15"
  "auth_refresh_token_expire_days sample_settings = 30"
  "auth_require_email_verification sample_settings = False"
  "auth_password_reset_token_expire_minutes sample_settings = 30"
  "auth_return_internal_tokens sample_settings = False"
  by (simp_all add: sample_settings_def default_settings_def)

definition sample_hasher :: hasher where
  "sample_hasher = \<lparr>ph_hash = (\<lambda>p. CHR ''h'' # p),
     ph_verify = (\<lambda>h p. if h = CHR ''h'' # p then Verified else VerifyMismatchError)\<rparr>"

lemma sample_hasher_laws [simp]: "hasher_laws sample_hasher"
  by (simp add: hasher_laws_def sample_hasher_def FIXED_DUMMY_ARGON2_HASH_def)

definition sample_jwt :: "(jwt_claims \<times> string \<times> string) jwt_lib" where
  "sample_jwt =
     \<lparr>jwt_encode = (\<lambda>cl secret alg. (cl, secret, alg)),
      jwt_decode = (\<lambda>now tok secret alg leeway iss aud.
        if snd tok = (secret, alg) \<and> jwt_accepts now (fst tok) leeway iss aud
        then Some \<lparr>pl_sub = cl_sub (fst tok), pl_exp = numeric_date (cl_exp (fst tok)),
                   pl_jti = cl_jti (fst tok),
                   pl_authz_version = JInt (cl_authz_version (fst tok))\<rparr>
        else None)\<rparr>"

lemma sample_jwt_laws [simp]: "jwt_laws sample_jwt"
  by (simp add: jwt_laws_def sample_jwt_def)

definition sample_ttl :: "(string \<Rightarrow> principal option) ttl_cache" where
  "sample_ttl = \<lparr>ttl_get = (\<lambda>now t. t), ttl_set = (\<lambda>now k p t. t(k \<mapsto> p)),
     ttl_pop = (\<lambda>now k t. t(k := None))\<rparr>"

lemma sample_ttl_laws [simp]: "ttl_laws sample_ttl"
  by (simp add: ttl_laws_def sample_ttl_def)

definition sample_account :: user_row where
  "sample_account = \<lparr>u_id = 7, u_email = ''a@x'', u_is_active = True, u_is_verified = False,
     u_is_erased = False, u_authz_version = 1, u_created_at = 0, u_updated_at = 0,
     u_last_login_at = None\<rparr>"

definition sample_credential :: credential_row where
  "sample_credential = \<lparr>cr_id = 70, cr_user_id = 7, cr_algorithm = ''argon2'',
     cr_hash = ''hpw'', cr_last_changed_at = 0, cr_created_at = 0\<rparr>"

definition sample_refresh :: refresh_token_row where
  "sample_refresh = \<lparr>rt_id = 50, rt_user_id = 7, rt_token_hash = hash_token ''old'', rt_family_id = 5,
     rt_expires_at = days 30, rt_revoked_at = None, rt_replaced_by_token_id = None,
     rt_created_at = 0, rt_created_ip = None, rt_user_agent = None\<rparr>"

definition sample_reset_token :: internal_token_row where
  "sample_reset_token = \<lparr>it_id = 60, it_user_id = Some 7, it_purpose = ''password_reset'',
     it_token_hash = hash_token ''reset'', it_expires_at = minutes 30, it_used_at = None,
     it_created_at = 0, it_created_ip = None\<rparr>"

definition sample_auth_db :: database where
  "sample_auth_db = empty_db\<lparr>users := [sample_account], credentials := [sample_credential],
     refresh_tokens := [sample_refresh], internal_tokens := [sample_reset_token]\<rparr>"

lemma sample_auth_db_sel [simp]:
  "users sample_auth_db = [sample_account]"
  "credentials sample_auth_db = [sample_credential]"
  "refresh_tokens sample_auth_db = [sample_refresh]"
  "internal_tokens sample_auth_db = [sample_reset_token]"
  "audit_events sample_auth_db = []"
  by (simp_all add: sample_auth_db_def)

end
