(* ===== verification/Sample_Hashes.thy ===== *)
theory Sample_Hashes
  imports Crypto
begin

text \<open>
  Two token hashes computed from the definition of SHA-256, for the witnesses
  that need a stored token and a fresh one. A three-byte message pads to a single
  block, so each hash is one compression.
\<close>

lemma replicate_numeral: "replicate (numeral n) x = x # replicate (pred_numeral n) x"
  by (simp add: numeral_eq_Suc)

lemma hex_fixed_numeral:
  "hex_fixed (numeral w) n = hex_fixed (pred_numeral w) (n div 16) @ [hex_digit (n mod 16)]"
  unfolding numeral_eq_Suc [of w] by (rule hex_fixed.simps)

lemma sha_pad_3: "sha_pad [a, b, c] = [a, b, c, 128] @ replicate 52 0 @ [0, 0, 0, 0, 0, 0, 0, 24]"
  by (simp add: sha_pad_def upt_rec)

lemma chunks_64_pad:
  "chunks 64 ([a, b, c, 128] @ replicate 52 0 @ [0, 0, 0, 0, 0, 0, 0, 24]) =
     [[a, b, c, 128] @ replicate 52 0 @ [0, 0, 0, 0, 0, 0, 0, 24 :: nat]]"
  by (simp add: replicate_numeral chunks.simps)

lemma chunks_4_pad:
  "chunks 4 ([a, b, c, 128] @ replicate 52 0 @ [0, 0, 0, 0, 0, 0, 0, 24]) =
     [[a, b, c, 128]] @ replicate 14 [0, 0, 0, 0] @ [[0, 0, 0, 24 :: nat]]"
  by (simp add: replicate_numeral chunks.simps)

lemma sha256_3:
  "sha256 [a, b, c] = sha_compress sha_H0 (be_word [a, b, c, 128] # replicate 14 0 @ [24])"
  unfolding sha256_def sha_pad_3 chunks_64_pad list.map chunks_4_pad sha_blocks.simps
  by (simp del: be_word.simps) simp

lemma sha_compress_old:
  "sha_compress sha_H0 (1869374592 # replicate 14 0 @ [24]) =
     [3416288087, 922416766, 1420852054, 514757689, 1584876625, 2055049482, 1412865554, 1674378196]"
  by code_simp

lemma hash_old: "hash_token ''old'' = ''cba06b5736faf67e54b07b561eae94395e774c517a7d910a54369e1263ccfbd4''"
  by (simp add: hash_token_def utf8_encode_def utf8_char_def sha256_3 sha_compress_old hexdigest_def
      hex_fixed_numeral hex_digit_def)

lemma sha_compress_raw:
  "sha_compress sha_H0 (1918990208 # replicate 14 0 @ [24]) =
     [3611532270, 611793867, 4197255831, 2491343714, 665914640, 582067544, 1206462614, 1538703326]"
  by code_simp

lemma hash_raw: "hash_token ''raw'' = ''d7439bee24773bcbfa2d0a97947ee36227b10d1022b1a55847e928965bb6bfde''"
  by (simp add: hash_token_def utf8_encode_def utf8_char_def sha256_3 sha_compress_raw hexdigest_def
      hex_fixed_numeral hex_digit_def)

lemma hash_old_raw: "hash_token ''old'' \<noteq> hash_token ''raw''"
  by (simp add: hash_old hash_raw)

end
