(* ===== verification/Auth_Session_Props.thy ===== *)
theory Auth_Session_Props
  imports Auth_Sessions Samples Sample_Hashes
begin

text \<open>Properties of refresh-token sessions.\<close>

inductive session_step ::
  "hasher \<Rightarrow> 'tok jwt_lib \<Rightarrow> app_settings \<Rightarrow> 'c cache_port option \<Rightarrow> database \<Rightarrow> database \<Rightarrow> bool"
  for ph lib st port where
  login: "login_user ph lib st clk ids raw email password ip ua db = (res, db') \<Longrightarrow>
    ids 2 \<notin> rt_id ` set (refresh_tokens db) \<Longrightarrow> ids 1 \<notin> rt_family_id ` set (refresh_tokens db) \<Longrightarrow>
    session_step ph lib st port db db'"
| rotate: "rotate_refresh_token lib st clk ids raw presented ip ua db = (res, db') \<Longrightarrow>
    ids 1 \<notin> rt_id ` set (refresh_tokens db) \<Longrightarrow> session_step ph lib st port db db'"
| logout: "session_step ph lib st port db (logout_user clk presented db)"
| logout_all: "logout_all_sessions port clk ids u ip ua (db, c) = (db', c') \<Longrightarrow>
    session_step ph lib st port db db'"
| reset: "confirm_password_reset ph port writer clk ids token pw (db, c) = (res', db', c') \<Longrightarrow>
    session_step ph lib st port db db'"
| purge: "purge_expired_tokens now d db = Some (rep, db') \<Longrightarrow> session_step ph lib st port db db'"
| other: "refresh_tokens db' = refresh_tokens db \<Longrightarrow> session_step ph lib st port db db'"

lemma session_step_keeps:
  "session_step ph lib st port db db' \<Longrightarrow> sessions_ok (refresh_tokens db) \<Longrightarrow>
     sessions_ok (refresh_tokens db')"
proof (induction rule: session_step.induct)
  case (logout_all clk ids u ip ua db c db' c')
  then show ?case
    using sessions_ok_logout_all [of "(db, c)" port clk ids u ip ua] by simp
qed (auto simp: sessions_ok_login sessions_ok_rotate sessions_ok_logout sessions_ok_purge
      dest: sessions_ok_confirm_reset)

lemma sessions_ok_Nil [simp]: "sessions_ok []"
  by (simp add: sessions_ok_def refresh_tokens_ok_def family_user_ok_def one_live_def)

text \<open>
  C5. In every state the program reaches by logins, rotations, logouts, password
  resets, token purges and operations that leave the table alone, refresh-token
  hashes are unique, every token family belongs to a single user, and a family
  has at most one token that is not revoked: a session never has two usable
  refresh tokens. (Freshly drawn ids do not collide with stored ones.)
\<close>

theorem reachable_sessions_ok:
  assumes "(session_step ph lib st port)\<^sup>*\<^sup>* empty_db db"
  shows "sessions_ok (refresh_tokens db)"
  using assms
proof (induction rule: rtranclp_induct)
  case (step db db')
  then show ?case
    using session_step_keeps by blast
qed simp

lemma sample_normalize: "normalize_email ''A@x '' = ''a@x''" "lower ''a@x'' = ''a@x''"
  by code_simp+

lemma sample_login:
  "\<exists>tokens p db'. login_user sample_hasher sample_jwt sample_settings (\<lambda>n. int n) (\<lambda>n. word_of_nat (n + 100))
     ''raw'' ''A@x '' ''pw'' None None
     (empty_db\<lparr>users := [sample_account], credentials := [sample_credential]\<rparr>) =
       (Returns (Ok (tokens, p)), db') \<and> length (refresh_tokens db') = 1"
  by (simp add: login_user_def login_issue_def get_by_email_def sample_normalize login_credential_def
      get_credential_for_user_def
      sample_account_def sample_credential_def sample_hasher_def verify_password_def issue_access_token_def
      jwt_secret_def create_refresh_token_def create_refresh_token_session_def transaction_def andthen_def
      update_last_login_def update_user_def record_audit_event_def Let_def)

theorem reachable_sessions_ok_witness:
  "\<exists>db. (session_step sample_hasher sample_jwt sample_settings (None :: unit cache_port option))\<^sup>*\<^sup>* empty_db db \<and>
     length (refresh_tokens db) = 1 \<and> sessions_ok (refresh_tokens db)"
proof -
  let ?step = "session_step sample_hasher sample_jwt sample_settings (None :: unit cache_port option)"
  let ?db = "empty_db\<lparr>users := [sample_account], credentials := [sample_credential]\<rparr>"
  obtain tokens p db' where login: "login_user sample_hasher sample_jwt sample_settings (\<lambda>n. int n)
      (\<lambda>n. word_of_nat (n + 100)) ''raw'' ''A@x '' ''pw'' None None ?db = (Returns (Ok (tokens, p)), db')"
      and len: "length (refresh_tokens db') = 1"
    using sample_login by blast
  have "?step empty_db ?db"
    by (rule session_step.other) simp
  moreover have "?step ?db db'"
    by (rule session_step.login [OF login]) simp_all
  ultimately have "?step\<^sup>*\<^sup>* empty_db db'"
    by simp
  then show ?thesis
    using len reachable_sessions_ok by blast
qed

text \<open>The rows after a successful rotation: the old ones with the presented token stamped, and the new one.\<close>

lemma rotation_OkE:
  assumes "rotate_refresh_token lib st clk ids raw (Some tok) ip ua db = (Returns (Ok (tokens, p)), db1)"
    and "ids 1 \<notin> rt_id ` set (refresh_tokens db)"
  obtains rec user new where "tok \<noteq> []" and "get_refresh_token_for_update (hash_token tok) db = Some rec"
    and "rec \<in> set (refresh_tokens db)" and "rt_token_hash rec = hash_token tok"
    and "rt_revoked_at rec = None" and "clk 0 < rt_expires_at rec"
    and "get_by_id (rt_user_id rec) db = Some user" and "u_is_active user" and "p = principal_from_user user"
    and "refresh_token tokens = raw" and "hash_token raw \<notin> rt_token_hash ` set (refresh_tokens db)"
    and "new = new_refresh_token (ids 1) (clk 2) (rt_user_id rec) (hash_token raw) (rt_family_id rec)
           (clk 0 + days (auth_refresh_token_expire_days st)) ip ua"
    and "refresh_tokens db1 = update_where (\<lambda>t. rt_id t = rt_id rec)
           (\<lambda>t. (stamp_revoked (clk 3) t)\<lparr>rt_replaced_by_token_id := Some (ids 1)\<rparr>) (refresh_tokens db) @ [new]"
proof -
  have body: "rotate_refresh_token_body lib st clk ids raw tok ip ua db = (Returns (Ok (tokens, p)), db1)" and tok: "tok \<noteq> []"
    using assms(1) by (auto simp: rotate_refresh_token_def split: if_splits intro: transaction_ReturnsD)
  from body show thesis
  proof (rule rotate_body_OkE)
    fix rec user
    assume rec: "get_refresh_token_for_update (hash_token tok) db = Some rec"
      and facts: "rt_revoked_at rec = None" "clk 0 < rt_expires_at rec" "get_by_id (rt_user_id rec) db = Some user"
        "u_is_active user" "p = principal_from_user user" "refresh_token tokens = raw"
        "hash_token raw \<notin> rt_token_hash ` set (refresh_tokens db)"
      and rows: "refresh_tokens db1 = update_where (\<lambda>t. rt_id t = rt_id rec)
          (\<lambda>t. (stamp_revoked (clk 3) t)\<lparr>rt_replaced_by_token_id := Some (ids 1)\<rparr>)
          (refresh_tokens db @ [new_refresh_token (ids 1) (clk 2) (rt_user_id rec) (hash_token raw)
             (rt_family_id rec) (clk 0 + days (auth_refresh_token_expire_days st)) ip ua])"
    have rec_in: "rec \<in> set (refresh_tokens db)" "rt_token_hash rec = hash_token tok"
      using get_refresh_token_Some [OF rec] by auto
    have "ids 1 \<noteq> rt_id rec"
      using assms(2) rec_in(1) by auto
    then show thesis
      using that [OF tok rec rec_in facts refl] rows by (simp add: new_refresh_token_def)
  qed
qed

text \<open>
  C6. Rotation consumes the presented token. When a rotation succeeds, the
  presented token was stored, not revoked and not expired; afterwards exactly
  that token is revoked and points to its replacement, one new live token of the
  same family and user with the configured lifetime has been added, no other
  token has changed, and the returned principal is the active owner.
\<close>

theorem rotation_consumes:
  assumes "rotate_refresh_token lib st clk ids raw (Some tok) ip ua db = (Returns (Ok (tokens, p)), db')"
    and "sessions_ok (refresh_tokens db)" and "ids 1 \<notin> rt_id ` set (refresh_tokens db)"
  shows "\<exists>old new u. old \<in> set (refresh_tokens db) \<and> rt_token_hash old = hash_token tok \<and>
    live old \<and> clk 0 < rt_expires_at old \<and>
    refresh_tokens db' = map (\<lambda>t. if t = old then t\<lparr>rt_revoked_at := Some (clk 3),
        rt_replaced_by_token_id := Some (rt_id new)\<rparr> else t) (refresh_tokens db) @ [new] \<and>
    live new \<and> rt_token_hash new = hash_token (refresh_token tokens) \<and>
    rt_family_id new = rt_family_id old \<and> rt_user_id new = rt_user_id old \<and>
    rt_expires_at new = clk 0 + days (auth_refresh_token_expire_days st) \<and>
    get_by_id (rt_user_id old) db = Some u \<and> u_is_active u \<and> p = principal_from_user u"
proof (rule rotation_OkE [OF assms(1,3)])
  fix rec user new
  assume rec: "rec \<in> set (refresh_tokens db)" "rt_token_hash rec = hash_token tok"
    and live: "rt_revoked_at rec = None" "clk 0 < rt_expires_at rec"
    and user: "get_by_id (rt_user_id rec) db = Some user" "u_is_active user" "p = principal_from_user user"
    and raw: "refresh_token tokens = raw"
    and new: "new = new_refresh_token (ids 1) (clk 2) (rt_user_id rec) (hash_token raw) (rt_family_id rec)
           (clk 0 + days (auth_refresh_token_expire_days st)) ip ua"
    and rows: "refresh_tokens db' = update_where (\<lambda>t. rt_id t = rt_id rec)
           (\<lambda>t. (stamp_revoked (clk 3) t)\<lparr>rt_replaced_by_token_id := Some (ids 1)\<rparr>) (refresh_tokens db) @ [new]"
  have "update_where (\<lambda>t. rt_id t = rt_id rec)
      (\<lambda>t. (stamp_revoked (clk 3) t)\<lparr>rt_replaced_by_token_id := Some (ids 1)\<rparr>) (refresh_tokens db) =
    map (\<lambda>t. if t = rec then t\<lparr>rt_revoked_at := Some (clk 3), rt_replaced_by_token_id := Some (rt_id new)\<rparr>
      else t) (refresh_tokens db)"
    unfolding update_where_def
  proof (rule map_cong [OF refl])
    fix t assume "t \<in> set (refresh_tokens db)"
    then have "rt_id t = rt_id rec \<longleftrightarrow> t = rec"
      using assms(2) rec(1) unfolding sessions_ok_def refresh_tokens_ok_def
      by (metis distinct_map inj_onD)
    then show "(if rt_id t = rt_id rec then (stamp_revoked (clk 3) t)\<lparr>rt_replaced_by_token_id := Some (ids 1)\<rparr> else t) =
      (if t = rec then t\<lparr>rt_revoked_at := Some (clk 3), rt_replaced_by_token_id := Some (rt_id new)\<rparr> else t)"
      using live by (simp add: stamp_revoked_def new new_refresh_token_def)
  qed
  then have "refresh_tokens db' = map (\<lambda>t. if t = rec then t\<lparr>rt_revoked_at := Some (clk 3),
      rt_replaced_by_token_id := Some (rt_id new)\<rparr> else t) (refresh_tokens db) @ [new]"
    by (simp add: rows)
  then show ?thesis
    using rec live user raw
    by (intro exI [of _ rec] exI [of _ new] exI [of _ user]) (simp add: live_def new new_refresh_token_def)
qed

lemma sample_rotation:
  "\<exists>tokens p db'. rotate_refresh_token sample_jwt sample_settings (\<lambda>n. int n) (\<lambda>n. word_of_nat (n + 100)) ''raw''
     (Some ''old'') None None sample_auth_db = (Returns (Ok (tokens, p)), db')"
  using hash_old_raw
    by (simp add: rotate_refresh_token_def rotate_refresh_token_body_def get_refresh_token_for_update_def
      sample_refresh_def get_by_id_def find_user_def sample_account_def issue_access_token_def jwt_secret_def
      create_refresh_token_session_def transaction_def andthen_def Let_def)

lemma sample_sessions_ok [simp]:
  "sessions_ok (refresh_tokens sample_auth_db)" "word_of_nat (1 + 100) \<notin> rt_id ` set (refresh_tokens sample_auth_db)"
  by (simp_all add: sessions_ok_def refresh_tokens_ok_def family_user_ok_def one_live_def sample_refresh_def)

theorem rotation_consumes_witness:
  "\<exists>tokens p db' new. rotate_refresh_token sample_jwt sample_settings (\<lambda>n. int n) (\<lambda>n. word_of_nat (n + 100)) ''raw''
     (Some ''old'') None None sample_auth_db = (Returns (Ok (tokens, p)), db') \<and>
     refresh_tokens db' = [sample_refresh\<lparr>rt_revoked_at := Some 3, rt_replaced_by_token_id := Some (rt_id new)\<rparr>, new] \<and>
     live new"
proof -
  obtain tokens p db' where rot: "rotate_refresh_token sample_jwt sample_settings (\<lambda>n. int n)
      (\<lambda>n. word_of_nat (n + 100)) ''raw'' (Some ''old'') None None sample_auth_db = (Returns (Ok (tokens, p)), db')"
    using sample_rotation by blast
  show ?thesis
    using rotation_consumes [OF rot sample_sessions_ok] rot by auto
qed

lemma rotate_revoked:
  assumes "get_refresh_token_for_update (hash_token tok) db = Some rec" and "rt_revoked_at rec \<noteq> None"
  shows "\<exists>db'. rotate_refresh_token lib st clk ids raw (Some tok) ip ua db = (Returns (Err InvalidTokenError), db') \<and>
    (tok \<noteq> [] \<longrightarrow> refresh_tokens db' = update_where (\<lambda>t. rt_family_id t = rt_family_id rec) (stamp_revoked (clk 1))
      (refresh_tokens db) \<and> length (audit_events db') = Suc (length (audit_events db)) \<and>
      ae_event_type (last (audit_events db')) = ''auth.refresh_reuse_detected'')"
  using assms
  by (auto simp: rotate_refresh_token_def rotate_refresh_token_body_def transaction_def revoke_refresh_family_def
      record_audit_event_def)

text \<open>
  C7. Reuse detection ends the session. If a token has been rotated and is then
  presented again, the replay is refused, recorded, and revokes every token of
  the family, so the token that the first rotation handed out is refused too and
  the thief and the owner both have to log in again.
\<close>

theorem replay_ends_session:
  assumes "rotate_refresh_token lib st clk ids raw (Some tok) ip ua db = (Returns (Ok (tokens, p)), db1)"
    and "sessions_ok (refresh_tokens db)" and "ids 1 \<notin> rt_id ` set (refresh_tokens db)"
  shows "\<exists>db2 family. rotate_refresh_token lib st clk' ids' raw' (Some tok) ip' ua' db1 =
      (Returns (Err InvalidTokenError), db2) \<and>
    (\<exists>t\<in>set (refresh_tokens db1). live t \<and> rt_family_id t = family) \<and>
    (\<forall>t\<in>set (refresh_tokens db2). rt_family_id t = family \<longrightarrow> \<not> live t) \<and>
    ae_event_type (last (audit_events db2)) = ''auth.refresh_reuse_detected'' \<and>
    fst (rotate_refresh_token lib st clk'' ids'' raw'' (Some (refresh_token tokens)) ip'' ua'' db2) =
      Returns (Err InvalidTokenError)"
proof (rule rotation_OkE [OF assms(1,3)])
  fix rec :: refresh_token_row and user new
  define old where "old = update_where (\<lambda>t. rt_id t = rt_id rec)
      (\<lambda>t. (stamp_revoked (clk 3) t)\<lparr>rt_replaced_by_token_id := Some (ids 1)\<rparr>) (refresh_tokens db)"
  assume tok: "tok \<noteq> []" and rec: "get_refresh_token_for_update (hash_token tok) db = Some rec"
    and raw: "refresh_token tokens = raw" and fresh: "hash_token raw \<notin> rt_token_hash ` set (refresh_tokens db)"
    and new_def: "new = new_refresh_token (ids 1) (clk 2) (rt_user_id rec) (hash_token raw) (rt_family_id rec)
           (clk 0 + days (auth_refresh_token_expire_days st)) ip ua"
    and "refresh_tokens db1 = update_where (\<lambda>t. rt_id t = rt_id rec)
           (\<lambda>t. (stamp_revoked (clk 3) t)\<lparr>rt_replaced_by_token_id := Some (ids 1)\<rparr>) (refresh_tokens db) @ [new]"
  then have rows1: "refresh_tokens db1 = old @ [new]"
    by (simp add: old_def)
  have "get_refresh_token_for_update (hash_token tok) (db\<lparr>refresh_tokens := old\<rparr>) =
      Some ((stamp_revoked (clk 3) rec)\<lparr>rt_replaced_by_token_id := Some (ids 1)\<rparr>)"
    using rec unfolding get_refresh_token_for_update_def old_def
    by (simp add: find_update_where_same stamp_revoked_def)
  then have rec1: "get_refresh_token_for_update (hash_token tok) db1 =
      Some ((stamp_revoked (clk 3) rec)\<lparr>rt_replaced_by_token_id := Some (ids 1)\<rparr>)"
    by (simp add: get_refresh_token_for_update_def rows1 find_append)
  then obtain db2 where replay: "rotate_refresh_token lib st clk' ids' raw' (Some tok) ip' ua' db1 =
      (Returns (Err InvalidTokenError), db2)"
      and rows2: "refresh_tokens db2 = update_where (\<lambda>t. rt_family_id t = rt_family_id rec) (stamp_revoked (clk' 1))
        (refresh_tokens db1)"
      and audit: "ae_event_type (last (audit_events db2)) = ''auth.refresh_reuse_detected''"
    using rotate_revoked [OF rec1, of lib st clk' ids' raw' ip' ua'] tok by (auto simp: stamp_revoked_def)
  have dead: "\<not> live t" if t: "t \<in> set (refresh_tokens db2)" "rt_family_id t = rt_family_id rec" for t
  proof -
    obtain s where s: "t = (if rt_family_id s = rt_family_id rec then stamp_revoked (clk' 1) s else s)"
      using t(1) unfolding rows2 in_update_where_iff by blast
    then have "t = stamp_revoked (clk' 1) s"
      using t(2) by (simp split: if_splits)
    then show ?thesis
      using not_live_stamp by metis
  qed
  have "rt_token_hash ` set old = rt_token_hash ` set (refresh_tokens db)"
    unfolding set_map [symmetric] old_def by (simp add: map_update_where stamp_revoked_def del: set_map)
  then have "find (\<lambda>t. rt_token_hash t = hash_token raw) old = None"
    using fresh unfolding find_None_iff_all by (metis imageI)
  then have "get_refresh_token_for_update (hash_token raw) db1 = Some new"
    by (simp add: get_refresh_token_for_update_def rows1 find_append) (simp add: new_def new_refresh_token_def)
  then have rec2: "get_refresh_token_for_update (hash_token raw) db2 = Some (stamp_revoked (clk' 1) new)"
    by (simp add: get_refresh_token_for_update_def rows2 find_update_where_same stamp_revoked_def)
      (simp add: new_def new_refresh_token_def)
  obtain db3 where "rotate_refresh_token lib st clk'' ids'' raw'' (Some raw) ip'' ua'' db2 =
      (Returns (Err InvalidTokenError), db3)"
    using rotate_revoked [OF rec2, of lib st clk'' ids'' raw'' ip'' ua''] by (auto simp: stamp_revoked_def)
  moreover have "\<exists>t\<in>set (refresh_tokens db1). live t \<and> rt_family_id t = rt_family_id rec"
    by (rule bexI [of _ new]) (simp_all add: rows1, simp add: new_def new_refresh_token_def live_def)
  ultimately show ?thesis
    using replay audit dead raw by (intro exI [of _ db2] exI [of _ "rt_family_id rec"]) auto
qed

theorem replay_ends_session_witness:
  "\<exists>tokens p db1 db2. rotate_refresh_token sample_jwt sample_settings (\<lambda>n. int n) (\<lambda>n. word_of_nat (n + 100)) ''raw''
     (Some ''old'') None None sample_auth_db = (Returns (Ok (tokens, p)), db1) \<and>
   rotate_refresh_token sample_jwt sample_settings (\<lambda>n. int n + 10) (\<lambda>n. word_of_nat (n + 200)) ''raw2''
     (Some ''old'') None None db1 = (Returns (Err InvalidTokenError), db2)"
proof -
  obtain tokens p db1 where rot: "rotate_refresh_token sample_jwt sample_settings (\<lambda>n. int n)
      (\<lambda>n. word_of_nat (n + 100)) ''raw'' (Some ''old'') None None sample_auth_db = (Returns (Ok (tokens, p)), db1)"
    using sample_rotation by blast
  show ?thesis
    using replay_ends_session [OF rot sample_sessions_ok, of "\<lambda>n. int n + 10" "\<lambda>n. word_of_nat (n + 200)" "''raw2''"
        None None "\<lambda>n. int n" "\<lambda>n. 0" "''x''" None None] rot
    by blast
qed

end
