(* ===== verification/Single_Use.thy ===== *)
theory Single_Use
  imports Auth_Sessions
begin

text \<open>
  Single-use tokens. Password reset and email verification both consume a token
  of the \<open>auth_internal_tokens\<close> table. The locale \<open>single_use_token\<close> states what
  such a flow promises, and its lemmas show that a consumed token is never
  accepted again; both flows are interpretations. \<open>token_step\<close> lists the writers
  of the table between two attempts.
\<close>

text \<open>No row with this hash and purpose can still be used.\<close>

definition spent :: "string \<Rightarrow> string \<Rightarrow> database \<Rightarrow> bool" where
  "spent h pu db \<longleftrightarrow>
     (\<forall>t\<in>set (internal_tokens db). it_token_hash t = h \<longrightarrow> it_purpose t = pu \<longrightarrow> it_used_at t \<noteq> None)"

lemma get_internal_Some:
  "get_internal_token_for_update h pu db = Some t \<Longrightarrow>
     t \<in> set (internal_tokens db) \<and> it_token_hash t = h \<and> it_purpose t = pu"
  unfolding get_internal_token_for_update_def by (drule find_Some_in) simp

lemma spent_update:
  assumes "spent h pu db"
    and "\<And>t. it_token_hash (f t) = it_token_hash t" and "\<And>t. it_purpose (f t) = it_purpose t"
    and "\<And>t. it_used_at t \<noteq> None \<Longrightarrow> it_used_at (f t) \<noteq> None"
  shows "spent h pu (db\<lparr>internal_tokens := update_where P f (internal_tokens db)\<rparr>)"
  unfolding spent_def
proof (intro ballI impI)
  fix s assume "s \<in> set (internal_tokens (db\<lparr>internal_tokens := update_where P f (internal_tokens db)\<rparr>))"
    and s: "it_token_hash s = h" "it_purpose s = pu"
  then obtain r where r: "r \<in> set (internal_tokens db)" "s = (if P r then f r else r)"
    by (auto simp: in_update_where_iff)
  then have "it_token_hash r = h" "it_purpose r = pu"
    using s assms(2,3) by (simp_all split: if_splits)
  then have "it_used_at r \<noteq> None"
    using assms(1) r(1) unfolding spent_def by blast
  then show "it_used_at s \<noteq> None"
    using r(2) assms(4) by simp
qed

lemma spent_subset:
  "spent h pu db \<Longrightarrow> set (internal_tokens db') \<subseteq> set (internal_tokens db) \<Longrightarrow> spent h pu db'"
  unfolding spent_def by blast

lemma spent_same: "internal_tokens db' = internal_tokens db \<Longrightarrow> spent h pu db' = spent h pu db"
  unfolding spent_def by simp

lemma spent_mark_used: "spent h pu db \<Longrightarrow> spent h pu (mark_internal_token_used now i db)"
  unfolding mark_internal_token_used_def by (rule spent_update) simp_all

lemma spent_invalidate: "spent h pu db \<Longrightarrow> spent h pu (snd (invalidate_unused_tokens_for now u p db))"
  by (simp add: invalidate_unused_tokens_for_def Let_def spent_update)

text \<open>Marking the row that carries the hash leaves no usable row with it.\<close>

lemma spent_after_mark:
  assumes "internal_tokens_ok (internal_tokens db)" and "t \<in> set (internal_tokens db)"
  shows "spent (it_token_hash t) pu (mark_internal_token_used now (it_id t) db)"
  unfolding spent_def
proof (intro ballI impI)
  fix s assume "s \<in> set (internal_tokens (mark_internal_token_used now (it_id t) db))"
    and hash: "it_token_hash s = it_token_hash t"
  then obtain r where r: "r \<in> set (internal_tokens db)"
      "s = (if it_id r = it_id t then r\<lparr>it_used_at := Some (case it_used_at r of None \<Rightarrow> now | Some u \<Rightarrow> u)\<rparr> else r)"
    by (auto simp: mark_internal_token_used_def in_update_where_iff)
  then have "it_token_hash r = it_token_hash t"
    using hash by (simp split: if_splits)
  then have "r = t"
    using assms r(1) unfolding internal_tokens_ok_def by (metis distinct_map inj_onD)
  then show "it_used_at s \<noteq> None"
    using r by simp
qed

lemma internal_tokens_frame [simp]:
  "internal_tokens (record_audit_event i now ev ou ip ua md db) = internal_tokens db"
  "internal_tokens (upsert_credential i now u al h db) = internal_tokens db"
  "internal_tokens (bump_authz_version now u db) = internal_tokens db"
  "internal_tokens (mark_verified now u db) = internal_tokens db"
  "internal_tokens (revoke_user_refresh_tokens now u db) = internal_tokens db"
  by (simp_all add: record_audit_event_def upsert_credential_def revoke_user_refresh_tokens_def
      user_update_defs split: option.splits)

lemma mark_used_cong:
  "internal_tokens db = internal_tokens db' \<Longrightarrow>
     internal_tokens (mark_internal_token_used now i db) = internal_tokens (mark_internal_token_used now i db')"
  by (simp add: mark_internal_token_used_def)


subsection \<open>The contract\<close>

locale single_use_token =
  fixes consume :: "(nat \<Rightarrow> datetime) \<Rightarrow> (nat \<Rightarrow> uuid) \<Rightarrow> string \<Rightarrow> (database, (uuid, auth_error) result) action"
    and purpose :: string
  assumes consume_Ok: "consume clk ids token db = (Returns (Ok u), db') \<Longrightarrow>
      \<exists>t now. get_internal_token_for_update (hash_token token) purpose db = Some t \<and> it_used_at t = None \<and>
        clk 0 < it_expires_at t \<and> it_user_id t = Some u \<and>
        internal_tokens db' = internal_tokens (mark_internal_token_used now (it_id t) db)"
    and consume_other: "consume clk ids token db = (r, db') \<Longrightarrow> (\<And>u. r \<noteq> Returns (Ok u)) \<Longrightarrow>
        db' = db \<and> (\<exists>e. r = Returns (Err e))"
begin

lemma consumed_spent:
  assumes "consume clk ids token db = (Returns (Ok u), db')" and "internal_tokens_ok (internal_tokens db)"
  shows "spent (hash_token token) purpose db'"
proof -
  obtain t now where t: "get_internal_token_for_update (hash_token token) purpose db = Some t"
      and db': "internal_tokens db' = internal_tokens (mark_internal_token_used now (it_id t) db)"
    using consume_Ok [OF assms(1)] by blast
  then show ?thesis
    using spent_after_mark [OF assms(2), of t purpose now] get_internal_Some [OF t] spent_same [OF db'] by simp
qed

lemma spent_refused:
  assumes "spent (hash_token token) purpose db"
  shows "\<exists>e. consume clk ids token db = (Returns (Err e), db)"
proof -
  obtain r db' where run: "consume clk ids token db = (r, db')"
    by force
  have "r \<noteq> Returns (Ok u)" for u
  proof
    assume "r = Returns (Ok u)"
    then obtain t where t: "get_internal_token_for_update (hash_token token) purpose db = Some t" "it_used_at t = None"
      using consume_Ok [of clk ids token db u db'] run by auto
    then show False
      using assms get_internal_Some [OF t(1)] unfolding spent_def by blast
  qed
  then show ?thesis
    using consume_other [OF run] run by blast
qed

lemma consume_keeps_spent:
  assumes "consume clk ids token db = (r, db')" and "spent h pu db"
  shows "spent h pu db'"
proof (cases "\<exists>u. r = Returns (Ok u)")
  case True
  then obtain u where "consume clk ids token db = (Returns (Ok u), db')"
    using assms(1) by blast
  then obtain t :: internal_token_row and now where "internal_tokens db' = internal_tokens (mark_internal_token_used now (it_id t) db)"
    using consume_Ok by blast
  then show ?thesis
    using spent_mark_used [OF assms(2)] spent_same by blast
next
  case False
  then show ?thesis
    using consume_other [OF assms(1)] assms(2) by blast
qed

end

text \<open>Both confirmation flows keep the contract (with a user writer configured).\<close>

interpretation reset_token: single_use_token
  "\<lambda>clk ids token. confirm_password_reset_body True clk ids new_hash token" PASSWORD_RESET_PURPOSE for new_hash
proof (unfold_locales, goal_cases)
  case (1 clk ids token db u db')
  then show ?case
    by (auto simp: confirm_password_reset_body_def Let_def mark_internal_token_used_def
        split: option.splits if_splits)
next
  case (2 clk ids token db r db')
  then show ?case
    by (auto simp: confirm_password_reset_body_def Let_def split: option.splits if_splits)
qed

interpretation verify_token: single_use_token
  "confirm_email_verification_body True" EMAIL_VERIFY_PURPOSE
proof (unfold_locales, goal_cases)
  case (1 clk ids token db u db')
  then show ?case
    by (auto simp: confirm_email_verification_body_def mark_internal_token_used_def
        split: option.splits if_splits)
next
  case (2 clk ids token db r db')
  then show ?case
    by (auto simp: confirm_email_verification_body_def split: option.splits if_splits)
qed

end
