(* ===== verification/Auth_Login_Props.thy ===== *)
theory Auth_Login_Props
  imports Auth_Sessions Samples Sample_Hashes
begin

text \<open>
  Properties of login and registration: who gets tokens, what a refused login
  leaves behind, and that a registered account can log in. They rest on the
  documented behaviour of the password hasher (\<open>hasher_laws\<close>).
\<close>

lemma login_failed_db:
  "login_failed clk ids user ip ua reason db =
     db\<lparr>audit_events := audit_events db @
       [\<lparr>ae_id = ids 0, ae_user_id = map_option u_id user, ae_event_type = ''auth.login_failed'',
         ae_ip_address = ip, ae_user_agent = ua, ae_metadata = [(''reason'', JStr reason)],
         ae_created_at = clk 0\<rparr>]\<rparr>"
  by (simp add: login_failed_def record_audit_event_def)

lemma verify_hashed:
  "hasher_laws ph \<Longrightarrow> verify_password ph (hash_password ph p) q = Returns (p = q)"
  by (simp add: hasher_laws_def verify_password_def hash_password_def)

lemma verify_dummy:
  "hasher_laws ph \<Longrightarrow> verify_password ph FIXED_DUMMY_ARGON2_HASH q = Returns False"
  by (simp add: hasher_laws_def verify_password_def)

text \<open>Issuing succeeds when a signing secret is set and the drawn family and token are new.\<close>

lemma login_issue_Ok:
  assumes "jwt_secret st = Returns secret" and "ids 1 \<notin> rt_family_id ` set (refresh_tokens db)"
    and "hash_token raw \<notin> rt_token_hash ` set (refresh_tokens db)"
  shows "\<exists>token ttl db'. login_issue lib st clk ids raw u ip ua db =
      (Returns (Ok (\<lparr>access_token = token, refresh_token = raw, token_type = ''bearer'', expires_in = ttl\<rparr>,
        principal_from_user u)), db') \<and>
    issue_access_token lib st (clk 1) (ids 0) (u_id u) (u_authz_version u) = Returns (token, ttl) \<and>
    refresh_tokens db' = refresh_tokens db @
      [new_refresh_token (ids 2) (clk 3) (u_id u) (hash_token raw) (ids 1)
         (clk 2 + days (auth_refresh_token_expire_days st)) ip ua]"
proof -
  have fam: "find (\<lambda>t. rt_family_id t = ids 1) (refresh_tokens db) = None"
    using assms(2) by (auto simp: find_None_iff_all image_iff)
  have hash: "\<not> list_ex (\<lambda>t. rt_token_hash t = hash_token raw) (refresh_tokens db)"
    using assms(3) by (auto simp: list_ex_iff image_iff)
  show ?thesis
    using fam hash
    by (simp add: login_issue_def issue_access_token_def assms(1) andthen_def create_refresh_token_def
        transaction_def create_refresh_token_session_def principal_from_user_def Let_def)
qed


lemma sample_decides:
  "get_by_email (normalize_email ''a@x'') sample_auth_db = Some sample_account"
  "login_credential (Some sample_account) sample_auth_db = Some sample_credential"
  "cr_hash sample_credential = hash_password sample_hasher ''pw''"
  "jwt_secret sample_settings = Returns ''secret''"
proof -
  have "normalize_email ''a@x'' = ''a@x''" "lower ''a@x'' = ''a@x''"
    by code_simp+
  then show "get_by_email (normalize_email ''a@x'') sample_auth_db = Some sample_account"
    by (simp add: get_by_email_def sample_account_def)
qed (simp_all add: login_credential_def get_credential_for_user_def sample_credential_def sample_account_def
    hash_password_def sample_hasher_def jwt_secret_def)





subsection \<open>Registration\<close>

lemma get_credential_upsert:
  "get_credential_for_user i al (upsert_credential n now i al h db) =
     Some (case get_credential_for_user i al db of
             None \<Rightarrow> \<lparr>cr_id = n, cr_user_id = i, cr_algorithm = al, cr_hash = h,
                       cr_last_changed_at = now, cr_created_at = now\<rparr>
           | Some c \<Rightarrow> c\<lparr>cr_hash := h, cr_last_changed_at := now\<rparr>)"
proof (cases "get_credential_for_user i al db")
  case None
  then show ?thesis
    by (simp add: upsert_credential_def) (simp add: get_credential_for_user_def find_append)
next
  case (Some c)
  then have "cr_user_id c = i \<and> cr_algorithm c = al"
    unfolding get_credential_for_user_def by (auto dest: find_Some_in)
  then show ?thesis
    using Some by (simp add: upsert_credential_def) (simp add: get_credential_for_user_def find_update_where_same)
qed

lemma cr_hash_upsert:
  "map_option cr_hash (get_credential_for_user i al (upsert_credential n now i al h db)) = Some h"
  by (simp add: get_credential_upsert split: option.split)

lemma users_frame [simp]:
  "users (upsert_credential n now i al h db) = users db"
  "users (record_audit_event n now ev ou ip ua md db) = users db"
  "users (mark_internal_token_used now n db) = users db"
  "users (revoke_user_refresh_tokens now i db) = users db"
  by (simp_all add: upsert_credential_def record_audit_event_def mark_internal_token_used_def
      revoke_user_refresh_tokens_def split: option.splits)

lemma credentials_frame [simp]:
  "credentials (record_audit_event n now ev ou ip ua md db) = credentials db"
  "credentials (mark_internal_token_used now n db) = credentials db"
  "credentials (revoke_user_refresh_tokens now i db) = credentials db"
  "credentials (bump_authz_version now i db) = credentials db"
  by (simp_all add: record_audit_event_def mark_internal_token_used_def revoke_user_refresh_tokens_def
      bump_authz_version_def)

text \<open>What a registration call does, by whether the address or the drawn id is taken.\<close>

lemma register_user_cases:
  "register_user ph True clk ids email pw ip ua db =
     (if list_ex (\<lambda>u. u_email u = normalize_email email \<or> u_id u = ids 0) (users db)
      then (Returns (Err DuplicateEmailError), db)
      else let u = \<lparr>u_id = ids 0, u_email = normalize_email email, u_is_active = True,
                    u_is_verified = False, u_is_erased = False, u_authz_version = 1,
                    u_created_at = clk 0, u_updated_at = clk 1, u_last_login_at = None\<rparr>
           in (Returns (Ok u),
               record_audit_event (ids 2) (clk 3) ''auth.user_registered'' (Some (ids 0)) ip ua []
                 (upsert_credential (ids 1) (clk 2) (ids 0) ''argon2'' (hash_password ph pw)
                   (db\<lparr>users := users db @ [u]\<rparr>))))"
  by (simp add: register_user_def create_user_def transaction_def Let_def)

text \<open>
  C10. Registration keeps accounts unique and is all or nothing: an address that
  is already stored gives \<open>DuplicateEmailError\<close> and changes nothing, any other
  address adds one unverified account of version 1 under the normalized address,
  its credential and its audit event, and the constraints of the users table
  hold afterwards.
\<close>

theorem register_keeps_accounts_unique:
  assumes "users_ok (users db)" and "ids 0 \<notin> u_id ` set (users db)"
    and "register_user ph True clk ids email pw ip ua db = (res, db')"
  shows "users_ok (users db') \<and>
    (if normalize_email email \<in> u_email ` set (users db)
     then res = Returns (Err DuplicateEmailError) \<and> db' = db
     else \<exists>u. res = Returns (Ok u) \<and> users db' = users db @ [u] \<and> u_id u = ids 0 \<and>
       u_email u = normalize_email email \<and> \<not> u_is_verified u \<and> u_authz_version u = 1 \<and>
       map_option cr_hash (get_credential_for_user (ids 0) ''argon2'' db') = Some (hash_password ph pw) \<and>
       length (audit_events db') = Suc (length (audit_events db)))"
proof -
  let ?taken = "list_ex (\<lambda>u. u_email u = normalize_email email \<or> u_id u = ids 0) (users db)"
  have taken: "?taken \<longleftrightarrow> normalize_email email \<in> u_email ` set (users db)"
    using assms(2) by (force simp: list_ex_iff)
  have audit: "audit_events (upsert_credential n t i al h d) = audit_events d" for n t i al h d
    by (simp add: upsert_credential_def split: option.splits)
  have cred: "get_credential_for_user i al (record_audit_event n t ev ou ip ua md d) = get_credential_for_user i al d"
    for i al n t ev ou md d
    by (simp add: get_credential_for_user_def)
  show ?thesis
  proof (cases "normalize_email email \<in> u_email ` set (users db)")
    case True
    then have "res = Returns (Err DuplicateEmailError)" "db' = db"
      using assms(3) taken by (simp_all add: register_user_cases)
    then show ?thesis
      using True assms(1) by simp
  next
    case False
    define u where "u = \<lparr>u_id = ids 0, u_email = normalize_email email, u_is_active = True,
      u_is_verified = False, u_is_erased = False, u_authz_version = 1, u_created_at = clk 0,
      u_updated_at = clk 1, u_last_login_at = None\<rparr>"
    have "\<not> ?taken"
      using False taken by blast
    then have res: "res = Returns (Ok u)" and db': "db' = record_audit_event (ids 2) (clk 3) ''auth.user_registered''
        (Some (ids 0)) ip ua [] (upsert_credential (ids 1) (clk 2) (ids 0) ''argon2'' (hash_password ph pw)
          (db\<lparr>users := users db @ [u]\<rparr>))"
      using assms(3) unfolding register_user_cases u_def by (simp_all add: Let_def)
    have "users_ok (users db @ [u])"
      using assms(1,2) False by (auto simp: users_ok_def u_def)
    moreover have "length (audit_events db') = Suc (length (audit_events db))"
      unfolding db' by (simp add: record_audit_event_def audit)
    moreover have "map_option cr_hash (get_credential_for_user (ids 0) ''argon2'' db') = Some (hash_password ph pw)"
      unfolding db' cred by (rule cr_hash_upsert)
    ultimately show ?thesis
      using False res by (simp add: db' u_def)
  qed
qed

theorem register_keeps_accounts_unique_witness:
  "\<exists>u db'. register_user sample_hasher True int word_of_nat ''b@x'' ''pw'' None None sample_auth_db =
     (Returns (Ok u), db') \<and> users_ok (users db')"
proof -
  have norm: "normalize_email ''b@x'' = ''b@x''"
    by code_simp
  have ok: "users_ok (users sample_auth_db)" "word_of_nat 0 \<notin> u_id ` set (users sample_auth_db)"
    by (simp_all add: users_ok_def sample_account_def)
  obtain res db' where run: "register_user sample_hasher True int word_of_nat ''b@x'' ''pw'' None None sample_auth_db = (res, db')"
    by force
  have "normalize_email ''b@x'' \<notin> u_email ` set (users sample_auth_db)"
    by (simp add: norm sample_account_def)
  then show ?thesis
    using register_keeps_accounts_unique [OF ok run] run by auto
qed

text \<open>
  A registered account can log in with its password and with no other
  (where email verification is not required).
\<close>

theorem register_then_login:
  assumes "hasher_laws ph" and "jwt_secret st = Returns secret" and "\<not> auth_require_email_verification st"
    and "register_user ph True clk ids email pw ip ua db = (Returns (Ok u), db1)"
    and "ids' 1 \<notin> rt_family_id ` set (refresh_tokens db)"
    and "hash_token raw \<notin> rt_token_hash ` set (refresh_tokens db)"
  shows "(\<exists>tokens db2. login_user ph lib st clk' ids' raw email pw ip' ua' db1 =
      (Returns (Ok (tokens, principal_from_user u)), db2)) \<and>
    (\<forall>q. q \<noteq> pw \<longrightarrow> fst (login_user ph lib st clk' ids' raw email q ip' ua' db1) =
      Returns (Err InvalidCredentialsError))"
proof -
  have free: "\<not> list_ex (\<lambda>u. u_email u = normalize_email email \<or> u_id u = ids 0) (users db)"
    and u: "u = \<lparr>u_id = ids 0, u_email = normalize_email email, u_is_active = True,
      u_is_verified = False, u_is_erased = False, u_authz_version = 1, u_created_at = clk 0,
      u_updated_at = clk 1, u_last_login_at = None\<rparr>"
    and db1: "db1 = record_audit_event (ids 2) (clk 3) ''auth.user_registered'' (Some (ids 0)) ip ua []
        (upsert_credential (ids 1) (clk 2) (ids 0) ''argon2'' (hash_password ph pw) (db\<lparr>users := users db @ [u]\<rparr>))"
    using assms(4) unfolding register_user_cases by (auto simp: Let_def split: if_splits)
  have "find (\<lambda>u. u_email u = normalize_email email \<and> \<not> u_is_erased u) (users db) = None"
    using free by (auto simp: find_None_iff_all list_ex_iff)
  then have found: "get_by_email (normalize_email email) db1 = Some u"
    by (simp add: get_by_email_def db1 find_append u)
  obtain c where c: "login_credential (Some u) db1 = Some c" "cr_hash c = hash_password ph pw"
    using cr_hash_upsert [of "ids 0" "''argon2''" "ids 1" "clk 2" "hash_password ph pw" "db\<lparr>users := users db @ [u]\<rparr>"]
    by (auto simp: login_credential_def u db1 get_credential_for_user_def)
  have "u_is_active u"
    by (simp add: u)
  then have "login_user ph lib st clk' ids' raw email q ip' ua' db1 =
      (if q = pw then login_issue lib st clk' ids' raw u ip' ua' db1
       else (Returns (Err InvalidCredentialsError), login_failed clk' ids' (Some u) ip' ua' ''invalid_credentials'' db1))" for q
    using assms(3) verify_hashed [OF assms(1), of pw q] by (simp add: login_user_def found c Let_def)
  moreover have "refresh_tokens db1 = refresh_tokens db"
    by (simp add: db1)
  ultimately show ?thesis
    using login_issue_Ok [where ids = ids' and db = db1, OF assms(2), of raw lib clk' u ip' ua'] assms(5,6) by auto
qed

theorem register_then_login_witness:
  "\<exists>u db1 tokens p db2. register_user sample_hasher True int word_of_nat ''b@x'' ''pw2'' None None sample_auth_db =
     (Returns (Ok u), db1) \<and>
   login_user sample_hasher sample_jwt sample_settings int (\<lambda>n. word_of_nat (n + 100)) ''raw'' ''b@x'' ''pw2'' None None db1 =
     (Returns (Ok (tokens, p)), db2)"
proof -
  have norm: "normalize_email ''b@x'' = ''b@x''"
    by code_simp
  have "\<exists>u db1. register_user sample_hasher True int word_of_nat ''b@x'' ''pw2'' None None sample_auth_db = (Returns (Ok u), db1)"
    by (simp add: register_user_cases norm sample_account_def Let_def)
  then obtain u db1 where reg: "register_user sample_hasher True int word_of_nat ''b@x'' ''pw2'' None None sample_auth_db =
      (Returns (Ok u), db1)"
    by blast
  have fresh: "word_of_nat (1 + 100) \<notin> rt_family_id ` set (refresh_tokens sample_auth_db)"
    "hash_token ''raw'' \<notin> rt_token_hash ` set (refresh_tokens sample_auth_db)"
    using hash_old_raw by (simp_all add: sample_refresh_def)
  show ?thesis
    using register_then_login [where ids' = "\<lambda>n. word_of_nat (n + 100)", OF sample_hasher_laws sample_decides(4) _ reg fresh,
        of sample_jwt int None None] reg by auto
qed

end
