(* ===== verification/Auth_Token_Props.thy ===== *)
theory Auth_Token_Props
  imports Single_Use Auth_Login_Props
begin

text \<open>
  Properties of the single-use token flows: a token is accepted at most once, a
  password reset changes the password and ends every session, requesting a reset
  replaces older tokens and queues the mail in the same transaction, and what
  the reply to a reset request reveals.
\<close>

subsection \<open>Writers of the token table\<close>

inductive token_step :: "string \<Rightarrow> database \<Rightarrow> database \<Rightarrow> bool" for h where
  request_reset: "request_password_reset ph st uow carrier clk ids raw email ip db = (r, db') \<Longrightarrow>
    hash_token raw \<noteq> h \<Longrightarrow> token_step h db db'"
| request_verify: "request_email_verification ph st uow carrier clk ids raw user ip db = (r, db') \<Longrightarrow>
    hash_token raw \<noteq> h \<Longrightarrow> token_step h db db'"
| confirm_reset: "confirm_password_reset_body True clk ids new_hash token db = (r', db') \<Longrightarrow> token_step h db db'"
| confirm_verify: "confirm_email_verification_body True clk ids token db = (r', db') \<Longrightarrow> token_step h db db'"
| purge: "purge_expired_tokens now d db = Some (rep, db') \<Longrightarrow> token_step h db db'"
| other: "internal_tokens db' = internal_tokens db \<Longrightarrow> token_step h db db'"

lemma internal_tokens_outbox [simp]:
  "internal_tokens (snd (outbox_enqueue i a c carrier job payload avail db)) = internal_tokens db"
  by (simp add: outbox_enqueue_def split: option.splits py_datetime.splits)

lemma hashes_invalidate:
  "it_token_hash ` set (internal_tokens (snd (invalidate_unused_tokens_for now i pu db))) =
     it_token_hash ` set (internal_tokens db)"
  unfolding invalidate_unused_tokens_for_def Let_def snd_conv set_map [symmetric]
  by (simp add: map_update_where del: set_map)

lemma list_ex_hash: "list_ex (\<lambda>t. f t = h) xs \<longleftrightarrow> h \<in> f ` set xs"
  by (auto simp: list_ex_iff)

lemma invalidate_db:
  "snd (invalidate_unused_tokens_for now i pu db) =
     db\<lparr>internal_tokens := internal_tokens (snd (invalidate_unused_tokens_for now i pu db))\<rparr>"
  by (simp add: invalidate_unused_tokens_for_def Let_def)

text \<open>Issuing a token writes three rows, or raises when the hash is already stored.\<close>

definition issued_row :: "(nat \<Rightarrow> datetime) \<Rightarrow> (nat \<Rightarrow> uuid) \<Rightarrow> uuid \<Rightarrow> string \<Rightarrow> string \<Rightarrow> datetime \<Rightarrow>
    string option \<Rightarrow> internal_token_row" where
  "issued_row clk ids i pu raw ex ip =
     \<lparr>it_id = ids 0, it_user_id = Some i, it_purpose = pu, it_token_hash = hash_token raw,
      it_expires_at = ex, it_used_at = None, it_created_at = clk 2, it_created_ip = ip\<rparr>"

lemma issue_internal_token_eq:
  "issue_internal_token clk ids carrier u pu ev raw ex ip payload db =
     (let rows = internal_tokens (snd (invalidate_unused_tokens_for (clk 1) (u_id u) pu db))
      in if hash_token raw \<in> it_token_hash ` set (internal_tokens db)
         then (Raises IntegrityError, db\<lparr>internal_tokens := rows\<rparr>)
         else (Returns (), snd (outbox_enqueue (ids 2) (clk 4) (clk 5) carrier SEND_EMAIL_JOB payload None
           (record_audit_event (ids 1) (clk 3) ev (Some (u_id u)) ip None []
             (db\<lparr>internal_tokens := rows @ [issued_row clk ids (u_id u) pu raw ex ip]\<rparr>)))))"
proof -
  obtain rows where rows: "snd (invalidate_unused_tokens_for (clk 1) (u_id u) pu db) = db\<lparr>internal_tokens := rows\<rparr>"
    using invalidate_db by blast
  have "it_token_hash ` set rows = it_token_hash ` set (internal_tokens db)"
    using hashes_invalidate [of "clk 1" "u_id u" pu db] unfolding rows by simp
  then show ?thesis
    unfolding issue_internal_token_def andthen_def rows create_internal_token_def list_ex_hash
    by (simp add: Let_def issued_row_def outbox_enqueue_def)
qed

lemma spent_issue:
  assumes "issue_internal_token clk ids carrier u pu' ev raw ex ip payload db = (Returns (), db')"
    and "hash_token raw \<noteq> h" and "spent h pu db"
  shows "spent h pu db'"
proof -
  have "spent h pu (snd (invalidate_unused_tokens_for (clk 1) (u_id u) pu' db))"
    using assms(3) by (rule spent_invalidate)
  then show ?thesis
    using assms(1,2) unfolding issue_internal_token_eq
    by (auto simp: spent_def Let_def issued_row_def split: if_splits)
qed

lemma spent_transaction_issue:
  assumes "andthen (transaction (issue_internal_token clk ids carrier u pu' ev raw ex ip payload))
      (\<lambda>_ db1. (f, db1)) db = (r, db')"
    and "hash_token raw \<noteq> h" and "spent h pu db"
  shows "spent h pu db'"
proof (cases "issue_internal_token clk ids carrier u pu' ev raw ex ip payload db")
  case (Pair q db1)
  then show ?thesis
    using assms spent_issue [of clk ids carrier u pu' ev raw ex ip payload db db1 h pu]
    by (cases q) (auto simp: andthen_def transaction_def)
qed

lemma purge_internal_tokens:
  assumes "purge_expired_tokens now d db = Some (rep, db')"
  shows "set (internal_tokens db') \<subseteq> set (internal_tokens db)"
proof -
  let ?cutoff = "now - days d"
  obtain n db1 m where 1: "delete_expired_refresh_tokens ?cutoff db = Some (n, db1)"
      "delete_expired_internal_tokens ?cutoff db1 = Some (m, db')"
    using assms by (auto simp: purge_expired_tokens_def Let_def split: option.splits)
  have "internal_tokens (snd (n, db1)) = internal_tokens db"
    using 1(1) unfolding delete_expired_refresh_tokens_def
    by (rule drain_loop_invariant) (simp_all add: delete_refresh_batch_def Let_def)
  moreover have "set (internal_tokens (snd (m, db'))) \<subseteq> set (internal_tokens db1)"
    using 1(2) unfolding delete_expired_internal_tokens_def
  proof (rule drain_loop_invariant)
    fix s :: database
    assume "set (internal_tokens s) \<subseteq> set (internal_tokens db1)"
    then show "set (internal_tokens (snd (delete_internal_batch ?cutoff s))) \<subseteq> set (internal_tokens db1)"
      using delete_first_subset [of 10000 "internal_expired ?cutoff" "internal_tokens s"]
      by (auto simp: delete_internal_batch_def Let_def)
  qed simp
  ultimately show ?thesis
    by simp
qed

lemma token_step_spent: "token_step h db db' \<Longrightarrow> spent h pu db \<Longrightarrow> spent h pu db'"
proof (induction rule: token_step.induct)
  case (request_reset ph st uow carrier clk ids raw email ip db r db')
  then show ?case
    by (auto simp: request_password_reset_def Let_def dest: spent_transaction_issue
        split: outcome.splits option.splits if_splits)
next
  case (request_verify ph st uow carrier clk ids raw user ip db r db')
  then show ?case
    by (auto simp: request_email_verification_def Let_def dest: spent_transaction_issue
        split: outcome.splits option.splits if_splits)
next
  case (confirm_reset clk ids new_hash token db r' db')
  then show ?case by (rule reset_token.consume_keeps_spent)
next
  case (confirm_verify clk ids token db r' db')
  then show ?case by (rule verify_token.consume_keeps_spent)
next
  case (purge now d db rep db')
  then show ?case using spent_subset [OF _ purge_internal_tokens] by blast
next
  case (other db' db)
  then show ?case using spent_same by blast
qed

lemma token_steps_spent: "(token_step h)\<^sup>*\<^sup>* db db' \<Longrightarrow> spent h pu db \<Longrightarrow> spent h pu db'"
  by (induction rule: rtranclp_induct) (auto intro: token_step_spent)


subsection \<open>Accepted at most once\<close>

lemma confirm_reset_Ok:
  assumes "confirm_password_reset ph port True clk ids token pw (db, c) = (Returns (Ok ()), db1, c1)"
  shows "\<exists>u. confirm_password_reset_body True clk ids (hash_password ph pw) token db = (Returns (Ok u), db1) \<and>
    c1 = (case port of None \<Rightarrow> c | Some pc \<Rightarrow> pc_invalidate_user pc (clk 6) u c)"
  using assms
  by (auto simp: confirm_password_reset_def invalidate_after_def transaction_def Let_def
      split: prod.splits outcome.splits result.splits)

lemma confirm_verification_Ok:
  assumes "confirm_email_verification port True clk ids token (db, c) = (Returns (Ok ()), db1, c1)"
  shows "\<exists>u. confirm_email_verification_body True clk ids token db = (Returns (Ok u), db1)"
  using assms
  by (auto simp: confirm_email_verification_def invalidate_after_def transaction_def
      split: prod.splits outcome.splits result.splits)

text \<open>
  C11. A password-reset token is accepted at most once: after a successful
  confirmation, and whatever requests, confirmations, purges and unrelated calls
  follow (a fresh token never hashing like the consumed one), presenting it again
  is refused and changes nothing.
\<close>

theorem reset_token_single_use:
  assumes "confirm_password_reset ph port True clk ids token pw (db, c) = (Returns (Ok ()), db1, c1)"
    and "internal_tokens_ok (internal_tokens db)" and "(token_step (hash_token token))\<^sup>*\<^sup>* db1 db2"
  shows "\<exists>e. confirm_password_reset ph port True clk' ids' token pw' (db2, c2) = (Returns (Err e), db2, c2)"
proof -
  obtain u where "confirm_password_reset_body True clk ids (hash_password ph pw) token db = (Returns (Ok u), db1)"
    using confirm_reset_Ok [OF assms(1)] by blast
  then have "spent (hash_token token) PASSWORD_RESET_PURPOSE db2"
    using reset_token.consumed_spent assms(2) token_steps_spent [OF assms(3)] by blast
  then obtain e where "confirm_password_reset_body True clk' ids' (hash_password ph pw') token db2 = (Returns (Err e), db2)"
    using reset_token.spent_refused by blast
  then show ?thesis
    by (simp add: confirm_password_reset_def Let_def transaction_def invalidate_after_def)
qed

lemma sample_reset:
  "\<exists>db1. confirm_password_reset sample_hasher (None :: unit cache_port option) True int word_of_nat ''reset'' ''new''
     (sample_auth_db, ()) = (Returns (Ok ()), db1, ())"
  by (simp add: confirm_password_reset_def confirm_password_reset_body_def get_internal_token_for_update_def
      sample_reset_token_def PASSWORD_RESET_PURPOSE_def transaction_def invalidate_after_def Let_def)

lemma sample_internal_ok [simp]: "internal_tokens_ok (internal_tokens sample_auth_db)"
  by (simp add: internal_tokens_ok_def)

theorem reset_token_single_use_witness:
  "\<exists>db1 e. confirm_password_reset sample_hasher (None :: unit cache_port option) True int word_of_nat ''reset'' ''new''
     (sample_auth_db, ()) = (Returns (Ok ()), db1, ()) \<and>
   confirm_password_reset sample_hasher (None :: unit cache_port option) True int word_of_nat ''reset'' ''newer''
     (db1, ()) = (Returns (Err e), db1, ())"
proof -
  obtain db1 where "confirm_password_reset sample_hasher (None :: unit cache_port option) True int word_of_nat ''reset'' ''new''
     (sample_auth_db, ()) = (Returns (Ok ()), db1, ())"
    using sample_reset by blast
  from this reset_token_single_use [OF this sample_internal_ok rtranclp.rtrancl_refl, of int word_of_nat "''newer''" "()"]
  show ?thesis
    by blast
qed

text \<open>
  An email-verification token is accepted at most once, in the same sense.
\<close>

theorem verification_token_single_use:
  assumes "confirm_email_verification port True clk ids token (db, c) = (Returns (Ok ()), db1, c1)"
    and "internal_tokens_ok (internal_tokens db)" and "(token_step (hash_token token))\<^sup>*\<^sup>* db1 db2"
  shows "\<exists>e. confirm_email_verification port True clk' ids' token (db2, c2) = (Returns (Err e), db2, c2)"
proof -
  obtain u where "confirm_email_verification_body True clk ids token db = (Returns (Ok u), db1)"
    using confirm_verification_Ok [OF assms(1)] by blast
  then have "spent (hash_token token) EMAIL_VERIFY_PURPOSE db2"
    using verify_token.consumed_spent assms(2) token_steps_spent [OF assms(3)] by blast
  then obtain e where "confirm_email_verification_body True clk' ids' token db2 = (Returns (Err e), db2)"
    using verify_token.spent_refused by blast
  then show ?thesis
    by (simp add: confirm_email_verification_def transaction_def invalidate_after_def)
qed

theorem verification_token_single_use_witness:
  "\<exists>db1 e. confirm_email_verification (None :: unit cache_port option) True int word_of_nat ''reset''
     (sample_auth_db\<lparr>internal_tokens := [sample_reset_token\<lparr>it_purpose := ''email_verify''\<rparr>]\<rparr>, ()) =
       (Returns (Ok ()), db1, ()) \<and>
   confirm_email_verification (None :: unit cache_port option) True int word_of_nat ''reset'' (db1, ()) =
     (Returns (Err e), db1, ())"
proof -
  let ?db = "sample_auth_db\<lparr>internal_tokens := [sample_reset_token\<lparr>it_purpose := ''email_verify''\<rparr>]\<rparr>"
  have "\<exists>db1. confirm_email_verification (None :: unit cache_port option) True int word_of_nat ''reset'' (?db, ()) =
      (Returns (Ok ()), db1, ())"
    by (simp add: confirm_email_verification_def confirm_email_verification_body_def get_internal_token_for_update_def
        sample_reset_token_def EMAIL_VERIFY_PURPOSE_def transaction_def invalidate_after_def)
  then obtain db1 where "confirm_email_verification (None :: unit cache_port option) True int word_of_nat ''reset'' (?db, ()) =
      (Returns (Ok ()), db1, ())"
    by blast
  moreover have "internal_tokens_ok (internal_tokens ?db)"
    by (simp add: internal_tokens_ok_def)
  ultimately show ?thesis
    using verification_token_single_use [of None int word_of_nat "''reset''" ?db "()" db1 "()" db1 int word_of_nat "()"]
    by blast
qed


subsection \<open>What a reset does\<close>

lemma version_bump_other:
  "find_user i db = Some u \<Longrightarrow> version_of i (bump_authz_version now i db) = version_of i db + 1"
  by (simp add: bump_authz_version_def version_update_user) (simp add: version_of_def)

lemma version_of_users: "users db = users db' \<Longrightarrow> version_of i db = version_of i db'"
  by (simp add: version_of_def find_user_def)

lemma bump_users_cong:
  "users db = users db' \<Longrightarrow> users (bump_authz_version now i db) = users (bump_authz_version now i db')"
  by (simp add: bump_authz_version_def users_update_user)

lemma revoke_user_dead:
  assumes "t \<in> set (refresh_tokens (revoke_user_refresh_tokens now i db))" and "rt_user_id t = i"
  shows "\<not> live t"
proof -
  obtain s where "t = (if rt_user_id s = i \<and> rt_revoked_at s = None then s\<lparr>rt_revoked_at := Some now\<rparr> else s)"
    using assms(1) by (auto simp: revoke_user_refresh_tokens_def in_update_where_iff simp del: split_paired_Ex)
  then show ?thesis
    using assms(2) by (simp add: live_def split: if_splits)
qed

text \<open>
  C12. A confirmed password reset takes effect completely: afterwards the owner's
  credential verifies the new password and no other, none of the owner's refresh
  tokens is live, and the owner's authorization version is one higher, so access
  tokens issued before no longer match it.
\<close>

theorem password_reset_effective:
  assumes "hasher_laws ph"
    and "confirm_password_reset ph port True clk ids token pw (db, c) = (Returns (Ok ()), db1, c1)"
  shows "\<exists>t i. get_internal_token_for_update (hash_token token) PASSWORD_RESET_PURPOSE db = Some t \<and>
    it_user_id t = Some i \<and> it_used_at t = None \<and> clk 0 < it_expires_at t \<and>
    (\<exists>cred. get_credential_for_user i ''argon2'' db1 = Some cred \<and>
       (\<forall>q. verify_password ph (cr_hash cred) q = Returns (q = pw))) \<and>
    (\<forall>r\<in>set (refresh_tokens db1). rt_user_id r = i \<longrightarrow> \<not> live r) \<and>
    (find_user i db \<noteq> None \<longrightarrow> version_of i db1 = version_of i db + 1)"
proof -
  obtain i where run: "confirm_password_reset_body True clk ids (hash_password ph pw) token db = (Returns (Ok i), db1)"
    using confirm_reset_Ok [OF assms(2)] by blast
  then obtain t where t: "get_internal_token_for_update (hash_token token) PASSWORD_RESET_PURPOSE db = Some t"
      "it_user_id t = Some i" "it_used_at t = None" "clk 0 < it_expires_at t"
    using reset_token.consume_Ok [OF run] by blast
  let ?db' = "upsert_credential (ids 0) (clk 1) i ''argon2'' (hash_password ph pw) db"
  have db1: "db1 = record_audit_event (ids 1) (clk 5) ''auth.password_reset_completed'' (Some i) None None []
      (revoke_user_refresh_tokens (clk 4) i (mark_internal_token_used (clk 3) (it_id t) (bump_authz_version (clk 2) i ?db')))"
    using run t by (simp add: confirm_password_reset_body_def Let_def)
  have "get_credential_for_user i ''argon2'' db1 = get_credential_for_user i ''argon2'' ?db'"
    by (simp add: db1 get_credential_for_user_def)
  then obtain cred where cred: "get_credential_for_user i ''argon2'' db1 = Some cred" "cr_hash cred = hash_password ph pw"
    using cr_hash_upsert [of i "''argon2''" "ids 0" "clk 1" "hash_password ph pw" db] by auto
  have "verify_password ph (cr_hash cred) q = Returns (q = pw)" for q
    using verify_hashed [OF assms(1), of pw q] cred by auto
  moreover have "\<not> live r" if "r \<in> set (refresh_tokens db1)" "rt_user_id r = i" for r
    using that revoke_user_dead unfolding db1 refresh_tokens_frame by blast
  moreover have "version_of i db1 = version_of i db + 1" if "find_user i db \<noteq> None"
  proof -
    have "users db1 = users (bump_authz_version (clk 2) i db)"
      by (simp add: db1) (rule bump_users_cong, simp)
    then have "version_of i db1 = version_of i (bump_authz_version (clk 2) i db)"
      by (rule version_of_users)
    then show ?thesis
      using that version_bump_other [of i db _ "clk 2"] by auto
  qed
  ultimately show ?thesis
    using t cred by blast
qed

theorem password_reset_effective_witness:
  "\<exists>db1. confirm_password_reset sample_hasher (None :: unit cache_port option) True int word_of_nat ''reset'' ''new''
     (sample_auth_db, ()) = (Returns (Ok ()), db1, ()) \<and>
   (\<forall>r\<in>set (refresh_tokens db1). rt_user_id r = 7 \<longrightarrow> \<not> live r)"
proof -
  obtain db1 where run: "confirm_password_reset sample_hasher (None :: unit cache_port option) True int word_of_nat ''reset'' ''new''
     (sample_auth_db, ()) = (Returns (Ok ()), db1, ())"
    using sample_reset by blast
  have "get_internal_token_for_update (hash_token ''reset'') PASSWORD_RESET_PURPOSE sample_auth_db = Some sample_reset_token"
    by (simp add: get_internal_token_for_update_def sample_reset_token_def PASSWORD_RESET_PURPOSE_def)
  then show ?thesis
    using password_reset_effective [OF sample_hasher_laws run] run by (auto simp: sample_reset_token_def)
qed


subsection \<open>What a request does\<close>

definition usable :: "uuid \<Rightarrow> string \<Rightarrow> internal_token_row \<Rightarrow> bool" where
  "usable i pu t \<longleftrightarrow> it_user_id t = Some i \<and> it_purpose t = pu \<and> it_used_at t = None"

lemma filter_update_where_none:
  "(\<And>r. \<not> P (f r)) \<Longrightarrow> filter P (update_where P f rows) = []"
  by (induction rows) auto

lemma no_usable_after_invalidate:
  "filter (usable i pu) (internal_tokens (snd (invalidate_unused_tokens_for now i pu db))) = []"
proof -
  have "filter (usable i pu) (update_where (usable i pu) (\<lambda>t. t\<lparr>it_used_at := Some now\<rparr>) (internal_tokens db)) = []"
    by (rule filter_update_where_none) (simp add: usable_def)
  then show ?thesis
    by (simp add: invalidate_unused_tokens_for_def Let_def usable_def [abs_def])
qed

text \<open>
  A reset request for a known address leaves exactly one usable reset token
  for the account, the new one, and queues exactly one mail job with it, in one
  transaction; for an unknown address, a missing unit of work or a token hash
  that is already stored nothing is written.
\<close>

theorem request_reset_atomic:
  assumes "hasher_laws ph"
    and "request_password_reset ph st uow carrier clk ids raw email ip db = (r, db')"
  shows "case get_by_email (normalize_email email) db of
      None \<Rightarrow> r = Returns (Ok \<lparr>ir_token = None, ir_expires_at = None\<rparr>) \<and> db' = db
    | Some u \<Rightarrow>
        if uow \<and> hash_token raw \<notin> it_token_hash ` set (internal_tokens db)
        then \<exists>res m. r = Returns (Ok res) \<and>
          filter (usable (u_id u) ''password_reset'') (internal_tokens db') =
            [issued_row clk ids (u_id u) ''password_reset'' raw
               (clk 0 + minutes (auth_password_reset_token_expire_minutes st)) ip] \<and>
          outbox_messages db' = outbox_messages db @ [m] \<and> om_status m = ''pending'' \<and>
          om_job_name m = SEND_EMAIL_JOB \<and> dict_get (om_payload m) ''to'' = Some (JStr (u_email u)) \<and>
          (\<exists>ctx. dict_get (om_payload m) ''context'' = Some (JObj ctx) \<and>
             dict_get ctx ''reset_url'' = Some (JStr (reset_url (app_public_url st) raw))) \<and>
          users db' = users db \<and> refresh_tokens db' = refresh_tokens db \<and> credentials db' = credentials db
        else (\<exists>e. r = Raises e) \<and> db' = db"
proof (cases "get_by_email (normalize_email email) db")
  case None
  then show ?thesis
    using assms(2) verify_dummy [OF assms(1), of email] by (simp add: request_password_reset_def)
next
  case (Some u)
  note run = assms(2) [unfolded request_password_reset_def Let_def Some verify_dummy [OF assms(1)] outcome.case option.case]
  show ?thesis
  proof (cases "uow \<and> hash_token raw \<notin> it_token_hash ` set (internal_tokens db)")
    case True
    then show ?thesis
      using run Some no_usable_after_invalidate [of "u_id u" "''password_reset''" "clk 1" db]
      by (auto simp: andthen_def transaction_def issue_internal_token_eq Let_def
          outbox_enqueue_def record_audit_event_def issued_row_def usable_def dict_get_def)
  next
    case False
    then show ?thesis
      using run Some by (cases uow) (auto simp: andthen_def transaction_def issue_internal_token_eq Let_def)
  qed
qed

lemma sample_email: "get_by_email (normalize_email ''b@x'') sample_auth_db = None"
proof -
  have "normalize_email ''b@x'' = ''b@x''" "lower ''b@x'' = ''b@x''"
    by code_simp+
  then show ?thesis
    by (simp add: get_by_email_def sample_account_def)
qed

theorem request_reset_atomic_witness:
  "\<exists>res db' t. request_password_reset sample_hasher sample_settings True [] int word_of_nat ''raw'' ''a@x'' None
     (sample_auth_db\<lparr>internal_tokens := []\<rparr>) = (Returns (Ok res), db') \<and>
   filter (usable 7 ''password_reset'') (internal_tokens db') = [t] \<and> length (outbox_messages db') = 1"
proof -
  let ?db = "sample_auth_db\<lparr>internal_tokens := []\<rparr>"
  have found: "get_by_email (normalize_email ''a@x'') ?db = Some sample_account"
    using sample_decides(1) by (simp add: get_by_email_def)
  have no_mail: "outbox_messages sample_auth_db = []"
    by (simp add: sample_auth_db_def)
  obtain r db' where run: "request_password_reset sample_hasher sample_settings True [] int word_of_nat ''raw'' ''a@x'' None
     ?db = (r, db')"
    by force
  show ?thesis
    using request_reset_atomic [OF sample_hasher_laws run, unfolded found option.case] run
    by (auto simp: no_mail) (simp_all add: sample_account_def)
qed

text \<open>
  C13. The reply to a reset request carries an expiry exactly if the address
  belongs to an account, while its message is always the same: the reply tells
  registered addresses from unknown ones.
\<close>

theorem forgot_password_reply_reveals:
  assumes "hasher_laws ph"
    and "request_password_reset ph st uow carrier clk ids raw email ip db = (Returns (Ok res), db')"
  shows "(itr_expires_at (forgot_password_reply res) = None \<longleftrightarrow> get_by_email (normalize_email email) db = None) \<and>
    itr_message (forgot_password_reply res) = ''If the account exists, a reset token has been created'' \<and>
    (\<not> auth_return_internal_tokens st \<longrightarrow> itr_dev_token (forgot_password_reply res) = None)"
proof (cases "get_by_email (normalize_email email) db")
  case None
  then show ?thesis
    using assms(2) verify_dummy [OF assms(1), of email]
    by (auto simp: request_password_reset_def forgot_password_reply_def)
next
  case (Some u)
  note run = assms(2) [unfolded request_password_reset_def Let_def Some verify_dummy [OF assms(1)] outcome.case option.case]
  then show ?thesis
    using Some by (cases uow)
      (auto simp: andthen_def transaction_def issue_internal_token_eq forgot_password_reply_def Let_def
        split: if_splits)
qed

theorem forgot_password_reply_reveals_witness:
  "\<exists>res res' db1 db2.
     request_password_reset sample_hasher sample_settings True [] int word_of_nat ''raw'' ''b@x'' None sample_auth_db =
       (Returns (Ok res), db1) \<and> itr_expires_at (forgot_password_reply res) = None \<and>
     request_password_reset sample_hasher sample_settings True [] int word_of_nat ''raw'' ''a@x'' None
       (sample_auth_db\<lparr>internal_tokens := []\<rparr>) = (Returns (Ok res'), db2) \<and>
     itr_expires_at (forgot_password_reply res') \<noteq> None"
proof -
  let ?req = "\<lambda>email. request_password_reset sample_hasher sample_settings True [] int word_of_nat ''raw'' email None"
  have "\<exists>res db1. ?req ''b@x'' sample_auth_db = (Returns (Ok res), db1)"
    using sample_email by (simp add: request_password_reset_def verify_password_def sample_hasher_def
        FIXED_DUMMY_ARGON2_HASH_def)
  moreover have "\<exists>res db1. ?req ''a@x'' (sample_auth_db\<lparr>internal_tokens := []\<rparr>) = (Returns (Ok res), db1)"
    using sample_decides(1) by (simp add: request_password_reset_def verify_password_def sample_hasher_def
        FIXED_DUMMY_ARGON2_HASH_def get_by_email_def andthen_def transaction_def issue_internal_token_eq)
  ultimately obtain res db1 res' db2 where
      runs: "?req ''b@x'' sample_auth_db = (Returns (Ok res), db1)"
        "?req ''a@x'' (sample_auth_db\<lparr>internal_tokens := []\<rparr>) = (Returns (Ok res'), db2)"
    by blast
  moreover have "get_by_email (normalize_email ''a@x'') (sample_auth_db\<lparr>internal_tokens := []\<rparr>) \<noteq> None"
    using sample_decides(1) by (simp add: get_by_email_def)
  ultimately show ?thesis
    using forgot_password_reply_reveals [OF sample_hasher_laws runs(1)]
      forgot_password_reply_reveals [OF sample_hasher_laws runs(2)] sample_email
    by (intro exI [of _ res] exI [of _ res'] exI [of _ db1] exI [of _ db2]) simp
qed


subsection \<open>Retention\<close>

lemma purge_sweeps:
  "\<exists>db'. purge_expired_tokens now retention_days db =
      Some (\<lparr>refresh_tokens_deleted = count_where (refresh_expired (now - days retention_days)) (refresh_tokens db),
             internal_tokens_deleted = count_where (internal_expired (now - days retention_days)) (internal_tokens db)\<rparr>,
            db') \<and>
    map forget_replaced_by (refresh_tokens db') =
      map forget_replaced_by (filter (\<lambda>t. \<not> refresh_expired (now - days retention_days) t) (refresh_tokens db)) \<and>
    internal_tokens db' = filter (\<lambda>t. \<not> internal_expired (now - days retention_days) t) (internal_tokens db) \<and>
    db'\<lparr>refresh_tokens := [], internal_tokens := []\<rparr> = db\<lparr>refresh_tokens := [], internal_tokens := []\<rparr>"
proof -
  let ?cutoff = "now - days retention_days"
  obtain db1 where r: "delete_expired_refresh_tokens ?cutoff db =
        Some (count_where (refresh_expired ?cutoff) (refresh_tokens db), db1)"
      "count_where (refresh_expired ?cutoff) (refresh_tokens db1) = 0"
      "map forget_replaced_by (filter (\<lambda>t. \<not> refresh_expired ?cutoff t) (refresh_tokens db1)) =
        map forget_replaced_by (filter (\<lambda>t. \<not> refresh_expired ?cutoff t) (refresh_tokens db))"
      "db1\<lparr>refresh_tokens := []\<rparr> = db\<lparr>refresh_tokens := []\<rparr>"
    using refresh_purge.drain_loop_ends [of ?cutoff 0 db] by (auto simp: delete_expired_refresh_tokens_def)
  obtain db2 where i: "delete_expired_internal_tokens ?cutoff db1 =
        Some (count_where (internal_expired ?cutoff) (internal_tokens db1), db2)"
      "count_where (internal_expired ?cutoff) (internal_tokens db2) = 0"
      "filter (\<lambda>t. \<not> internal_expired ?cutoff t) (internal_tokens db2) =
        filter (\<lambda>t. \<not> internal_expired ?cutoff t) (internal_tokens db1)"
      "db2\<lparr>internal_tokens := []\<rparr> = db1\<lparr>internal_tokens := []\<rparr>"
    using internal_purge.drain_loop_ends [of ?cutoff 0 db1] by (auto simp: delete_expired_internal_tokens_def)
  obtain rows where "db1 = db\<lparr>refresh_tokens := rows\<rparr>"
    using r(4) by (cases db1, cases db) auto
  moreover obtain rows' where "db2 = db1\<lparr>internal_tokens := rows'\<rparr>"
    using i(4) by (cases db2, cases db1) auto
  ultimately show ?thesis
    using r(1-3) i(1-3) count_where_0 [OF r(2)] count_where_0 [OF i(2)]
    by (simp add: purge_expired_tokens_def Let_def)
qed

text \<open>
  Purging ends and is exact: the batched loops terminate, report the number
  of rows past the cutoff, and leave exactly the other rows (up to
  \<open>replaced_by\<close> pointers to deleted rows, which the database clears).
\<close>

theorem purge_exact:
  "\<exists>db'. purge_expired_tokens now retention_days db =
      Some (\<lparr>refresh_tokens_deleted = count_where (refresh_expired (now - days retention_days)) (refresh_tokens db),
             internal_tokens_deleted = count_where (internal_expired (now - days retention_days)) (internal_tokens db)\<rparr>,
            db') \<and>
    map forget_replaced_by (refresh_tokens db') =
      map forget_replaced_by (filter (\<lambda>t. \<not> refresh_expired (now - days retention_days) t) (refresh_tokens db)) \<and>
    internal_tokens db' = filter (\<lambda>t. \<not> internal_expired (now - days retention_days) t) (internal_tokens db) \<and>
    db'\<lparr>refresh_tokens := [], internal_tokens := []\<rparr> = db\<lparr>refresh_tokens := [], internal_tokens := []\<rparr>"
  by (rule purge_sweeps)

text \<open>
  A stored token hash is always a string of 64 lowercase hexadecimal digits,
  whatever the token is.
\<close>

theorem hash_token_shape:
  "length (hash_token token) = 64 \<and> set (hash_token token) \<subseteq> set ''0123456789abcdef''"
  unfolding hash_token_def using length_hexdigest [of "sha256 (utf8_encode token)"] set_hexdigest by simp

end
