(* ===== verification/Auth_Access_Props.thy ===== *)
theory Auth_Access_Props
  imports Auth_Sessions Samples
begin

text \<open>
  Properties of access tokens and of resolving them: the round trip through the
  JWT library, the contract of the in-process principal cache, and that a
  revocation (a new authorization version followed by an eviction) is final
  under every cache that keeps the contract.
\<close>

subsection \<open>Issuing and decoding\<close>




subsection \<open>The cache contract and its client\<close>

text \<open>
  \<open>claims\<close> maps a token id to the subject and version of the token that carries
  it; ids are drawn once per token. \<open>resolve_step\<close> is the traffic on the cache:
  resolving tokens against the database of that moment, and evictions.
\<close>

inductive resolve_step ::
  "'tok jwt_lib \<Rightarrow> app_settings \<Rightarrow> 'c cache_port \<Rightarrow> (string \<Rightarrow> uuid \<times> int) \<Rightarrow> (database \<Rightarrow> bool) \<Rightarrow>
   datetime \<times> 'c \<Rightarrow> datetime \<times> 'c \<Rightarrow> bool"
  for lib st port claims allowed_db where
  resolve: "now \<le> now' \<Longrightarrow> allowed_db db \<Longrightarrow>
    (\<And>pl. decode_access_token lib st now' token = Returns (Ok pl) \<Longrightarrow>
       claims (tp_token_id pl) = (tp_subject pl, tp_authz_version pl)) \<Longrightarrow>
    resolve_principal lib st port now' token db c = (r, c') \<Longrightarrow>
    resolve_step lib st port claims allowed_db (now, c) (now', c')"
| evict: "now \<le> now' \<Longrightarrow>
    resolve_step lib st port claims allowed_db (now, c) (now', pc_invalidate_user port now' i c)"

definition entries_match :: "(string \<Rightarrow> uuid \<times> int) \<Rightarrow> 'c cache_port \<Rightarrow> datetime \<Rightarrow> 'c \<Rightarrow> bool" where
  "entries_match claims port now c \<longleftrightarrow>
     (\<forall>tid p. pc_get port now c tid = Some p \<longrightarrow> claims tid = (p_user_id p, p_authz_version p))"

definition left_version :: "uuid \<Rightarrow> int \<Rightarrow> database \<Rightarrow> bool" where
  "left_version u v db \<longleftrightarrow> (\<forall>user. get_by_id u db = Some user \<longrightarrow> u_authz_version user \<noteq> v)"

locale principal_cache =
  fixes port :: "'c cache_port" and ok :: "datetime \<Rightarrow> 'c \<Rightarrow> bool"
  assumes contract: "cache_contract port ok"
begin

lemma later:
  assumes "ok now c" and "now \<le> now'"
  shows "ok now' c" and "pc_get port now' c t = Some p \<Longrightarrow> pc_get port now c t = Some p"
proof -
  have 1: "ok now' c \<and> pc_get port now' c \<subseteq>\<^sub>m pc_get port now c"
    using contract assms unfolding cache_contract_def by blast
  then show "ok now' c" by blast
  show "pc_get port now' c t = Some p \<Longrightarrow> pc_get port now c t = Some p"
    by (rule map_leD [OF conjunct2 [OF 1]])
qed

lemma after_set:
  assumes "ok now c"
  shows "ok now (pc_set port now tid q c)"
    and "pc_get port now (pc_set port now tid q c) t = Some p \<Longrightarrow> (t = tid \<and> p = q) \<or> pc_get port now c t = Some p"
proof -
  have 1: "ok now (pc_set port now tid q c) \<and>
      pc_get port now (pc_set port now tid q c) \<subseteq>\<^sub>m (pc_get port now c)(tid \<mapsto> q)"
    using contract assms unfolding cache_contract_def by blast
  then show "ok now (pc_set port now tid q c)" by blast
  assume "pc_get port now (pc_set port now tid q c) t = Some p"
  then have "((pc_get port now c)(tid \<mapsto> q)) t = Some p"
    by (rule map_leD [OF conjunct2 [OF 1]])
  then show "(t = tid \<and> p = q) \<or> pc_get port now c t = Some p"
    by (simp split: if_splits)
qed

lemma after_pop:
  assumes "ok now c"
  shows "ok now (pc_pop port now tid c)"
    and "pc_get port now (pc_pop port now tid c) t = Some p \<Longrightarrow> pc_get port now c t = Some p"
proof -
  have 1: "ok now (pc_pop port now tid c) \<and> pc_get port now (pc_pop port now tid c) \<subseteq>\<^sub>m (pc_get port now c)(tid := None)"
    using contract assms unfolding cache_contract_def by blast
  then show "ok now (pc_pop port now tid c)" by blast
  assume "pc_get port now (pc_pop port now tid c) t = Some p"
  then have "((pc_get port now c)(tid := None)) t = Some p"
    by (rule map_leD [OF conjunct2 [OF 1]])
  then show "pc_get port now c t = Some p"
    by (simp split: if_splits)
qed

lemma after_invalidate:
  assumes "ok now c"
  shows "ok now (pc_invalidate_user port now u c)"
    and "pc_get port now (pc_invalidate_user port now u c) t = Some p \<Longrightarrow>
      p_user_id p \<noteq> u \<and> pc_get port now c t = Some p"
proof -
  have 1: "ok now (pc_invalidate_user port now u c) \<and>
      pc_get port now (pc_invalidate_user port now u c) \<subseteq>\<^sub>m
        (\<lambda>t. case pc_get port now c t of None \<Rightarrow> None | Some p \<Rightarrow> if p_user_id p = u then None else Some p)"
    using contract assms unfolding cache_contract_def by blast
  then show "ok now (pc_invalidate_user port now u c)" by blast
  assume "pc_get port now (pc_invalidate_user port now u c) t = Some p"
  then have "(case pc_get port now c t of None \<Rightarrow> None | Some p \<Rightarrow> if p_user_id p = u then None else Some p) = Some p"
    by (rule map_leD [OF conjunct2 [OF 1]])
  then show "p_user_id p \<noteq> u \<and> pc_get port now c t = Some p"
    by (simp split: option.splits if_splits)
qed

end

text \<open>
  What holds after the eviction and stays true: entries carry the claims of their
  token, and none of the revoked user's entries has the revoked version.
\<close>

definition revoked_in :: "(string \<Rightarrow> uuid \<times> int) \<Rightarrow> 'c cache_port \<Rightarrow> (datetime \<Rightarrow> 'c \<Rightarrow> bool) \<Rightarrow> uuid \<Rightarrow> int \<Rightarrow>
    datetime \<Rightarrow> 'c \<Rightarrow> bool" where
  "revoked_in claims port ok u v now c \<longleftrightarrow> ok now c \<and>
     (\<forall>tid p. pc_get port now c tid = Some p \<longrightarrow>
        claims tid = (p_user_id p, p_authz_version p) \<and> (p_user_id p = u \<longrightarrow> p_authz_version p \<noteq> v))"

lemma get_by_id_Some: "get_by_id i db = Some u \<Longrightarrow> u_id u = i"
  by (auto simp: get_by_id_def split: option.splits if_splits dest: find_user_Some)

lemma resolve_cache_cases:
  assumes "resolve_principal lib st port now token db c = (r, c')"
  shows "c' = c \<or> (\<exists>tid. c' = pc_pop port now tid c) \<or>
    (\<exists>pl user. decode_access_token lib st now token = Returns (Ok pl) \<and> get_by_id (tp_subject pl) db = Some user \<and>
       u_authz_version user = tp_authz_version pl \<and>
       c' = pc_set port now (tp_token_id pl) (principal_from_user user) c)"
  using assms
  by (auto simp: resolve_principal_def Let_def principal_from_user_def
      split: outcome.splits result.splits option.splits if_splits)

context principal_cache
begin

lemma revoked_later:
  "revoked_in claims port ok u v now c \<Longrightarrow> now \<le> now' \<Longrightarrow> revoked_in claims port ok u v now' c"
  unfolding revoked_in_def using later by blast

lemma revoked_resolve:
  assumes "revoked_in claims port ok u v now c" and "left_version u v db"
    and "\<And>pl. decode_access_token lib st now token = Returns (Ok pl) \<Longrightarrow>
      claims (tp_token_id pl) = (tp_subject pl, tp_authz_version pl)"
    and "resolve_principal lib st port now token db c = (r, c')"
  shows "revoked_in claims port ok u v now c'"
  using resolve_cache_cases [OF assms(4)]
proof (elim disjE exE conjE)
  fix tid assume "c' = pc_pop port now tid c"
  then show ?thesis
    using assms(1) after_pop unfolding revoked_in_def by blast
next
  fix pl user
  assume pl: "decode_access_token lib st now token = Returns (Ok pl)" and user: "get_by_id (tp_subject pl) db = Some user"
    and ver: "u_authz_version user = tp_authz_version pl"
    and c': "c' = pc_set port now (tp_token_id pl) (principal_from_user user) c"
  have ok: "ok now c"
    using assms(1) by (simp add: revoked_in_def)
  have entry: "claims tid = (p_user_id p, p_authz_version p) \<and> (p_user_id p = u \<longrightarrow> p_authz_version p \<noteq> v)"
    if hit: "pc_get port now c' tid = Some p" for tid p
  proof (cases "pc_get port now c tid = Some p")
    case True
    then show ?thesis
      using assms(1) unfolding revoked_in_def by blast
  next
    case False
    then have "tid = tp_token_id pl" "p = principal_from_user user"
      using after_set(2) [OF ok] hit unfolding c' by blast+
    then show ?thesis
      using assms(2,3) pl user ver get_by_id_Some [OF user] unfolding left_version_def principal_from_user_def by auto
  qed
  show ?thesis
    unfolding revoked_in_def using entry after_set(1) [OF ok] c' by blast
qed (use assms(1) in simp)

lemma revoked_step:
  "resolve_step lib st port claims (left_version u v) x y \<Longrightarrow> revoked_in claims port ok u v (fst x) (snd x) \<Longrightarrow>
     revoked_in claims port ok u v (fst y) (snd y)"
proof (induction rule: resolve_step.induct)
  case (resolve now now' db token c r c')
  have "revoked_in claims port ok u v now' c"
    using revoked_later resolve.prems resolve.hyps(1) by simp
  from revoked_resolve [OF this resolve.hyps(2) resolve.hyps(3) resolve.hyps(4)] show ?case
    by simp
next
  case (evict now now' c i)
  have "revoked_in claims port ok u v now' c"
    using revoked_later evict by simp
  then show ?case
    using after_invalidate unfolding revoked_in_def by (metis fst_conv snd_conv)
qed

lemma revoked_steps:
  assumes "(resolve_step lib st port claims (left_version u v))\<^sup>*\<^sup>* x y"
    and "revoked_in claims port ok u v (fst x) (snd x)"
  shows "revoked_in claims port ok u v (fst y) (snd y)"
  using assms by (induction rule: rtranclp_induct) (auto intro: revoked_step)

lemma revoked_after_evict:
  assumes "ok now c" and "entries_match claims port now c"
  shows "revoked_in claims port ok u v now (pc_invalidate_user port now u c)"
  using after_invalidate [OF assms(1)] assms(2) unfolding revoked_in_def entries_match_def by blast

lemma revoked_refused:
  assumes "revoked_in claims port ok u v now c" and "left_version u v db"
    and "decode_access_token lib st now token = Returns (Ok pl)" and "tp_subject pl = u" and "tp_authz_version pl = v"
    and "claims (tp_token_id pl) = (u, v)"
  shows "\<exists>e\<in>{InvalidTokenError, InactiveUserError, StaleTokenError}.
    fst (resolve_principal lib st port now token db c) = Returns (Err e)"
proof -
  have "pc_get port now c (tp_token_id pl) = None"
  proof (rule ccontr)
    assume "pc_get port now c (tp_token_id pl) \<noteq> None"
    then obtain p where "pc_get port now c (tp_token_id pl) = Some p"
      by blast
    then have "claims (tp_token_id pl) = (p_user_id p, p_authz_version p)" "p_user_id p = u \<longrightarrow> p_authz_version p \<noteq> v"
      using assms(1) unfolding revoked_in_def by blast+
    then show False
      using assms(6) by simp
  qed
  then show ?thesis
    using assms(2-5)
    by (auto simp: resolve_principal_def left_version_def principal_from_user_def Let_def split: option.splits)
qed

end

text \<open>The in-process cache provides the contract whenever the TTL cache behaves as documented.\<close>

locale ttl_library =
  fixes lib :: "'t ttl_cache"
  assumes laws: "ttl_laws lib"

sublocale ttl_library \<subseteq> inproc: principal_cache "inprocess_port lib" "index_ok lib"
  using laws by unfold_locales (rule inprocess_cache_contract)

interpretation sample_cache: ttl_library sample_ttl
  by unfold_locales simp

text \<open>
  The in-process cache keeps the contract of the cache port: entries appear
  only by \<open>set\<close>, disappear at any time, and after \<open>invalidate_user\<close> no entry of
  that user is returned, although the eviction only follows the secondary index.
\<close>

theorem inprocess_cache_refines_port:
  assumes "ttl_laws lib"
  shows "cache_contract (inprocess_port lib) (index_ok lib)"
  using assms by (rule inprocess_cache_contract)

theorem inprocess_cache_refines_port_witness:
  "cache_contract (inprocess_port sample_ttl) (index_ok sample_ttl)"
  by (rule inprocess_cache_refines_port) simp



end
