(* ===== verification/Jobs.thy ===== *)
theory Jobs
  imports Registry_Contract
begin

text \<open>
  Background jobs: the handler registry
  (\<open>src/features/background_jobs/application/registry.py\<close>) and the in-process
  queue (\<open>adapters/outbound/in_process/adapter.py\<close>), which runs a handler inline.
  A handler is an action on the state \<open>'s\<close> it works on. Attaching the trace
  context around the call has no effect on the state and is left out.
\<close>

type_synonym 's job_handler = "json_object \<Rightarrow> ('s, unit) action"

record 's job_handler_entry =
  je_handler :: "'s job_handler"
  je_keep_result_seconds :: "int option"

record 's job_handler_registry =
  jr_handlers :: "(string, 's job_handler_entry) dict"
  jr_sealed :: bool

definition empty_job_registry :: "'s job_handler_registry" where
  "empty_job_registry = \<lparr>jr_handlers = [], jr_sealed = False\<rparr>"

definition jobs_guard_unsealed :: "'s job_handler_registry \<Rightarrow> unit outcome" where
  "jobs_guard_unsealed reg = (if jr_sealed reg then Raises RuntimeError else Returns ())"

definition register_handler ::
  "string \<Rightarrow> 's job_handler \<Rightarrow> int option \<Rightarrow> 's job_handler_registry \<Rightarrow>
   's job_handler_registry outcome" where
  "register_handler name handler keep_result_seconds reg =
     bind_outcome (jobs_guard_unsealed reg) (\<lambda>_.
       if dict_has (jr_handlers reg) name then Raises (HandlerAlreadyRegisteredError name)
       else Returns (reg\<lparr>jr_handlers := dict_set (jr_handlers reg) name
              \<lparr>je_handler = handler, je_keep_result_seconds = keep_result_seconds\<rparr>\<rparr>))"

definition jobs_seal :: "'s job_handler_registry \<Rightarrow> 's job_handler_registry" where
  "jobs_seal reg = reg\<lparr>jr_sealed := True\<rparr>"

definition jobs_sealed :: "'s job_handler_registry \<Rightarrow> bool" where
  "jobs_sealed reg = jr_sealed reg"

definition registered_jobs :: "'s job_handler_registry \<Rightarrow> string set" where
  "registered_jobs reg = dict_keys (jr_handlers reg)"

definition jobs_get_entry :: "'s job_handler_registry \<Rightarrow> string \<Rightarrow> 's job_handler_entry outcome" where
  "jobs_get_entry reg name =
     (case dict_get (jr_handlers reg) name of
        None \<Rightarrow> Raises (UnknownJobError name) | Some entry \<Rightarrow> Returns entry)"

definition jobs_get :: "'s job_handler_registry \<Rightarrow> string \<Rightarrow> 's job_handler outcome" where
  "jobs_get reg name =
     (case dict_get (jr_handlers reg) name of
        None \<Rightarrow> Raises (UnknownJobError name) | Some entry \<Rightarrow> Returns (je_handler entry))"

definition jobs_entries :: "'s job_handler_registry \<Rightarrow> (string, 's job_handler_entry) dict" where
  "jobs_entries reg = jr_handlers reg"

definition jobs_has :: "'s job_handler_registry \<Rightarrow> string \<Rightarrow> bool" where
  "jobs_has reg name = dict_has (jr_handlers reg) name"


subsection \<open>The in-process queue\<close>

definition in_process_resolve :: "'s job_handler_registry \<Rightarrow> string \<Rightarrow> 's job_handler outcome" where
  "in_process_resolve reg job_name =
     (if \<not> jobs_has reg job_name then Raises (UnknownJobError job_name) else jobs_get reg job_name)"

definition in_process_enqueue ::
  "'s job_handler_registry \<Rightarrow> string \<Rightarrow> json_object \<Rightarrow> ('s, unit) action" where
  "in_process_enqueue reg job_name payload s =
     (case in_process_resolve reg job_name of
        Raises e \<Rightarrow> (Raises e, s)
      | Returns handler \<Rightarrow> handler payload s)"

definition in_process_enqueue_at ::
  "'s job_handler_registry \<Rightarrow> string \<Rightarrow> json_object \<Rightarrow> datetime \<Rightarrow> ('s, unit) action" where
  "in_process_enqueue_at reg job_name payload run_at s =
     (Raises (OtherException ''NotImplementedError''), s)"


subsection \<open>The registry contract\<close>

interpretation jreg: sealable_registry jr_sealed "\<lambda>reg. dict_get (jr_handlers reg)"
  "\<lambda>name entry. register_handler name (je_handler entry) (je_keep_result_seconds entry)" jobs_seal
proof (unfold_locales, goal_cases)
  case (3 r k v)
  then show ?case
    by (auto simp: register_handler_def jobs_guard_unsealed_def fun_eq_iff)
qed (auto simp: register_handler_def jobs_guard_unsealed_def jobs_seal_def)

lemma in_process_enqueue_known:
  "dict_get (jr_handlers reg) name = Some entry \<Longrightarrow>
     in_process_enqueue reg name payload s = je_handler entry payload s"
  by (simp add: in_process_enqueue_def in_process_resolve_def jobs_has_def jobs_get_def)

lemma in_process_enqueue_unknown:
  "dict_get (jr_handlers reg) name = None \<Longrightarrow>
     in_process_enqueue reg name payload s = (Raises (UnknownJobError name), s)"
  by (simp add: in_process_enqueue_def in_process_resolve_def jobs_has_def)

text \<open>
  Composition of the job queue. After a successful sequence of
  registrations and sealing, every job name runs exactly the handler it was
  registered with, any other name raises \<open>UnknownJobError\<close> and touches nothing,
  names are distinct, and no handler can be added any more.
\<close>

theorem sealed_job_queue:
  assumes "jreg.register_all regs empty_job_registry = Returns reg"
  shows "distinct (map fst regs) \<and>
    in_process_enqueue (jobs_seal reg) name payload s =
      (case map_of regs name of
         None \<Rightarrow> (Raises (UnknownJobError name), s)
       | Some entry \<Rightarrow> je_handler entry payload s) \<and>
    register_handler name' handler keep (jobs_seal reg) = Raises RuntimeError"
proof -
  have "dict_get (jr_handlers reg) = dict_get (jr_handlers empty_job_registry) ++ map_of regs" "distinct (map fst regs)"
    using jreg.register_all_lookup [OF assms] by auto
  then have "dict_get (jr_handlers (jobs_seal reg)) name = map_of regs name"
    by (simp add: jobs_seal_def empty_job_registry_def map_add_def split: option.split)
  then show ?thesis
    using \<open>distinct (map fst regs)\<close> in_process_enqueue_known [of "jobs_seal reg" name]
      in_process_enqueue_unknown [of "jobs_seal reg" name]
    by (auto simp: register_handler_def jobs_guard_unsealed_def jobs_seal_def split: option.split)
qed

theorem sealed_job_queue_witness:
  "\<exists>reg. jreg.register_all [(''a'', \<lparr>je_handler = (\<lambda>p s. (Returns (), Suc s)), je_keep_result_seconds = None\<rparr>)]
     empty_job_registry = Returns reg \<and>
     in_process_enqueue (jobs_seal reg) ''a'' [] 1 = (Returns (), 2) \<and>
     in_process_enqueue (jobs_seal reg) ''b'' [] 1 = (Raises (UnknownJobError ''b''), 1)"
proof -
  let ?regs = "[(''a'', \<lparr>je_handler = (\<lambda>p s. (Returns (), Suc s)), je_keep_result_seconds = None\<rparr>)]"
  obtain reg where reg: "jreg.register_all ?regs empty_job_registry = Returns reg"
    by (auto simp: register_handler_def jobs_guard_unsealed_def empty_job_registry_def)
  from sealed_job_queue [OF this, of "''a''" "[]" 1] sealed_job_queue [OF this, of "''b''" "[]" 1] reg
  show ?thesis
    by auto
qed

end
