(* ===== verification/Redaction.thy ===== *)
theory Redaction
  imports Normalization
begin

text \<open>
  Log redaction (\<open>src/app_platform/observability/redaction.py\<close> and
  \<open>pii_filter.py\<close>). An event dict is an association list with distinct keys; a
  value of any Python type is a \<open>json\<close> value, with mappings as \<open>JObj\<close>. The
  structlog processor rewrites the event dict, the stdlib filter rewrites a
  mapping in \<open>record.args\<close> and the non-standard attributes of the record.
\<close>

definition REDACT_STRICT_KEYS :: "string list" where
  "REDACT_STRICT_KEYS =
     [''password'', ''password_hash'', ''hash'', ''token'', ''access_token'', ''refresh_token'',
      ''authorization'', ''cookie'', ''set-cookie'', ''secret'', ''api_key'', ''phone'']"

definition REDACT_EMAIL_KEYS :: "string list" where
  "REDACT_EMAIL_KEYS = [''email'', ''to'', ''from'', ''recipient'', ''cc'', ''bcc'']"

definition REDACT_HEADER_NAMES :: "string list" where
  "REDACT_HEADER_NAMES =
     [''authorization'', ''cookie'', ''set-cookie'', ''proxy-authorization'', ''x-api-key'',
      ''x-auth-token'']"

definition REDACTED_PLACEHOLDER :: string where
  "REDACTED_PLACEHOLDER = ''***REDACTED***''"

definition SAFE_EMAIL_FALLBACK :: string where
  "SAFE_EMAIL_FALLBACK = ''***@***''"

definition HEADERS_KEYS :: "string list" where
  "HEADERS_KEYS = [''headers'', ''request.headers'', ''response.headers'']"

text \<open>\<open>str.partition\<close> at the first occurrence of a character.\<close>

definition partition_at :: "char \<Rightarrow> string \<Rightarrow> string \<times> string" where
  "partition_at c s = (takeWhile (\<lambda>x. x \<noteq> c) s, drop 1 (dropWhile (\<lambda>x. x \<noteq> c) s))"

definition redact_email :: "string \<Rightarrow> string" where
  "redact_email addr =
     (if CHR ''@'' \<notin> set addr then SAFE_EMAIL_FALLBACK
      else (case partition_at (CHR ''@'') addr of (local, domain) \<Rightarrow>
              if local = [] \<or> domain = [] then SAFE_EMAIL_FALLBACK
              else [hd local] @ ''***@'' @ domain))"

definition redact_value_for_key :: "string \<Rightarrow> json \<Rightarrow> json" where
  "redact_value_for_key key value =
     (if lower key \<in> set REDACT_STRICT_KEYS then JStr REDACTED_PLACEHOLDER
      else if lower key \<in> set REDACT_EMAIL_KEYS
      then (case value of JStr s \<Rightarrow> JStr (redact_email s) | _ \<Rightarrow> value)
      else value)"

definition redact_header :: "string \<times> json \<Rightarrow> string \<times> json" where
  "redact_header h =
     (fst h,
      if lower (fst h) \<in> set REDACT_HEADER_NAMES \<or> lower (fst h) \<in> set REDACT_STRICT_KEYS
      then JStr REDACTED_PLACEHOLDER
      else if lower (fst h) \<in> set REDACT_EMAIL_KEYS
      then (case snd h of JStr s \<Rightarrow> JStr (redact_email s) | v \<Rightarrow> v)
      else snd h)"

definition redact_headers_mapping :: "json_object \<Rightarrow> json_object" where
  "redact_headers_mapping headers = map redact_header headers"

definition redact_event_dict :: "json_object \<Rightarrow> json_object" where
  "redact_event_dict d =
     map (\<lambda>(key, value).
       (key,
        if key \<in> set HEADERS_KEYS \<or> lower key \<in> set HEADERS_KEYS
        then (case value of JObj h \<Rightarrow> JObj (redact_headers_mapping h) | _ \<Rightarrow> value)
        else redact_value_for_key key value)) d"

text \<open>
  A log record: its positional arguments, a mapping of arguments, or none; and
  the attributes that \<open>extra=\<close> adds (those that are neither standard nor start
  with an underscore; the others are never touched).
\<close>

datatype log_args = PositionalArgs "string list" | MappingArgs json_object | NoArgs

record log_record =
  lr_args :: log_args
  lr_extra :: json_object

definition redact_arg :: "string \<times> json \<Rightarrow> string \<times> json" where
  "redact_arg kv =
     (fst kv,
      if lower (fst kv) \<in> set HEADERS_KEYS
      then (case snd kv of
              JObj h \<Rightarrow> JObj (redact_headers_mapping h)
            | v \<Rightarrow> redact_value_for_key (fst kv) v)
      else redact_value_for_key (fst kv) (snd kv))"

definition pii_log_filter :: "log_record \<Rightarrow> log_record" where
  "pii_log_filter record =
     record\<lparr>lr_args := (case lr_args record of MappingArgs a \<Rightarrow> MappingArgs (map redact_arg a) | a \<Rightarrow> a),
            lr_extra := map redact_arg (lr_extra record)\<rparr>"


subsection \<open>What redaction guarantees\<close>

lemmas redaction_keys = REDACT_STRICT_KEYS_def REDACT_EMAIL_KEYS_def REDACT_HEADER_NAMES_def HEADERS_KEYS_def

text \<open>A value that may be logged under a key.\<close>

fun may_log :: "string \<Rightarrow> json \<Rightarrow> bool" where
  "may_log key (JObj h) \<longleftrightarrow>
     lower key \<notin> set REDACT_STRICT_KEYS \<and>
     (lower key \<in> set HEADERS_KEYS \<longrightarrow>
       (\<forall>(name, v)\<in>set h. lower name \<in> set REDACT_HEADER_NAMES \<union> set REDACT_STRICT_KEYS \<longrightarrow>
          v = JStr REDACTED_PLACEHOLDER))"
| "may_log key v \<longleftrightarrow> (lower key \<in> set REDACT_STRICT_KEYS \<longrightarrow> v = JStr REDACTED_PLACEHOLDER) \<and>
     (lower key \<in> set REDACT_EMAIL_KEYS \<longrightarrow> (\<forall>s. v = JStr s \<longrightarrow> (\<exists>addr. s = redact_email addr)))"

lemma headers_not_strict: "lower key \<in> set HEADERS_KEYS \<Longrightarrow> lower key \<notin> set REDACT_STRICT_KEYS \<and> lower key \<notin> set REDACT_EMAIL_KEYS"
  by (auto simp: redaction_keys)

lemma lower_HEADERS_KEYS: "key \<in> set HEADERS_KEYS \<Longrightarrow> lower key \<in> set HEADERS_KEYS"
proof -
  have "lower ''headers'' = ''headers''" "lower ''request.headers'' = ''request.headers''"
    "lower ''response.headers'' = ''response.headers''"
    by code_simp+
  then show "key \<in> set HEADERS_KEYS \<Longrightarrow> lower key \<in> set HEADERS_KEYS"
    by (auto simp: HEADERS_KEYS_def)
qed

lemma strict_not_email: "lower key \<in> set REDACT_STRICT_KEYS \<Longrightarrow> lower key \<notin> set REDACT_EMAIL_KEYS"
  by (auto simp: redaction_keys)

lemma may_log_redacted: "may_log key (redact_value_for_key key v)" if "lower key \<notin> set HEADERS_KEYS"
  using that strict_not_email [of key]
  by (cases v) (auto simp: redact_value_for_key_def)

lemma may_log_headers:
  assumes "lower key \<in> set HEADERS_KEYS"
  shows "may_log key (case v of JObj h \<Rightarrow> JObj (redact_headers_mapping h) | _ \<Rightarrow> v)"
  using headers_not_strict [OF assms] assms
  by (cases v) (auto simp: redact_headers_mapping_def redact_header_def)

text \<open>
  The processor and the filter apply one policy: rewriting arguments or extra
  attributes is rewriting an event dict.
\<close>

lemma redact_arg_event: "map redact_arg d = redact_event_dict d"
proof -
  have "redact_arg (k, v) = (k, if k \<in> set HEADERS_KEYS \<or> lower k \<in> set HEADERS_KEYS
        then (case v of JObj h \<Rightarrow> JObj (redact_headers_mapping h) | _ \<Rightarrow> v)
        else redact_value_for_key k v)" for k v
    using lower_HEADERS_KEYS [of k] headers_not_strict [of k]
    by (cases v) (auto simp: redact_arg_def redact_value_for_key_def)
  then show ?thesis
    by (auto simp: redact_event_dict_def)
qed

lemma dict_keys_redact: "map fst (redact_event_dict d) = map fst d"
  by (auto simp: redact_event_dict_def)

lemma redact_email_masks:
  assumes "local \<noteq> []" and "CHR ''@'' \<notin> set local" and "domain \<noteq> []"
  shows "redact_email (local @ ''@'' @ domain) = [hd local] @ ''***@'' @ domain"
proof -
  have "takeWhile (\<lambda>x. x \<noteq> CHR ''@'') (local @ ''@'' @ domain) = local"
    "dropWhile (\<lambda>x. x \<noteq> CHR ''@'') (local @ ''@'' @ domain) = ''@'' @ domain"
    using assms(2) by (induction local) auto
  then show ?thesis
    using assms by (simp add: redact_email_def partition_at_def)
qed


text \<open>
  A masked address shows the domain and the first character of the local
  part only: addresses that agree on these are indistinguishable, and malformed
  input is never echoed.
\<close>

theorem redact_email_reveals_little:
  assumes "local \<noteq> []" and "CHR ''@'' \<notin> set local" and "local' \<noteq> []" and "CHR ''@'' \<notin> set local'"
    and "hd local = hd local'" and "domain \<noteq> []"
  shows "redact_email (local @ ''@'' @ domain) = redact_email (local' @ ''@'' @ domain) \<and>
    redact_email local = ''***@***'' \<and> redact_email (''@'' @ domain) = ''***@***'' \<and>
    redact_email (local @ ''@'') = ''***@***''"
proof -
  have "takeWhile (\<lambda>x. x \<noteq> CHR ''@'') (local @ ''@'') = local"
    "dropWhile (\<lambda>x. x \<noteq> CHR ''@'') (local @ ''@'') = ''@''"
    using assms(2) by (induction local) auto
  then show ?thesis
    using assms redact_email_masks [of local domain] redact_email_masks [of local' domain]
    by (auto simp: redact_email_def partition_at_def SAFE_EMAIL_FALLBACK_def)
qed

theorem redact_email_reveals_little_witness:
  "redact_email ''ana@x.org'' = redact_email ''alice@x.org'' \<and> redact_email ''ana@'' = ''***@***''"
  using redact_email_reveals_little [of "''ana''" "''alice''" "''x.org''"] by simp

end
