(* ===== verification/Email.thy ===== *)
theory Email
  imports Jobs Redaction Crypto Outbox_Store
begin

text \<open>
  The email feature (\<open>src/features/email\<close>): the template registry, the console
  adapter and the \<open>send_email\<close> job handler.

  A path is the pair of its parent directory and its file name. \<open>files\<close> gives the
  contents of the file at a path, if there is one. Jinja2 is a parameter:
  rendering a template source with a context gives a text or fails with a
  \<open>TemplateError\<close>; a template file is looked up by name in the search paths, in
  order, as the documented \<open>FileSystemLoader\<close> does.
\<close>

type_synonym path = "string \<times> string"
type_synonym file_contents = "path \<Rightarrow> string option"

record rendered_email =
  em_to :: string
  em_subject :: string
  em_body :: string

datatype email_error =
    UnknownTemplate string
  | TemplateRenderError string
  | DeliveryError string

record template_entry =
  te_subject :: string
  te_body_path :: path

record email_template_registry =
  er_entries :: "(string, template_entry) dict"
  er_sealed :: bool
  er_search_paths :: "string list"

definition empty_template_registry :: email_template_registry where
  "empty_template_registry = \<lparr>er_entries = [], er_sealed = False, er_search_paths = []\<rparr>"

definition email_guard_unsealed :: "email_template_registry \<Rightarrow> unit outcome" where
  "email_guard_unsealed reg = (if er_sealed reg then Raises RuntimeError else Returns ())"

definition register_template ::
  "file_contents \<Rightarrow> string \<Rightarrow> string \<Rightarrow> path \<Rightarrow> email_template_registry \<Rightarrow>
   email_template_registry outcome" where
  "register_template files name subject path reg =
     bind_outcome (email_guard_unsealed reg) (\<lambda>_.
       if dict_has (er_entries reg) name then Raises ValueError
       else if files path = None then Raises OSError
       else Returns (reg\<lparr>er_entries := dict_set (er_entries reg) name
                           \<lparr>te_subject = subject, te_body_path = path\<rparr>,
                         er_search_paths :=
                           (if fst path \<in> set (er_search_paths reg) then er_search_paths reg
                            else er_search_paths reg @ [fst path])\<rparr>))"

definition email_seal :: "email_template_registry \<Rightarrow> email_template_registry" where
  "email_seal reg = reg\<lparr>er_sealed := True\<rparr>"

definition registered_templates :: "email_template_registry \<Rightarrow> string set" where
  "registered_templates reg = dict_keys (er_entries reg)"

definition email_has :: "email_template_registry \<Rightarrow> string \<Rightarrow> bool" where
  "email_has reg name = dict_has (er_entries reg) name"

type_synonym jinja = "string \<Rightarrow> json_object \<Rightarrow> string option"

definition load_template :: "file_contents \<Rightarrow> string list \<Rightarrow> string \<Rightarrow> string option" where
  "load_template files paths name =
     (case find (\<lambda>dir. files (dir, name) \<noteq> None) paths of
        None \<Rightarrow> None | Some dir \<Rightarrow> files (dir, name))"

definition render_template ::
  "jinja \<Rightarrow> file_contents \<Rightarrow> email_template_registry \<Rightarrow> string \<Rightarrow> string \<Rightarrow> json_object \<Rightarrow>
   (rendered_email, email_error) result" where
  "render_template jinja files reg to_addr template_name context =
     (case dict_get (er_entries reg) template_name of
        None \<Rightarrow> Err (UnknownTemplate template_name)
      | Some entry \<Rightarrow>
          (case load_template files (er_search_paths reg) (snd (te_body_path entry)) of
             None \<Rightarrow> Err (TemplateRenderError template_name)
           | Some body_source \<Rightarrow>
               (case (jinja (te_subject entry) context, jinja body_source context) of
                  (Some subject_text, Some body_text) \<Rightarrow>
                    Ok \<lparr>em_to = to_addr, em_subject = strip subject_text, em_body = body_text\<rparr>
                | _ \<Rightarrow> Err (TemplateRenderError template_name))))"


subsection \<open>The console adapter\<close>

type_synonym 's email_port =
  "string \<Rightarrow> string \<Rightarrow> json_object \<Rightarrow> 's \<Rightarrow> (unit, email_error) result \<times> 's"

datatype console_line =
    ConsoleSent string string string nat string
  | ConsoleBody string string string

definition console_send ::
  "jinja \<Rightarrow> file_contents \<Rightarrow> email_template_registry \<Rightarrow> bool \<Rightarrow> string \<Rightarrow> console_line list email_port" where
  "console_send jinja files reg log_bodies environment to_addr template_name context log =
     (case render_template jinja files reg to_addr template_name context of
        Err e \<Rightarrow> (Err e, log)
      | Ok message \<Rightarrow>
          (Ok (), log @
             [ConsoleSent (redact_email (em_to message)) template_name (em_subject message)
                (length (em_body message)) (hexdigest (sha256 (utf8_encode (em_body message))))] @
             (if log_bodies \<and> environment = ''development''
              then [ConsoleBody (redact_email (em_to message)) template_name (em_body message)]
              else [])))"


subsection \<open>The job handler\<close>

definition OUTBOX_MESSAGE_ID_KEY :: string where
  "OUTBOX_MESSAGE_ID_KEY = ''__outbox_message_id''"

text \<open>
  The state of the handler is the database, where the dedup marks live, and the
  state of the email port. \<open>payload["to"]\<close> raises \<open>KeyError\<close> when the key is
  missing; a value of the wrong type would fail inside the port.
\<close>

definition json_text :: "json \<Rightarrow> string outcome" where
  "json_text v = (case v of JStr s \<Rightarrow> Returns s | _ \<Rightarrow> Raises TypeError)"

definition payload_text :: "json_object \<Rightarrow> string \<Rightarrow> string outcome" where
  "payload_text payload key =
     (case dict_get payload key of None \<Rightarrow> Raises KeyError | Some v \<Rightarrow> json_text v)"

definition payload_context :: "json_object \<Rightarrow> json_object outcome" where
  "payload_context payload =
     (case dict_get payload ''context'' of
        None \<Rightarrow> Returns [] | Some (JObj c) \<Rightarrow> Returns c | Some _ \<Rightarrow> Raises TypeError)"

definition send_email_deliver ::
  "'m email_port \<Rightarrow> json_object \<Rightarrow> (database \<times> 'm, unit) action" where
  "send_email_deliver port payload s =
     (case bind_outcome (payload_text payload ''to'') (\<lambda>to_addr.
           bind_outcome (payload_text payload ''template_name'') (\<lambda>template_name.
           bind_outcome (payload_context payload) (\<lambda>context.
           Returns (to_addr, template_name, context)))) of
        Raises e \<Rightarrow> (Raises e, s)
      | Returns (to_addr, template_name, context) \<Rightarrow>
          (case port to_addr template_name context (snd s) of
             (Ok _, m) \<Rightarrow> (Returns (), (fst s, m))
           | (Err _, m) \<Rightarrow> (Raises RuntimeError, (fst s, m))))"

definition send_email_handler ::
  "(string \<Rightarrow> database \<Rightarrow> bool \<times> database) option \<Rightarrow> 'm email_port \<Rightarrow> (database \<times> 'm) job_handler" where
  "send_email_handler dedupe port payload s =
     (case (dedupe, dict_get payload OUTBOX_MESSAGE_ID_KEY) of
        (Some d, Some (JStr message_id)) \<Rightarrow>
          (case d message_id (fst s) of
             (False, db1) \<Rightarrow> (Returns (), (db1, snd s))
           | (True, db1) \<Rightarrow> send_email_deliver port payload (db1, snd s))
      | _ \<Rightarrow> send_email_deliver port payload s)"

definition register_send_email_handler ::
  "(string \<Rightarrow> database \<Rightarrow> bool \<times> database) option \<Rightarrow> 'm email_port \<Rightarrow>
   (database \<times> 'm) job_handler_registry \<Rightarrow> (database \<times> 'm) job_handler_registry outcome" where
  "register_send_email_handler dedupe port =
     register_handler ''send_email'' (send_email_handler dedupe port) None"


subsection \<open>The registry\<close>

interpretation ereg: sealable_registry er_sealed "\<lambda>reg. dict_get (er_entries reg)"
  "\<lambda>name entry. register_template (\<lambda>_. Some []) name (te_subject entry) (te_body_path entry)" email_seal
proof (unfold_locales, goal_cases)
  case (3 r k v)
  then show ?case
    by (auto simp: register_template_def email_guard_unsealed_def fun_eq_iff)
qed (auto simp: register_template_def email_guard_unsealed_def email_seal_def)

text \<open>Registered bodies exist, and their directory is searched.\<close>

definition templates_ok :: "file_contents \<Rightarrow> email_template_registry \<Rightarrow> bool" where
  "templates_ok files reg \<longleftrightarrow>
     (\<forall>name entry. dict_get (er_entries reg) name = Some entry \<longrightarrow>
        files (te_body_path entry) \<noteq> None \<and> fst (te_body_path entry) \<in> set (er_search_paths reg))"

lemma templates_ok_empty: "templates_ok files empty_template_registry"
  by (simp add: templates_ok_def empty_template_registry_def)

lemma templates_ok_register:
  "templates_ok files reg \<Longrightarrow> register_template files name subject path reg = Returns reg' \<Longrightarrow>
     templates_ok files reg'"
  by (fastforce simp: templates_ok_def register_template_def email_guard_unsealed_def split: if_splits)

text \<open>
  What a template renders to. In a registry built by registrations, a
  registered template always finds a body file; it is the template's own file if
  no other registered directory has a file of that name, and otherwise the file
  in the directory that was registered first. Registered names do not keep
  templates apart: only the file name is looked up.
\<close>

theorem template_body_found:
  assumes "templates_ok files reg" and "dict_get (er_entries reg) name = Some entry"
  shows "\<exists>dir\<in>set (er_search_paths reg). \<exists>source.
    files (dir, snd (te_body_path entry)) = Some source \<and>
    find (\<lambda>d. files (d, snd (te_body_path entry)) \<noteq> None) (er_search_paths reg) = Some dir \<and>
    render_template jinja files reg to_addr name context =
      (case (jinja (te_subject entry) context, jinja source context) of
         (Some subject, Some body) \<Rightarrow> Ok \<lparr>em_to = to_addr, em_subject = strip subject, em_body = body\<rparr>
       | _ \<Rightarrow> Err (TemplateRenderError name)) \<and>
    ((\<forall>d\<in>set (er_search_paths reg). files (d, snd (te_body_path entry)) \<noteq> None \<longrightarrow> d = fst (te_body_path entry)) \<longrightarrow>
      files (te_body_path entry) = Some source)"
proof -
  let ?file = "snd (te_body_path entry)"
  have own: "files (te_body_path entry) \<noteq> None" "fst (te_body_path entry) \<in> set (er_search_paths reg)"
    using assms unfolding templates_ok_def by blast+
  then have "files (fst (te_body_path entry), ?file) \<noteq> None"
    by simp
  then have "find (\<lambda>d. files (d, ?file) \<noteq> None) (er_search_paths reg) \<noteq> None"
    using own(2) unfolding find_None_iff_all by blast
  then obtain dir where dir: "find (\<lambda>d. files (d, ?file) \<noteq> None) (er_search_paths reg) = Some dir"
    by blast
  then have dir_in: "dir \<in> set (er_search_paths reg) \<and> files (dir, ?file) \<noteq> None"
    by (rule find_Some_in)
  then obtain source where source: "files (dir, ?file) = Some source"
    by blast
  have load: "load_template files (er_search_paths reg) ?file = Some source"
    using dir source by (simp add: load_template_def)
  have "files (te_body_path entry) = Some source"
    if "\<forall>d\<in>set (er_search_paths reg). files (d, ?file) \<noteq> None \<longrightarrow> d = fst (te_body_path entry)"
    using that dir_in source by force
  then show ?thesis
    using dir dir_in source load assms(2)
    by (intro bexI [of _ dir] exI [of _ source]) (simp_all add: render_template_def)
qed

text \<open>Two features register different files of the same name; the second renders the first one's body.\<close>

definition sample_files :: file_contents where
  "sample_files p = (if p = (''auth'', ''welcome.txt'') then Some ''one''
     else if p = (''shop'', ''welcome.txt'') then Some ''two'' else None)"

definition sample_registry_two :: email_template_registry where
  "sample_registry_two =
     \<lparr>er_entries = [(''auth/welcome'', \<lparr>te_subject = ''a'', te_body_path = (''auth'', ''welcome.txt'')\<rparr>),
                    (''shop/welcome'', \<lparr>te_subject = ''s'', te_body_path = (''shop'', ''welcome.txt'')\<rparr>)],
      er_sealed = False, er_search_paths = [''auth'', ''shop'']\<rparr>"

lemma sample_registry_two_built:
  "bind_outcome (register_template sample_files ''auth/welcome'' ''a'' (''auth'', ''welcome.txt'') empty_template_registry)
     (register_template sample_files ''shop/welcome'' ''s'' (''shop'', ''welcome.txt'')) = Returns sample_registry_two"
  by (simp add: register_template_def email_guard_unsealed_def empty_template_registry_def sample_files_def
      sample_registry_two_def dict_set_def dict_get_def)

theorem template_body_found_witness:
  "bind_outcome (register_template sample_files ''auth/welcome'' ''a'' (''auth'', ''welcome.txt'') empty_template_registry)
     (register_template sample_files ''shop/welcome'' ''s'' (''shop'', ''welcome.txt'')) = Returns sample_registry_two \<and>
   render_template (\<lambda>source ctx. Some source) sample_files sample_registry_two ''x'' ''shop/welcome'' [] =
     Ok \<lparr>em_to = ''x'', em_subject = strip ''s'', em_body = ''one''\<rparr>"
proof -
  obtain reg1 where reg1: "register_template sample_files ''auth/welcome'' ''a'' (''auth'', ''welcome.txt'') empty_template_registry =
      Returns reg1" "register_template sample_files ''shop/welcome'' ''s'' (''shop'', ''welcome.txt'') reg1 = Returns sample_registry_two"
    using sample_registry_two_built by (auto simp: outcome_simps)
  have ok: "templates_ok sample_files sample_registry_two"
    by (rule templates_ok_register [OF templates_ok_register [OF templates_ok_empty reg1(1)] reg1(2)])
  have entry: "dict_get (er_entries sample_registry_two) ''shop/welcome'' =
      Some \<lparr>te_subject = ''s'', te_body_path = (''shop'', ''welcome.txt'')\<rparr>"
    by (simp add: sample_registry_two_def dict_get_def)
  show ?thesis
    using template_body_found [OF ok entry, of "\<lambda>source ctx. Some source" "''x''" "[]"] sample_registry_two_built
    by (auto simp: sample_registry_two_def sample_files_def)
qed

end
