(* ===== verification/Outbox_Relay.thy ===== *)
theory Outbox_Relay
  imports Outbox_Store "HOL-Library.Multiset"
begin

text \<open>
  The outbox relay (\<open>src/features/outbox/application/use_cases/dispatch_pending.py\<close>
  and \<open>maintenance/prune_outbox.py\<close>). The job queue is the argument \<open>enqueue\<close>, an
  action on the database and the state \<open>'m\<close> of the job's side effects. Durations
  are integers of microseconds within the range of \<open>timedelta\<close>; leaving the range
  raises \<open>OverflowError\<close>. \<open>repr\<close> of an exception is the argument \<open>show_exn\<close>.
\<close>

definition TRACE_KEY :: string where
  "TRACE_KEY = ''__trace''"

definition dispatched_payload :: "outbox_row \<Rightarrow> json_object" where
  "dispatched_payload row =
     (let p1 = (if dict_has (om_payload row) ''__outbox_message_id'' then om_payload row
                else dict_set (om_payload row) ''__outbox_message_id'' (JStr (str_uuid (om_id row))))
      in if om_trace_context row \<noteq> [] \<and> \<not> dict_has p1 TRACE_KEY
         then dict_set p1 TRACE_KEY (JObj (om_trace_context row)) else p1)"

record relay_tick_report =
  rp_claimed :: nat
  rp_dispatched :: nat
  rp_retried :: nat
  rp_failed :: nat

record dispatch_pending =
  dp_batch_size :: int
  dp_max_attempts :: int
  dp_worker_id :: string
  dp_retry_base :: int
  dp_retry_max :: int

definition timedelta_max :: int where
  "timedelta_max = 86399999999999999999"

definition timedelta_times :: "int \<Rightarrow> int \<Rightarrow> int outcome" where
  "timedelta_times d k =
     (if d * k \<le> timedelta_max \<and> - days 999999999 \<le> d * k then Returns (d * k) else Raises OverflowError)"

definition retry_delay :: "dispatch_pending \<Rightarrow> int \<Rightarrow> int outcome" where
  "retry_delay cfg next_attempts =
     bind_outcome (timedelta_times (dp_retry_base cfg) (2 ^ nat (next_attempts - 1)))
       (\<lambda>d. Returns (min d (dp_retry_max cfg)))"

datatype disposition = Dispatched | Retried | FailedRow

type_synonym 'm job_queue = "string \<Rightarrow> json_object \<Rightarrow> (database \<times> 'm, unit) action"

definition dispatch_row ::
  "dispatch_pending \<Rightarrow> (exn \<Rightarrow> string) \<Rightarrow> 'm job_queue \<Rightarrow> datetime \<Rightarrow> outbox_row \<Rightarrow>
   (database \<times> 'm, disposition) action" where
  "dispatch_row cfg show_exn enqueue now row s =
     (case enqueue (om_job_name row) (dispatched_payload row) s of
        (Returns _, (db1, m1)) \<Rightarrow> (Returns Dispatched, (mark_delivered (om_id row) now db1, m1))
      | (Raises e, (db1, m1)) \<Rightarrow>
          (let next_attempts = om_attempts row + 1
           in if dp_max_attempts cfg \<le> next_attempts
              then (Returns FailedRow,
                    (mark_failed (om_id row) next_attempts (show_exn e) now db1, m1))
              else (case retry_delay cfg next_attempts of
                      Raises e' \<Rightarrow> (Raises e', (db1, m1))
                    | Returns delay \<Rightarrow>
                        (Returns Retried,
                         (mark_retry (om_id row) next_attempts (show_exn e) (now + delay) db1, m1)))))"

fun count_disposition :: "disposition \<Rightarrow> relay_tick_report \<Rightarrow> relay_tick_report" where
  "count_disposition Dispatched rep = rep\<lparr>rp_dispatched := rp_dispatched rep + 1\<rparr>"
| "count_disposition Retried rep = rep\<lparr>rp_retried := rp_retried rep + 1\<rparr>"
| "count_disposition FailedRow rep = rep\<lparr>rp_failed := rp_failed rep + 1\<rparr>"

fun dispatch_rows ::
  "dispatch_pending \<Rightarrow> (exn \<Rightarrow> string) \<Rightarrow> 'm job_queue \<Rightarrow> datetime \<Rightarrow> outbox_row list \<Rightarrow>
   relay_tick_report \<Rightarrow> (database \<times> 'm, relay_tick_report) action" where
  "dispatch_rows cfg show_exn enqueue now [] rep s = (Returns rep, s)"
| "dispatch_rows cfg show_exn enqueue now (row # rows) rep s =
     (case dispatch_row cfg show_exn enqueue now row s of
        (Raises e, s1) \<Rightarrow> (Raises e, s1)
      | (Returns d, s1) \<Rightarrow> dispatch_rows cfg show_exn enqueue now rows (count_disposition d rep) s1)"

definition dispatch_pending_execute ::
  "dispatch_pending \<Rightarrow> (exn \<Rightarrow> string) \<Rightarrow> 'm job_queue \<Rightarrow> uuid set \<Rightarrow> datetime \<Rightarrow>
   (database \<times> 'm, relay_tick_report) action" where
  "dispatch_pending_execute cfg show_exn enqueue locked now s =
     (case claim_batch now (dp_batch_size cfg) (dp_worker_id cfg) locked (fst s) of
        (claimed, db1) \<Rightarrow>
          dispatch_rows cfg show_exn enqueue now claimed
            \<lparr>rp_claimed = length claimed, rp_dispatched = 0, rp_retried = 0, rp_failed = 0\<rparr> (db1, snd s))"


subsection \<open>Pruning\<close>

record prune_summary =
  delivered_deleted :: nat
  failed_deleted :: nat
  processed_marks_deleted :: nat

text \<open>The dedup retention is given in seconds; the caller passes a whole number of microseconds.\<close>

definition prune_outbox ::
  "datetime \<Rightarrow> int \<Rightarrow> int \<Rightarrow> int \<Rightarrow> int \<Rightarrow> database \<Rightarrow> (prune_summary \<times> database) option" where
  "prune_outbox now retention_delivered_days retention_failed_days dedup_retention batch_size db =
     (case drain_loop (delete_delivered_before (now - days retention_delivered_days) batch_size) 0 db of
        None \<Rightarrow> None
      | Some (d, db1) \<Rightarrow>
          (case drain_loop (delete_failed_before (now - days retention_failed_days) batch_size) 0 db1 of
             None \<Rightarrow> None
           | Some (f, db2) \<Rightarrow>
               (case drain_loop (delete_processed_marks_before (now - dedup_retention) batch_size) 0 db2 of
                  None \<Rightarrow> None
                | Some (p, db3) \<Rightarrow>
                    Some (\<lparr>delivered_deleted = d, failed_deleted = f, processed_marks_deleted = p\<rparr>, db3))))"


subsection \<open>What a tick does to a row\<close>

text \<open>
  The abstract transition of one claimed row, given its state \<open>row\<close> at the claim:
  delivered, postponed with one more attempt, or failed for good.
\<close>

definition settled :: "dispatch_pending \<Rightarrow> datetime \<Rightarrow> outbox_row \<Rightarrow> outbox_row \<Rightarrow> outbox_row \<Rightarrow> bool" where
  "settled cfg now row m m' \<longleftrightarrow>
     m' = m\<lparr>om_status := ''delivered'', om_delivered_at := Some now, om_locked_at := None, om_locked_by := None\<rparr> \<or>
     (\<exists>err delay. om_attempts row + 1 < dp_max_attempts cfg \<and> retry_delay cfg (om_attempts row + 1) = Returns delay \<and>
        m' = m\<lparr>om_attempts := om_attempts row + 1, om_last_error := Some err,
               om_available_at := now + delay, om_locked_at := None, om_locked_by := None\<rparr>) \<or>
     (\<exists>err. dp_max_attempts cfg \<le> om_attempts row + 1 \<and>
        m' = m\<lparr>om_status := ''failed'', om_attempts := om_attempts row + 1, om_last_error := Some err,
               om_failed_at := Some now, om_locked_at := None, om_locked_by := None\<rparr>)"

definition leaves_outbox :: "'m job_queue \<Rightarrow> bool" where
  "leaves_outbox enqueue \<longleftrightarrow>
     (\<forall>job payload s. outbox_messages (fst (snd (enqueue job payload s))) = outbox_messages (fst s))"

lemma settled_id: "settled cfg now row m m' \<Longrightarrow> om_id m' = om_id m"
  by (auto simp: settled_def)

lemma dispatch_row_settles:
  assumes "leaves_outbox enqueue" and "dispatch_row cfg show_exn enqueue now row s = (Returns d, s')"
  shows "\<exists>f. outbox_messages (fst s') = update_where (\<lambda>m. om_id m = om_id row) f (outbox_messages (fst s)) \<and>
    (\<forall>m. settled cfg now row m (f m))"
proof -
  obtain r db1 m1 where q: "enqueue (om_job_name row) (dispatched_payload row) s = (r, (db1, m1))"
    by (metis surj_pair)
  have same: "outbox_messages db1 = outbox_messages (fst s)"
    using assms(1) q unfolding leaves_outbox_def by (metis fst_conv snd_conv)
  show ?thesis
  proof (cases r)
    case (Returns x)
    then show ?thesis
      using assms(2) q same
      by (intro exI [of _ "\<lambda>m. m\<lparr>om_status := ''delivered'', om_delivered_at := Some now,
            om_locked_at := None, om_locked_by := None\<rparr>"])
        (auto simp: dispatch_row_def mark_delivered_def update_message_def settled_def)
  next
    case (Raises e)
    show ?thesis
    proof (cases "dp_max_attempts cfg \<le> om_attempts row + 1")
      case True
      then show ?thesis
        using assms(2) q same Raises
        by (intro exI [of _ "\<lambda>m. m\<lparr>om_status := ''failed'', om_attempts := om_attempts row + 1,
              om_last_error := Some (show_exn e), om_failed_at := Some now, om_locked_at := None, om_locked_by := None\<rparr>"])
          (auto simp: dispatch_row_def mark_failed_def update_message_def settled_def)
    next
      case False
      then obtain delay where delay: "retry_delay cfg (om_attempts row + 1) = Returns delay"
        using assms(2) q Raises by (auto simp: dispatch_row_def Let_def split: outcome.splits)
      then show ?thesis
        using assms(2) q same Raises False
        by (intro exI [of _ "\<lambda>m. m\<lparr>om_attempts := om_attempts row + 1, om_last_error := Some (show_exn e),
              om_available_at := now + delay, om_locked_at := None, om_locked_by := None\<rparr>"])
          (auto simp: dispatch_row_def mark_retry_def update_message_def settled_def)
    qed
  qed
qed


definition settled_by :: "dispatch_pending \<Rightarrow> datetime \<Rightarrow> outbox_row list \<Rightarrow> outbox_row \<Rightarrow> outbox_row \<Rightarrow> bool" where
  "settled_by cfg now rows m m' \<longleftrightarrow>
     (if om_id m \<in> om_id ` set rows
      then \<exists>row\<in>set rows. om_id row = om_id m \<and> settled cfg now row m m'
      else m' = m)"

lemma list_all2_update_where:
  assumes "\<And>m. m \<in> set ms \<Longrightarrow> R m (if P m then f m else m)"
  shows "list_all2 R ms (update_where P f ms)"
  using assms by (induction ms) auto

lemma dispatch_rows_settle:
  assumes "leaves_outbox enqueue" and "distinct (map om_id rows)"
    and "dispatch_rows cfg show_exn enqueue now rows rep s = (Returns rep', s')"
  shows "list_all2 (settled_by cfg now rows) (outbox_messages (fst s)) (outbox_messages (fst s'))"
  using assms(2,3)
proof (induction rows arbitrary: rep s)
  case Nil
  then show ?case
    by (simp add: settled_by_def list_all2_same)
next
  case (Cons row rows)
  obtain d s1 where row: "dispatch_row cfg show_exn enqueue now row s = (Returns d, s1)"
      and rest: "dispatch_rows cfg show_exn enqueue now rows (count_disposition d rep) s1 = (Returns rep', s')"
    using Cons.prems(2) by (auto split: prod.splits outcome.splits)
  obtain f where f: "outbox_messages (fst s1) = update_where (\<lambda>m. om_id m = om_id row) f (outbox_messages (fst s))"
      "\<And>m. settled cfg now row m (f m)"
    using dispatch_row_settles [OF assms(1) row] by blast
  have first: "list_all2 (\<lambda>m m1. if om_id m = om_id row then settled cfg now row m m1 else m1 = m)
      (outbox_messages (fst s)) (outbox_messages (fst s1))"
    unfolding f(1) by (rule list_all2_update_where) (simp add: f(2))
  have second: "list_all2 (settled_by cfg now rows) (outbox_messages (fst s1)) (outbox_messages (fst s'))"
    using Cons.IH [OF _ rest] Cons.prems(1) by simp
  show ?case
  proof (rule list_all2_trans [OF _ first second])
    fix m m1 m'
    assume m1: "if om_id m = om_id row then settled cfg now row m m1 else m1 = m" "settled_by cfg now rows m1 m'"
    show "settled_by cfg now (row # rows) m m'"
    proof (cases "om_id m = om_id row")
      case True
      then have "settled cfg now row m m1" "om_id m1 = om_id row"
        using m1(1) settled_id by auto
      moreover have "om_id row \<notin> om_id ` set rows"
        using Cons.prems(1) by simp
      ultimately show ?thesis
        using m1(2) True by (auto simp: settled_by_def)
    next
      case False
      then show ?thesis
        using m1 by (auto simp: settled_by_def)
    qed
  qed
qed

text \<open>Whether or not the loop gets to the end, a row is untouched or settled once.\<close>

definition maybe_settled :: "dispatch_pending \<Rightarrow> datetime \<Rightarrow> outbox_row list \<Rightarrow> outbox_row \<Rightarrow> outbox_row \<Rightarrow> bool" where
  "maybe_settled cfg now rows m m' \<longleftrightarrow>
     m' = m \<or> (\<exists>row\<in>set rows. om_id row = om_id m \<and> settled cfg now row m m')"

lemma dispatch_row_raises:
  assumes "leaves_outbox enqueue" and "dispatch_row cfg show_exn enqueue now row s = (Raises e, s')"
  shows "outbox_messages (fst s') = outbox_messages (fst s)"
proof -
  obtain r db1 m1 where q: "enqueue (om_job_name row) (dispatched_payload row) s = (r, (db1, m1))"
    by (metis surj_pair)
  have "outbox_messages db1 = outbox_messages (fst s)"
    using assms(1) q unfolding leaves_outbox_def by (metis fst_conv snd_conv)
  then show ?thesis
    using assms(2) q by (auto simp: dispatch_row_def Let_def split: outcome.splits if_splits)
qed

lemma dispatch_rows_any:
  assumes "leaves_outbox enqueue" and "distinct (map om_id rows)"
    and "dispatch_rows cfg show_exn enqueue now rows rep s = (r, s')"
  shows "list_all2 (maybe_settled cfg now rows) (outbox_messages (fst s)) (outbox_messages (fst s'))"
  using assms(2,3)
proof (induction rows arbitrary: rep s)
  case Nil
  then show ?case
    by (simp add: maybe_settled_def list_all2_same)
next
  case (Cons row rows)
  obtain q s1 where row: "dispatch_row cfg show_exn enqueue now row s = (q, s1)"
    by (metis surj_pair)
  show ?case
  proof (cases q)
    case (Raises e)
    then have "outbox_messages (fst s') = outbox_messages (fst s)"
      using Cons.prems(2) row dispatch_row_raises [OF assms(1)] by auto
    then show ?thesis
      by (simp add: maybe_settled_def list_all2_same)
  next
    case (Returns d)
    obtain f where f: "outbox_messages (fst s1) = update_where (\<lambda>m. om_id m = om_id row) f (outbox_messages (fst s))"
        "\<And>m. settled cfg now row m (f m)"
      using dispatch_row_settles [OF assms(1)] row Returns by blast
    have first: "list_all2 (\<lambda>m m1. if om_id m = om_id row then settled cfg now row m m1 else m1 = m)
        (outbox_messages (fst s)) (outbox_messages (fst s1))"
      unfolding f(1) by (rule list_all2_update_where) (simp add: f(2))
    have second: "list_all2 (maybe_settled cfg now rows) (outbox_messages (fst s1)) (outbox_messages (fst s'))"
      using Cons.IH Cons.prems row Returns by auto
    show ?thesis
    proof (rule list_all2_trans [OF _ first second])
      fix m m1 m'
      assume m1: "if om_id m = om_id row then settled cfg now row m m1 else m1 = m" "maybe_settled cfg now rows m1 m'"
      show "maybe_settled cfg now (row # rows) m m'"
      proof (cases "om_id m = om_id row")
        case True
        then have "settled cfg now row m m1" "om_id m1 \<notin> om_id ` set rows"
          using m1(1) settled_id [of cfg now row m m1] Cons.prems(1) by simp_all
        then have "m' = m1"
          using m1(2) unfolding maybe_settled_def by (metis imageI)
        then show ?thesis
          using \<open>settled cfg now row m m1\<close> True by (simp add: maybe_settled_def)
      next
        case False
        then show ?thesis
          using m1 by (auto simp: maybe_settled_def)
      qed
    qed
  qed
qed

fun dispositions :: "relay_tick_report \<Rightarrow> nat" where
  "dispositions rep = rp_dispatched rep + rp_retried rep + rp_failed rep"

lemma dispatch_rows_report:
  "dispatch_rows cfg show_exn enqueue now rows rep s = (Returns rep', s') \<Longrightarrow>
     rp_claimed rep' = rp_claimed rep \<and> dispositions rep' = dispositions rep + length rows"
proof (induction rows arbitrary: rep s)
  case (Cons row rows)
  then obtain d s1 where "dispatch_rows cfg show_exn enqueue now rows (count_disposition d rep) s1 = (Returns rep', s')"
    by (auto split: prod.splits outcome.splits)
  from Cons.IH [OF this] show ?case
    by (cases d) simp_all
qed simp

subsection \<open>The claim\<close>

lemma set_insert_by [simp]: "set (insert_by lt x xs) = insert x (set xs)"
  by (induction xs) auto

lemma set_order_by [simp]: "set (order_by lt xs) = set xs"
  unfolding order_by_def by (induction xs) auto

lemma length_insert_by [simp]: "length (insert_by lt x xs) = Suc (length xs)"
  by (induction xs) auto

lemma length_order_by [simp]: "length (order_by lt xs) = length xs"
  unfolding order_by_def by (induction xs) auto

lemma distinct_map_insert_by:
  "distinct (map f (insert_by lt x xs)) \<longleftrightarrow> f x \<notin> f ` set xs \<and> distinct (map f xs)"
  by (induction xs) auto

lemma distinct_map_order_by: "distinct (map f (order_by lt xs)) \<longleftrightarrow> distinct (map f xs)"
proof (induction xs)
  case (Cons x xs)
  have "order_by lt (x # xs) = insert_by lt x (order_by lt xs)"
    by (simp add: order_by_def)
  then show ?case
    using Cons by (simp add: distinct_map_insert_by)
qed (simp add: order_by_def)

text \<open>A claim picks stored rows and returns them stamped.\<close>

abbreviation stamp :: "datetime \<Rightarrow> string \<Rightarrow> outbox_row \<Rightarrow> outbox_row" where
  "stamp now w m \<equiv> m\<lparr>om_locked_at := Some now, om_locked_by := Some w\<rparr>"

lemma claim_rowsE:
  assumes "claim_batch now b w locked db = (rows, db')"
  obtains picked where "rows = map (stamp now w) picked" and "set picked \<subseteq> set (outbox_messages db)"
    and "distinct (map om_id (outbox_messages db)) \<Longrightarrow> distinct (map om_id picked)"
    and "int (length picked) \<le> max 0 b" and "list_all (claimable now locked) picked"
    and "outbox_messages db' = update_where (\<lambda>m. om_id m \<in> om_id ` set picked) (stamp now w) (outbox_messages db)"
proof (cases "b \<le> 0")
  case True
  then show thesis
    using that [of "[]"] assms by (simp add: claim_batch_def update_where_def)
next
  case False
  let ?picked = "take (nat b) (order_by (\<lambda>a b. keyset_less (om_keyset a) (om_keyset b))
    (filter (claimable now locked) (outbox_messages db)))"
  have sub: "set ?picked \<subseteq> {m \<in> set (outbox_messages db). claimable now locked m}"
    by (auto dest!: in_set_takeD)
  show thesis
  proof (rule that [of ?picked])
    show "rows = map (stamp now w) ?picked"
      "outbox_messages db' = update_where (\<lambda>m. om_id m \<in> om_id ` set ?picked) (stamp now w) (outbox_messages db)"
      using assms False by (auto simp: claim_batch_def Let_def)
    show "distinct (map om_id ?picked)" if "distinct (map om_id (outbox_messages db))"
      using that by (simp add: take_map [symmetric] distinct_map_order_by distinct_map_filter del: take_map)
  qed (use False sub in \<open>auto simp: list_all_iff\<close>)
qed


subsection \<open>Pruning in batches\<close>

lemma fold_remove1_filter: "filter Q (fold remove1 vs xs) = fold remove1 vs (filter Q xs)"
  by (induction vs arbitrary: xs) (simp_all add: filter_remove1)

lemma fold_remove1_absent: "set vs \<inter> set xs = {} \<Longrightarrow> fold remove1 vs xs = xs"
  by (induction vs) (simp_all add: remove1_idem)

lemma mset_fold_remove1: "mset (fold remove1 vs xs) = mset xs - mset vs"
  by (induction vs arbitrary: xs) (simp_all add: diff_diff_add)

lemma set_fold_remove1: "set (fold remove1 vs xs) \<subseteq> set xs"
  by (induction vs arbitrary: xs) (auto dest: subsetD [OF set_remove1_subset])

lemma distinct_fold_remove1: "distinct (map f xs) \<Longrightarrow> distinct (map f (fold remove1 vs xs))"
proof (induction vs arbitrary: xs)
  case (Cons v vs)
  have "distinct (map f (remove1 v xs))"
    using Cons.prems by (induction xs) (auto dest: subsetD [OF set_remove1_subset])
  then show ?case
    using Cons.IH by simp
qed simp

lemma delete_oldest_count:
  "fst (delete_oldest k key P rows) = min k (count_where P rows)"
  by (simp add: delete_oldest_def Let_def count_where_def)

lemma delete_oldest_eligible:
  "count_where P (snd (delete_oldest k key P rows)) = count_where P rows - min k (count_where P rows)"
proof -
  let ?vs = "take k (sort_key key (filter P rows))"
  have "mset ?vs \<subseteq># mset (sort_key key (filter P rows))"
    by (metis append_take_drop_id mset_append mset_subset_eq_add_left)
  then have "length (fold remove1 ?vs (filter P rows)) = length (filter P rows) - length ?vs"
    by (metis mset_fold_remove1 mset_sort size_Diff_submset size_mset)
  then show ?thesis
    by (simp add: delete_oldest_def Let_def count_where_def fold_remove1_filter)
qed

lemma delete_oldest_rest:
  "filter (\<lambda>r. \<not> P r) (snd (delete_oldest k key P rows)) = filter (\<lambda>r. \<not> P r) rows"
proof -
  have "set (take k (sort_key key (filter P rows))) \<inter> set (filter (\<lambda>r. \<not> P r) rows) = {}"
    by (auto dest!: in_set_takeD)
  then show ?thesis
    by (simp add: delete_oldest_def Let_def fold_remove1_filter fold_remove1_absent)
qed

lemmas delete_oldest_simps = delete_oldest_count delete_oldest_eligible delete_oldest_rest

text \<open>
  With a positive batch size the three sweeps are batched deletions; the loops
  then end and are exact. A batch size of zero or less deletes nothing. The
  batch size of the interpretations is one more than an arbitrary natural number.
\<close>

interpretation delivered_prune: batch_drain
  "\<lambda>db. count_where (delivered_before cutoff) (outbox_messages db)"
  "\<lambda>db. (filter (\<lambda>m. \<not> delivered_before cutoff m) (outbox_messages db), db\<lparr>outbox_messages := []\<rparr>)"
  "delete_delivered_before cutoff (int (Suc n))" "Suc n" for cutoff n
  by unfold_locales (simp_all add: delete_delivered_before_def Let_def delete_oldest_simps del: of_nat_Suc)

interpretation failed_prune: batch_drain
  "\<lambda>db. count_where (failed_before cutoff) (outbox_messages db)"
  "\<lambda>db. (filter (\<lambda>m. \<not> failed_before cutoff m) (outbox_messages db), db\<lparr>outbox_messages := []\<rparr>)"
  "delete_failed_before cutoff (int (Suc n))" "Suc n" for cutoff n
  by unfold_locales (simp_all add: delete_failed_before_def Let_def delete_oldest_simps del: of_nat_Suc)

interpretation marks_prune: batch_drain
  "\<lambda>db. count_where (\<lambda>p. pm_processed_at p < cutoff) (processed_marks db)"
  "\<lambda>db. (filter (\<lambda>p. \<not> pm_processed_at p < cutoff) (processed_marks db), db\<lparr>processed_marks := []\<rparr>)"
  "delete_processed_marks_before cutoff (int (Suc n))" "Suc n" for cutoff n
  by unfold_locales (simp_all add: delete_processed_marks_before_def Let_def delete_oldest_simps del: of_nat_Suc)

end
