(* ===== verification/Outbox_Props.thy ===== *)
theory Outbox_Props
  imports Outbox_Relay
begin

text \<open>
  Properties of the relay: what a tick does to every row, the attempt budget as an
  invariant of reachable tables, the retry backoff and when it leaves the range
  of \<open>timedelta\<close>, and what a claim does not prevent.
\<close>

lemma settled_stamped:
  assumes "settled cfg now r (m\<lparr>om_locked_at := a, om_locked_by := b\<rparr>) m'" and "om_attempts r = om_attempts m"
  shows "settled cfg now m m m'"
  using assms by (auto simp: settled_def)



definition sample_message :: outbox_row where
  "sample_message = \<lparr>om_id = 1, om_job_name = ''send_email'',
     om_payload = [(''to'', JStr ''a@x''), (''template_name'', JStr ''t'')], om_trace_context = [],
     om_available_at = 0, om_status = ''pending'', om_attempts = 0, om_last_error = None,
     om_locked_at = None, om_locked_by = None, om_created_at = 0, om_delivered_at = None,
     om_failed_at = None\<rparr>"

definition sample_outbox :: database where
  "sample_outbox = empty_db\<lparr>outbox_messages := [sample_message]\<rparr>"

definition sample_relay :: dispatch_pending where
  "sample_relay = \<lparr>dp_batch_size = 100, dp_max_attempts = 8, dp_worker_id = ''w'',
     dp_retry_base = seconds 30, dp_retry_max = seconds 900\<rparr>"

definition failing_queue :: "unit job_queue" where
  "failing_queue job payload s = (Raises RuntimeError, s)"

lemma sample_outbox_sel [simp]: "outbox_messages sample_outbox = [sample_message]"
  by (simp add: sample_outbox_def)

lemma failing_queue_leaves [simp]: "leaves_outbox failing_queue"
  by (simp add: leaves_outbox_def failing_queue_def)

lemma sample_tick:
  "\<exists>s'. dispatch_pending_execute sample_relay (\<lambda>e. ''err'') failing_queue {} 10 (sample_outbox, ()) =
     (Returns \<lparr>rp_claimed = 1, rp_dispatched = 0, rp_retried = 1, rp_failed = 0\<rparr>, s')"
  by (simp add: dispatch_pending_execute_def claim_batch_def claimable_def order_by_def dispatch_row_def
      failing_queue_def retry_delay_def timedelta_times_def timedelta_max_def sample_message_def sample_relay_def Let_def)



subsection \<open>The attempt budget\<close>

definition within_budget :: "dispatch_pending \<Rightarrow> database \<Rightarrow> bool" where
  "within_budget cfg db \<longleftrightarrow>
     distinct (map om_id (outbox_messages db)) \<and>
     (\<forall>m\<in>set (outbox_messages db). om_status m = ''pending'' \<longrightarrow>
        0 \<le> om_attempts m \<and> om_attempts m < dp_max_attempts cfg)"

text \<open>
  Steps of the table: producers, relay ticks by any worker (also ones that raise
  or crash after any number of rows), the operator command, pruning.
\<close>

inductive outbox_step ::
  "dispatch_pending \<Rightarrow> (exn \<Rightarrow> string) \<Rightarrow> 'm job_queue \<Rightarrow> database \<times> 'm \<Rightarrow> database \<times> 'm \<Rightarrow> bool"
  for cfg show_exn enqueue where
  produce: "outbox_enqueue i a c carrier job payload avail db = (r, db') \<Longrightarrow>
    i \<notin> om_id ` set (outbox_messages db) \<Longrightarrow> outbox_step cfg show_exn enqueue (db, m) (db', m)"
| tick: "claim_batch now b w locked db = (claimed, db1) \<Longrightarrow>
    dispatch_rows cfg show_exn enqueue now (take k claimed) rep (db1, m) = (r', s') \<Longrightarrow>
    outbox_step cfg show_exn enqueue (db, m) s'"
| retry: "outbox_step cfg show_exn enqueue (db, m) (snd (retry_failed now db), m)"
| prune: "prune_outbox now d f p b db = Some (summary, db') \<Longrightarrow>
    outbox_step cfg show_exn enqueue (db, m) (db', m)"

lemma within_budget_subset:
  "within_budget cfg db \<Longrightarrow> set (outbox_messages db') \<subseteq> set (outbox_messages db) \<Longrightarrow>
     distinct (map om_id (outbox_messages db')) \<Longrightarrow> within_budget cfg db'"
  unfolding within_budget_def by blast

lemma within_budget_map:
  assumes "within_budget cfg db" and "list_all2 R (outbox_messages db) (outbox_messages db')"
    and "\<And>m m'. m \<in> set (outbox_messages db) \<Longrightarrow> R m m' \<Longrightarrow> om_id m' = om_id m \<and>
      (om_status m' = ''pending'' \<longrightarrow> 0 \<le> om_attempts m' \<and> om_attempts m' < dp_max_attempts cfg)"
  shows "within_budget cfg db'"
proof -
  have all: "list_all2 (\<lambda>m m'. om_id m' = om_id m \<and>
      (om_status m' = ''pending'' \<longrightarrow> 0 \<le> om_attempts m' \<and> om_attempts m' < dp_max_attempts cfg))
      (outbox_messages db) (outbox_messages db')"
    using assms(2) by (rule list.rel_mono_strong) (rule assms(3))
  then have "map om_id (outbox_messages db') = map om_id (outbox_messages db)"
    by (auto simp: list_all2_conv_all_nth intro: nth_equalityI)
  then show ?thesis
    using assms(1) all unfolding within_budget_def by (auto simp: list_all2_conv_all_nth in_set_conv_nth)
qed

lemma delete_keeps_budget:
  assumes "within_budget cfg db" and "outbox_messages db' = snd (delete_oldest k key P (outbox_messages db))"
  shows "within_budget cfg db'"
proof (rule within_budget_subset [OF assms(1)])
  show "set (outbox_messages db') \<subseteq> set (outbox_messages db)"
    unfolding assms(2) delete_oldest_def Let_def snd_conv by (rule set_fold_remove1)
  show "distinct (map om_id (outbox_messages db'))"
    unfolding assms(2) delete_oldest_def Let_def snd_conv
    using assms(1) by (intro distinct_fold_remove1) (simp add: within_budget_def)
qed

lemma prune_keeps_budget:
  assumes "prune_outbox now d f p b db = Some (summary, db')" and "within_budget cfg db"
  shows "within_budget cfg db'"
proof -
  obtain n1 db1 n2 db2 n3 where
    1: "drain_loop (delete_delivered_before (now - days d) b) 0 db = Some (n1, db1)" and
    2: "drain_loop (delete_failed_before (now - days f) b) 0 db1 = Some (n2, db2)" and
    3: "drain_loop (delete_processed_marks_before (now - p) b) 0 db2 = Some (n3, db')"
    using assms(1) by (auto simp: prune_outbox_def split: option.splits)
  have a: "within_budget cfg (snd (delete_delivered_before c b db))" if "within_budget cfg db" for c db
    using that delete_keeps_budget [OF that] by (auto simp: delete_delivered_before_def Let_def)
  have b: "within_budget cfg (snd (delete_failed_before c b db))" if "within_budget cfg db" for c db
    using that delete_keeps_budget [OF that] by (auto simp: delete_failed_before_def Let_def)
  have c: "within_budget cfg (snd (delete_processed_marks_before c b db))" if "within_budget cfg db" for c db
    using that by (simp add: delete_processed_marks_before_def within_budget_def Let_def)
  have "within_budget cfg db1"
    using drain_loop_invariant [OF 1, of "within_budget cfg"] assms(2) a by simp
  then have "within_budget cfg db2"
    using drain_loop_invariant [OF 2, of "within_budget cfg"] b by simp
  then show ?thesis
    using drain_loop_invariant [OF 3, of "within_budget cfg"] c by simp
qed

lemma tick_keeps_budget:
  assumes "leaves_outbox enqueue" and "claim_batch now b w locked db = (claimed, db1)"
    and "dispatch_rows cfg show_exn enqueue now (take k claimed) rep (db1, m) = (r, s')"
    and "within_budget cfg db"
  shows "within_budget cfg (fst s')"
proof (rule claim_rowsE [OF assms(2)])
  fix picked
  assume picked: "claimed = map (stamp now w) picked" "set picked \<subseteq> set (outbox_messages db)"
    "distinct (map om_id (outbox_messages db)) \<Longrightarrow> distinct (map om_id picked)"
    "outbox_messages db1 = update_where (\<lambda>m. om_id m \<in> om_id ` set picked) (stamp now w) (outbox_messages db)"
  have uniq: "distinct (map om_id (outbox_messages db))"
    using assms(4) by (simp add: within_budget_def)
  have stamped: "list_all2 (\<lambda>m m1. m1 = m \<or> m1 = stamp now w m) (outbox_messages db) (outbox_messages db1)"
    unfolding picked(4) by (rule list_all2_update_where) simp
  have b1: "within_budget cfg db1"
    by (rule within_budget_map [OF assms(4) stamped]) (use assms(4) in \<open>auto simp: within_budget_def\<close>)
  have "distinct (map om_id (take k claimed))"
    using picked(3) [OF uniq] by (simp add: picked(1) comp_def take_map [symmetric] del: take_map)
  from dispatch_rows_any [OF assms(1) this assms(3)]
  have all: "list_all2 (maybe_settled cfg now (take k claimed)) (outbox_messages db1) (outbox_messages (fst s'))"
    by simp
  show ?thesis
  proof (rule within_budget_map [OF b1 all])
    fix m m' assume m: "m \<in> set (outbox_messages db1)" and "maybe_settled cfg now (take k claimed) m m'"
    then consider "m' = m" | row where "row \<in> set claimed" "om_id row = om_id m" "settled cfg now row m m'"
      unfolding maybe_settled_def by (meson in_set_takeD)
    then show "om_id m' = om_id m \<and>
        (om_status m' = ''pending'' \<longrightarrow> 0 \<le> om_attempts m' \<and> om_attempts m' < dp_max_attempts cfg)"
    proof cases
      case 1
      then show ?thesis using m b1 by (simp add: within_budget_def)
    next
      case 2
      obtain q where q: "q \<in> set picked" "row = stamp now w q"
        using 2(1) picked(1) by auto
      obtain m0 where m0: "m0 \<in> set (outbox_messages db)" "om_id m = om_id m0" "om_attempts m = om_attempts m0"
          "om_status m = om_status m0"
        using m unfolding picked(4) in_update_where_iff by (auto split: if_splits)
      have "q = m0"
        using uniq q picked(2) m0 2(2) by (auto simp: distinct_map dest: inj_onD)
      moreover have "0 \<le> om_attempts m" if "om_status m = ''pending''"
        using that m b1 by (simp add: within_budget_def)
      ultimately show ?thesis
        using 2(3) q(2) m0 by (auto simp: settled_def)
    qed
  qed
qed

lemma step_keeps_budget:
  "outbox_step cfg show_exn enqueue s s' \<Longrightarrow> leaves_outbox enqueue \<Longrightarrow> 1 \<le> dp_max_attempts cfg \<Longrightarrow>
     within_budget cfg (fst s) \<Longrightarrow> within_budget cfg (fst s')"
proof (induction rule: outbox_step.induct)
  case (produce i a c carrier job payload avail db r db' m)
  then show ?case
    by (auto simp: outbox_enqueue_def within_budget_def split: option.splits py_datetime.splits)
next
  case (tick now b w locked db claimed db1 k rep m r' s')
  then show ?case
    using tick_keeps_budget by fastforce
next
  case (retry db m now)
  have budget: "within_budget cfg db"
    using retry by simp
  have all: "list_all2 (\<lambda>m m'. m' = m \<or> om_id m' = om_id m \<and> om_attempts m' = 0)
      (outbox_messages db) (outbox_messages (snd (retry_failed now db)))"
    by (simp add: retry_failed_def) (rule list_all2_update_where, simp)
  have "within_budget cfg (snd (retry_failed now db))"
    by (rule within_budget_map [OF budget all]) (use retry in \<open>auto simp: within_budget_def\<close>)
  then show ?case by simp
next
  case (prune now d f p b db summary db' m)
  then show ?case
    using prune_keeps_budget by simp
qed




subsection \<open>Backoff\<close>

lemma retry_delay_Returns:
  assumes "0 \<le> dp_retry_base cfg" and "1 \<le> n" and "dp_retry_base cfg * 2 ^ nat (n - 1) \<le> timedelta_max"
  shows "retry_delay cfg n = Returns (min (dp_retry_base cfg * 2 ^ nat (n - 1)) (dp_retry_max cfg))"
proof -
  have "0 \<le> dp_retry_base cfg * 2 ^ nat (n - 1)"
    using assms(1) by simp
  then have "- days 999999999 \<le> dp_retry_base cfg * 2 ^ nat (n - 1)"
    by linarith
  then show ?thesis
    using assms(3) by (simp add: retry_delay_def timedelta_times_def)
qed

text \<open>
  Backoff. For a base between zero and the cap, the delay before attempt
  \<open>n + 1\<close> stays between the base and the cap, and each further attempt doubles it
  up to the cap, as long as the uncapped product fits a \<open>timedelta\<close>.
\<close>

theorem backoff_doubles_to_cap:
  assumes "0 < dp_retry_base cfg" and "dp_retry_base cfg \<le> dp_retry_max cfg" and "1 \<le> n"
    and "dp_retry_base cfg * 2 ^ nat n \<le> timedelta_max"
  shows "\<exists>d d'. retry_delay cfg n = Returns d \<and> retry_delay cfg (n + 1) = Returns d' \<and>
    dp_retry_base cfg \<le> d \<and> d \<le> dp_retry_max cfg \<and> d' = min (2 * d) (dp_retry_max cfg)"
proof -
  have "nat n = Suc (nat (n - 1))"
    using assms(3) by linarith
  then have pow: "(2 :: int) ^ nat n = 2 * 2 ^ nat (n - 1)"
    by simp
  have one: "(1 :: int) \<le> 2 ^ nat (n - 1)"
    by simp
  then have low: "dp_retry_base cfg \<le> dp_retry_base cfg * 2 ^ nat (n - 1)"
    using assms(1) by simp
  have "dp_retry_base cfg * 2 ^ nat n = 2 * (dp_retry_base cfg * 2 ^ nat (n - 1))"
    by (simp add: pow)
  then have "dp_retry_base cfg * 2 ^ nat (n - 1) \<le> timedelta_max"
    using assms(1,4) low by linarith
  then have "retry_delay cfg n = Returns (min (dp_retry_base cfg * 2 ^ nat (n - 1)) (dp_retry_max cfg))"
    using assms by (intro retry_delay_Returns) auto
  moreover have "retry_delay cfg (n + 1) = Returns (min (dp_retry_base cfg * 2 ^ nat n) (dp_retry_max cfg))"
    using retry_delay_Returns [of cfg "n + 1"] assms by simp
  ultimately show ?thesis
    using low assms(1,2) pow by auto
qed

theorem backoff_doubles_to_cap_witness:
  "retry_delay sample_relay 3 = Returns (seconds 120) \<and> retry_delay sample_relay 6 = Returns (seconds 900)"
proof -
  have "\<exists>d d'. retry_delay sample_relay 3 = Returns d \<and> retry_delay sample_relay (3 + 1) = Returns d' \<and>
      dp_retry_base sample_relay \<le> d \<and> d \<le> dp_retry_max sample_relay \<and> d' = min (2 * d) (dp_retry_max sample_relay)"
    by (rule backoff_doubles_to_cap) (simp_all add: sample_relay_def timedelta_max_def)
  then show ?thesis
    by (simp add: retry_delay_def timedelta_times_def timedelta_max_def sample_relay_def)
qed

lemma dispatch_row_returns:
  assumes "0 \<le> om_attempts row" and "0 \<le> dp_retry_base cfg"
    and "dp_retry_base cfg * 2 ^ nat (dp_max_attempts cfg) \<le> timedelta_max"
  shows "\<exists>d s'. dispatch_row cfg show_exn enqueue now row s = (Returns d, s')"
proof -
  obtain r db1 m1 where q: "enqueue (om_job_name row) (dispatched_payload row) s = (r, (db1, m1))"
    by (metis surj_pair)
  have "\<exists>d. retry_delay cfg (om_attempts row + 1) = Returns d" if "\<not> dp_max_attempts cfg \<le> om_attempts row + 1"
  proof -
    have "(2 :: int) ^ nat (om_attempts row) \<le> 2 ^ nat (dp_max_attempts cfg)"
      using that by (intro power_increasing nat_mono) auto
    then have "dp_retry_base cfg * 2 ^ nat (om_attempts row) \<le> timedelta_max"
      using assms(2,3) by (meson mult_left_mono order_trans)
    then show ?thesis
      using retry_delay_Returns [of cfg "om_attempts row + 1"] assms(1,2) by simp
  qed
  then show ?thesis
    using q by (cases r; cases "dp_max_attempts cfg \<le> om_attempts row + 1") (auto simp: dispatch_row_def Let_def)
qed

lemma dispatch_rows_return:
  assumes "list_all (\<lambda>row. 0 \<le> om_attempts row) rows" and "0 \<le> dp_retry_base cfg"
    and "dp_retry_base cfg * 2 ^ nat (dp_max_attempts cfg) \<le> timedelta_max"
  shows "\<exists>rep' s'. dispatch_rows cfg show_exn enqueue now rows rep s = (Returns rep', s')"
  using assms(1)
proof (induction rows arbitrary: rep s)
  case (Cons row rows)
  have row: "0 \<le> om_attempts row" and rows: "list_all (\<lambda>row. 0 \<le> om_attempts row) rows"
    using Cons.prems by simp_all
  obtain d s1 where "dispatch_row cfg show_exn enqueue now row s = (Returns d, s1)"
    using dispatch_row_returns [OF row assms(2,3)] by blast
  then show ?case
    using Cons.IH [OF rows] by simp
qed simp

lemma tick_returns:
  assumes budget: "within_budget cfg (fst s)" and base: "0 \<le> dp_retry_base cfg"
    "dp_retry_base cfg * 2 ^ nat (dp_max_attempts cfg) \<le> timedelta_max"
  shows "\<exists>rep s'. dispatch_pending_execute cfg show_exn enqueue locked now s = (Returns rep, s')"
proof -
  obtain claimed db1 where claim: "claim_batch now (dp_batch_size cfg) (dp_worker_id cfg) locked (fst s) = (claimed, db1)"
    by force
  have "list_all (\<lambda>row. 0 \<le> om_attempts row) claimed"
  proof (rule claim_rowsE [OF claim])
    fix picked
    assume "claimed = map (stamp now (dp_worker_id cfg)) picked" "set picked \<subseteq> set (outbox_messages (fst s))"
      "list_all (claimable now locked) picked"
    then show ?thesis
      using budget by (auto simp: within_budget_def list_all_iff claimable_def)
  qed
  then show ?thesis
    using dispatch_rows_return [OF _ base] claim by (simp add: dispatch_pending_execute_def)
qed

text \<open>
  When a tick can fail. A tick returns a report whenever the largest possible
  backoff product fits a \<open>timedelta\<close> (as with the default settings); but a pending
  row that has failed often enough for its product to overflow makes a tick that
  reaches it with a failing queue raise \<open>OverflowError\<close> out of the relay loop,
  before any other row is settled.
\<close>

theorem relay_tick_overflow:
  "(within_budget cfg (fst s) \<longrightarrow> 0 \<le> dp_retry_base cfg \<longrightarrow>
      dp_retry_base cfg * 2 ^ nat (dp_max_attempts cfg) \<le> timedelta_max \<longrightarrow>
      (\<exists>rep s'. dispatch_pending_execute cfg show_exn enqueue locked now s = (Returns rep, s'))) \<and>
   (claim_batch now (dp_batch_size cfg) (dp_worker_id cfg) locked (fst s) = (row # rows, db1) \<longrightarrow>
      enqueue (om_job_name row) (dispatched_payload row) (db1, snd s) = (Raises e, s1) \<longrightarrow>
      om_attempts row + 1 < dp_max_attempts cfg \<longrightarrow>
      timedelta_max < dp_retry_base cfg * 2 ^ nat (om_attempts row) \<longrightarrow>
      dispatch_pending_execute cfg show_exn enqueue locked now s = (Raises OverflowError, s1))"
  using tick_returns [of cfg s show_exn enqueue locked now]
  by (cases s1) (auto simp: dispatch_pending_execute_def dispatch_row_def retry_delay_def timedelta_times_def Let_def)

theorem relay_tick_overflow_witness:
  "(\<exists>rep s'. dispatch_pending_execute sample_relay (\<lambda>e. ''err'') failing_queue {} 10 (sample_outbox, ()) = (Returns rep, s')) \<and>
   fst (dispatch_pending_execute (sample_relay\<lparr>dp_max_attempts := 100\<rparr>) (\<lambda>e. ''err'') failing_queue {} 10
     (empty_db\<lparr>outbox_messages := [sample_message\<lparr>om_attempts := 42\<rparr>]\<rparr>, ())) = Raises OverflowError"
proof -
  let ?row = "sample_message\<lparr>om_attempts := 42\<rparr>" and ?cfg = "sample_relay\<lparr>dp_max_attempts := 100\<rparr>"
  have "within_budget sample_relay (fst (sample_outbox, ()))" "0 \<le> dp_retry_base sample_relay"
      "dp_retry_base sample_relay * 2 ^ nat (dp_max_attempts sample_relay) \<le> timedelta_max"
    by (simp_all add: within_budget_def sample_relay_def sample_message_def timedelta_max_def)
  note ok = relay_tick_overflow [THEN conjunct1, rule_format, OF this, of "\<lambda>e. ''err''" failing_queue "{}" 10]
  obtain db1 where claim: "claim_batch 10 (dp_batch_size ?cfg) (dp_worker_id ?cfg) {}
      (fst (empty_db\<lparr>outbox_messages := [?row]\<rparr>, ())) = ([stamp 10 ''w'' ?row], db1)"
    by (simp add: claim_batch_def claimable_def order_by_def sample_message_def sample_relay_def)
  have "om_attempts (stamp 10 ''w'' ?row) + 1 < dp_max_attempts ?cfg"
      "timedelta_max < dp_retry_base ?cfg * 2 ^ nat (om_attempts (stamp 10 ''w'' ?row))"
    by (simp_all add: sample_relay_def timedelta_max_def)
  from relay_tick_overflow [THEN conjunct2, rule_format, OF claim _ this, of failing_queue RuntimeError "(db1, ())" "\<lambda>e. ''err''"] ok show ?thesis
    by (simp add: failing_queue_def)
qed


subsection \<open>Two workers\<close>

lemma insert_by_map:
  "(\<And>a b. lt (f a) (f b) = lt a b) \<Longrightarrow> insert_by lt (f x) (map f xs) = map f (insert_by lt x xs)"
  by (induction xs) auto

lemma order_by_map: "(\<And>a b. lt (f a) (f b) = lt a b) \<Longrightarrow> order_by lt (map f xs) = map f (order_by lt xs)"
  unfolding order_by_def by (induction xs) (simp_all add: insert_by_map)

text \<open>
  What a claim does not do. Claimed rows stay pending and claimable once the
  claiming transaction is over: a second worker that claims at the same time
  gets exactly the same messages. Nothing the claim writes keeps another worker
  away; only row locks held by an open transaction do.
\<close>

theorem claim_not_exclusive:
  assumes "claim_batch now b w1 locked db = (rows1, db1)" and "claim_batch now b w2 locked db1 = (rows2, db2)"
  shows "map om_id rows2 = map om_id rows1 \<and> map om_payload rows2 = map om_payload rows1 \<and>
    map om_attempts rows2 = map om_attempts rows1"
proof (cases "b \<le> 0")
  case False
  let ?lt = "\<lambda>a b. keyset_less (om_keyset a) (om_keyset b)" and ?old = "outbox_messages db"
  define picked where "picked = take (nat b) (order_by ?lt (filter (claimable now locked) ?old))"
  define f where "f = (\<lambda>m. if om_id m \<in> om_id ` set picked then stamp now w1 m else m)"
  have one: "rows1 = map (stamp now w1) picked" "outbox_messages db1 = map f ?old"
    using assms(1) False by (auto simp: claim_batch_def Let_def picked_def f_def update_where_def)
  have f: "om_keyset (f m) = om_keyset m" "claimable now locked (f m) = claimable now locked m"
      "om_id (f m) = om_id m" "om_payload (f m) = om_payload m" "om_attempts (f m) = om_attempts m" for m
    by (simp_all add: f_def om_keyset_def claimable_def)
  have "filter (claimable now locked) (map f ?old) = map f (filter (claimable now locked) ?old)"
    by (simp add: filter_map comp_def f)
  then have "take (nat b) (order_by ?lt (filter (claimable now locked) (outbox_messages db1))) = map f picked"
    unfolding one(2) picked_def by (simp add: order_by_map f take_map)
  then have "rows2 = map (\<lambda>m. stamp now w2 (f m)) picked"
    using assms(2) False by (auto simp: claim_batch_def Let_def)
  then show ?thesis
    by (simp add: one(1) f)
qed (use assms in \<open>simp add: claim_batch_def\<close>)

theorem claim_not_exclusive_witness:
  "\<exists>rows1 rows2 db1 db2. claim_batch 10 100 ''w1'' {} sample_outbox = (rows1, db1) \<and>
     claim_batch 10 100 ''w2'' {} db1 = (rows2, db2) \<and> map om_id rows1 = [1] \<and> map om_id rows2 = [1]"
proof -
  obtain rows1 db1 rows2 db2 where run: "claim_batch 10 100 ''w1'' {} sample_outbox = (rows1, db1)"
      "claim_batch 10 100 ''w2'' {} db1 = (rows2, db2)"
    by force
  moreover have "map om_id rows1 = [1]"
    using run(1) by (auto simp: claim_batch_def claimable_def order_by_def sample_message_def)
  ultimately show ?thesis
    using claim_not_exclusive [OF run] by auto
qed


subsection \<open>Pruning\<close>

lemma count_where_filter_not:
  "(\<And>x. P x \<Longrightarrow> \<not> Q x) \<Longrightarrow> count_where P (filter (\<lambda>x. \<not> Q x) xs) = count_where P xs"
  by (induction xs) (auto simp: count_where_def)

lemma database_messages_eqI:
  fixes db db' :: database
  assumes "db'\<lparr>outbox_messages := []\<rparr> = db\<lparr>outbox_messages := []\<rparr>"
  shows "db' = db\<lparr>outbox_messages := outbox_messages db'\<rparr>"
  using assms by (cases db; cases db') simp

lemma database_marks_eqI:
  fixes db db' :: database
  assumes "db'\<lparr>processed_marks := []\<rparr> = db\<lparr>processed_marks := []\<rparr>"
  shows "db' = db\<lparr>processed_marks := processed_marks db'\<rparr>"
  using assms by (cases db; cases db') simp

lemma prune_outbox_sweeps:
  assumes "0 < b"
  shows "prune_outbox now d f p b db = Some
    (\<lparr>delivered_deleted = count_where (delivered_before (now - days d)) (outbox_messages db),
      failed_deleted = count_where (failed_before (now - days f)) (outbox_messages db),
      processed_marks_deleted = count_where (\<lambda>m. pm_processed_at m < now - p) (processed_marks db)\<rparr>,
     db\<lparr>outbox_messages := filter (\<lambda>m. \<not> delivered_before (now - days d) m \<and> \<not> failed_before (now - days f) m)
          (outbox_messages db),
        processed_marks := filter (\<lambda>m. \<not> pm_processed_at m < now - p) (processed_marks db)\<rparr>)"
proof -
  obtain n where b: "b = int (Suc n)"
    using assms by (metis Suc_pred' nat_0_less_mult_iff pos_int_cases zero_less_imp_eq_int)
  let ?D = "delivered_before (now - days d)" and ?F = "failed_before (now - days f)"
  obtain db1 where 1: "drain_loop (delete_delivered_before (now - days d) b) 0 db =
        Some (0 + count_where ?D (outbox_messages db), db1)" "count_where ?D (outbox_messages db1) = 0"
      "filter (\<lambda>m. \<not> ?D m) (outbox_messages db1) = filter (\<lambda>m. \<not> ?D m) (outbox_messages db)"
      "db1\<lparr>outbox_messages := []\<rparr> = db\<lparr>outbox_messages := []\<rparr>"
    unfolding b using delivered_prune.drain_loop_ends [of "now - days d" n 0 db] by (auto simp del: of_nat_Suc)
  have db1: "db1 = db\<lparr>outbox_messages := filter (\<lambda>m. \<not> ?D m) (outbox_messages db)\<rparr>"
    using database_messages_eqI [OF 1(4)] count_where_0 [OF 1(2)] 1(3) by simp
  obtain db2 where 2: "drain_loop (delete_failed_before (now - days f) b) 0 db1 =
        Some (0 + count_where ?F (outbox_messages db1), db2)" "count_where ?F (outbox_messages db2) = 0"
      "filter (\<lambda>m. \<not> ?F m) (outbox_messages db2) = filter (\<lambda>m. \<not> ?F m) (outbox_messages db1)"
      "db2\<lparr>outbox_messages := []\<rparr> = db1\<lparr>outbox_messages := []\<rparr>"
    unfolding b using failed_prune.drain_loop_ends [of "now - days f" n 0 db1] by (auto simp del: of_nat_Suc)
  have db2: "db2 = db1\<lparr>outbox_messages := filter (\<lambda>m. \<not> ?F m) (outbox_messages db1)\<rparr>"
    using database_messages_eqI [OF 2(4)] count_where_0 [OF 2(2)] 2(3) by simp
  obtain db3 where 3: "drain_loop (delete_processed_marks_before (now - p) b) 0 db2 =
        Some (0 + count_where (\<lambda>m. pm_processed_at m < now - p) (processed_marks db2), db3)"
      "count_where (\<lambda>m. pm_processed_at m < now - p) (processed_marks db3) = 0"
      "filter (\<lambda>m. \<not> pm_processed_at m < now - p) (processed_marks db3) =
        filter (\<lambda>m. \<not> pm_processed_at m < now - p) (processed_marks db2)"
      "db3\<lparr>processed_marks := []\<rparr> = db2\<lparr>processed_marks := []\<rparr>"
    unfolding b using marks_prune.drain_loop_ends [of "now - p" n 0 db2] by (auto simp del: of_nat_Suc)
  have db3: "db3 = db2\<lparr>processed_marks := filter (\<lambda>m. \<not> pm_processed_at m < now - p) (processed_marks db2)\<rparr>"
    using database_marks_eqI [OF 3(4)] count_where_0 [OF 3(2)] 3(3) by simp
  have "count_where ?F (outbox_messages db1) = count_where ?F (outbox_messages db)"
    unfolding db1 by (simp, rule count_where_filter_not) (auto simp: delivered_before_def failed_before_def)
  then show ?thesis
    using 1(1) 2(1) 3(1) by (simp add: prune_outbox_def db3 db2 db1 conj_commute)
qed

text \<open>
  C21. Pruning. With a positive batch size the sweep ends; it deletes exactly the
  delivered rows, failed rows and dedup marks that are older than their
  retention, reports how many of each, and keeps everything else (so no pending
  row is ever pruned), whatever the batch size.
\<close>

theorem prune_outbox_exact:
  assumes "0 < b"
  shows "prune_outbox now d f p b db = Some
    (\<lparr>delivered_deleted = count_where (delivered_before (now - days d)) (outbox_messages db),
      failed_deleted = count_where (failed_before (now - days f)) (outbox_messages db),
      processed_marks_deleted = count_where (\<lambda>m. pm_processed_at m < now - p) (processed_marks db)\<rparr>,
     db\<lparr>outbox_messages := filter (\<lambda>m. \<not> delivered_before (now - days d) m \<and> \<not> failed_before (now - days f) m)
          (outbox_messages db),
        processed_marks := filter (\<lambda>m. \<not> pm_processed_at m < now - p) (processed_marks db)\<rparr>)"
  using assms by (rule prune_outbox_sweeps)

theorem prune_outbox_exact_witness:
  "prune_outbox (days 9) 7 30 (days 8) 500
     (empty_db\<lparr>outbox_messages := [sample_message, sample_message\<lparr>om_id := 2, om_status := ''delivered'', om_delivered_at := Some 0\<rparr>]\<rparr>) =
   Some (\<lparr>delivered_deleted = 1, failed_deleted = 0, processed_marks_deleted = 0\<rparr>,
         empty_db\<lparr>outbox_messages := [sample_message]\<rparr>)"
  by (subst prune_outbox_exact)
    (simp_all add: count_where_def delivered_before_def failed_before_def sample_message_def empty_db_def)

end
