(* ===== verification/Email_Delivery.thy ===== *)
theory Email_Delivery
  imports Email Outbox_Props
begin

text \<open>
  The delivery path end to end: the relay dispatches a row to the in-process
  queue, which runs the \<open>send_email\<close> handler with its dedup mark
  (\<open>src/features/outbox/composition/handler_dedupe.py\<close>). The mark is committed
  before the email is sent; the theorems give both consequences of that order.
\<close>

definition marked :: "uuid \<Rightarrow> database \<Rightarrow> bool" where
  "marked i db \<longleftrightarrow> list_ex (\<lambda>p. pm_id p = i) (processed_marks db)"

lemma handler_dedupe_marked:
  "UUID mid = Some i \<Longrightarrow> handler_dedupe now mid db =
     (if marked i db then (False, db)
      else (True, db\<lparr>processed_marks := processed_marks db @ [\<lparr>pm_id = i, pm_processed_at = now\<rparr>]\<rparr>))"
  by (simp add: handler_dedupe_def marked_def)

lemma send_email_deliver_state:
  assumes "send_email_deliver port payload s = (r, s')"
  shows "fst s' = fst s \<and>
    (snd s' = snd s \<or> (\<exists>to_addr t context. snd s' = snd (port to_addr t context (snd s))))"
proof (cases r)
  case (Returns u)
  then show ?thesis
    using assms by (auto simp: send_email_deliver_def split: outcome.splits prod.splits result.splits) (metis snd_conv)+
next
  case (Raises e)
  then show ?thesis
    using assms by (auto simp: send_email_deliver_def split: outcome.splits prod.splits result.splits) (metis snd_conv)+
qed

lemma send_email_handler_marked:
  assumes "dict_get payload OUTBOX_MESSAGE_ID_KEY = Some (JStr mid)" and "UUID mid = Some i" and "marked i (fst s)"
  shows "send_email_handler (Some (handler_dedupe now)) port payload s = (Returns (), s)"
  using assms by (simp add: send_email_handler_def handler_dedupe_marked)

lemma send_email_handler_unmarked:
  assumes "dict_get payload OUTBOX_MESSAGE_ID_KEY = Some (JStr mid)" and "UUID mid = Some i" and "\<not> marked i (fst s)"
    and "send_email_handler (Some (handler_dedupe now)) port payload s = (r, s')"
  shows "marked i (fst s') \<and> outbox_messages (fst s') = outbox_messages (fst s) \<and>
    (snd s' = snd s \<or> (\<exists>to_addr t context. snd s' = snd (port to_addr t context (snd s))))"
proof -
  let ?db = "(fst s)\<lparr>processed_marks := processed_marks (fst s) @ [\<lparr>pm_id = i, pm_processed_at = now\<rparr>]\<rparr>"
  have run: "send_email_deliver port payload (?db, snd s) = (r, s')"
    using assms by (simp add: send_email_handler_def handler_dedupe_marked)
  have "marked i ?db"
    by (simp add: marked_def)
  then show ?thesis
    using send_email_deliver_state [OF run] by auto
qed

definition run_handlers ::
  "'m email_port \<Rightarrow> (datetime \<times> json_object) list \<Rightarrow> database \<times> 'm \<Rightarrow> database \<times> 'm" where
  "run_handlers port = fold (\<lambda>(now, payload) s. snd (send_email_handler (Some (handler_dedupe now)) port payload s))"

text \<open>
  C22. At most one email per message. However often jobs with the same outbox
  message id are delivered, and whatever else their payloads say, the email port
  is called at most once for them while the dedup mark exists; after the first
  run the message stays marked and later runs change nothing.
\<close>

theorem at_most_one_email:
  assumes "list_all (\<lambda>(now, payload). dict_get payload OUTBOX_MESSAGE_ID_KEY = Some (JStr mid)) runs"
    and "UUID mid = Some i"
  shows "(runs = [] \<or> marked i (fst (run_handlers port runs s))) \<and>
    (marked i (fst s) \<longrightarrow> run_handlers port runs s = s) \<and>
    (snd (run_handlers port runs s) = snd s \<or>
     (\<exists>to_addr t context. snd (run_handlers port runs s) = snd (port to_addr t context (snd s))))"
proof -
  have idle: "run_handlers port runs s = s"
    if "list_all (\<lambda>(now, payload). dict_get payload OUTBOX_MESSAGE_ID_KEY = Some (JStr mid)) runs" "marked i (fst s)"
    for runs and s
    using that by (induction runs) (auto simp: run_handlers_def send_email_handler_marked [OF _ assms(2)])
  show ?thesis
  proof (cases runs)
    case (Cons run rest)
    obtain now payload where run: "run = (now, payload)"
      by force
    then have key: "dict_get payload OUTBOX_MESSAGE_ID_KEY = Some (JStr mid)"
      and rest: "list_all (\<lambda>(now, payload). dict_get payload OUTBOX_MESSAGE_ID_KEY = Some (JStr mid)) rest"
      using assms(1) by (simp_all add: Cons)
    obtain r s1 where s1: "send_email_handler (Some (handler_dedupe now)) port payload s = (r, s1)"
      by (metis surj_pair)
    have split: "run_handlers port runs s = run_handlers port rest s1"
      by (simp add: Cons run run_handlers_def s1)
    show ?thesis
    proof (cases "marked i (fst s)")
      case True
      then show ?thesis
        using idle [OF assms(1) True] by simp
    next
      case False
      note first = send_email_handler_unmarked [OF key assms(2) False s1]
      then have "run_handlers port runs s = s1"
        using idle [OF rest] split by simp
      then show ?thesis
        using first False by simp
    qed
  qed (simp add: run_handlers_def)
qed

theorem at_most_one_email_witness:
  "run_handlers (\<lambda>to_addr t c n. (Err (DeliveryError ''down''), Suc n))
     [(5, [(OUTBOX_MESSAGE_ID_KEY, JStr (str_uuid 1)), (''to'', JStr ''a''), (''template_name'', JStr ''t'')]),
      (9, [(OUTBOX_MESSAGE_ID_KEY, JStr (str_uuid 1)), (''to'', JStr ''b''), (''template_name'', JStr ''t'')])]
     (empty_db, 0) =
   (empty_db\<lparr>processed_marks := [\<lparr>pm_id = 1, pm_processed_at = 5\<rparr>]\<rparr>, 1 :: nat)"
proof -
  let ?port = "\<lambda>to_addr t c n. (Err (DeliveryError ''down''), Suc n)"
  let ?db = "empty_db\<lparr>processed_marks := [\<lparr>pm_id = 1, pm_processed_at = 5\<rparr>]\<rparr>"
  let ?run = "\<lambda>now to_addr. (now :: datetime, [(OUTBOX_MESSAGE_ID_KEY, JStr (str_uuid 1)), (''to'', JStr to_addr), (''template_name'', JStr ''t'')])"
  have "run_handlers ?port [?run 9 ''b''] (?db, 1) = (?db, 1)"
    using at_most_one_email [of "str_uuid 1" "[?run 9 ''b'']" 1 ?port "(?db, 1)"]
    by (simp add: dict_get_def marked_def)
  moreover have "run_handlers ?port [?run 5 ''a''] (empty_db, 0) = (?db, 1)"
    by (simp add: run_handlers_def send_email_handler_def handler_dedupe_marked [OF UUID_str_uuid] marked_def empty_db_def
        send_email_deliver_def payload_text_def payload_context_def json_text_def dict_get_def OUTBOX_MESSAGE_ID_KEY_def)
  ultimately show ?thesis
    by (simp add: run_handlers_def)
qed


subsection \<open>A failed email\<close>

definition email_queue ::
  "datetime \<Rightarrow> 'm email_port \<Rightarrow> (database \<times> 'm) job_handler_registry \<Rightarrow> bool" where
  "email_queue now port reg \<longleftrightarrow>
     (\<exists>entry. dict_get (jr_handlers reg) ''send_email'' = Some entry \<and>
        je_handler entry = send_email_handler (Some (handler_dedupe now)) port)"

lemma register_email_queue:
  "register_send_email_handler (Some (handler_dedupe now)) port reg = Returns reg' \<Longrightarrow> email_queue now port reg'"
  by (auto simp: register_send_email_handler_def register_handler_def jobs_guard_unsealed_def email_queue_def
      split: if_splits)

lemma email_enqueue:
  "email_queue now port reg \<Longrightarrow>
     in_process_enqueue reg ''send_email'' payload s = send_email_handler (Some (handler_dedupe now)) port payload s"
  unfolding email_queue_def by (auto simp: in_process_enqueue_known)

lemma dispatched_payload_id:
  assumes "\<not> dict_has (om_payload row) OUTBOX_MESSAGE_ID_KEY"
  shows "dict_get (dispatched_payload row) OUTBOX_MESSAGE_ID_KEY = Some (JStr (str_uuid (om_id row)))"
  using assms by (simp add: dispatched_payload_def OUTBOX_MESSAGE_ID_KEY_def TRACE_KEY_def Let_def)

text \<open>
  C23. A failed email is not retried. When the relay's dispatch of an email row
  does not deliver it (so the row is postponed for a retry or failed), the next
  dispatch of that row, at any later time, finds the dedup mark, does not
  call the email port (which may work again), and marks the row delivered.
\<close>

theorem failed_email_marked_delivered:
  assumes "email_queue t1 port1 reg1" and "email_queue t2 port2 reg2"
    and "om_job_name row = ''send_email''" and "\<not> dict_has (om_payload row) OUTBOX_MESSAGE_ID_KEY"
    and "dispatch_row cfg show_exn (in_process_enqueue reg1) now1 row s = (Returns d, s1)" and "d \<noteq> Dispatched"
    and "om_id row' = om_id row" and "om_job_name row' = om_job_name row" and "om_payload row' = om_payload row"
  shows "dispatch_row cfg show_exn (in_process_enqueue reg2) now2 row' s1 =
    (Returns Dispatched, (mark_delivered (om_id row) now2 (fst s1), snd s1))"
proof -
  have key: "dict_get (dispatched_payload row) OUTBOX_MESSAGE_ID_KEY = Some (JStr (str_uuid (om_id row)))"
    "dict_get (dispatched_payload row') OUTBOX_MESSAGE_ID_KEY = Some (JStr (str_uuid (om_id row)))"
    using dispatched_payload_id [of row] dispatched_payload_id [of row'] assms(4,7,9) by simp_all
  obtain r db m where q: "send_email_handler (Some (handler_dedupe t1)) port1 (dispatched_payload row) s = (r, (db, m))"
    by (metis surj_pair)
  have enq: "in_process_enqueue reg1 (om_job_name row) (dispatched_payload row) s = (r, (db, m))"
    using q email_enqueue [OF assms(1)] assms(3) by simp
  have "marked (om_id row) db"
  proof (cases "marked (om_id row) (fst s)")
    case True
    then have "r = Returns ()"
      using send_email_handler_marked [OF key(1) UUID_str_uuid True] q by simp
    then show ?thesis
      using assms(5,6) enq by (simp add: dispatch_row_def)
  next
    case False
    then show ?thesis
      using send_email_handler_unmarked [OF key(1) UUID_str_uuid False q] by simp
  qed
  moreover have "processed_marks (fst s1) = processed_marks db"
    using assms(5) enq
    by (auto simp: dispatch_row_def Let_def mark_delivered_def mark_retry_def mark_failed_def update_message_def
        split: outcome.splits if_splits)
  ultimately have "marked (om_id row) (fst s1)"
    by (simp add: marked_def)
  from send_email_handler_marked [OF key(2) UUID_str_uuid this] show ?thesis
    using email_enqueue [OF assms(2)] assms(3,7,8) by (cases s1) (simp add: dispatch_row_def)
qed

text \<open>The mail server is down for the first tick only; no mail is sent, and the row ends up delivered.\<close>

definition sample_port :: "bool \<Rightarrow> nat email_port" where
  "sample_port up to_addr t c n = (if up then Ok () else Err (DeliveryError ''down''), Suc n)"

definition sample_jobs :: "datetime \<Rightarrow> nat email_port \<Rightarrow> (database \<times> nat) job_handler_registry" where
  "sample_jobs now port = \<lparr>jr_handlers = [(''send_email'',
     \<lparr>je_handler = send_email_handler (Some (handler_dedupe now)) port, je_keep_result_seconds = None\<rparr>)],
     jr_sealed = False\<rparr>"

lemma sample_jobs_queue: "email_queue now port (sample_jobs now port)"
  by (rule register_email_queue [of now port empty_job_registry])
    (simp add: register_send_email_handler_def register_handler_def jobs_guard_unsealed_def empty_job_registry_def
      sample_jobs_def dict_set_def)

lemma sample_first_attempt:
  "\<exists>s1. dispatch_row sample_relay (\<lambda>e. ''err'') (in_process_enqueue (sample_jobs 10 (sample_port False))) 10
     sample_message (sample_outbox, 0) = (Returns Retried, s1) \<and> snd s1 = 1"
  by (simp add: dispatch_row_def email_enqueue [OF sample_jobs_queue] sample_message_def send_email_handler_def
      dispatched_payload_def handler_dedupe_marked [OF UUID_str_uuid] marked_def sample_outbox_def empty_db_def
      send_email_deliver_def payload_text_def payload_context_def json_text_def dict_get_def dict_set_def OUTBOX_MESSAGE_ID_KEY_def
      sample_port_def retry_delay_def timedelta_times_def timedelta_max_def sample_relay_def Let_def)

theorem failed_email_marked_delivered_witness:
  "\<exists>s1 s2. dispatch_row sample_relay (\<lambda>e. ''err'') (in_process_enqueue (sample_jobs 10 (sample_port False))) 10
       sample_message (sample_outbox, 0) = (Returns Retried, s1) \<and> snd s1 = 1 \<and>
     dispatch_row sample_relay (\<lambda>e. ''err'') (in_process_enqueue (sample_jobs 99 (sample_port True))) 99
       (sample_message\<lparr>om_attempts := 1\<rparr>) s1 = (Returns Dispatched, s2) \<and> snd s2 = 1"
proof -
  obtain s1 where first: "dispatch_row sample_relay (\<lambda>e. ''err'') (in_process_enqueue (sample_jobs 10 (sample_port False))) 10
       sample_message (sample_outbox, 0) = (Returns Retried, s1)" "snd s1 = 1"
    using sample_first_attempt by blast
  have row: "om_job_name sample_message = ''send_email''" "\<not> dict_has (om_payload sample_message) OUTBOX_MESSAGE_ID_KEY"
    by (simp_all add: sample_message_def OUTBOX_MESSAGE_ID_KEY_def dict_has_def dict_get_def)
  show ?thesis
    using failed_email_marked_delivered [OF sample_jobs_queue sample_jobs_queue row first(1),
        where row' = "sample_message\<lparr>om_attempts := 1\<rparr>"] first
    by simp
qed

end
