(* ===== verification/Account_Lifecycle.thy ===== *)
theory Account_Lifecycle
  imports Auth_UseCases
begin

text \<open>
  The account use cases of the users feature
  (\<open>src/features/users/application/use_cases\<close>) and the authentication-side
  cleanup they call
  (\<open>src/features/authentication/adapters/outbound/auth_artifacts_cleanup/sqlmodel.py\<close>).
  The writer of the unit of work carries a session, so all writes of a use case
  share its transaction; a violated unique constraint raises \<open>IntegrityError\<close>
  when the transaction commits. \<open>list_users\<close> is always \<open>Ok\<close>; the definition gives the
  value.
\<close>

subsection \<open>Authentication artifacts\<close>

definition PII_METADATA_KEYS :: "string list" where
  "PII_METADATA_KEYS = [''family_id'', ''ip_address'', ''user_agent'']"

definition scrub_audit_event :: "audit_event_row \<Rightarrow> audit_event_row" where
  "scrub_audit_event e =
     e\<lparr>ae_ip_address := None, ae_user_agent := None,
       ae_metadata := filter (\<lambda>kv. fst kv \<notin> set PII_METADATA_KEYS) (ae_metadata e)\<rparr>"

definition scrub_audit_events :: "uuid \<Rightarrow> database \<Rightarrow> database" where
  "scrub_audit_events user_id db =
     db\<lparr>audit_events := update_where (\<lambda>e. ae_user_id e = Some user_id) scrub_audit_event (audit_events db)\<rparr>"

definition delete_credentials_and_tokens :: "uuid \<Rightarrow> database \<Rightarrow> database" where
  "delete_credentials_and_tokens user_id db =
     (let gone = rt_id ` {t \<in> set (refresh_tokens db). rt_user_id t = user_id} in
      db\<lparr>credentials := delete_where (\<lambda>c. cr_user_id c = user_id) (credentials db),
         refresh_tokens := map (null_replaced_by gone)
           (delete_where (\<lambda>t. rt_user_id t = user_id) (refresh_tokens db)),
         internal_tokens := delete_where (\<lambda>t. it_user_id t = Some user_id) (internal_tokens db)\<rparr>)"

definition record_user_erased_event :: "uuid \<Rightarrow> datetime \<Rightarrow> uuid \<Rightarrow> string \<Rightarrow> database \<Rightarrow> database" where
  "record_user_erased_event new_id now user_id reason =
     record_audit_event new_id now ''user.erased'' (Some user_id) None None
       [(''user_id'', JStr (str_uuid user_id)), (''reason'', JStr reason)]"


subsection \<open>Use cases\<close>

definition users_register_user ::
  "uuid \<Rightarrow> datetime \<Rightarrow> datetime \<Rightarrow> string \<Rightarrow> database \<Rightarrow> (user_row, user_error) result \<times> database" where
  "users_register_user new_id created updated email = create_user new_id created updated (lower (strip email))"

definition get_user_by_id :: "uuid \<Rightarrow> database \<Rightarrow> (user_row, user_error) result" where
  "get_user_by_id user_id db =
     (case get_by_id user_id db of None \<Rightarrow> Err UserNotFoundError | Some u \<Rightarrow> Ok u)"

definition get_user_by_email :: "string \<Rightarrow> database \<Rightarrow> (user_row, user_error) result" where
  "get_user_by_email email db =
     (case get_by_email (lower (strip email)) db of None \<Rightarrow> Err UserNotFoundError | Some u \<Rightarrow> Ok u)"

definition update_profile ::
  "datetime \<Rightarrow> uuid \<Rightarrow> string option \<Rightarrow> database \<Rightarrow> (user_row, user_error) result \<times> database" where
  "update_profile now user_id email db =
     (case get_by_id user_id db of
        None \<Rightarrow> (Err UserNotFoundError, db)
      | Some existing \<Rightarrow>
          (case email of
             None \<Rightarrow> (Ok existing, db)
           | Some e \<Rightarrow>
               (let normalized = lower (strip e)
                in if normalized = u_email existing then (Ok existing, db)
                   else update_email now user_id normalized db)))"

definition list_users :: "(datetime \<times> uuid) option \<Rightarrow> int \<Rightarrow> database \<Rightarrow> user_row list" where
  "list_users cursor limit db = list_paginated cursor (nat (max 1 (min limit 500))) db"

definition DELETE_USER_ASSETS_JOB :: string where
  "DELETE_USER_ASSETS_JOB = ''delete_user_assets''"

definition enqueue_assets_cleanup ::
  "uuid \<Rightarrow> datetime \<Rightarrow> datetime \<Rightarrow> json_object \<Rightarrow> uuid \<Rightarrow> (database, unit) action" where
  "enqueue_assets_cleanup new_id avail created carrier user_id =
     outbox_enqueue new_id avail created carrier DELETE_USER_ASSETS_JOB
       [(''user_id'', JStr (str_uuid user_id))] None"

text \<open>The revocation callable commits on its own before the transaction opens.\<close>

definition deactivate_user ::
  "(uuid \<Rightarrow> database \<Rightarrow> database) option \<Rightarrow> bool \<Rightarrow> (nat \<Rightarrow> datetime) \<Rightarrow> uuid \<Rightarrow> json_object \<Rightarrow> uuid \<Rightarrow>
   (database, (unit, user_error) result) action" where
  "deactivate_user revoke uow clk new_id carrier user_id db =
     (case get_by_id user_id db of
        None \<Rightarrow> (Returns (Err UserNotFoundError), db)
      | Some existing \<Rightarrow>
          (let db1 = (case revoke of None \<Rightarrow> db | Some f \<Rightarrow> f user_id db)
           in if uow
              then transaction (andthen
                     (\<lambda>db. (Returns (), set_active (clk 0) user_id False db))
                     (\<lambda>_. andthen (enqueue_assets_cleanup new_id (clk 1) (clk 2) carrier user_id)
                       (\<lambda>_ db. (Returns (Ok ()), db)))) db1
              else (Returns (Ok ()), set_active (clk 0) user_id False db1)))"

definition emails_unique :: "database \<Rightarrow> bool" where
  "emails_unique db \<longleftrightarrow> distinct (map u_email (users db))"

definition erase_user ::
  "(nat \<Rightarrow> datetime) \<Rightarrow> (nat \<Rightarrow> uuid) \<Rightarrow> json_object \<Rightarrow> uuid \<Rightarrow> string \<Rightarrow>
   (database, (unit, user_error) result) action" where
  "erase_user clk ids carrier user_id reason db =
     (case get_raw_by_id user_id db of
        None \<Rightarrow> (Returns (Err UserNotFoundError), db)
      | Some existing \<Rightarrow>
          if u_is_erased existing then (Returns (Ok ()), db)
          else transaction (andthen
            (\<lambda>db. (Returns (),
               record_user_erased_event (ids 0) (clk 1) user_id reason
                 (snd (scrub_for_erasure (clk 0) user_id
                   (delete_credentials_and_tokens user_id (scrub_audit_events user_id db))))))
            (\<lambda>_. andthen (enqueue_assets_cleanup (ids 1) (clk 2) (clk 3) carrier user_id)
              (\<lambda>_ db. if emails_unique db then (Returns (Ok ()), db) else (Raises IntegrityError, db)))) db)"

end
