(* ===== verification/Account_Props.thy ===== *)
theory Account_Props
  imports Account_Lifecycle Samples
begin

text \<open>
  Properties of the account life cycle: what erasure removes and what it keeps.
\<close>

subsection \<open>Erasure\<close>

text \<open>The database a successful erasure leaves.\<close>

definition erased_db ::
  "(nat \<Rightarrow> datetime) \<Rightarrow> (nat \<Rightarrow> uuid) \<Rightarrow> json_object \<Rightarrow> uuid \<Rightarrow> string \<Rightarrow> database \<Rightarrow> database" where
  "erased_db clk ids carrier user_id reason db =
     snd (enqueue_assets_cleanup (ids 1) (clk 2) (clk 3) carrier user_id
       (record_user_erased_event (ids 0) (clk 1) user_id reason
         (update_user user_id (apply_erasure_scrub (clk 0))
           (delete_credentials_and_tokens user_id (scrub_audit_events user_id db)))))"

lemma cleanup_frame [simp]:
  "users (scrub_audit_events i db) = users db"
  "users (delete_credentials_and_tokens i db) = users db"
  "audit_events (delete_credentials_and_tokens i db) = audit_events db"
  "outbox_messages (delete_credentials_and_tokens i db) = outbox_messages db"
  "outbox_messages (scrub_audit_events i db) = outbox_messages db"
  "credentials (scrub_audit_events i db) = credentials db"
  "refresh_tokens (scrub_audit_events i db) = refresh_tokens db"
  "internal_tokens (scrub_audit_events i db) = internal_tokens db"
  "relationships (scrub_audit_events i db) = relationships db"
  "relationships (delete_credentials_and_tokens i db) = relationships db"
  "processed_marks (scrub_audit_events i db) = processed_marks db"
  "processed_marks (delete_credentials_and_tokens i db) = processed_marks db"
  by (simp_all add: scrub_audit_events_def delete_credentials_and_tokens_def Let_def)

lemma users_erased_db:
  "users (erased_db clk ids carrier i reason db) = update_where (\<lambda>u. u_id u = i) (apply_erasure_scrub (clk 0)) (users db)"
  by (simp add: erased_db_def enqueue_assets_cleanup_def outbox_enqueue_def record_user_erased_event_def
      record_audit_event_def users_update_user)

lemma erase_user_eq:
  assumes "find_user i db = Some u" and "\<not> u_is_erased u"
  shows "erase_user clk ids carrier i reason db =
    (if emails_unique (erased_db clk ids carrier i reason db)
     then (Returns (Ok ()), erased_db clk ids carrier i reason db) else (Raises IntegrityError, db))"
proof -
  have "find_user i (delete_credentials_and_tokens i (scrub_audit_events i db)) = Some u"
    using assms(1) by (simp add: find_user_def)
  then have "snd (scrub_for_erasure (clk 0) i (delete_credentials_and_tokens i (scrub_audit_events i db))) =
      update_user i (apply_erasure_scrub (clk 0)) (delete_credentials_and_tokens i (scrub_audit_events i db))"
    using assms(2) by (simp add: scrub_for_erasure_def)
  then show ?thesis
    using assms
    by (simp add: erase_user_def get_raw_by_id_def transaction_def andthen_def erased_db_def
        enqueue_assets_cleanup_def outbox_enqueue_def)
qed

lemma map_email_scrub:
  "map u_email (update_where (\<lambda>u. u_id u = i) (apply_erasure_scrub now) us) =
     map (\<lambda>u. if u_id u = i then erased_email i else u_email u) us"
  by (auto simp: update_where_def apply_erasure_scrub_def)

lemma distinct_replaced:
  assumes "distinct (map key xs)" and "distinct (map f xs)"
  shows "distinct (map (\<lambda>x. if key x = k then c else f x) xs) \<longleftrightarrow>
    k \<notin> key ` set xs \<or> (\<forall>x\<in>set xs. key x \<noteq> k \<longrightarrow> f x \<noteq> c)"
  using assms
proof (induction xs)
  case (Cons x xs)
  show ?case
  proof (cases "key x = k")
    case True
    then have fresh: "key y \<noteq> k" if "y \<in> set xs" for y
      using Cons.prems that by (metis distinct.simps(2) image_eqI list.set_map list.simps(9))
    then have "map (\<lambda>x. if key x = k then c else f x) xs = map f xs"
      by simp
    moreover have "(\<forall>y\<in>set xs. key y \<noteq> k \<longrightarrow> f y \<noteq> c) \<longleftrightarrow> c \<notin> f ` set xs"
      using fresh by auto
    ultimately show ?thesis
      using True Cons.prems by (simp del: map_eq_conv)
  next
    case False
    then show ?thesis
      using Cons by (auto simp: image_iff)
  qed
qed simp

lemma emails_erased_db:
  assumes "users_ok (users db)"
  shows "emails_unique (erased_db clk ids carrier i reason db) \<longleftrightarrow>
    i \<notin> u_id ` set (users db) \<or> (\<forall>u\<in>set (users db). u_id u \<noteq> i \<longrightarrow> u_email u \<noteq> erased_email i)"
  using assms by (simp add: emails_unique_def users_erased_db users_ok_def map_email_scrub distinct_replaced)

lemma audit_erased_db:
  "audit_events (erased_db clk ids carrier i reason db) =
     update_where (\<lambda>e. ae_user_id e = Some i) scrub_audit_event (audit_events db) @
     [\<lparr>ae_id = ids 0, ae_user_id = Some i, ae_event_type = ''user.erased'', ae_ip_address = None,
       ae_user_agent = None, ae_metadata = [(''user_id'', JStr (str_uuid i)), (''reason'', JStr reason)],
       ae_created_at = clk 1\<rparr>]"
  by (simp add: erased_db_def enqueue_assets_cleanup_def outbox_enqueue_def record_user_erased_event_def
      record_audit_event_def scrub_audit_events_def)

lemma tables_erased_db:
  "credentials (erased_db clk ids carrier i reason db) = delete_where (\<lambda>c. cr_user_id c = i) (credentials db)"
  "internal_tokens (erased_db clk ids carrier i reason db) = delete_where (\<lambda>t. it_user_id t = Some i) (internal_tokens db)"
  "relationships (erased_db clk ids carrier i reason db) = relationships db"
  "map rt_token_hash (refresh_tokens (erased_db clk ids carrier i reason db)) =
     map rt_token_hash (delete_where (\<lambda>t. rt_user_id t = i) (refresh_tokens db))"
  "\<forall>t\<in>set (refresh_tokens (erased_db clk ids carrier i reason db)). rt_user_id t \<noteq> i"
  by (auto simp: erased_db_def enqueue_assets_cleanup_def outbox_enqueue_def record_user_erased_event_def
      record_audit_event_def delete_credentials_and_tokens_def Let_def delete_where_def)

lemma outbox_erased_db:
  "\<exists>m. outbox_messages (erased_db clk ids carrier i reason db) = outbox_messages db @ [m] \<and>
     om_job_name m = DELETE_USER_ASSETS_JOB \<and> om_status m = ''pending'' \<and>
     om_payload m = [(''user_id'', JStr (str_uuid i))]"
  by (simp add: erased_db_def enqueue_assets_cleanup_def outbox_enqueue_def record_user_erased_event_def
      record_audit_event_def)

lemma filter_update_where_other:
  "(\<And>r. P r \<Longrightarrow> \<not> Q r \<and> \<not> Q (f r)) \<Longrightarrow> filter Q (update_where P f rows) = filter Q rows"
  by (induction rows) auto

text \<open>What remains of a subject in the tables the erasure is responsible for.\<close>

definition no_artifacts :: "uuid \<Rightarrow> database \<Rightarrow> bool" where
  "no_artifacts i db \<longleftrightarrow>
     (\<forall>c\<in>set (credentials db). cr_user_id c \<noteq> i) \<and> (\<forall>t\<in>set (refresh_tokens db). rt_user_id t \<noteq> i) \<and>
     (\<forall>t\<in>set (internal_tokens db). it_user_id t \<noteq> Some i) \<and>
     (\<forall>e\<in>set (audit_events db). ae_user_id e = Some i \<longrightarrow>
        ae_ip_address e = None \<and> ae_user_agent e = None \<and>
        (\<forall>k\<in>set PII_METADATA_KEYS. dict_get (ae_metadata e) k = None)) \<and>
     (\<forall>u\<in>set (users db). u_id u = i \<longrightarrow>
        u_email u = erased_email i \<and> \<not> u_is_active u \<and> u_is_erased u \<and> u_last_login_at u = None)"

lemma scrub_audit_event_sel:
  "ae_user_id (scrub_audit_event e) = ae_user_id e" "ae_ip_address (scrub_audit_event e) = None"
  "ae_user_agent (scrub_audit_event e) = None"
  "k \<in> set PII_METADATA_KEYS \<Longrightarrow> dict_get (ae_metadata (scrub_audit_event e)) k = None"
  by (auto simp: scrub_audit_event_def dict_get_def map_of_eq_None_iff)

lemma erasure_scrub_sel:
  "u_email (apply_erasure_scrub now u) = erased_email (u_id u)" "\<not> u_is_active (apply_erasure_scrub now u)"
  "u_is_erased (apply_erasure_scrub now u)" "u_last_login_at (apply_erasure_scrub now u) = None"
  "u_authz_version (apply_erasure_scrub now u) = u_authz_version u + 1"
  by (simp_all add: apply_erasure_scrub_def)

lemma no_artifacts_erased_db: "no_artifacts i (erased_db clk ids carrier i reason db)"
proof -
  let ?db = "erased_db clk ids carrier i reason db"
  have user: "u_email u = erased_email i \<and> \<not> u_is_active u \<and> u_is_erased u \<and> u_last_login_at u = None"
    if "u \<in> set (users ?db)" "u_id u = i" for u
  proof -
    obtain v where "v \<in> set (users db)" "u = (if u_id v = i then apply_erasure_scrub (clk 0) v else v)"
      using \<open>u \<in> set (users ?db)\<close> unfolding users_erased_db in_update_where_iff by blast
    then show ?thesis
      using \<open>u_id u = i\<close> by (cases "u_id v = i") (simp_all add: erasure_scrub_sel)
  qed
  have event: "ae_ip_address e = None \<and> ae_user_agent e = None \<and> (\<forall>k\<in>set PII_METADATA_KEYS. dict_get (ae_metadata e) k = None)"
    if "e \<in> set (audit_events ?db)" "ae_user_id e = Some i" for e
  proof -
    consider r where "e = (if ae_user_id r = Some i then scrub_audit_event r else r)" | "ae_ip_address e = None"
        "ae_user_agent e = None" "ae_metadata e = [(''user_id'', JStr (str_uuid i)), (''reason'', JStr reason)]"
      using \<open>e \<in> set (audit_events ?db)\<close> unfolding audit_erased_db by (auto simp: in_update_where_iff)
    then show ?thesis
    proof cases
      case 1
      then show ?thesis
        using \<open>ae_user_id e = Some i\<close> by (cases "ae_user_id r = Some i") (simp_all add: scrub_audit_event_sel)
    qed (simp add: dict_get_def PII_METADATA_KEYS_def)
  qed
  show ?thesis
    unfolding no_artifacts_def tables_erased_db
    using user event tables_erased_db(5) by (auto simp: delete_where_def)
qed


lemma sample_users_ok: "users_ok [sample_account]"
  by (simp add: users_ok_def sample_account_def)


end
