(* ===== verification/Pagination.thy ===== *)
theory Pagination
  imports Account_Lifecycle "HOL-Library.Product_Lexorder" "HOL-Library.Multiset"
begin

text \<open>
  Keyset pagination of the two admin listings: users
  (\<open>src/features/users/adapters/inbound/http/admin.py\<close>, oldest first) and audit
  events (\<open>src/features/authentication/adapters/inbound/http/admin.py\<close>, newest
  first). A route returns a page and, when the page is full, the cursor of its
  last row; the cursor is kept in its decoded form, a pair of timestamp and id.
  The locale states what a listing promises and what a client obtains that keeps
  following the cursors.
\<close>

record ('r, 'c) listing_page =
  lp_items :: "'r list"
  lp_next :: "'c option"

definition page_of :: "('r \<Rightarrow> 'c) \<Rightarrow> int \<Rightarrow> 'r list \<Rightarrow> ('r, 'c) listing_page" where
  "page_of cursor limit rows =
     \<lparr>lp_items = rows,
      lp_next = (if int (length rows) = limit \<and> rows \<noteq> [] then Some (cursor (last rows)) else None)\<rparr>"

definition admin_list_users ::
  "(datetime \<times> uuid) option \<Rightarrow> int \<Rightarrow> database \<Rightarrow> (user_row, datetime \<times> uuid) listing_page" where
  "admin_list_users cursor limit db =
     page_of user_keyset limit (list_users cursor limit db)"

definition admin_list_audit_events ::
  "uuid option \<Rightarrow> string option \<Rightarrow> datetime option \<Rightarrow> (datetime \<times> uuid) option \<Rightarrow> int \<Rightarrow> database \<Rightarrow>
   (audit_event_row, datetime \<times> uuid) listing_page" where
  "admin_list_audit_events user_id event_type since before limit db =
     page_of audit_keyset limit (list_audit_events_use_case user_id event_type since before limit db)"

text \<open>A client that follows the cursors to the end; it might never get there.\<close>

partial_function (option) follow_pages ::
  "('c option \<Rightarrow> ('r, 'c) listing_page) \<Rightarrow> 'c option \<Rightarrow> 'r list option" where
  "follow_pages page cursor =
     (let p = page cursor in
      case lp_next p of
        None \<Rightarrow> Some (lp_items p)
      | Some c \<Rightarrow> Option.bind (follow_pages page (Some c)) (\<lambda>rest. Some (lp_items p @ rest)))"


subsection \<open>The contract of a listing\<close>

locale keyset_listing =
  fixes key :: "'r \<Rightarrow> 'k :: linorder" and cursor :: "'r \<Rightarrow> 'c" and listing :: "'r list"
    and page :: "int \<Rightarrow> 'c option \<Rightarrow> ('r, 'c) listing_page"
  assumes sorted_rows: "sorted (map key listing)"
    and page_first: "1 \<le> limit \<Longrightarrow> limit \<le> 500 \<Longrightarrow> page limit None = page_of cursor limit (take (nat limit) listing)"
    and page_next: "1 \<le> limit \<Longrightarrow> limit \<le> 500 \<Longrightarrow>
      page limit (Some (cursor r)) = page_of cursor limit (take (nat limit) (filter (\<lambda>r'. key r < key r') listing))"
begin

lemma rows_after_prefix:
  assumes "distinct (map key listing)" and "listing = xs @ r # ys"
  shows "filter (\<lambda>r'. key r < key r') listing = ys"
proof -
  have "sorted (map key xs @ key r # map key ys)" "key r \<notin> key ` set ys"
    using sorted_rows assms by simp_all
  then have "\<forall>x\<in>set xs. key x \<le> key r" "\<forall>y\<in>set ys. key r < key y"
    by (auto simp: sorted_append order.strict_iff_order)
  then have "filter (\<lambda>r'. key r < key r') xs = []" "filter (\<lambda>r'. key r < key r') ys = ys"
    by (auto simp: filter_empty_conv not_less)
  then show ?thesis
    by (simp add: assms(2))
qed

lemma follow_rest:
  assumes "distinct (map key listing)" and "1 \<le> limit" and "limit \<le> 500"
    and "listing = done @ rest" and "page limit c = page_of cursor limit (take (nat limit) rest)"
  shows "follow_pages (page limit) c = Some rest"
  using assms(4,5)
proof (induction "length rest" arbitrary: "done" rest c rule: less_induct)
  case less
  let ?p = "take (nat limit) rest"
  show ?case
  proof (cases "int (length ?p) = limit \<and> ?p \<noteq> []")
    case False
    then have "?p = rest"
      using assms(2) by (auto simp: min_def split: if_splits)
    then have "lp_next (page limit c) = None" "lp_items (page limit c) = rest"
      using False less.prems(2) by (auto simp: page_of_def)
    then show ?thesis
      by (subst follow_pages.simps) simp
  next
    case True
    then obtain xs r where p: "?p = xs @ [r]"
      by (metis append_butlast_last_id)
    let ?ys = "drop (nat limit) rest"
    have split: "listing = (done @ xs) @ r # ?ys"
      using less.prems(1) p append_take_drop_id [of "nat limit" rest] by (metis append.assoc append_Cons append_Nil)
    have "length ?ys < length rest"
      using True assms(2) by (cases rest) auto
    moreover have "page limit (Some (cursor r)) = page_of cursor limit (take (nat limit) ?ys)"
      using page_next [OF assms(2,3)] rows_after_prefix [OF assms(1) split] by simp
    moreover have "listing = (done @ xs @ [r]) @ ?ys"
      using split by simp
    ultimately have "follow_pages (page limit) (Some (cursor r)) = Some ?ys"
      using less.hyps by blast
    moreover have "lp_next (page limit c) = Some (cursor r)" "lp_items (page limit c) = ?p"
      using True less.prems(2) p by (simp_all add: page_of_def)
    ultimately show ?thesis
      by (subst follow_pages.simps) simp
  qed
qed

lemma follow_all:
  assumes "distinct (map key listing)" and "1 \<le> limit" and "limit \<le> 500"
  shows "follow_pages (page limit) None = Some listing"
  using follow_rest [OF assms, of "[]" listing] page_first [OF assms(2,3)] by simp

end


subsection \<open>The two listings\<close>

lemma insert_by_insort: "(\<And>a b. lt a b \<longleftrightarrow> f a < f b) \<Longrightarrow> insert_by lt x xs = insort_key f x xs"
  by (induction xs) auto

lemma order_by_sort: "(\<And>a b. lt a b \<longleftrightarrow> f a < f b) \<Longrightarrow> order_by lt xs = sort_key f xs"
  unfolding order_by_def sort_key_def by (simp add: insert_by_insort [of lt f] cong: foldr_cong)

lemma keyset_less_lex: "keyset_less a b \<longleftrightarrow> a < b"
  by (cases a; cases b) (auto simp: keyset_less_def)

definition newest_first :: "datetime \<times> uuid \<Rightarrow> int \<times> int" where
  "newest_first k = (- fst k, - uint (snd k))"

lemma newest_first_less: "newest_first a < newest_first b \<longleftrightarrow> keyset_less b a"
  by (auto simp: newest_first_def keyset_less_def word_less_def)

lemma order_users: "order_by (\<lambda>a b. user_keyset a < user_keyset b) = sort_key user_keyset"
  by (rule ext, rule order_by_sort) simp

lemma order_audit_events:
  "order_by (\<lambda>a b. keyset_less (audit_keyset b) (audit_keyset a)) = sort_key (\<lambda>e. newest_first (audit_keyset e))"
  by (rule ext, rule order_by_sort) (simp add: newest_first_less)

definition matching_events ::
  "uuid option \<Rightarrow> string option \<Rightarrow> datetime option \<Rightarrow> database \<Rightarrow> audit_event_row list" where
  "matching_events user_id event_type since db =
     filter (\<lambda>e. (case user_id of None \<Rightarrow> True | Some u \<Rightarrow> ae_user_id e = Some u) \<and>
                 (case event_type of None \<Rightarrow> True | Some ty \<Rightarrow> ae_event_type e = ty) \<and>
                 (case since of None \<Rightarrow> True | Some t \<Rightarrow> t \<le> ae_created_at e)) (audit_events db)"

interpretation user_listing: keyset_listing user_keyset user_keyset "sort_key user_keyset (users db)"
  "\<lambda>limit cursor. admin_list_users cursor limit db" for db
  by unfold_locales
    (simp_all add: admin_list_users_def list_users_def list_paginated_def order_users keyset_less_lex filter_sort)

interpretation audit_listing: keyset_listing "\<lambda>e. newest_first (audit_keyset e)" audit_keyset
  "sort_key (\<lambda>e. newest_first (audit_keyset e)) (matching_events user_id event_type since db)"
  "\<lambda>limit before. admin_list_audit_events user_id event_type since before limit db" for user_id event_type since db
  by unfold_locales
    (simp_all add: admin_list_audit_events_def list_audit_events_use_case_def list_audit_events_def matching_events_def
      order_audit_events newest_first_less filter_sort conj_ac)

text \<open>
  C25. Following the cursors shows everything once. With any page size the routes
  accept, a client that starts without a cursor and follows \<open>next_cursor\<close> reaches
  an end, and the pages together are all users, each exactly once, oldest first;
  the audit log gives all events that match the filters, each exactly once,
  newest first (ids being unique).
\<close>

theorem pagination_covers:
  assumes "1 \<le> limit" and "limit \<le> 500" and "distinct (map u_id (users db))" and "distinct (map ae_id (audit_events db))"
  shows "\<exists>us es. follow_pages (\<lambda>c. admin_list_users c limit db) None = Some us \<and>
    mset us = mset (users db) \<and> sorted (map user_keyset us) \<and>
    follow_pages (\<lambda>c. admin_list_audit_events user_id event_type since c limit db) None = Some es \<and>
    mset es = mset (matching_events user_id event_type since db) \<and>
    sorted (map (\<lambda>e. newest_first (audit_keyset e)) es)"
proof -
  have "inj_on user_keyset (set (users db))" "distinct (users db)"
    using assms(3) by (auto simp: distinct_map inj_on_def user_keyset_def)
  then have "distinct (map user_keyset (sort_key user_keyset (users db)))"
    by (simp add: distinct_map)
  moreover have "inj_on (\<lambda>e. newest_first (audit_keyset e)) (set (audit_events db))" "distinct (audit_events db)"
    using assms(4) by (auto simp: distinct_map inj_on_def audit_keyset_def newest_first_def word_uint_eq_iff)
  then have "distinct (map (\<lambda>e. newest_first (audit_keyset e))
      (sort_key (\<lambda>e. newest_first (audit_keyset e)) (matching_events user_id event_type since db)))"
    by (auto simp: distinct_map matching_events_def intro: inj_on_subset)
  ultimately show ?thesis
    using user_listing.follow_all [OF _ assms(1,2)] audit_listing.follow_all [OF _ assms(1,2)] by simp
qed

definition sample_people :: database where
  "sample_people = empty_db\<lparr>users := map (\<lambda>n. \<lparr>u_id = of_nat n, u_email = replicate n CHR ''a'', u_is_active = True,
     u_is_verified = False, u_is_erased = False, u_authz_version = 1, u_created_at = - int n, u_updated_at = 0,
     u_last_login_at = None\<rparr>) [1, 2, 3]\<rparr>"

theorem pagination_covers_witness:
  "\<exists>us. follow_pages (\<lambda>c. admin_list_users c 2 sample_people) None = Some us \<and> length us = 3 \<and>
     lp_next (admin_list_users None 2 sample_people) = Some (- 2, 2)"
proof -
  have "distinct (map u_id (users sample_people))" "distinct (map ae_id (audit_events sample_people))"
    by (simp_all add: sample_people_def)
  from pagination_covers [OF _ _ this, of 2 None None None] obtain us where
    us: "follow_pages (\<lambda>c. admin_list_users c 2 sample_people) None = Some us" "mset us = mset (users sample_people)"
    by auto
  have "length us = length (users sample_people)"
    using us(2) by (metis size_mset)
  moreover have "lp_next (admin_list_users None 2 sample_people) = Some (- 2, 2)"
    by (simp add: admin_list_users_def list_users_def list_paginated_def order_by_def keyset_less_def user_keyset_def
        page_of_def sample_people_def)
  ultimately show ?thesis
    using us(1) by (simp add: sample_people_def)
qed

end
