(* ===== verification/Http.thy ===== *)
theory Http
  imports Access_Tokens Authz_Engine Normalization
begin

text \<open>
  What the HTTP adapters share: the problem-type catalogue
  (\<open>src/app_platform/api/problem_types.py\<close>), the exception that carries a problem
  (\<open>error_handlers_app_exception.py\<close>), the principal and authorization dependencies
  (\<open>authorization.py\<close>), and of the standard library the URL splitter. A handler
  either replies, is refused with a problem (a raised \<open>HTTPException\<close>), or raises
  some other exception, which the platform answers with a 500. The human-readable
  \<open>detail\<close> texts are left out. Header names are in lower case, and the package
  that reads the bearer token off the request is part of the request.
\<close>

datatype problem_type =
    AUTH_INVALID_CREDENTIALS
  | AUTH_RATE_LIMITED
  | AUTH_TOKEN_STALE
  | AUTH_TOKEN_INVALID
  | AUTH_EMAIL_NOT_VERIFIED
  | AUTHZ_PERMISSION_DENIED
  | VALIDATION_FAILED
  | GENERIC_CONFLICT
  | GENERIC_NOT_FOUND
  | ABOUT_BLANK

fun problem_urn :: "problem_type \<Rightarrow> string" where
  "problem_urn AUTH_INVALID_CREDENTIALS = ''urn:problem:auth:invalid-credentials''"
| "problem_urn AUTH_RATE_LIMITED = ''urn:problem:auth:rate-limited''"
| "problem_urn AUTH_TOKEN_STALE = ''urn:problem:auth:token-stale''"
| "problem_urn AUTH_TOKEN_INVALID = ''urn:problem:auth:token-invalid''"
| "problem_urn AUTH_EMAIL_NOT_VERIFIED = ''urn:problem:auth:email-not-verified''"
| "problem_urn AUTHZ_PERMISSION_DENIED = ''urn:problem:authz:permission-denied''"
| "problem_urn VALIDATION_FAILED = ''urn:problem:validation:failed''"
| "problem_urn GENERIC_CONFLICT = ''urn:problem:generic:conflict''"
| "problem_urn GENERIC_NOT_FOUND = ''urn:problem:generic:not-found''"
| "problem_urn ABOUT_BLANK = ''about:blank''"

record http_problem =
  hp_status :: nat
  hp_code :: "string option"
  hp_type :: problem_type
  hp_headers :: "(string, string) dict"

definition application_http_exception :: "nat \<Rightarrow> string \<Rightarrow> problem_type \<Rightarrow> (string, string) dict \<Rightarrow> http_problem" where
  "application_http_exception status code type_uri headers =
     \<lparr>hp_status = status, hp_code = Some code, hp_type = type_uri, hp_headers = headers\<rparr>"

definition http_exception :: "nat \<Rightarrow> (string, string) dict \<Rightarrow> http_problem" where
  "http_exception status headers =
     \<lparr>hp_status = status, hp_code = None, hp_type = ABOUT_BLANK, hp_headers = headers\<rparr>"

record 'tok http_request =
  hr_path :: string
  hr_client :: "string option"
  hr_headers :: "(string, string) dict"
  hr_cookies :: "(string, string) dict"
  hr_bearer :: "'tok option"

type_synonym ('s, 'a) http_action = "('s, ('a, http_problem) result) action"

definition http_bind ::
  "('s, 'a) http_action \<Rightarrow> ('a \<Rightarrow> ('s, 'b) http_action) \<Rightarrow> ('s, 'b) http_action" where
  "http_bind m f = andthen m (\<lambda>r s. case r of Ok x \<Rightarrow> f x s | Err p \<Rightarrow> (Returns (Err p), s))"

definition refuse :: "http_problem \<Rightarrow> ('s, 'a) http_action" where
  "refuse p s = (Returns (Err p), s)"

definition reply :: "'a \<Rightarrow> ('s, 'a) http_action" where
  "reply x s = (Returns (Ok x), s)"

text \<open>What the client sees: an exception that is no \<open>HTTPException\<close> is a 500.\<close>

definition reply_status :: "nat \<Rightarrow> ('a, http_problem) result outcome \<Rightarrow> nat" where
  "reply_status success r =
     (case r of Raises e \<Rightarrow> 500 | Returns (Err p) \<Rightarrow> hp_status p | Returns (Ok x) \<Rightarrow> success)"

lemma http_bind_cases:
  "http_bind m f s =
     (case m s of
        (Returns (Ok x), s') \<Rightarrow> f x s'
      | (Returns (Err p), s') \<Rightarrow> (Returns (Err p), s')
      | (Raises e, s') \<Rightarrow> (Raises e, s'))"
  by (auto simp: http_bind_def andthen_def split: prod.splits outcome.splits result.splits)


subsection \<open>Numbers and URLs\<close>

fun str_nat :: "nat \<Rightarrow> string" where
  "str_nat n = (if n < 10 then [char_of (48 + n)] else str_nat (n div 10) @ [char_of (48 + n mod 10)])"

declare str_nat.simps [simp del]

definition str_int :: "int \<Rightarrow> string" where
  "str_int i = (if i < 0 then CHR ''-'' # str_nat (nat (- i)) else str_nat (nat i))"

definition is_digit :: "char \<Rightarrow> bool" where
  "is_digit c = (48 \<le> (of_char c :: nat) \<and> (of_char c :: nat) \<le> 57)"

definition is_upper :: "char \<Rightarrow> bool" where
  "is_upper c = (65 \<le> (of_char c :: nat) \<and> (of_char c :: nat) \<le> 90)"

definition is_lower :: "char \<Rightarrow> bool" where
  "is_lower c = (97 \<le> (of_char c :: nat) \<and> (of_char c :: nat) \<le> 122)"

definition is_alnum :: "char \<Rightarrow> bool" where
  "is_alnum c = (is_digit c \<or> is_upper c \<or> is_lower c)"

definition int10 :: "string \<Rightarrow> nat" where
  "int10 s = foldl (\<lambda>n c. 10 * n + (of_char c - 48)) 0 s"

text \<open>\<open>s.partition(c)\<close> and \<open>s.rpartition(c)[2]\<close>; the flag says whether \<open>c\<close> occurs.\<close>

definition partition_at :: "char \<Rightarrow> string \<Rightarrow> string \<times> bool \<times> string" where
  "partition_at c s = (takeWhile (\<lambda>x. x \<noteq> c) s, c \<in> set s, drop 1 (dropWhile (\<lambda>x. x \<noteq> c) s))"

definition after_last :: "char \<Rightarrow> string \<Rightarrow> string" where
  "after_last c s = rev (takeWhile (\<lambda>x. x \<noteq> c) (rev s))"

record split_url =
  su_scheme :: string
  su_netloc :: string

text \<open>
  \<open>urlsplit\<close>, as far as scheme and network location go. Whether a bracketed host
  is a valid address is a parameter. The check of non-ASCII hosts never fails on
  the characters a header can hold.
\<close>

definition urlsplit :: "(string \<Rightarrow> bool) \<Rightarrow> string \<Rightarrow> split_url outcome" where
  "urlsplit bracketed_ok url0 =
     (let url = filter (\<lambda>c. c \<notin> {CHR 0x09, CHR 0x0D, CHR 0x0A}) (dropWhile (\<lambda>c. (of_char c :: nat) \<le> 32) url0);
          (front, colon, rest) = partition_at (CHR '':'') url;
          schemed = colon \<and> front \<noteq> [] \<and> (is_upper (hd front) \<or> is_lower (hd front)) \<and>
            list_all (\<lambda>c. is_alnum c \<or> c \<in> {CHR ''+'', CHR ''-'', CHR ''.''}) front;
          scheme = (if schemed then lower front else []);
          url1 = (if schemed then rest else url)
      in if take 2 url1 = ''//''
         then (let netloc = takeWhile (\<lambda>c. c \<notin> {CHR ''/'', CHR ''?'', CHR ''#''}) (drop 2 url1);
                   opened = CHR ''['' \<in> set netloc; closed = CHR '']'' \<in> set netloc
               in if opened \<noteq> closed \<or> (opened \<and> closed \<and> \<not> bracketed_ok netloc) then Raises ValueError
                  else Returns \<lparr>su_scheme = scheme, su_netloc = netloc\<rparr>)
         else Returns \<lparr>su_scheme = scheme, su_netloc = []\<rparr>)"

definition hostinfo :: "split_url \<Rightarrow> string \<times> string option" where
  "hostinfo u =
     (let host_part = after_last (CHR ''@'') (su_netloc u);
          (before, have_open, bracketed) = partition_at (CHR ''['') host_part;
          (hostname, p1) = (case partition_at (CHR '']'') bracketed of (h, _, after) \<Rightarrow>
             (h, snd (snd (partition_at (CHR '':'') after))));
          (plain, p2) = (case partition_at (CHR '':'') host_part of (h, _, p) \<Rightarrow> (h, p));
          port = (if have_open then p1 else p2)
      in (if have_open then hostname else plain, if port = [] then None else Some port))"

definition split_hostname :: "split_url \<Rightarrow> string option" where
  "split_hostname u =
     (let h = fst (hostinfo u)
      in if h = [] then None
         else (case partition_at (CHR ''%'') h of (name, percent, zone) \<Rightarrow>
           Some (lower name @ (if percent then ''%'' else []) @ zone)))"

definition split_port :: "split_url \<Rightarrow> nat option outcome" where
  "split_port u =
     (case snd (hostinfo u) of
        None \<Rightarrow> Returns None
      | Some p \<Rightarrow> if list_all is_digit p \<and> int10 p \<le> 65535 then Returns (Some (int10 p)) else Raises ValueError)"


subsection \<open>The platform dependencies\<close>

definition get_header :: "'tok http_request \<Rightarrow> string \<Rightarrow> string option" where
  "get_header req name = dict_get (hr_headers req) name"

definition credentials_exception :: http_problem where
  "credentials_exception = application_http_exception 401 ''invalid_credentials'' AUTH_TOKEN_INVALID []"

definition forbidden :: http_problem where
  "forbidden = application_http_exception 403 ''permission_denied'' AUTHZ_PERMISSION_DENIED []"

text \<open>The resolver is \<open>None\<close> until the authentication feature has registered it.\<close>

definition platform_current_principal ::
  "('tok \<Rightarrow> ('s, (principal, auth_error) result) action) option \<Rightarrow> 'tok http_request \<Rightarrow>
   ('s, principal) http_action" where
  "platform_current_principal resolver req =
     (case hr_bearer req of
        None \<Rightarrow> refuse credentials_exception
      | Some token \<Rightarrow>
          (case resolver of
             None \<Rightarrow> refuse (http_exception 503 [])
           | Some resolve \<Rightarrow> andthen (resolve token) (\<lambda>r.
               case r of Ok p \<Rightarrow> reply p | Err e \<Rightarrow> refuse credentials_exception)))"

definition require_authorization ::
  "(uuid \<Rightarrow> string \<Rightarrow> string \<Rightarrow> string \<Rightarrow> 's \<Rightarrow> bool outcome) option \<Rightarrow> string \<Rightarrow> string \<Rightarrow> string option \<Rightarrow>
   ('tok \<Rightarrow> ('s, (principal, auth_error) result) action) option \<Rightarrow> 'tok http_request \<Rightarrow> ('s, principal) http_action" where
  "require_authorization authz act rt rid resolver req =
     http_bind (platform_current_principal resolver req) (\<lambda>p.
       case authz of
         None \<Rightarrow> refuse (http_exception 503 [])
       | Some check \<Rightarrow> (\<lambda>s.
           case check (p_user_id p) act rt (case rid of None \<Rightarrow> ''main'' | Some i \<Rightarrow> i) s of
             Raises e \<Rightarrow> (Raises e, s)
           | Returns allowed \<Rightarrow> if allowed then reply p s else refuse forbidden s))"

end
