(* ===== verification/Middleware.thy ===== *)
theory Middleware
  imports Http Settings "HOL-Library.Sublist"
begin

text \<open>
  The platform's ASGI middleware (\<open>src/app_platform/api/middleware\<close>) and the order in
  which \<open>build_fastapi_app\<close> (\<open>src/app_platform/api/app_factory.py\<close>) installs it.

  An application maps the scope of a request to what it does: the messages it
  sends, how it ends, the access-log lines it writes and the request id it leaves on
  the scope. Header names of a request are in lower case, and text is decoded as
  Latin-1. Starlette's \<open>MutableHeaders\<close>, its own middleware (GZip, trusted hosts,
  CORS, proxy headers) and its outermost error boundary are parameters with their
  documented behaviour as hypotheses.
\<close>

subsection \<open>Requests and responses\<close>

type_synonym raw_headers = "(string \<times> string) list"

record scope =
  sc_http :: bool
  sc_method :: string
  sc_scheme :: string
  sc_server :: "(string \<times> nat) option"
  sc_path :: string
  sc_query :: string
  sc_headers :: raw_headers
  sc_request_id :: "string option"

datatype message =
    Response_Start nat raw_headers
  | Response_Body string bool

record access_line =
  al_request_id :: "string option"
  al_method :: string
  al_path :: string
  al_status_code :: nat

record asgi_run =
  ar_sent :: "message list"
  ar_ended :: "unit outcome"
  ar_access_log :: "access_line list"
  ar_request_id :: "string option"

type_synonym asgi_app = "scope \<Rightarrow> asgi_run"

definition header_values :: "raw_headers \<Rightarrow> string \<Rightarrow> string list" where
  "header_values hs name = map snd (filter (\<lambda>h. fst h = name) hs)"

definition scope_header :: "scope \<Rightarrow> string \<Rightarrow> string option" where
  "scope_header sc name = map_of (sc_headers sc) name"

text \<open>\<open>MutableHeaders\<close>: set, delete and membership, each for a header name in any case.\<close>

record headers_api =
  mh_set :: "raw_headers \<Rightarrow> string \<Rightarrow> string \<Rightarrow> raw_headers"
  mh_del :: "raw_headers \<Rightarrow> string \<Rightarrow> raw_headers"
  mh_has :: "raw_headers \<Rightarrow> string \<Rightarrow> bool"

definition headers_api_ok :: "headers_api \<Rightarrow> bool" where
  "headers_api_ok api \<longleftrightarrow>
     (\<forall>hs name v name'. header_values (mh_set api hs name v) name' =
        (if name' = lower name then [v] else header_values hs name')) \<and>
     (\<forall>hs name name'. header_values (mh_del api hs name) name' =
        (if name' = lower name then [] else header_values hs name')) \<and>
     (\<forall>hs name. mh_has api hs name \<longleftrightarrow> header_values hs (lower name) \<noteq> [])"


subsection \<open>Numbers and JSON text\<close>

definition is_space_latin1 :: "char \<Rightarrow> bool" where
  "is_space_latin1 c = (is_space c \<or> (of_char c :: nat) \<in> {133, 160})"

text \<open>\<open>int(s)\<close>: decimal digits with single underscores between them, a sign, at most 4300 digits.\<close>

fun int_digits :: "bool \<Rightarrow> nat \<Rightarrow> string \<Rightarrow> nat option" where
  "int_digits us acc [] = None"
| "int_digits us acc (c # cs) =
     (if c = CHR ''_'' then (if us then int_digits False acc cs else None)
      else if is_digit c
      then (let n = 10 * acc + (of_char c - 48) in if cs = [] then Some n else int_digits True n cs)
      else None)"

definition int_max_str_digits :: nat where
  "int_max_str_digits = 4300"

definition py_int :: "string \<Rightarrow> int option" where
  "py_int s =
     (let t = strip_by is_space_latin1 s;
          u = (if take 1 t \<in> {''-'', ''+''} then drop 1 t else t)
      in if int_max_str_digits < length (filter is_digit u) then None
         else map_option (\<lambda>n. if take 1 t = ''-'' then - int n else int n) (int_digits False 0 u))"

text \<open>\<open>json.dumps\<close> with the compact separators, on flat objects of texts and integers.\<close>

definition json_escape :: "char \<Rightarrow> string" where
  "json_escape c =
     (let n = of_char c :: nat
      in if c = CHR 0x22 then [CHR 0x5C, c]
         else if c = CHR 0x5C then [c, c]
         else if n = 10 then CHR 0x5C # ''n'' else if n = 13 then CHR 0x5C # ''r''
         else if n = 9 then CHR 0x5C # ''t'' else if n = 8 then CHR 0x5C # ''b''
         else if n = 12 then CHR 0x5C # ''f''
         else if n < 32 \<or> 126 < n then CHR 0x5C # ''u'' @ hex_fixed 4 n
         else [c])"

definition json_quote :: "string \<Rightarrow> string" where
  "json_quote s = CHR 0x22 # concat (map json_escape s) @ [CHR 0x22]"

fun json_flat :: "(string \<times> (string + int)) list \<Rightarrow> string" where
  "json_flat [] = []"
| "json_flat ((key, v) # rest) =
     json_quote key @ '':'' @ (case v of Inl s \<Rightarrow> json_quote s | Inr i \<Rightarrow> str_int i) @
     (if rest = [] then [] else CHR '','' # json_flat rest)"

definition json_dumps_flat :: "(string \<times> (string + int)) list \<Rightarrow> string" where
  "json_dumps_flat d = ''{'' @ json_flat d @ ''}''"


subsection \<open>The size limit\<close>

definition build_url :: "scope \<Rightarrow> string" where
  "build_url sc =
     (let netloc = (case scope_header sc ''host'' of
            Some h \<Rightarrow> h
          | None \<Rightarrow> (case sc_server sc of
                None \<Rightarrow> []
              | Some (host, port) \<Rightarrow> if port \<noteq> 0 then host @ '':'' @ str_nat port else host))
      in sc_scheme sc @ ''://'' @ netloc @ sc_path sc @ (if sc_query sc \<noteq> [] then ''?'' @ sc_query sc else []))"

definition send_problem :: "scope \<Rightarrow> nat \<Rightarrow> string \<Rightarrow> string \<Rightarrow> asgi_run" where
  "send_problem sc status_code title detail =
     (let payload = [(''type'', Inl ''about:blank''), (''title'', Inl title), (''status'', Inr (int status_code)),
            (''detail'', Inl detail), (''instance'', Inl (build_url sc))] @
            (case sc_request_id sc of None \<Rightarrow> [] | Some rid \<Rightarrow> [(''request_id'', Inl rid)]);
          body = json_dumps_flat payload
      in \<lparr>ar_sent = [Response_Start status_code
                       [(''content-type'', ''application/problem+json''), (''content-length'', str_nat (length body))],
                     Response_Body body False],
          ar_ended = Returns (), ar_access_log = [], ar_request_id = sc_request_id sc\<rparr>)"

definition is_chunked :: "scope \<Rightarrow> bool" where
  "is_chunked sc = sublist ''chunked'' (lower (case scope_header sc ''transfer-encoding'' of None \<Rightarrow> [] | Some v \<Rightarrow> v))"

definition content_size_limit :: "int \<Rightarrow> asgi_app \<Rightarrow> asgi_app" where
  "content_size_limit max_bytes app sc =
     (if \<not> sc_http sc then app sc
      else case scope_header sc ''content-length'' of
             Some content_length \<Rightarrow>
               (case py_int content_length of
                  None \<Rightarrow> send_problem sc 400 ''Bad Request'' ''Invalid Content-Length header''
                | Some declared \<Rightarrow>
                    if max_bytes < declared then send_problem sc 413 ''Content Too Large'' ''Request body too large''
                    else app sc)
           | None \<Rightarrow>
               if is_chunked sc
               then send_problem sc 411 ''Length Required''
                 ''Requests using Transfer-Encoding: chunked must include a Content-Length header.''
               else app sc)"


subsection \<open>Request ids and the access log\<close>

definition request_id_char :: "char \<Rightarrow> bool" where
  "request_id_char c = (is_alnum c \<or> c = CHR ''-'' \<or> c = CHR ''_'')"

text \<open>The pattern of the source: its closing anchor also matches before a final newline.\<close>

definition request_id_matches :: "string \<Rightarrow> bool" where
  "request_id_matches s =
     (let t = (if s \<noteq> [] \<and> last s = CHR 0x0A then butlast s else s)
      in 1 \<le> length t \<and> length t \<le> 64 \<and> list_all request_id_char t)"

definition map_start :: "(raw_headers \<Rightarrow> raw_headers) \<Rightarrow> message \<Rightarrow> message" where
  "map_start f m = (case m of Response_Start status hs \<Rightarrow> Response_Start status (f hs) | Response_Body b more_body \<Rightarrow> m)"

definition request_context :: "headers_api \<Rightarrow> uuid \<Rightarrow> asgi_app \<Rightarrow> asgi_app" where
  "request_context api uuid4 app sc =
     (if \<not> sc_http sc then app sc
      else let request_id = (case scope_header sc ''x-request-id'' of
                 None \<Rightarrow> str_uuid uuid4
               | Some raw_id \<Rightarrow> if request_id_matches raw_id then raw_id else str_uuid uuid4);
               r = app (sc\<lparr>sc_request_id := Some request_id\<rparr>)
           in r\<lparr>ar_sent := map (map_start (\<lambda>hs. mh_set api hs ''X-Request-ID'' request_id)) (ar_sent r)\<rparr>)"

fun sent_status :: "nat \<Rightarrow> message list \<Rightarrow> nat" where
  "sent_status status [] = status"
| "sent_status status (Response_Start new hs # ms) = sent_status new ms"
| "sent_status status (Response_Body b more_body # ms) = sent_status status ms"

definition access_log :: "asgi_app \<Rightarrow> asgi_app" where
  "access_log app sc =
     (if \<not> sc_http sc then app sc
      else let r = app sc
           in r\<lparr>ar_access_log := ar_access_log r @
                  [\<lparr>al_request_id = ar_request_id r, al_method = sc_method sc, al_path = sc_path sc,
                    al_status_code = sent_status 0 (ar_sent r)\<rparr>]\<rparr>)"


subsection \<open>Security headers\<close>

definition STRICT_CSP :: string where
  "STRICT_CSP = ''default-src 'none'; frame-ancestors 'none'' @ [CHR 0x27]"

definition DOCS_CSP :: string where
  "DOCS_CSP = ''default-src 'self'; '' @
     ''script-src 'self' 'unsafe-inline' https://cdn.jsdelivr.net; '' @
     ''style-src 'self' 'unsafe-inline' https://cdn.jsdelivr.net; '' @
     ''img-src 'self' data: https://fastapi.tiangolo.com; '' @
     ''font-src 'self' https://cdn.jsdelivr.net; '' @
     ''frame-ancestors 'none'' @ [CHR 0x27]"

definition DOCS_PATHS :: "string list" where
  "DOCS_PATHS = [''/docs'', ''/docs/oauth2-redirect'', ''/redoc'', ''/openapi.json'']"

definition HSTS_VALUE :: string where
  "HSTS_VALUE = ''max-age=31536000; includeSubDomains; preload''"

definition del_if_present :: "headers_api \<Rightarrow> string \<Rightarrow> raw_headers \<Rightarrow> raw_headers" where
  "del_if_present api name hs = (if mh_has api hs name then mh_del api hs name else hs)"

definition harden :: "headers_api \<Rightarrow> bool \<Rightarrow> string \<Rightarrow> raw_headers \<Rightarrow> raw_headers" where
  "harden api hsts csp hs =
     (let h1 = mh_set api hs ''Content-Security-Policy'' csp;
          h2 = mh_set api h1 ''Referrer-Policy'' ''no-referrer'';
          h3 = mh_set api h2 ''X-Content-Type-Options'' ''nosniff'';
          h4 = mh_set api h3 ''Permissions-Policy'' ''()'';
          h5 = (if hsts then mh_set api h4 ''Strict-Transport-Security'' HSTS_VALUE else h4)
      in del_if_present api ''x-powered-by'' (del_if_present api ''server'' h5))"

definition security_headers :: "headers_api \<Rightarrow> bool \<Rightarrow> bool \<Rightarrow> asgi_app \<Rightarrow> asgi_app" where
  "security_headers api hsts docs_enabled app sc =
     (if \<not> sc_http sc then app sc
      else let csp = (if docs_enabled \<and> sc_path sc \<in> set DOCS_PATHS then DOCS_CSP else STRICT_CSP);
               r = app sc
           in r\<lparr>ar_sent := map (map_start (harden api hsts csp)) (ar_sent r)\<rparr>)"


subsection \<open>The stack\<close>

datatype middleware =
    AccessLogMiddleware
  | RequestContextMiddleware
  | ContentSizeLimitMiddleware int
  | GZipMiddleware nat
  | SecurityHeadersMiddleware bool bool
  | TrustedHostMiddleware "string list"
  | CORSMiddleware "string list" bool "string list" "string list" "string list"
  | ProxyHeadersMiddleware "string list"

text \<open>The middleware in the order of the \<open>add_middleware\<close> calls.\<close>

definition added_middleware :: "app_settings \<Rightarrow> middleware list" where
  "added_middleware settings =
     [AccessLogMiddleware, RequestContextMiddleware, ContentSizeLimitMiddleware (max_request_bytes settings),
      GZipMiddleware 1024, SecurityHeadersMiddleware (environment settings = Production) (enable_docs settings)] @
     (if environment settings \<noteq> Development then [TrustedHostMiddleware (trusted_hosts settings)] else []) @
     (if cors_origins settings = [''*''] then [CORSMiddleware [''*''] False [''*''] [''*''] []]
      else if cors_origins settings \<noteq> []
      then [CORSMiddleware (cors_origins settings) True [''GET'', ''POST'', ''PATCH'', ''DELETE'', ''OPTIONS'']
              [''Authorization'', ''Content-Type'', ''X-Request-ID''] [''X-Request-ID'', ''Retry-After'']]
      else []) @
     (if trusted_proxy_ips settings \<noteq> [] then [ProxyHeadersMiddleware (trusted_proxy_ips settings)] else [])"

text \<open>
  Starlette runs the middleware added last outermost. \<open>ext\<close> is the middleware that
  comes with Starlette and Uvicorn.
\<close>

fun apply_middleware :: "headers_api \<Rightarrow> uuid \<Rightarrow> (middleware \<Rightarrow> asgi_app \<Rightarrow> asgi_app) \<Rightarrow> middleware \<Rightarrow> asgi_app \<Rightarrow> asgi_app" where
  "apply_middleware api uuid4 ext AccessLogMiddleware = access_log"
| "apply_middleware api uuid4 ext RequestContextMiddleware = request_context api uuid4"
| "apply_middleware api uuid4 ext (ContentSizeLimitMiddleware max_bytes) = content_size_limit max_bytes"
| "apply_middleware api uuid4 ext (SecurityHeadersMiddleware hsts docs) = security_headers api hsts docs"
| "apply_middleware api uuid4 ext m = ext m"

definition build_fastapi_app ::
  "headers_api \<Rightarrow> uuid \<Rightarrow> (middleware \<Rightarrow> asgi_app \<Rightarrow> asgi_app) \<Rightarrow> app_settings \<Rightarrow> asgi_app \<Rightarrow> asgi_app" where
  "build_fastapi_app api uuid4 ext settings router =
     foldl (\<lambda>app m. apply_middleware api uuid4 ext m app) router (added_middleware settings)"

text \<open>The part of the stack up to the security headers, and what stands around it.\<close>

definition platform_core ::
  "headers_api \<Rightarrow> uuid \<Rightarrow> (middleware \<Rightarrow> asgi_app \<Rightarrow> asgi_app) \<Rightarrow> app_settings \<Rightarrow> asgi_app \<Rightarrow> asgi_app" where
  "platform_core api uuid4 ext settings router =
     security_headers api (environment settings = Production) (enable_docs settings)
       (ext (GZipMiddleware 1024)
         (content_size_limit (max_request_bytes settings) (request_context api uuid4 (access_log router))))"

lemma build_fastapi_app_core:
  "build_fastapi_app api uuid4 ext settings router =
     foldl (\<lambda>app m. apply_middleware api uuid4 ext m app) (platform_core api uuid4 ext settings router)
       (drop 5 (added_middleware settings))"
  by (simp add: build_fastapi_app_def added_middleware_def platform_core_def)


subsection \<open>Headers\<close>

fun starts :: "message list \<Rightarrow> (nat \<times> raw_headers) list" where
  "starts [] = []"
| "starts (Response_Start status hs # ms) = (status, hs) # starts ms"
| "starts (Response_Body b more_body # ms) = starts ms"

lemma in_starts: "(status, hs) \<in> set (starts ms) \<longleftrightarrow> Response_Start status hs \<in> set ms"
  by (induction ms rule: starts.induct) auto

lemma starts_map_start: "starts (map (map_start f) ms) = map (\<lambda>(status, hs). (status, f hs)) (starts ms)"
  by (induction ms rule: starts.induct) (simp_all add: map_start_def)

text \<open>
  What GZip is documented to do: it passes the request on once and may rewrite the
  body and the headers that describe its encoding.
\<close>

definition gzip_ok :: "(asgi_app \<Rightarrow> asgi_app) \<Rightarrow> bool" where
  "gzip_ok gzip \<longleftrightarrow> (\<forall>app sc. \<exists>ms. gzip app sc = (app sc)\<lparr>ar_sent := ms\<rparr> \<and> (ms = [] \<longleftrightarrow> ar_sent (app sc) = []) \<and>
     list_all2 (\<lambda>(status, hs) (status', hs'). status' = status \<and>
       (\<forall>name. name \<notin> {''content-encoding'', ''content-length'', ''vary''} \<longrightarrow> header_values hs' name = header_values hs name))
       (starts (ar_sent (app sc))) (starts ms))"

lemma lower_names:
  "lower ''Content-Security-Policy'' = ''content-security-policy''" "lower ''Referrer-Policy'' = ''referrer-policy''"
  "lower ''X-Content-Type-Options'' = ''x-content-type-options''" "lower ''Permissions-Policy'' = ''permissions-policy''"
  "lower ''Strict-Transport-Security'' = ''strict-transport-security''" "lower ''server'' = ''server''"
  "lower ''x-powered-by'' = ''x-powered-by''" "lower ''X-Request-ID'' = ''x-request-id''"
  by code_simp+

lemma harden_values:
  assumes "headers_api_ok api"
  shows "header_values (harden api hsts csp hs) name =
    (if name = ''content-security-policy'' then [csp] else if name = ''referrer-policy'' then [''no-referrer'']
     else if name = ''x-content-type-options'' then [''nosniff''] else if name = ''permissions-policy'' then [''()'']
     else if hsts \<and> name = ''strict-transport-security'' then [HSTS_VALUE]
     else if name \<in> {''server'', ''x-powered-by''} then [] else header_values hs name)"
proof -
  have del: "header_values (del_if_present api n h) m = (if m = lower n then [] else header_values h m)" for n h m
    using assms by (auto simp: headers_api_ok_def del_if_present_def)
  have set: "header_values (mh_set api h n v) m = (if m = lower n then [v] else header_values h m)" for h n v m
    using assms by (simp add: headers_api_ok_def)
  show ?thesis
    by (auto simp: harden_def Let_def del set lower_names)
qed

lemma list_all2_right: "list_all2 P xs ys \<Longrightarrow> y \<in> set ys \<Longrightarrow> \<exists>x \<in> set xs. P x y"
  by (induction rule: list_all2_induct) auto

lemma core_starts:
  assumes api: "headers_api_ok api" and gzip: "gzip_ok (ext (GZipMiddleware 1024))" and http: "sc_http sc"
    and start: "Response_Start status hs \<in> set (ar_sent (platform_core api uuid4 ext settings router sc))"
  obtains hs0 where
    "Response_Start status hs0 \<in> set (ar_sent (content_size_limit (max_request_bytes settings)
       (request_context api uuid4 (access_log router)) sc))"
    "\<And>name. name \<notin> {''content-encoding'', ''content-length'', ''vary''} \<Longrightarrow>
       header_values hs name = header_values (harden api (environment settings = Production)
         (if enable_docs settings \<and> sc_path sc \<in> set DOCS_PATHS then DOCS_CSP else STRICT_CSP) hs0) name"
proof -
  let ?app = "content_size_limit (max_request_bytes settings) (request_context api uuid4 (access_log router))"
  let ?harden = "harden api (environment settings = Production)
    (if enable_docs settings \<and> sc_path sc \<in> set DOCS_PATHS then DOCS_CSP else STRICT_CSP)"
  obtain ms where ms: "ext (GZipMiddleware 1024) ?app sc = (?app sc)\<lparr>ar_sent := ms\<rparr>"
      "list_all2 (\<lambda>(status, hs) (status', hs'). status' = status \<and>
         (\<forall>name. name \<notin> {''content-encoding'', ''content-length'', ''vary''} \<longrightarrow> header_values hs' name = header_values hs name))
         (starts (ar_sent (?app sc))) (starts ms)"
    using gzip unfolding gzip_ok_def by meson
  have "ar_sent (platform_core api uuid4 ext settings router sc) = map (map_start ?harden) ms"
    by (simp add: platform_core_def security_headers_def http ms(1) Let_def)
  with start have "(status, hs) \<in> set (starts (map (map_start ?harden) ms))"
    by (simp only: in_starts)
  then have "(status, hs) \<in> (\<lambda>(status, hs). (status, ?harden hs)) ` set (starts ms)"
    by (simp only: starts_map_start set_map)
  then obtain hs1 where hs1: "hs = ?harden hs1" "(status, hs1) \<in> set (starts ms)"
    by (rule imageE) (simp only: prod.split_asm split_paired_all prod.case prod.inject, blast)
  then obtain hs0 where hs0: "(status, hs0) \<in> set (starts (ar_sent (?app sc)))"
      "\<forall>name. name \<notin> {''content-encoding'', ''content-length'', ''vary''} \<longrightarrow> header_values hs1 name = header_values hs0 name"
    using list_all2_right [OF ms(2) hs1(2)] by auto
  show thesis
    by (rule that [of hs0]) (use hs0 in \<open>auto simp: in_starts hs1(1) harden_values [OF api]\<close>)
qed

text \<open>Which requests the size limit answers itself, and the id of the others.\<close>

definition size_refused :: "int \<Rightarrow> scope \<Rightarrow> bool" where
  "size_refused max_bytes sc \<longleftrightarrow>
     (case scope_header sc ''content-length'' of
        None \<Rightarrow> is_chunked sc
      | Some v \<Rightarrow> (case py_int v of None \<Rightarrow> True | Some n \<Rightarrow> max_bytes < n))"

definition request_id_of :: "uuid \<Rightarrow> scope \<Rightarrow> string" where
  "request_id_of uuid4 sc =
     (case scope_header sc ''x-request-id'' of
        Some raw_id \<Rightarrow> if request_id_matches raw_id then raw_id else str_uuid uuid4 | None \<Rightarrow> str_uuid uuid4)"

lemma content_size_limit_passes:
  "sc_http sc \<Longrightarrow> \<not> size_refused max_bytes sc \<Longrightarrow> content_size_limit max_bytes app sc = app sc"
  by (auto simp: content_size_limit_def size_refused_def split: option.splits)

lemma content_size_limit_refuses:
  assumes "sc_http sc" and "size_refused max_bytes sc"
  obtains status title detail where "content_size_limit max_bytes app sc = send_problem sc status title detail" "status \<in> {400, 411, 413}"
  using assms by (auto simp: content_size_limit_def size_refused_def split: option.splits if_splits)

lemma length_str_uuid: "length (str_uuid u) = 36"
  by (simp add: str_uuid_def Let_def length_hex_fixed)

lemma request_id_matches_uuid: "request_id_matches (str_uuid u)"
proof -
  have "c \<in> set (str_uuid u) \<Longrightarrow> request_id_char c" for c
    using set_str_uuid [of u] by (auto simp: request_id_char_def is_alnum_def is_digit_def is_lower_def)
  then have ok: "list_all request_id_char (str_uuid u)"
    by (simp add: list_all_iff)
  have "str_uuid u \<noteq> []"
    using length_str_uuid [of u] by auto
  then have "request_id_char (last (str_uuid u))"
    using ok by (simp add: list_all_iff)
  then have "last (str_uuid u) \<noteq> CHR 0x0A"
    by (auto simp: request_id_char_def is_alnum_def is_digit_def is_lower_def is_upper_def)
  then show ?thesis
    using ok by (simp add: request_id_matches_def length_str_uuid)
qed

lemma request_id_of_matches: "request_id_matches (request_id_of uuid4 sc)"
  by (simp add: request_id_of_def request_id_matches_uuid split: option.split)

lemma request_context_run:
  "sc_http sc \<Longrightarrow> request_context api uuid4 app sc =
     (app (sc\<lparr>sc_request_id := Some (request_id_of uuid4 sc)\<rparr>))
       \<lparr>ar_sent := map (map_start (\<lambda>hs. mh_set api hs ''X-Request-ID'' (request_id_of uuid4 sc)))
          (ar_sent (app (sc\<lparr>sc_request_id := Some (request_id_of uuid4 sc)\<rparr>)))\<rparr>"
  by (simp add: request_context_def request_id_of_def Let_def split: option.split)

lemma send_problem_sent:
  "Response_Start status hs \<in> set (ar_sent (send_problem sc code title detail)) \<Longrightarrow>
     status = code \<and> header_values hs ''x-request-id'' = []"
  by (auto simp: send_problem_def Let_def header_values_def)

lemma app_request_id:
  assumes "headers_api_ok api" and "sc_http sc"
    and "Response_Start status hs \<in> set (ar_sent (content_size_limit max_bytes (request_context api uuid4 app) sc))"
  shows "if size_refused max_bytes sc then status \<in> {400, 411, 413} \<and> header_values hs ''x-request-id'' = []
    else header_values hs ''x-request-id'' = [request_id_of uuid4 sc]"
proof (cases "size_refused max_bytes sc")
  case True
  obtain code title detail where "content_size_limit max_bytes (request_context api uuid4 app) sc = send_problem sc code title detail"
      "code \<in> {400, 411, 413}"
    by (rule content_size_limit_refuses [OF assms(2) True])
  then show ?thesis
    using True assms(3) send_problem_sent [of status hs sc code title detail] by simp
next
  case False
  let ?ms = "ar_sent (app (sc\<lparr>sc_request_id := Some (request_id_of uuid4 sc)\<rparr>))"
  have "Response_Start status hs \<in> map_start (\<lambda>hs. mh_set api hs ''X-Request-ID'' (request_id_of uuid4 sc)) ` set ?ms"
    using assms(3) by (simp add: content_size_limit_passes [OF assms(2) False] request_context_run [OF assms(2)])
  then obtain hs0 where "hs = mh_set api hs0 ''X-Request-ID'' (request_id_of uuid4 sc)"
    by (auto simp: map_start_def split: message.splits)
  then show ?thesis
    using False assms(1) by (simp add: headers_api_ok_def lower_names)
qed

lemma core_headers:
  assumes "headers_api_ok api" and "gzip_ok (ext (GZipMiddleware 1024))" and "sc_http sc"
    and "Response_Start status hs \<in> set (ar_sent (platform_core api uuid4 ext settings router sc))"
  shows "header_values hs ''content-security-policy'' =
        [if enable_docs settings \<and> sc_path sc \<in> set DOCS_PATHS then DOCS_CSP else STRICT_CSP]"
    "header_values hs ''referrer-policy'' = [''no-referrer'']" "header_values hs ''x-content-type-options'' = [''nosniff'']"
    "header_values hs ''permissions-policy'' = [''()'']"
    "environment settings = Production \<Longrightarrow> header_values hs ''strict-transport-security'' = [HSTS_VALUE]"
    "header_values hs ''server'' = []" "header_values hs ''x-powered-by'' = []"
    "if size_refused (max_request_bytes settings) sc then status \<in> {400, 411, 413} \<and> header_values hs ''x-request-id'' = []
     else header_values hs ''x-request-id'' = [request_id_of uuid4 sc]"
proof -
  obtain hs0 where sent: "Response_Start status hs0 \<in> set (ar_sent (content_size_limit (max_request_bytes settings)
       (request_context api uuid4 (access_log router)) sc))"
    and vals: "\<And>name. name \<notin> {''content-encoding'', ''content-length'', ''vary''} \<Longrightarrow>
       header_values hs name = header_values (harden api (environment settings = Production)
         (if enable_docs settings \<and> sc_path sc \<in> set DOCS_PATHS then DOCS_CSP else STRICT_CSP) hs0) name"
    using core_starts [OF assms] by blast
  note v = vals harden_values [OF assms(1)]
  show "header_values hs ''content-security-policy'' =
        [if enable_docs settings \<and> sc_path sc \<in> set DOCS_PATHS then DOCS_CSP else STRICT_CSP]"
    "header_values hs ''referrer-policy'' = [''no-referrer'']" "header_values hs ''x-content-type-options'' = [''nosniff'']"
    "header_values hs ''permissions-policy'' = [''()'']"
    "environment settings = Production \<Longrightarrow> header_values hs ''strict-transport-security'' = [HSTS_VALUE]"
    "header_values hs ''server'' = []" "header_values hs ''x-powered-by'' = []"
    by (simp_all add: v)
  have "header_values hs ''x-request-id'' = header_values hs0 ''x-request-id''"
    by (simp add: v)
  then show "if size_refused (max_request_bytes settings) sc then status \<in> {400, 411, 413} \<and> header_values hs ''x-request-id'' = []
     else header_values hs ''x-request-id'' = [request_id_of uuid4 sc]"
    using app_request_id [OF assms(1,3) sent] by (auto split: if_splits)
qed

lemma core_fails:
  assumes "gzip_ok (ext (GZipMiddleware 1024))" and "sc_http sc" and "\<not> size_refused (max_request_bytes settings) sc"
    and "router (sc\<lparr>sc_request_id := Some (request_id_of uuid4 sc)\<rparr>) =
       \<lparr>ar_sent = [], ar_ended = Raises e, ar_access_log = [], ar_request_id = Some (request_id_of uuid4 sc)\<rparr>"
  shows "platform_core api uuid4 ext settings router sc =
       \<lparr>ar_sent = [], ar_ended = Raises e,
        ar_access_log = [\<lparr>al_request_id = Some (request_id_of uuid4 sc), al_method = sc_method sc, al_path = sc_path sc,
          al_status_code = 0\<rparr>], ar_request_id = Some (request_id_of uuid4 sc)\<rparr>"
proof -
  let ?app = "content_size_limit (max_request_bytes settings) (request_context api uuid4 (access_log router))"
  have app: "?app sc = \<lparr>ar_sent = [], ar_ended = Raises e,
      ar_access_log = [\<lparr>al_request_id = Some (request_id_of uuid4 sc), al_method = sc_method sc, al_path = sc_path sc,
        al_status_code = 0\<rparr>], ar_request_id = Some (request_id_of uuid4 sc)\<rparr>"
    using assms(2,4)
    by (simp add: content_size_limit_passes [OF assms(2,3)] request_context_run [OF assms(2)] access_log_def)
  obtain ms where "ext (GZipMiddleware 1024) ?app sc = (?app sc)\<lparr>ar_sent := ms\<rparr>" "ms = [] \<longleftrightarrow> ar_sent (?app sc) = []"
    using assms(1) unfolding gzip_ok_def by meson
  then show ?thesis
    by (simp add: platform_core_def security_headers_def assms(2) app)
qed

text \<open>
  C35. What every response carries. Whatever the router does, each response that
  starts inside the stack has the security headers of its path (and HSTS in
  production) and no header naming the software; a request that passes the size
  limit gets exactly one well-formed \<open>X-Request-ID\<close>, the client's own if it is
  well-formed. But a response of the size limit has none, because the limit runs
  outside the middleware that makes the id; and when the router raises before
  answering, nothing is sent through the stack at all (the error boundary outside of
  it answers) and the access log records the status 0.
\<close>

theorem platform_responses:
  assumes "headers_api_ok api" and "gzip_ok (ext (GZipMiddleware 1024))" and "sc_http sc"
  shows "(\<forall>status hs. Response_Start status hs \<in> set (ar_sent (platform_core api uuid4 ext settings router sc)) \<longrightarrow>
      header_values hs ''content-security-policy'' =
        [if enable_docs settings \<and> sc_path sc \<in> set DOCS_PATHS then DOCS_CSP else STRICT_CSP] \<and>
      header_values hs ''referrer-policy'' = [''no-referrer''] \<and> header_values hs ''x-content-type-options'' = [''nosniff''] \<and>
      header_values hs ''permissions-policy'' = [''()''] \<and>
      (environment settings = Production \<longrightarrow> header_values hs ''strict-transport-security'' = [HSTS_VALUE]) \<and>
      header_values hs ''server'' = [] \<and> header_values hs ''x-powered-by'' = [] \<and>
      (if size_refused (max_request_bytes settings) sc
       then status \<in> {400, 411, 413} \<and> header_values hs ''x-request-id'' = []
       else header_values hs ''x-request-id'' = [request_id_of uuid4 sc] \<and> request_id_matches (request_id_of uuid4 sc))) \<and>
    (\<not> size_refused (max_request_bytes settings) sc \<longrightarrow>
     router (sc\<lparr>sc_request_id := Some (request_id_of uuid4 sc)\<rparr>) =
       \<lparr>ar_sent = [], ar_ended = Raises e, ar_access_log = [], ar_request_id = Some (request_id_of uuid4 sc)\<rparr> \<longrightarrow>
     platform_core api uuid4 ext settings router sc =
       \<lparr>ar_sent = [], ar_ended = Raises e,
        ar_access_log = [\<lparr>al_request_id = Some (request_id_of uuid4 sc), al_method = sc_method sc, al_path = sc_path sc,
          al_status_code = 0\<rparr>], ar_request_id = Some (request_id_of uuid4 sc)\<rparr>)"
proof (rule conjI, goal_cases)
  case 1
  show ?case
  proof (intro allI impI, goal_cases)
    case (1 status hs)
    note h = core_headers [where ext = ext and api = api, OF assms 1]
    show ?case
      using h(1-7) h(8) request_id_of_matches [of uuid4 sc] by (auto split: if_splits)
  qed
next
  case 2
  show ?case
    using core_fails [where ext = ext, OF assms(2,3)] by blast
qed

text \<open>An instance of the parameters: headers as Starlette keeps them, and a GZip that compresses nothing.\<close>

definition list_headers :: headers_api where
  "list_headers = \<lparr>mh_set = (\<lambda>hs name v. filter (\<lambda>h. fst h \<noteq> lower name) hs @ [(lower name, v)]),
     mh_del = (\<lambda>hs name. filter (\<lambda>h. fst h \<noteq> lower name) hs),
     mh_has = (\<lambda>hs name. list_ex (\<lambda>h. fst h = lower name) hs)\<rparr>"

lemma list_headers_ok: "headers_api_ok list_headers"
  by (auto simp: headers_api_ok_def list_headers_def header_values_def list_ex_iff filter_empty_conv
      intro!: arg_cong [where f = "map snd"] filter_cong)

lemma plain_gzip_ok: "gzip_ok (\<lambda>app. app)"
  unfolding gzip_ok_def
proof (intro allI)
  fix app :: asgi_app and sc
  show "\<exists>ms. app sc = (app sc)\<lparr>ar_sent := ms\<rparr> \<and> (ms = [] \<longleftrightarrow> ar_sent (app sc) = []) \<and>
     list_all2 (\<lambda>(status, hs) (status', hs'). status' = status \<and>
       (\<forall>name. name \<notin> {''content-encoding'', ''content-length'', ''vary''} \<longrightarrow> header_values hs' name = header_values hs name))
       (starts (ar_sent (app sc))) (starts ms)"
    by (rule exI [of _ "ar_sent (app sc)"]) (auto intro: list_all2_refl)
qed

definition sample_scope :: scope where
  "sample_scope = \<lparr>sc_http = True, sc_method = ''POST'', sc_scheme = ''http'', sc_server = Some (''localhost'', 8000),
     sc_path = ''/auth/login'', sc_query = [], sc_headers = [(''content-length'', ''3''), (''x-request-id'', ''abc-1'')],
     sc_request_id = None\<rparr>"

definition greeting :: asgi_app where
  "greeting sc = \<lparr>ar_sent = [Response_Start 200 [(''server'', ''uvicorn'')], Response_Body ''hi'' False], ar_ended = Returns (),
     ar_access_log = [], ar_request_id = sc_request_id sc\<rparr>"

lemma sample_scope_id: "request_id_of u sample_scope = ''abc-1''"
  by (simp add: request_id_of_def scope_header_def sample_scope_def request_id_matches_def request_id_char_def is_alnum_def
      is_digit_def is_lower_def is_upper_def)

lemma py_int_3: "py_int ''3'' = Some 3"
  by (simp add: py_int_def strip_by_def is_space_latin1_def is_space_def is_digit_def int_max_str_digits_def)

theorem platform_responses_witness:
  "\<exists>hs. Response_Start 200 hs \<in> set (ar_sent (platform_core list_headers 0 (\<lambda>_ app. app) default_settings greeting sample_scope)) \<and>
     header_values hs ''x-request-id'' = [''abc-1''] \<and> header_values hs ''server'' = [] \<and>
     header_values hs ''content-security-policy'' = [STRICT_CSP]"
proof -
  let ?core = "platform_core list_headers 0 (\<lambda>_ app. app) default_settings greeting sample_scope"
  have http: "sc_http sample_scope" and refused: "\<not> size_refused (max_request_bytes default_settings) sample_scope"
    by (simp_all add: sample_scope_def size_refused_def scope_header_def py_int_3 default_settings_def)
  have "\<exists>hs. Response_Start 200 hs \<in> set (ar_sent ?core)"
    using http by (simp add: platform_core_def security_headers_def content_size_limit_passes [OF http refused]
        request_context_run [OF http] access_log_def greeting_def map_start_def Let_def)
  then obtain hs where hs: "Response_Start 200 hs \<in> set (ar_sent ?core)"
    by blast
  have "sc_path sample_scope \<notin> set DOCS_PATHS"
    by (simp add: sample_scope_def DOCS_PATHS_def)
  then have "header_values hs ''x-request-id'' = [''abc-1''] \<and> header_values hs ''server'' = [] \<and>
      header_values hs ''content-security-policy'' = [STRICT_CSP]"
    using platform_responses [where ext = "\<lambda>_ app. app", OF list_headers_ok plain_gzip_ok http, of 0 default_settings greeting,
        THEN conjunct1, rule_format, OF hs] refused
    by (simp add: sample_scope_id)
  then show ?thesis
    using hs by blast
qed


subsection \<open>The size of bodies\<close>

text \<open>
  How HTTP/1.1 delimits the body of a request (RFC 9112, section 6.3): a chunked
  transfer encoding overrides the content length and allows any body; otherwise the
  content length is the size, and without one there is no body.
\<close>

definition http11_body :: "scope \<Rightarrow> nat \<Rightarrow> bool" where
  "http11_body sc n \<longleftrightarrow>
     (\<not> is_chunked sc \<longrightarrow>
        (case scope_header sc ''content-length'' of None \<Rightarrow> n = 0 | Some v \<Rightarrow> py_int v = Some (int n)))"



end
