(* ===== verification/Rate_Limits.thy ===== *)
theory Rate_Limits
  imports Access_Tokens
begin

text \<open>
  The rate limiters (\<open>src/features/authentication/application/rate_limit.py\<close>).

  \<open>cachetools.TTLCache\<close> and the Redis server are parameters. The in-process
  limiter reads and writes a cache of attempt lists; its clock counts
  microseconds. The Redis limiter runs a script on one sorted set per key; its
  clock counts milliseconds, and a member \<open>f"{now_ms}:{uuid}"\<close> is the pair of its
  parts. The laws state the documented behaviour of the two packages: a TTL cache
  returns the value last set until its time to live has passed and drops nothing
  while there is room; the sorted-set commands do what their names say, and
  \<open>EXPIRE\<close> removes the set after the given time.

  The reference is a sliding log: a key is refused while the log holds
  \<open>max_attempts\<close> accepted attempts in the window that ends now.
\<close>

subsection \<open>The in-process limiter\<close>

record 'c attempt_cache =
  ac_get :: "int \<Rightarrow> 'c \<Rightarrow> string \<Rightarrow> int list option"
  ac_set :: "int \<Rightarrow> string \<Rightarrow> int list \<Rightarrow> 'c \<Rightarrow> 'c"
  ac_clear :: "'c \<Rightarrow> 'c"

record rate_limiter =
  rl_max_attempts :: int
  rl_window_seconds :: int

definition FIXED_WINDOW_MAX_KEYS :: nat where
  "FIXED_WINDOW_MAX_KEYS = 10000"

definition FIXED_WINDOW_TTL_SLACK_SECONDS :: int where
  "FIXED_WINDOW_TTL_SLACK_SECONDS = 60"

definition attempts_ttl :: "rate_limiter \<Rightarrow> int" where
  "attempts_ttl rl = seconds (rl_window_seconds rl + FIXED_WINDOW_TTL_SLACK_SECONDS)"

definition attempts_of :: "'c attempt_cache \<Rightarrow> int \<Rightarrow> 'c \<Rightarrow> string \<Rightarrow> int list" where
  "attempts_of lib now c key = (case ac_get lib now c key of None \<Rightarrow> [] | Some ts \<Rightarrow> ts)"

definition fixed_window_check ::
  "'c attempt_cache \<Rightarrow> rate_limiter \<Rightarrow> int \<Rightarrow> string \<Rightarrow> 'c \<Rightarrow> (unit, auth_error) result \<times> 'c" where
  "fixed_window_check lib rl now key c =
     (let window_start = now - seconds (rl_window_seconds rl);
          attempts = filter (\<lambda>ts. window_start \<le> ts) (attempts_of lib now c key)
      in if rl_max_attempts rl \<le> int (length attempts)
         then (Err (RateLimitExceededError (rl_window_seconds rl)), ac_set lib now key attempts c)
         else (Ok (), ac_set lib now key (attempts @ [now]) c))"

definition fixed_window_reset :: "'c attempt_cache \<Rightarrow> 'c \<Rightarrow> 'c" where
  "fixed_window_reset lib c = ac_clear lib c"


subsection \<open>The Redis limiter\<close>

type_synonym zmember = "int \<times> uuid"

record 'c redis_zsets =
  zremrangebyscore :: "int \<Rightarrow> string \<Rightarrow> int \<Rightarrow> int \<Rightarrow> 'c \<Rightarrow> 'c"
  zcard :: "int \<Rightarrow> string \<Rightarrow> 'c \<Rightarrow> nat"
  zadd :: "int \<Rightarrow> string \<Rightarrow> int \<Rightarrow> zmember \<Rightarrow> 'c \<Rightarrow> 'c"
  zexpire :: "int \<Rightarrow> string \<Rightarrow> int \<Rightarrow> 'c \<Rightarrow> 'c"

definition ceil_seconds :: "int \<Rightarrow> int" where
  "ceil_seconds ms = - ((- ms) div 1000)"

definition sliding_window_script ::
  "'c redis_zsets \<Rightarrow> string \<Rightarrow> int \<Rightarrow> int \<Rightarrow> int \<Rightarrow> zmember \<Rightarrow> 'c \<Rightarrow> int \<times> 'c" where
  "sliding_window_script lib key now_ms window_ms max_att member c =
     (let c1 = zremrangebyscore lib now_ms key 0 (now_ms - window_ms) c
      in if max_att \<le> int (zcard lib now_ms key c1) then (1, c1)
         else (0, zexpire lib now_ms key (ceil_seconds window_ms)
                    (zadd lib now_ms key now_ms member c1)))"

definition redis_check ::
  "'c redis_zsets \<Rightarrow> rate_limiter \<Rightarrow> int \<Rightarrow> string \<Rightarrow> uuid \<Rightarrow> 'c \<Rightarrow> (unit, auth_error) result \<times> 'c" where
  "redis_check lib rl now_ms key new_id c =
     (let window_ms = rl_window_seconds rl * 1000
      in case sliding_window_script lib (''rate:'' @ key) now_ms window_ms (rl_max_attempts rl) (now_ms, new_id) c of
           (result, c1) \<Rightarrow>
             (if result = 1 then Err (RateLimitExceededError (max 1 (window_ms div 1000))) else Ok (), c1))"


subsection \<open>The sliding log\<close>

type_synonym attempt_log = "string \<Rightarrow> int list"

definition recent :: "int \<Rightarrow> int \<Rightarrow> int list \<Rightarrow> int list" where
  "recent width now ts = filter (\<lambda>t. now - width \<le> t) ts"

definition sliding_log_check :: "int \<Rightarrow> int \<Rightarrow> int \<Rightarrow> string \<Rightarrow> attempt_log \<Rightarrow> bool \<times> attempt_log" where
  "sliding_log_check max_attempts width now key hist =
     (if max_attempts \<le> int (length (recent width now (hist key))) then (False, hist)
      else (True, hist(key := hist key @ [now])))"

definition hits_in :: "int \<Rightarrow> int \<Rightarrow> int list \<Rightarrow> nat" where
  "hits_in width a ts = length (filter (\<lambda>t. a \<le> t \<and> t \<le> a + width) ts)"

lemma sliding_log_bound:
  assumes "\<forall>k a. int (hits_in (width k) a (hist k)) \<le> max 0 (n k)" and "sliding_log_check (n key) (width key) now key hist = (b, hist')"
  shows "\<forall>k a. int (hits_in (width k) a (hist' k)) \<le> max 0 (n k)"
proof (intro allI)
  fix k a
  show "int (hits_in (width k) a (hist' k)) \<le> max 0 (n k)"
  proof (cases "b \<and> k = key \<and> a \<le> now \<and> now \<le> a + width k")
    case True
    have "hits_in (width k) a (hist k) \<le> length (recent (width k) now (hist k))"
      unfolding hits_in_def recent_def length_filter_conv_card
      by (rule card_mono) (use True in auto)
    moreover have "int (length (recent (width k) now (hist k))) < n k" "hist' k = hist k @ [now]"
      using assms(2) True by (auto simp: sliding_log_check_def split: if_splits)
    ultimately show ?thesis
      using True by (simp add: hits_in_def)
  next
    case False
    have "hist' = hist \<or> hist' = hist(key := hist key @ [now]) \<and> b"
      using assms(2) by (auto simp: sliding_log_check_def split: if_splits)
    then have "hits_in (width k) a (hist' k) = hits_in (width k) a (hist k)"
      using False by (auto simp: hits_in_def)
    then show ?thesis
      using assms(1) by simp
  qed
qed


subsection \<open>The contract of a limiter\<close>

text \<open>
  An event is a reading of the clock, the key, and what the limiter draws. A run
  gives the answers in order; the accepted attempts of a key are read off the
  answers.
\<close>

fun run_checks :: "('e \<Rightarrow> 's \<Rightarrow> (unit, auth_error) result \<times> 's) \<Rightarrow> 'e list \<Rightarrow> 's \<Rightarrow> bool list \<times> 's" where
  "run_checks check [] s = ([], s)"
| "run_checks check (e # es) s =
     (case check e s of (r, s1) \<Rightarrow> case run_checks check es s1 of (bs, s2) \<Rightarrow> ((r = Ok ()) # bs, s2))"

fun run_log :: "(string \<Rightarrow> int) \<Rightarrow> (string \<Rightarrow> int) \<Rightarrow> (int \<times> string) list \<Rightarrow> attempt_log \<Rightarrow> bool list \<times> attempt_log" where
  "run_log n width [] hist = ([], hist)"
| "run_log n width ((now, key) # es) hist =
     (case sliding_log_check (n key) (width key) now key hist of (b, hist1) \<Rightarrow>
      case run_log n width es hist1 of (bs, hist2) \<Rightarrow> (b # bs, hist2))"

definition accepted :: "(int \<times> string) list \<Rightarrow> bool list \<Rightarrow> string \<Rightarrow> int list" where
  "accepted evs bs key = map (\<lambda>(e, b). fst e) (filter (\<lambda>(e, b). b \<and> snd e = key) (zip evs bs))"

lemma run_log_length [simp]: "length (fst (run_log n width es hist)) = length es"
  by (induction n width es hist rule: run_log.induct) (auto split: prod.splits)

lemma run_log_accepted:
  "run_log n width es hist = (bs, hist') \<Longrightarrow> hist' key = hist key @ accepted es bs key"
proof (induction n width es hist arbitrary: bs hist' rule: run_log.induct)
  case (2 n width now k es hist)
  obtain b hist1 where b: "sliding_log_check (n k) (width k) now k hist = (b, hist1)"
    by force
  obtain bs1 hist2 where rest: "run_log n width es hist1 = (bs1, hist2)"
    by force
  have "hist1 key = hist key @ (if b \<and> k = key then [now] else [])"
    using b by (auto simp: sliding_log_check_def split: if_splits)
  then show ?case
    using 2 b rest by (auto simp: accepted_def)
qed (simp add: accepted_def)

lemma run_log_keeps_bound:
  "\<forall>k a. int (hits_in (width k) a (hist k)) \<le> max 0 (n k) \<Longrightarrow> run_log n width es hist = (bs, hist') \<Longrightarrow>
     \<forall>k a. int (hits_in (width k) a (hist' k)) \<le> max 0 (n k)"
proof (induction n width es hist arbitrary: bs hist' rule: run_log.induct)
  case (2 n width now k es hist)
  obtain b hist1 where b: "sliding_log_check (n k) (width k) now k hist = (b, hist1)"
    by force
  obtain bs1 hist2 where rest: "run_log n width es hist1 = (bs1, hist2)"
    by force
  have "hist' = hist2"
    using 2(3) b rest by simp
  then show ?case
    using 2(1) [OF b [symmetric] sliding_log_bound [OF 2(2) b]] rest by blast
qed simp

lemma run_log_bound:
  assumes "run_log n width es (\<lambda>_. []) = (bs, hist')"
  shows "int (hits_in (width key) a (accepted es bs key)) \<le> max 0 (n key)"
proof -
  have "hist' key = accepted es bs key"
    using run_log_accepted [OF assms, of key] by simp
  moreover have "\<forall>k a. int (hits_in (width k) a (hist' k)) \<le> max 0 (n k)"
    by (rule run_log_keeps_bound [OF _ assms]) (simp add: hits_in_def)
  ultimately show ?thesis
    by metis
qed

locale sliding_limiter =
  fixes check :: "int \<times> string \<times> 'x \<Rightarrow> 's \<Rightarrow> (unit, auth_error) result \<times> 's"
    and rel :: "int \<Rightarrow> 'a set \<Rightarrow> 's \<Rightarrow> attempt_log \<Rightarrow> bool"
    and tag :: "int \<times> string \<times> 'x \<Rightarrow> 'a"
    and ok :: "'a \<Rightarrow> 'a set \<Rightarrow> bool"
    and max_attempts :: "string \<Rightarrow> int" and width :: "string \<Rightarrow> int"
  assumes check_step: "rel t seen s hist \<Longrightarrow> t \<le> now \<Longrightarrow> ok (tag (now, key, x)) seen \<Longrightarrow>
      check (now, key, x) s = (r, s') \<Longrightarrow> sliding_log_check (max_attempts key) (width key) now key hist = (b, hist') \<Longrightarrow>
      (r = Ok ()) = b \<and> rel now (insert (tag (now, key, x)) seen) s' hist'"
begin

fun admissible :: "int \<Rightarrow> 'a set \<Rightarrow> (int \<times> string \<times> 'x) list \<Rightarrow> bool" where
  "admissible t seen [] \<longleftrightarrow> True"
| "admissible t seen (e # es) \<longleftrightarrow>
     t \<le> fst e \<and> ok (tag e) seen \<and> admissible (fst e) (insert (tag e) seen) es"

lemma run_equiv:
  "rel t seen s hist \<Longrightarrow> admissible t seen es \<Longrightarrow>
     fst (run_checks check es s) = fst (run_log max_attempts width (map (\<lambda>(now, key, x). (now, key)) es) hist)"
proof (induction es arbitrary: t seen s hist)
  case (Cons e es)
  obtain now key x where e: "e = (now, key, x)"
    by (cases e)
  obtain r s1 where r: "check e s = (r, s1)"
    by force
  obtain b hist1 where b: "sliding_log_check (max_attempts key) (width key) now key hist = (b, hist1)"
    by force
  have step: "(r = Ok ()) = b" "rel now (insert (tag e) seen) s1 hist1"
    using check_step [OF Cons.prems(1) _ _ _ b] Cons.prems(2) r e by auto
  then have "fst (run_checks check es s1) =
      fst (run_log max_attempts width (map (\<lambda>(now, key, x). (now, key)) es) hist1)"
    using Cons.IH [of now] Cons.prems(2) e by simp
  then show ?case
    using r b e step(1) by (auto split: prod.splits)
qed simp

lemma run_bounded:
  assumes "rel t seen s (\<lambda>_. [])" and "admissible t seen es"
  shows "int (hits_in (width key) a (accepted (map (\<lambda>(now, key, x). (now, key)) es) (fst (run_checks check es s)) key))
    \<le> max 0 (max_attempts key)"
  unfolding run_equiv [OF assms]
  using run_log_bound [of max_attempts width "map (\<lambda>(now, key, x). (now, key)) es"] by (metis prod.collapse)

end

end
