(* ===== verification/Auth_Http.thy ===== *)
theory Auth_Http
  imports Http Rate_Limits Auth_UseCases
begin

text \<open>
  The HTTP surface of the authentication feature
  (\<open>src/features/authentication/adapters/inbound/http\<close>): request schemas, the
  translation of errors, the refresh cookie and its origin check, the two rate
  limits, and the routes, with the limiters and the principal cache the container
  builds (\<open>composition/container.py\<close>). The state of the running feature is the
  database, the cache, the four limiters and the Redis server they may share. A
  request carries with it what the handler reads off the outside world.
\<close>

subsection \<open>The running feature\<close>

datatype 'c limiter = Fixed_Window rate_limiter 'c | Redis_Window rate_limiter

record ('c, 'p, 'r) auth_server =
  sv_db :: database
  sv_cache :: 'p
  sv_rate_limiter :: "'c limiter"
  sv_login_limiter :: "'c limiter"
  sv_reset_limiter :: "'c limiter"
  sv_verify_limiter :: "'c limiter"
  sv_redis :: 'r

record ('tok, 'c, 'p, 'r) auth_env =
  en_settings :: app_settings
  en_hasher :: hasher
  en_jwt :: "'tok jwt_lib"
  en_cache :: "'p cache_port"
  en_attempts :: "rate_limiter \<Rightarrow> 'c attempt_cache"
  en_redis :: "'r redis_zsets"
  en_uow :: bool
  en_writer :: bool
  en_bracketed_ok :: "string \<Rightarrow> bool"

record draws =
  dr_clk :: "nat \<Rightarrow> datetime"
  dr_ids :: "nat \<Rightarrow> uuid"
  dr_raw :: string
  dr_carrier :: json_object
  dr_now :: "nat \<Rightarrow> datetime"
  dr_resolve :: datetime
  dr_limit_ids :: "nat \<Rightarrow> uuid"

definition DEFAULT_LIMIT :: rate_limiter where
  "DEFAULT_LIMIT = \<lparr>rl_max_attempts = 5, rl_window_seconds = 60\<rparr>"

definition login_limit :: "app_settings \<Rightarrow> rate_limiter" where
  "login_limit st = \<lparr>rl_max_attempts = auth_per_account_login_max_attempts st,
     rl_window_seconds = auth_per_account_login_window_seconds st\<rparr>"

definition reset_limit :: "app_settings \<Rightarrow> rate_limiter" where
  "reset_limit st = \<lparr>rl_max_attempts = auth_per_account_reset_max_attempts st,
     rl_window_seconds = auth_per_account_reset_window_seconds st\<rparr>"

definition verify_limit :: "app_settings \<Rightarrow> rate_limiter" where
  "verify_limit st = \<lparr>rl_max_attempts = auth_per_account_verify_max_attempts st,
     rl_window_seconds = auth_per_account_verify_window_seconds st\<rparr>"

definition check_internal_token_exposure :: "app_settings \<Rightarrow> unit outcome" where
  "check_internal_token_exposure st =
     (if auth_return_internal_tokens st \<and> environment st = Production then Raises RuntimeError else Returns ())"

text \<open>
  \<open>build_auth_container\<close>: the checks at start-up, and the limiters with empty
  attempt caches (\<open>fresh\<close>) or over the Redis server.
\<close>

definition build_auth_container ::
  "app_settings \<Rightarrow> (rate_limiter \<Rightarrow> 'c) \<Rightarrow> 'p \<Rightarrow> database \<Rightarrow> 'r \<Rightarrow> ('c, 'p, 'r) auth_server outcome" where
  "build_auth_container st fresh cache db redis =
     (if \<not> truthy (auth_jwt_secret_key st) then Raises RuntimeError
      else bind_outcome (check_internal_token_exposure st) (\<lambda>_.
        let build = (\<lambda>rl. if truthy (auth_redis_url st) then Redis_Window rl else Fixed_Window rl (fresh rl))
        in if \<not> truthy (auth_redis_url st) \<and> auth_rate_limit_enabled st \<and>
              auth_require_distributed_rate_limit st \<and> environment st = Production
           then Raises RuntimeError
           else Returns
             \<lparr>sv_db = db, sv_cache = cache, sv_rate_limiter = build DEFAULT_LIMIT,
              sv_login_limiter = build (login_limit st), sv_reset_limiter = build (reset_limit st),
              sv_verify_limiter = build (verify_limit st), sv_redis = redis\<rparr>))"

definition verify_user_password :: "hasher \<Rightarrow> string \<Rightarrow> uuid \<Rightarrow> string \<Rightarrow> database \<Rightarrow> bool outcome" where
  "verify_user_password ph dummy_hash user_id password db =
     (case get_credential_for_user user_id ''argon2'' db of
        None \<Rightarrow> bind_outcome (verify_password ph dummy_hash password) (\<lambda>_. Returns False)
      | Some credential \<Rightarrow> verify_password ph (cr_hash credential) password)"

definition limiter_check ::
  "('tok, 'c, 'p, 'r) auth_env \<Rightarrow> datetime \<Rightarrow> uuid \<Rightarrow> string \<Rightarrow> 'c limiter \<times> 'r \<Rightarrow>
   (unit, auth_error) result \<times> 'c limiter \<times> 'r" where
  "limiter_check en now new_id key s =
     (case s of
        (Fixed_Window rl c, redis) \<Rightarrow>
          (case fixed_window_check (en_attempts en rl) rl now key c of (r, c1) \<Rightarrow> (r, Fixed_Window rl c1, redis))
      | (Redis_Window rl, redis) \<Rightarrow>
          (case redis_check (en_redis en) rl (now div 1000) key new_id redis of (r, redis1) \<Rightarrow>
            (r, Redis_Window rl, redis1)))"

definition on_db :: "(database, 'a) action \<Rightarrow> (('c, 'p, 'r) auth_server, 'a) action" where
  "on_db m s = (case m (sv_db s) of (r, db) \<Rightarrow> (r, s\<lparr>sv_db := db\<rparr>))"

definition on_db_cache :: "(database \<times> 'p, 'a) action \<Rightarrow> (('c, 'p, 'r) auth_server, 'a) action" where
  "on_db_cache m s = (case m (sv_db s, sv_cache s) of (r, db, c) \<Rightarrow> (r, s\<lparr>sv_db := db, sv_cache := c\<rparr>))"


subsection \<open>Schemas\<close>

definition MIN_PASSWORD_LENGTH_FOR_RELAXED_RULE :: nat where
  "MIN_PASSWORD_LENGTH_FOR_RELAXED_RULE = 20"

definition MIN_PASSWORD_CLASS_COUNT :: nat where
  "MIN_PASSWORD_CLASS_COUNT = 3"

definition validate_password_complexity :: "string \<Rightarrow> bool" where
  "validate_password_complexity value =
     (MIN_PASSWORD_LENGTH_FOR_RELAXED_RULE \<le> length value \<or>
      MIN_PASSWORD_CLASS_COUNT \<le> length (filter id
        [list_ex is_upper value, list_ex is_lower value, list_ex is_digit value,
         list_ex (\<lambda>ch. \<not> is_alnum ch \<and> \<not> is_space ch) value]))"

definition length_between :: "nat \<Rightarrow> nat \<Rightarrow> string \<Rightarrow> bool" where
  "length_between lo hi s = (lo \<le> length s \<and> length s \<le> hi)"

definition validation_problem :: http_problem where
  "validation_problem = \<lparr>hp_status = 422, hp_code = None, hp_type = VALIDATION_FAILED, hp_headers = []\<rparr>"

definition register_request :: "string \<Rightarrow> string \<Rightarrow> ('s, string \<times> string) http_action" where
  "register_request email password =
     (if length_between 3 254 email \<and> CHR ''@'' \<in> set (normalize_email email) \<and>
         length_between 12 256 password \<and> validate_password_complexity password
      then reply (normalize_email email, password) else refuse validation_problem)"

definition login_request :: "string \<Rightarrow> string \<Rightarrow> ('s, string \<times> string) http_action" where
  "login_request email password =
     (if length_between 3 254 email \<and> length_between 1 256 password
      then reply (normalize_email email, password) else refuse validation_problem)"

definition password_forgot_request :: "string \<Rightarrow> ('s, string) http_action" where
  "password_forgot_request email =
     (if length_between 3 254 email then reply (normalize_email email) else refuse validation_problem)"

definition password_reset_request :: "string \<Rightarrow> string \<Rightarrow> ('s, string \<times> string) http_action" where
  "password_reset_request token new_password =
     (if length_between 32 512 token \<and> length_between 12 256 new_password \<and>
         validate_password_complexity new_password
      then reply (token, new_password) else refuse validation_problem)"

definition email_verify_request :: "string \<Rightarrow> ('s, string) http_action" where
  "email_verify_request token =
     (if length_between 32 512 token then reply token else refuse validation_problem)"

record user_public =
  up_id :: uuid
  up_email :: string
  up_is_active :: bool
  up_is_verified :: bool
  up_authz_version :: int
  up_created_at :: datetime
  up_updated_at :: datetime
  up_last_login_at :: "datetime option"

definition user_public_of :: "user_row \<Rightarrow> user_public" where
  "user_public_of u =
     \<lparr>up_id = u_id u, up_email = u_email u, up_is_active = u_is_active u, up_is_verified = u_is_verified u,
      up_authz_version = u_authz_version u, up_created_at = u_created_at u, up_updated_at = u_updated_at u,
      up_last_login_at = u_last_login_at u\<rparr>"

record principal_public =
  pp_id :: uuid
  pp_email :: string
  pp_is_active :: bool
  pp_is_verified :: bool

definition principal_response :: "principal \<Rightarrow> principal_public" where
  "principal_response p =
     \<lparr>pp_id = p_user_id p, pp_email = p_email p, pp_is_active = p_is_active p, pp_is_verified = p_is_verified p\<rparr>"

record 'tok token_response =
  tr_access_token :: 'tok
  tr_token_type :: string
  tr_expires_in :: int
  tr_user :: principal_public

record set_cookie =
  ck_key :: string
  ck_value :: string
  ck_max_age :: int
  ck_path :: string
  ck_secure :: bool
  ck_httponly :: bool
  ck_samesite :: string

record 'a http_response =
  re_body :: 'a
  re_cookie :: "set_cookie option"


subsection \<open>Errors\<close>

fun http_from_auth_error :: "auth_error \<Rightarrow> http_problem" where
  "http_from_auth_error DuplicateEmailError = application_http_exception 409 ''duplicate_email'' GENERIC_CONFLICT []"
| "http_from_auth_error InvalidCredentialsError =
     application_http_exception 401 ''invalid_credentials'' AUTH_INVALID_CREDENTIALS []"
| "http_from_auth_error StaleTokenError = application_http_exception 401 ''stale_token'' AUTH_TOKEN_STALE []"
| "http_from_auth_error InvalidTokenError = application_http_exception 401 ''invalid_token'' AUTH_TOKEN_INVALID []"
| "http_from_auth_error InactiveUserError =
     application_http_exception 403 ''inactive_user'' AUTHZ_PERMISSION_DENIED []"
| "http_from_auth_error EmailNotVerifiedError =
     application_http_exception 403 ''email_not_verified'' AUTH_EMAIL_NOT_VERIFIED []"
| "http_from_auth_error PermissionDeniedError =
     application_http_exception 403 ''permission_denied'' AUTHZ_PERMISSION_DENIED []"
| "http_from_auth_error NotFoundError = application_http_exception 404 ''not_found'' GENERIC_NOT_FOUND []"
| "http_from_auth_error TokenAlreadyUsedError =
     application_http_exception 400 ''token_already_used'' AUTH_TOKEN_INVALID []"
| "http_from_auth_error ConflictError = application_http_exception 409 ''conflict'' GENERIC_CONFLICT []"
| "http_from_auth_error (RateLimitExceededError n) =
     application_http_exception 429 ''rate_limit_exceeded'' AUTH_RATE_LIMITED [(''Retry-After'', str_int n)]"
| "http_from_auth_error AuthConfigurationError =
     application_http_exception 503 ''auth_not_configured'' ABOUT_BLANK []"

definition raise_http_from_auth_error :: "auth_error \<Rightarrow> ('s, 'a) http_action" where
  "raise_http_from_auth_error exc = refuse (http_from_auth_error exc)"

definition match_result ::
  "('s, ('a, auth_error) result) action \<Rightarrow> ('a \<Rightarrow> ('s, 'b) http_action) \<Rightarrow> ('s, 'b) http_action" where
  "match_result m f = andthen m (\<lambda>r. case r of Ok x \<Rightarrow> f x | Err e \<Rightarrow> raise_http_from_auth_error e)"


subsection \<open>The refresh cookie and its origin\<close>

definition REFRESH_COOKIE_NAME :: string where
  "REFRESH_COOKIE_NAME = ''refresh_token''"

definition set_refresh_cookie :: "app_settings \<Rightarrow> 'tok issued_tokens \<Rightarrow> set_cookie" where
  "set_refresh_cookie st tokens =
     \<lparr>ck_key = REFRESH_COOKIE_NAME, ck_value = refresh_token tokens,
      ck_max_age = auth_refresh_token_expire_days st * 24 * 60 * 60, ck_path = ''/auth'',
      ck_secure = auth_cookie_secure st, ck_httponly = True, ck_samesite = auth_cookie_samesite st\<rparr>"

definition clear_refresh_cookie :: "app_settings \<Rightarrow> set_cookie" where
  "clear_refresh_cookie st =
     \<lparr>ck_key = REFRESH_COOKIE_NAME, ck_value = [], ck_max_age = 0, ck_path = ''/auth'',
      ck_secure = auth_cookie_secure st, ck_httponly = False, ck_samesite = auth_cookie_samesite st\<rparr>"

definition referer_origin :: "(string \<Rightarrow> bool) \<Rightarrow> string \<Rightarrow> string option outcome" where
  "referer_origin bracketed_ok referer =
     (case urlsplit bracketed_ok referer of
        Raises e \<Rightarrow> Returns None
      | Returns parts \<Rightarrow>
          (case split_hostname parts of
             None \<Rightarrow> Returns None
           | Some host \<Rightarrow>
               if su_scheme parts = [] then Returns None
               else bind_outcome (split_port parts) (\<lambda>port.
                 Returns (Some (su_scheme parts @ ''://'' @ host @
                   (case port of None \<Rightarrow> [] | Some n \<Rightarrow> '':'' @ str_nat n))))))"

definition enforce_cookie_origin ::
  "('tok, 'c, 'p, 'r) auth_env \<Rightarrow> 'tok http_request \<Rightarrow> ('s, unit) http_action" where
  "enforce_cookie_origin en req s =
     (let trusted = cors_origins (en_settings en);
          wildcard = trusted = [''*''] \<or> ''*'' \<in> set trusted
      in case get_header req ''origin'' of
           Some origin \<Rightarrow>
             if wildcard \<or> origin \<in> set trusted then reply () s else refuse (http_exception 403 []) s
         | None \<Rightarrow>
             (case get_header req ''referer'' of
                Some referer \<Rightarrow>
                  (case referer_origin (en_bracketed_ok en) referer of
                     Raises e \<Rightarrow> (Raises e, s)
                   | Returns None \<Rightarrow> refuse (http_exception 403 []) s
                   | Returns (Some o1) \<Rightarrow>
                       if wildcard \<or> o1 \<in> set trusted then reply () s else refuse (http_exception 403 []) s)
              | None \<Rightarrow>
                  if dict_has (hr_cookies req) REFRESH_COOKIE_NAME
                  then refuse (http_exception 403 []) s else reply () s))"


subsection \<open>Rate limits\<close>

definition client_ip :: "'tok http_request \<Rightarrow> string option" where
  "client_ip req = hr_client req"

definition user_agent :: "'tok http_request \<Rightarrow> string option" where
  "user_agent req = get_header req ''user-agent''"

definition account_key :: "string \<Rightarrow> string option \<Rightarrow> string" where
  "account_key act identifier =
     ''per_account:'' @ act @ '':'' @ (if truthy identifier then the identifier else ''unknown'')"

definition ip_key :: "'tok http_request \<Rightarrow> string \<Rightarrow> string" where
  "ip_key req key = hr_path req @ '':'' @ (case client_ip req of None \<Rightarrow> ''None'' | Some ip \<Rightarrow> ip) @ '':'' @ key"

definition check_rate_limit ::
  "('tok, 'c, 'p, 'r) auth_env \<Rightarrow> draws \<Rightarrow> 'tok http_request \<Rightarrow> string \<Rightarrow>
   (('c, 'p, 'r) auth_server, unit) http_action" where
  "check_rate_limit en dr req key s =
     (if \<not> auth_rate_limit_enabled (en_settings en) then reply () s
      else (case limiter_check en (dr_now dr 0) (dr_limit_ids dr 0) (ip_key req key) (sv_rate_limiter s, sv_redis s) of
              (r, limiter1, redis) \<Rightarrow>
                (case r of Ok _ \<Rightarrow> reply () | Err exc \<Rightarrow> raise_http_from_auth_error exc)
                  (s\<lparr>sv_rate_limiter := limiter1, sv_redis := redis\<rparr>)))"

definition check_per_account_rate_limit ::
  "('tok, 'c, 'p, 'r) auth_env \<Rightarrow> draws \<Rightarrow> string \<Rightarrow> string option \<Rightarrow>
   (('c, 'p, 'r) auth_server, unit) http_action" where
  "check_per_account_rate_limit en dr act identifier s =
     (if \<not> auth_rate_limit_enabled (en_settings en) then reply () s
      else if act \<notin> {''login'', ''reset'', ''verify''} then (Raises ValueError, s)
      else (let limiter = (if act = ''login'' then sv_login_limiter s else if act = ''reset'' then sv_reset_limiter s
                           else sv_verify_limiter s)
            in case limiter_check en (dr_now dr 1) (dr_limit_ids dr 1) (account_key act identifier) (limiter, sv_redis s) of
                 (r, limiter1, redis) \<Rightarrow>
                   (case r of Ok _ \<Rightarrow> reply () | Err exc \<Rightarrow> raise_http_from_auth_error exc)
                     (if act = ''login'' then s\<lparr>sv_login_limiter := limiter1, sv_redis := redis\<rparr>
                      else if act = ''reset'' then s\<lparr>sv_reset_limiter := limiter1, sv_redis := redis\<rparr>
                      else s\<lparr>sv_verify_limiter := limiter1, sv_redis := redis\<rparr>)))"

end
