(* ===== verification/File_Storage.thy ===== *)
theory File_Storage
  imports Crypto Result Settings "HOL-Library.Sublist"
begin

text \<open>
  File storage (\<open>src/features/file_storage\<close>): the port, its two adapters, and the
  settings and container that choose between them.

  The local adapter works on a file system: the object files and the sidecar files
  (names ending in \<open>.meta.json\<close>, holding a JSON document) under the storage root,
  and the paths on which the operating system reports an error. A sidecar is kept
  as the JSON object it encodes, and the order of the list is the order in which a
  scan meets the files. The S3 adapter works through the client of the package
  \<open>boto3\<close>, which is a parameter.
\<close>

type_synonym bytes = "8 word list"

datatype storage_error = ObjectNotFoundError string | StorageBackendError string


subsection \<open>The local adapter\<close>

record filesystem =
  fs_objects :: "(string, bytes) dict"
  fs_sidecars :: "(string, json_object) dict"
  fs_broken :: "string \<Rightarrow> bool"

definition METADATA_SUFFIX :: string where
  "METADATA_SUFFIX = ''.meta.json''"

definition object_dir :: "string \<Rightarrow> string \<Rightarrow> string" where
  "object_dir base_dir key =
     (let digest = hexdigest (sha256 (utf8_encode key))
      in base_dir @ ''/'' @ take 2 digest @ ''/'' @ take 2 (drop 2 digest))"

definition object_path :: "string \<Rightarrow> string \<Rightarrow> string" where
  "object_path base_dir key = object_dir base_dir key @ ''/'' @ hexdigest (sha256 (utf8_encode key))"

definition metadata_path :: "string \<Rightarrow> string \<Rightarrow> string" where
  "metadata_path base_dir key = object_path base_dir key @ METADATA_SUFFIX"

definition os_error :: string where
  "os_error = ''OSError''"

definition local_put ::
  "string \<Rightarrow> string \<Rightarrow> bytes \<Rightarrow> string \<Rightarrow> filesystem \<Rightarrow> (unit, storage_error) result \<times> filesystem" where
  "local_put base_dir key content content_type fs =
     (if fs_broken fs (object_dir base_dir key) \<or> fs_broken fs (object_path base_dir key)
      then (Err (StorageBackendError os_error), fs)
      else (let fs1 = fs\<lparr>fs_objects := dict_set (fs_objects fs) (object_path base_dir key) content\<rparr>
            in if fs_broken fs (metadata_path base_dir key) then (Err (StorageBackendError os_error), fs1)
               else (Ok (), fs1\<lparr>fs_sidecars := dict_set (fs_sidecars fs1) (metadata_path base_dir key)
                      [(''key'', JStr key), (''content_type'', JStr content_type)]\<rparr>)))"

definition local_get :: "string \<Rightarrow> string \<Rightarrow> filesystem \<Rightarrow> (bytes, storage_error) result" where
  "local_get base_dir key fs =
     (case dict_get (fs_objects fs) (object_path base_dir key) of
        None \<Rightarrow> Err (ObjectNotFoundError key)
      | Some content \<Rightarrow>
          if fs_broken fs (object_path base_dir key) then Err (StorageBackendError os_error) else Ok content)"

definition local_delete :: "string \<Rightarrow> string \<Rightarrow> filesystem \<Rightarrow> (unit, storage_error) result \<times> filesystem" where
  "local_delete base_dir key fs =
     (if fs_broken fs (object_path base_dir key) then (Err (StorageBackendError os_error), fs)
      else (let fs1 = fs\<lparr>fs_objects := dict_pop (fs_objects fs) (object_path base_dir key)\<rparr>
            in if fs_broken fs (metadata_path base_dir key) then (Err (StorageBackendError os_error), fs1)
               else (Ok (), fs1\<lparr>fs_sidecars := dict_pop (fs_sidecars fs1) (metadata_path base_dir key)\<rparr>)))"

definition listed_key :: "filesystem \<Rightarrow> string \<Rightarrow> string \<times> json_object \<Rightarrow> string option" where
  "listed_key fs pre entry =
     (if fs_broken fs (fst entry) then None
      else (case dict_get (snd entry) ''key'' of
              Some (JStr key) \<Rightarrow> if prefix pre key then Some key else None
            | _ \<Rightarrow> None))"

definition local_list :: "string \<Rightarrow> filesystem \<Rightarrow> (string list, storage_error) result" where
  "local_list pre fs = Ok (List.map_filter (listed_key fs pre) (fs_sidecars fs))"

definition local_signed_url ::
  "(string \<Rightarrow> string) \<Rightarrow> string \<Rightarrow> string \<Rightarrow> int \<Rightarrow> filesystem \<Rightarrow> (string, storage_error) result" where
  "local_signed_url file_uri base_dir key expires_in fs =
     (if expires_in \<le> 0 then Err (StorageBackendError ''expires_in must be positive'')
      else if dict_has (fs_objects fs) (object_path base_dir key) then Ok (file_uri (object_path base_dir key))
      else Err (ObjectNotFoundError key))"

definition local_reset :: "filesystem \<Rightarrow> filesystem" where
  "local_reset fs = fs\<lparr>fs_objects := [], fs_sidecars := []\<rparr>"


subsection \<open>The S3 adapter\<close>

datatype 'a boto = Answer 'a | Client_Error "string option" string nat | Core_Error string

record 's s3_client =
  put_object :: "string \<Rightarrow> string \<Rightarrow> bytes \<Rightarrow> string \<Rightarrow> 's \<Rightarrow> unit boto \<times> 's"
  get_object :: "string \<Rightarrow> string \<Rightarrow> 's \<Rightarrow> bytes boto"
  head_object :: "string \<Rightarrow> string \<Rightarrow> 's \<Rightarrow> unit boto"
  delete_object :: "string \<Rightarrow> string \<Rightarrow> 's \<Rightarrow> unit boto \<times> 's"
  list_objects_v2 :: "string \<Rightarrow> string \<Rightarrow> 's \<Rightarrow> string list list boto"
  generate_presigned_url :: "string \<Rightarrow> string \<Rightarrow> int \<Rightarrow> 's \<Rightarrow> string boto"

definition S3_PRESIGNED_URL_MAX_SECONDS :: int where
  "S3_PRESIGNED_URL_MAX_SECONDS = 604800"

definition NOT_FOUND_CODES :: "string list" where
  "NOT_FOUND_CODES = [''NoSuchKey'', ''404'', ''NotFound'']"

definition is_not_found :: "string option \<Rightarrow> nat \<Rightarrow> bool" where
  "is_not_found code status = ((case code of None \<Rightarrow> False | Some c \<Rightarrow> c \<in> set NOT_FOUND_CODES) \<or> status = 404)"

definition format_client_error :: "string option \<Rightarrow> string \<Rightarrow> string" where
  "format_client_error code message = (case code of None \<Rightarrow> ''Unknown'' | Some c \<Rightarrow> c) @ '': '' @ message"

fun from_boto :: "'a boto \<Rightarrow> ('a, storage_error) result" where
  "from_boto (Answer x) = Ok x"
| "from_boto (Client_Error code message status) = Err (StorageBackendError (format_client_error code message))"
| "from_boto (Core_Error message) = Err (StorageBackendError message)"

fun from_boto_key :: "string \<Rightarrow> 'a boto \<Rightarrow> ('a, storage_error) result" where
  "from_boto_key key (Client_Error code message status) =
     (if is_not_found code status then Err (ObjectNotFoundError key)
      else Err (StorageBackendError (format_client_error code message)))"
| "from_boto_key key r = from_boto r"

definition s3_put ::
  "'s s3_client \<Rightarrow> string \<Rightarrow> string \<Rightarrow> bytes \<Rightarrow> string \<Rightarrow> 's \<Rightarrow> (unit, storage_error) result \<times> 's" where
  "s3_put client bucket key content content_type s =
     (case put_object client bucket key content content_type s of (r, s1) \<Rightarrow> (from_boto r, s1))"

definition s3_get :: "'s s3_client \<Rightarrow> string \<Rightarrow> string \<Rightarrow> 's \<Rightarrow> (bytes, storage_error) result" where
  "s3_get client bucket key s = from_boto_key key (get_object client bucket key s)"

definition s3_delete :: "'s s3_client \<Rightarrow> string \<Rightarrow> string \<Rightarrow> 's \<Rightarrow> (unit, storage_error) result \<times> 's" where
  "s3_delete client bucket key s =
     (case delete_object client bucket key s of (r, s1) \<Rightarrow> (from_boto r, s1))"

definition s3_list :: "'s s3_client \<Rightarrow> string \<Rightarrow> string \<Rightarrow> 's \<Rightarrow> (string list, storage_error) result" where
  "s3_list client bucket pre s = result_map (from_boto (list_objects_v2 client bucket pre s)) concat"

definition s3_signed_url :: "'s s3_client \<Rightarrow> string \<Rightarrow> string \<Rightarrow> int \<Rightarrow> 's \<Rightarrow> (string, storage_error) result" where
  "s3_signed_url client bucket key expires_in s =
     (if S3_PRESIGNED_URL_MAX_SECONDS < expires_in
      then Err (StorageBackendError ''expires_in exceeds S3 maximum of 604800 seconds'')
      else (case from_boto_key key (head_object client bucket key s) of
              Err e \<Rightarrow> Err e
            | Ok _ \<Rightarrow> from_boto (generate_presigned_url client bucket key expires_in s)))"


subsection \<open>Settings and container\<close>

record storage_settings =
  ss_enabled :: bool
  ss_backend :: string
  ss_local_path :: "string option"
  ss_s3_bucket :: "string option"
  ss_s3_region :: string

definition storage_settings_of :: "app_settings \<Rightarrow> storage_settings outcome" where
  "storage_settings_of app =
     (if storage_backend app \<notin> {''local'', ''s3''} then Raises ValueError
      else Returns
        \<lparr>ss_enabled = storage_enabled app, ss_backend = storage_backend app, ss_local_path = storage_local_path app,
         ss_s3_bucket = storage_s3_bucket app,
         ss_s3_region = (if storage_s3_region app = [] then ''us-east-1'' else storage_s3_region app)\<rparr>)"

definition storage_validate :: "storage_settings \<Rightarrow> string list" where
  "storage_validate st =
     (if ss_enabled st
      then (if ss_backend st = ''local'' \<and> \<not> truthy (ss_local_path st)
            then [''APP_STORAGE_BACKEND=local requires APP_STORAGE_LOCAL_PATH''] else []) @
           (if ss_backend st = ''s3'' \<and> \<not> truthy (ss_s3_bucket st)
            then [''APP_STORAGE_BACKEND=s3 requires APP_STORAGE_S3_BUCKET''] else [])
      else [])"

definition storage_validate_production :: "storage_settings \<Rightarrow> string list" where
  "storage_validate_production st =
     (if ss_enabled st \<and> ss_backend st = ''local''
      then [''APP_STORAGE_BACKEND must not be 'local' in production when APP_STORAGE_ENABLED=true; configure 's3' and set APP_STORAGE_S3_BUCKET'']
      else [])"

datatype storage_port = Local_Storage string | S3_Storage string string

text \<open>\<open>mkdir_ok\<close>: the root directory can be made; \<open>boto3\<close>: the package is installed.\<close>

definition build_file_storage_container :: "(string \<Rightarrow> bool) \<Rightarrow> bool \<Rightarrow> storage_settings \<Rightarrow> storage_port outcome" where
  "build_file_storage_container mkdir_ok boto3 st =
     (if ss_backend st = ''local''
      then (case ss_local_path st of
              Some path \<Rightarrow> if path \<noteq> [] \<and> mkdir_ok path then Returns (Local_Storage path) else Raises RuntimeError
            | None \<Rightarrow> Raises RuntimeError)
      else if ss_backend st = ''s3''
      then (case ss_s3_bucket st of
              Some bucket \<Rightarrow> if bucket \<noteq> [] \<and> boto3 then Returns (S3_Storage bucket (ss_s3_region st)) else Raises RuntimeError
            | None \<Rightarrow> Raises RuntimeError)
      else Raises RuntimeError)"

end
