(* ===== verification/User_Data.thy ===== *)
theory User_Data
  imports File_Storage Account_Lifecycle Email Http
begin

text \<open>
  What the users feature does with stored files: the cleanup of a user's blobs
  (\<open>src/features/users/adapters/outbound/file_storage_user_assets/adapter.py\<close>), the
  data export (\<open>use_cases/export_user_data.py\<close>, with the audit reader of the
  authentication feature) and the job handlers (\<open>composition/jobs.py\<close>). The storage
  port is a record of operations on the state of the backend. An error that the
  program wraps with its text is wrapped itself. The JSON encoder and the ISO
  format of a time are arguments.
\<close>

record 's storage_ops =
  so_put :: "string \<Rightarrow> bytes \<Rightarrow> string \<Rightarrow> 's \<Rightarrow> (unit, storage_error) result \<times> 's"
  so_get :: "string \<Rightarrow> 's \<Rightarrow> (bytes, storage_error) result"
  so_delete :: "string \<Rightarrow> 's \<Rightarrow> (unit, storage_error) result \<times> 's"
  so_list :: "string \<Rightarrow> 's \<Rightarrow> (string list, storage_error) result"
  so_signed_url :: "string \<Rightarrow> int \<Rightarrow> 's \<Rightarrow> (string, storage_error) result"

definition local_ops :: "(string \<Rightarrow> string) \<Rightarrow> string \<Rightarrow> filesystem storage_ops" where
  "local_ops file_uri base_dir =
     \<lparr>so_put = local_put base_dir, so_get = local_get base_dir, so_delete = local_delete base_dir,
      so_list = local_list, so_signed_url = local_signed_url file_uri base_dir\<rparr>"

definition s3_ops :: "'s s3_client \<Rightarrow> string \<Rightarrow> 's storage_ops" where
  "s3_ops client bucket =
     \<lparr>so_put = s3_put client bucket, so_get = s3_get client bucket, so_delete = s3_delete client bucket,
      so_list = s3_list client bucket, so_signed_url = s3_signed_url client bucket\<rparr>"


subsection \<open>Cleanup\<close>

datatype assets_cleanup_error = AssetsCleanupBackendError storage_error

definition user_prefix :: "uuid \<Rightarrow> string" where
  "user_prefix user_id = ''users/'' @ str_uuid user_id @ ''/''"

fun delete_keys :: "'s storage_ops \<Rightarrow> string list \<Rightarrow> 's \<Rightarrow> (unit, storage_error) result \<times> 's" where
  "delete_keys ops [] s = (Ok (), s)"
| "delete_keys ops (key # keys) s =
     (case so_delete ops key s of
        (Err e, s1) \<Rightarrow> (Err e, s1)
      | (Ok _, s1) \<Rightarrow> delete_keys ops keys s1)"

definition delete_user_assets ::
  "'s storage_ops \<Rightarrow> uuid \<Rightarrow> 's \<Rightarrow> (unit, assets_cleanup_error) result \<times> 's" where
  "delete_user_assets ops user_id s =
     (case so_list ops (user_prefix user_id) s of
        Err e \<Rightarrow> (Err (AssetsCleanupBackendError e), s)
      | Ok keys \<Rightarrow>
          if keys = [] then (Ok (), s)
          else (case delete_keys ops keys s of
                  (Err e, s1) \<Rightarrow> (Err (AssetsCleanupBackendError e), s1)
                | (Ok _, s1) \<Rightarrow> (Ok (), s1)))"


subsection \<open>Export\<close>

definition EXPORT_URL_TTL_SECONDS :: int where
  "EXPORT_URL_TTL_SECONDS = 900"

definition DEFAULT_EXPORT_LIMIT :: nat where
  "DEFAULT_EXPORT_LIMIT = 500"

datatype export_error = Export_User_Error user_error | StorageWriteFailed storage_error | SignedUrlFailed storage_error

record export_contract =
  ec_download_url :: string
  ec_expires_at :: datetime

definition json_opt :: "('a \<Rightarrow> json) \<Rightarrow> 'a option \<Rightarrow> json" where
  "json_opt f v = (case v of None \<Rightarrow> JNull | Some x \<Rightarrow> f x)"

definition audit_to_jsonable :: "(datetime \<Rightarrow> string) \<Rightarrow> audit_event_row \<Rightarrow> json" where
  "audit_to_jsonable isoformat e = JObj
     [(''id'', JStr (str_uuid (ae_id e))), (''user_id'', json_opt (\<lambda>u. JStr (str_uuid u)) (ae_user_id e)),
      (''event_type'', JStr (ae_event_type e)), (''ip_address'', json_opt JStr (ae_ip_address e)),
      (''user_agent'', json_opt JStr (ae_user_agent e)), (''metadata'', JObj (ae_metadata e)),
      (''created_at'', JStr (isoformat (ae_created_at e)))]"

definition list_for_user :: "(datetime \<Rightarrow> string) \<Rightarrow> uuid \<Rightarrow> database \<Rightarrow> json list" where
  "list_for_user isoformat user_id db =
     map (audit_to_jsonable isoformat) (list_audit_events (Some user_id) None None None DEFAULT_EXPORT_LIMIT db)"

definition list_user_files :: "'s storage_ops \<Rightarrow> uuid \<Rightarrow> 's \<Rightarrow> json list" where
  "list_user_files ops user_id s =
     (case so_list ops (''users/'' @ str_uuid user_id @ ''/'') s of
        Err e \<Rightarrow> []
      | Ok keys \<Rightarrow> map (\<lambda>k. JObj [(''key'', JStr k)]) keys)"

definition build_export_payload ::
  "(datetime \<Rightarrow> string) \<Rightarrow> datetime \<Rightarrow> user_row \<Rightarrow> json list \<Rightarrow> json list \<Rightarrow> json" where
  "build_export_payload isoformat now user events files = JObj
     [(''user'', JObj
        [(''id'', JStr (str_uuid (u_id user))), (''email'', JStr (u_email user)),
         (''is_active'', JBool (u_is_active user)), (''is_verified'', JBool (u_is_verified user)),
         (''created_at'', JStr (isoformat (u_created_at user))), (''updated_at'', JStr (isoformat (u_updated_at user))),
         (''last_login_at'', json_opt (\<lambda>t. JStr (isoformat t)) (u_last_login_at user))]),
      (''profile'', JObj [(''email'', JStr (u_email user))]),
      (''audit_events'', JList events), (''files'', JList files), (''exported_at'', JStr (isoformat now))]"

definition export_key :: "uuid \<Rightarrow> uuid \<Rightarrow> string" where
  "export_key user_id new_id = ''exports/'' @ str_uuid user_id @ ''/'' @ str_uuid new_id @ ''.json''"

definition export_user_data ::
  "(datetime \<Rightarrow> string) \<Rightarrow> (json \<Rightarrow> bytes) \<Rightarrow> 's storage_ops \<Rightarrow> (nat \<Rightarrow> datetime) \<Rightarrow> uuid \<Rightarrow> uuid \<Rightarrow> database \<Rightarrow> 's \<Rightarrow>
   (export_contract, export_error) result \<times> 's" where
  "export_user_data isoformat dumps ops clk new_id user_id db s =
     (case get_raw_by_id user_id db of
        None \<Rightarrow> (Err (Export_User_Error UserNotFoundError), s)
      | Some existing \<Rightarrow>
          (let blob = build_export_payload isoformat (clk 0) existing (list_for_user isoformat user_id db) (list_user_files ops user_id s);
               key = export_key user_id new_id
           in case so_put ops key (dumps blob) ''application/json'' s of
                (Err e, s1) \<Rightarrow> (Err (StorageWriteFailed e), s1)
              | (Ok _, s1) \<Rightarrow>
                  (case so_signed_url ops key EXPORT_URL_TTL_SECONDS s1 of
                     Err e \<Rightarrow> (Err (SignedUrlFailed e), s1)
                   | Ok url \<Rightarrow>
                       (Ok \<lparr>ec_download_url = url, ec_expires_at = clk 1 + seconds EXPORT_URL_TTL_SECONDS\<rparr>, s1))))"


subsection \<open>Job handlers\<close>

definition ERASE_USER_JOB :: string where
  "ERASE_USER_JOB = ''erase_user''"

definition payload_uuid :: "json \<Rightarrow> uuid option" where
  "payload_uuid v = (case v of JStr t \<Rightarrow> UUID t | JInt i \<Rightarrow> UUID (str_int i) | _ \<Rightarrow> None)"

text \<open>The dedup preamble that both handlers open with.\<close>

definition deduped ::
  "(string \<Rightarrow> database \<Rightarrow> bool \<times> database) option \<Rightarrow> (database \<times> 's) job_handler \<Rightarrow> (database \<times> 's) job_handler" where
  "deduped dedupe body payload s =
     (case (dedupe, dict_get payload OUTBOX_MESSAGE_ID_KEY) of
        (Some d, Some (JStr message_id)) \<Rightarrow>
          (case d message_id (fst s) of
             (False, db1) \<Rightarrow> (Returns (), (db1, snd s))
           | (True, db1) \<Rightarrow> body payload (db1, snd s))
      | _ \<Rightarrow> body payload s)"

definition delete_user_assets_body :: "'s storage_ops \<Rightarrow> (database \<times> 's) job_handler" where
  "delete_user_assets_body ops payload s =
     (case dict_get payload ''user_id'' of
        None \<Rightarrow> (Raises KeyError, s)
      | Some raw \<Rightarrow>
          (case payload_uuid raw of
             None \<Rightarrow> (Raises RuntimeError, s)
           | Some user_id \<Rightarrow>
               (case delete_user_assets ops user_id (snd s) of
                  (Err e, st) \<Rightarrow> (Raises RuntimeError, (fst s, st))
                | (Ok _, st) \<Rightarrow> (Returns (), (fst s, st)))))"

definition delete_user_assets_handler ::
  "(string \<Rightarrow> database \<Rightarrow> bool \<times> database) option \<Rightarrow> 's storage_ops \<Rightarrow> (database \<times> 's) job_handler" where
  "delete_user_assets_handler dedupe ops = deduped dedupe (delete_user_assets_body ops)"

definition erase_user_run ::
  "(nat \<Rightarrow> datetime) \<Rightarrow> (nat \<Rightarrow> uuid) \<Rightarrow> json_object \<Rightarrow> uuid \<Rightarrow> string \<Rightarrow> (database \<times> 's, unit) action" where
  "erase_user_run clk ids carrier user_id reason s =
     (case erase_user clk ids carrier user_id reason (fst s) of
        (Raises e, db1) \<Rightarrow> (Raises e, (db1, snd s))
      | (Returns (Err e), db1) \<Rightarrow> (Raises RuntimeError, (db1, snd s))
      | (Returns (Ok _), db1) \<Rightarrow> (Returns (), (db1, snd s)))"

definition erase_user_body ::
  "(nat \<Rightarrow> datetime) \<Rightarrow> (nat \<Rightarrow> uuid) \<Rightarrow> json_object \<Rightarrow> (database \<times> 's) job_handler" where
  "erase_user_body clk ids carrier payload s =
     (case dict_get payload ''user_id'' of
        None \<Rightarrow> (Raises KeyError, s)
      | Some raw \<Rightarrow>
          (case payload_uuid raw of
             None \<Rightarrow> (Raises RuntimeError, s)
           | Some user_id \<Rightarrow>
               (case dict_get payload ''reason'' of
                  None \<Rightarrow> erase_user_run clk ids carrier user_id ''self_request'' s
                | Some (JStr reason) \<Rightarrow>
                    if reason \<in> {''self_request'', ''admin_request''}
                    then erase_user_run clk ids carrier user_id reason s else (Raises RuntimeError, s)
                | Some _ \<Rightarrow> (Raises RuntimeError, s))))"

definition erase_user_handler ::
  "(string \<Rightarrow> database \<Rightarrow> bool \<times> database) option \<Rightarrow> (nat \<Rightarrow> datetime) \<Rightarrow> (nat \<Rightarrow> uuid) \<Rightarrow> json_object \<Rightarrow>
   (database \<times> 's) job_handler" where
  "erase_user_handler dedupe clk ids carrier = deduped dedupe (erase_user_body clk ids carrier)"

definition register_delete_user_assets_handler ::
  "(string \<Rightarrow> database \<Rightarrow> bool \<times> database) option \<Rightarrow> 's storage_ops \<Rightarrow>
   (database \<times> 's) job_handler_registry \<Rightarrow> (database \<times> 's) job_handler_registry outcome" where
  "register_delete_user_assets_handler dedupe ops =
     register_handler DELETE_USER_ASSETS_JOB (delete_user_assets_handler dedupe ops) None"

definition register_erase_user_handler ::
  "(string \<Rightarrow> database \<Rightarrow> bool \<times> database) option \<Rightarrow> (nat \<Rightarrow> datetime) \<Rightarrow> (nat \<Rightarrow> uuid) \<Rightarrow> json_object \<Rightarrow>
   (database \<times> 's) job_handler_registry \<Rightarrow> (database \<times> 's) job_handler_registry outcome" where
  "register_erase_user_handler dedupe clk ids carrier =
     register_handler ERASE_USER_JOB (erase_user_handler dedupe clk ids carrier) None"

end
