(* ===== verification/User_Routes.thy ===== *)
theory User_Routes
  imports Auth_Http User_Data Jobs Outbox_Relay Pagination
begin

text \<open>
  The HTTP routes of the users feature
  (\<open>src/features/users/adapters/inbound/http/me.py\<close>, \<open>admin.py\<close>, with \<open>errors.py\<close> and
  \<open>schemas.py\<close>). The state is the database and whatever else the queue, the storage
  and the principal cache keep. The container's optional collaborators are options;
  a cursor is in its decoded form, \<open>None\<close> inside \<open>Some\<close> standing for a malformed one.
\<close>

subsection \<open>Schemas and errors\<close>

record user_view =
  uv_id :: uuid
  uv_email :: string
  uv_is_active :: bool
  uv_is_verified :: bool
  uv_created_at :: datetime
  uv_updated_at :: datetime

record user_admin_view = user_view +
  uv_authz_version :: int

definition user_public_self :: "user_row \<Rightarrow> user_view" where
  "user_public_self u =
     \<lparr>uv_id = u_id u, uv_email = u_email u, uv_is_active = u_is_active u, uv_is_verified = u_is_verified u,
      uv_created_at = u_created_at u, uv_updated_at = u_updated_at u\<rparr>"

definition user_public_admin :: "user_row \<Rightarrow> user_admin_view" where
  "user_public_admin u =
     \<lparr>uv_id = u_id u, uv_email = u_email u, uv_is_active = u_is_active u, uv_is_verified = u_is_verified u,
      uv_created_at = u_created_at u, uv_updated_at = u_updated_at u, uv_authz_version = u_authz_version u\<rparr>"

record erasure_accepted =
  ea_status :: string
  ea_job_id :: string
  ea_estimated_completion_seconds :: int
  ea_location :: string

record user_list_page =
  ul_items :: "user_admin_view list"
  ul_count :: nat
  ul_limit :: int
  ul_next_cursor :: "(datetime \<times> uuid) option"

fun http_from_user_error :: "export_error \<Rightarrow> http_problem" where
  "http_from_user_error (Export_User_Error UserNotFoundError) =
     application_http_exception 404 ''user_not_found'' GENERIC_NOT_FOUND []"
| "http_from_user_error (Export_User_Error UserAlreadyExistsError) =
     application_http_exception 409 ''user_already_exists'' GENERIC_CONFLICT []"
| "http_from_user_error e = application_http_exception 400 ''user_error'' ABOUT_BLANK []"

definition raise_http_from_user_error :: "export_error \<Rightarrow> ('s, 'a) http_action" where
  "raise_http_from_user_error e = refuse (http_from_user_error e)"

definition match_user_result ::
  "('s, ('a, user_error) result) action \<Rightarrow> ('a \<Rightarrow> ('s, 'b) http_action) \<Rightarrow> ('s, 'b) http_action" where
  "match_user_result m f =
     andthen m (\<lambda>r. case r of Ok x \<Rightarrow> f x | Err e \<Rightarrow> raise_http_from_user_error (Export_User_Error e))"


subsection \<open>The container and a request's draws\<close>

record ('tok, 's) users_env =
  ue_settings :: app_settings
  ue_resolver :: "('tok \<Rightarrow> (database \<times> 's, (principal, auth_error) result) action) option"
  ue_authorization :: "(uuid \<Rightarrow> string \<Rightarrow> string \<Rightarrow> string \<Rightarrow> database \<times> 's \<Rightarrow> bool outcome) option"
  ue_revoke :: "(uuid \<Rightarrow> database \<Rightarrow> database) option"
  ue_outbox_uow :: bool
  ue_password_verifier :: "(uuid \<Rightarrow> string \<Rightarrow> database \<Rightarrow> bool outcome) option"
  ue_job_queue :: "'s job_queue option"
  ue_export_user_data :: "(uuid \<Rightarrow> (database \<times> 's, (export_contract, export_error) result) action) option"

record user_draws =
  ud_clk :: "nat \<Rightarrow> datetime"
  ud_new_id :: uuid
  ud_carrier :: json_object

definition on_database :: "(database \<Rightarrow> 'a \<times> database) \<Rightarrow> (database \<times> 's, 'a) action" where
  "on_database f s = (case f (fst s) of (r, db) \<Rightarrow> (Returns r, (db, snd s)))"

definition ERASE_ESTIMATED_COMPLETION_SECONDS :: int where
  "ERASE_ESTIMATED_COMPLETION_SECONDS = 60"


subsection \<open>Routes under /me\<close>

definition route_get_me ::
  "('tok, 's) users_env \<Rightarrow> 'tok http_request \<Rightarrow> (database \<times> 's, user_view http_response) http_action" where
  "route_get_me en req =
     http_bind (platform_current_principal (ue_resolver en) req) (\<lambda>p.
       match_user_result (on_database (\<lambda>db. (get_user_by_id (p_user_id p) db, db))) (\<lambda>user.
         reply \<lparr>re_body = user_public_self user, re_cookie = None\<rparr>))"

definition route_patch_me ::
  "('tok, 's) users_env \<Rightarrow> user_draws \<Rightarrow> 'tok http_request \<Rightarrow> string option \<Rightarrow>
   (database \<times> 's, user_view http_response) http_action" where
  "route_patch_me en dr req email =
     http_bind (platform_current_principal (ue_resolver en) req) (\<lambda>p.
       match_user_result (on_database (update_profile (ud_clk dr 0) (p_user_id p) email)) (\<lambda>user.
         reply \<lparr>re_body = user_public_self user, re_cookie = None\<rparr>))"

definition route_delete_me ::
  "('tok, 's) users_env \<Rightarrow> user_draws \<Rightarrow> 'tok http_request \<Rightarrow> (database \<times> 's, unit http_response) http_action" where
  "route_delete_me en dr req =
     http_bind (platform_current_principal (ue_resolver en) req) (\<lambda>p.
       match_user_result
         (\<lambda>s. case deactivate_user (ue_revoke en) (ue_outbox_uow en) (ud_clk dr) (ud_new_id dr) (ud_carrier dr) (p_user_id p) (fst s) of
                (r, db) \<Rightarrow> (r, (db, snd s)))
         (\<lambda>_. reply \<lparr>re_body = (), re_cookie = Some (clear_refresh_cookie (ue_settings en))\<rparr>))"

definition erase_payload :: "uuid \<Rightarrow> string \<Rightarrow> string \<Rightarrow> json_object \<Rightarrow> json_object" where
  "erase_payload user_id reason job_id carrier =
     [(''user_id'', JStr (str_uuid user_id)), (''reason'', JStr reason), (''job_id'', JStr job_id)] @
     (if carrier \<noteq> [] then [(''__trace'', JObj carrier)] else [])"

definition enqueue_erasure ::
  "'s job_queue \<Rightarrow> user_draws \<Rightarrow> uuid \<Rightarrow> string \<Rightarrow> string \<Rightarrow> (database \<times> 's, erasure_accepted http_response) http_action" where
  "enqueue_erasure queue dr user_id reason location_prefix =
     (let job_id = str_uuid (ud_new_id dr)
      in andthen (queue ''erase_user'' (erase_payload user_id reason job_id (ud_carrier dr))) (\<lambda>_.
           reply \<lparr>re_body = \<lparr>ea_status = ''accepted'', ea_job_id = job_id,
                    ea_estimated_completion_seconds = ERASE_ESTIMATED_COMPLETION_SECONDS, ea_location = location_prefix @ job_id\<rparr>,
                  re_cookie = None\<rparr>))"

definition erasure_unwired :: http_problem where
  "erasure_unwired = application_http_exception 503 ''erasure_pipeline_unwired'' ABOUT_BLANK []"

definition route_erase_me ::
  "('tok, 's) users_env \<Rightarrow> user_draws \<Rightarrow> 'tok http_request \<Rightarrow> string \<Rightarrow>
   (database \<times> 's, erasure_accepted http_response) http_action" where
  "route_erase_me en dr req password =
     http_bind (platform_current_principal (ue_resolver en) req) (\<lambda>p.
       case (ue_password_verifier en, ue_job_queue en) of
         (Some verify, Some queue) \<Rightarrow>
           andthen (\<lambda>s. (verify (p_user_id p) password (fst s), s)) (\<lambda>ok.
             if \<not> ok then refuse (application_http_exception 401 ''invalid_credentials'' AUTH_INVALID_CREDENTIALS [])
             else enqueue_erasure queue dr (p_user_id p) ''self_request'' ''/me/erase/status/'')
       | _ \<Rightarrow> refuse erasure_unwired)"

definition export_unwired :: http_problem where
  "export_unwired = application_http_exception 503 ''export_pipeline_unwired'' ABOUT_BLANK []"

definition reply_export ::
  "('tok, 's) users_env \<Rightarrow> uuid \<Rightarrow> (database \<times> 's, export_contract http_response) http_action" where
  "reply_export en user_id =
     (case ue_export_user_data en of
        None \<Rightarrow> refuse export_unwired
      | Some export \<Rightarrow>
          andthen (export user_id) (\<lambda>r.
            case r of Ok contract \<Rightarrow> reply \<lparr>re_body = contract, re_cookie = None\<rparr> | Err e \<Rightarrow> raise_http_from_user_error e))"

definition route_export_me ::
  "('tok, 's) users_env \<Rightarrow> 'tok http_request \<Rightarrow> (database \<times> 's, export_contract http_response) http_action" where
  "route_export_me en req =
     http_bind (platform_current_principal (ue_resolver en) req) (\<lambda>p. reply_export en (p_user_id p))"


subsection \<open>Routes under /admin\<close>

definition require_manage_users ::
  "('tok, 's) users_env \<Rightarrow> 'tok http_request \<Rightarrow> (database \<times> 's, principal) http_action" where
  "require_manage_users en req =
     require_authorization (ue_authorization en) ''manage_users'' ''system'' None (ue_resolver en) req"

definition route_admin_list_users ::
  "('tok, 's) users_env \<Rightarrow> 'tok http_request \<Rightarrow> (datetime \<times> uuid) option option \<Rightarrow> int \<Rightarrow>
   (database \<times> 's, user_list_page http_response) http_action" where
  "route_admin_list_users en req cursor limit =
     http_bind (require_manage_users en req) (\<lambda>p.
       if \<not> (1 \<le> limit \<and> limit \<le> 500) then refuse validation_problem
       else if cursor = Some None then refuse (application_http_exception 400 ''invalid_cursor'' ABOUT_BLANK [])
       else (\<lambda>s. let page = admin_list_users (Option.bind cursor id) limit (fst s)
         in reply \<lparr>re_body = \<lparr>ul_items = map user_public_admin (lp_items page), ul_count = length (lp_items page),
                     ul_limit = limit, ul_next_cursor = lp_next page\<rparr>, re_cookie = None\<rparr> s))"

definition route_admin_erase_user ::
  "('tok, 's) users_env \<Rightarrow> user_draws \<Rightarrow> 'tok http_request \<Rightarrow> uuid \<Rightarrow>
   (database \<times> 's, erasure_accepted http_response) http_action" where
  "route_admin_erase_user en dr req user_id =
     http_bind (require_manage_users en req) (\<lambda>p.
       case ue_job_queue en of
         None \<Rightarrow> refuse erasure_unwired
       | Some queue \<Rightarrow> enqueue_erasure queue dr user_id ''admin_request''
           (''/admin/users/'' @ str_uuid user_id @ ''/erase/status/''))"

definition route_admin_export_user ::
  "('tok, 's) users_env \<Rightarrow> 'tok http_request \<Rightarrow> uuid \<Rightarrow> (database \<times> 's, export_contract http_response) http_action" where
  "route_admin_export_user en req user_id =
     http_bind (require_manage_users en req) (\<lambda>p. reply_export en user_id)"

end
