(* ===== verification/Cursor_Codec.thy ===== *)
theory Cursor_Codec
  imports Middleware User_Routes
begin

text \<open>
  The cursor tokens of the two admin listings
  (\<open>src/features/users/adapters/inbound/http/cursor.py\<close> and
  \<open>src/features/authentication/adapters/inbound/http/cursor.py\<close>, which are the same
  code). Base64 is that of \<open>binascii\<close>, with its lenient decoder; bytes are
  characters. Of the rest of the standard library, parsing a JSON text and the ISO
  format of datetimes are parameters: \<open>cursor_laws\<close> says that each inverts its
  printer, as documented. Parsing may raise \<open>JSONDecodeError\<close> or \<open>UnicodeDecodeError\<close>,
  which the program catches, or another exception (an integer of too many digits, too
  deep a nesting), which it does not.
\<close>

subsection \<open>Base64\<close>

definition b64_alphabet :: string where
  "b64_alphabet = ''ABCDEFGHIJKLMNOPQRSTUVWXYZabcdefghijklmnopqrstuvwxyz0123456789+/''"

definition b64_char :: "nat \<Rightarrow> char" where
  "b64_char n = b64_alphabet ! n"

definition b64_val :: "char \<Rightarrow> nat option" where
  "b64_val c = map_of (zip b64_alphabet [0..<64]) c"

fun b2a_base64 :: "nat list \<Rightarrow> string" where
  "b2a_base64 [] = []"
| "b2a_base64 [a] = [b64_char (a div 4), b64_char (a mod 4 * 16), CHR ''='', CHR ''='']"
| "b2a_base64 [a, b] = [b64_char (a div 4), b64_char (a mod 4 * 16 + b div 16), b64_char (b mod 16 * 4), CHR ''='']"
| "b2a_base64 (a # b # c # rest) =
     b64_char (a div 4) # b64_char (a mod 4 * 16 + b div 16) # b64_char (b mod 16 * 4 + c div 64) # b64_char (c mod 64) #
     b2a_base64 rest"

text \<open>
  The decoder's loop: \<open>quad\<close> is the position in the group of four, \<open>leftchar\<close> the bits
  left over, \<open>pads\<close> the padding seen since the last data character. A character
  outside the alphabet is skipped; enough padding ends the input.
\<close>

fun a2b_loop :: "nat \<Rightarrow> nat \<Rightarrow> nat \<Rightarrow> string \<Rightarrow> nat list option" where
  "a2b_loop quad leftchar pads [] = (if quad = 0 then Some [] else None)"
| "a2b_loop quad leftchar pads (ch # rest) =
     (if ch = CHR ''='' then
        (if 2 \<le> quad \<and> 4 \<le> quad + (pads + 1) then Some []
         else a2b_loop quad leftchar (if 2 \<le> quad then pads + 1 else pads) rest)
      else case b64_val ch of
             None \<Rightarrow> a2b_loop quad leftchar pads rest
           | Some v \<Rightarrow>
               if quad = 0 then a2b_loop 1 v 0 rest
               else if quad = 1 then map_option ((#) (leftchar * 4 + v div 16)) (a2b_loop 2 (v mod 16) 0 rest)
               else if quad = 2 then map_option ((#) (leftchar * 16 + v div 4)) (a2b_loop 3 (v mod 4) 0 rest)
               else map_option ((#) (leftchar * 64 + v)) (a2b_loop 0 0 0 rest))"

definition a2b_base64 :: "string \<Rightarrow> nat list option" where
  "a2b_base64 = a2b_loop 0 0 0"

definition urlsafe_b64encode :: "string \<Rightarrow> string" where
  "urlsafe_b64encode s =
     map (\<lambda>c. if c = CHR ''+'' then CHR ''-'' else if c = CHR ''/'' then CHR ''_'' else c) (b2a_base64 (map of_char s))"

definition urlsafe_b64decode :: "string \<Rightarrow> string option" where
  "urlsafe_b64decode s =
     map_option (map char_of)
       (a2b_base64 (map (\<lambda>c. if c = CHR ''-'' then CHR ''+'' else if c = CHR ''_'' then CHR ''/'' else c) s))"


subsection \<open>The tokens\<close>

record cursor_lib =
  cl_loads :: "string \<Rightarrow> json outcome"
  cl_isoformat :: "datetime \<Rightarrow> string"
  cl_fromisoformat :: "string \<Rightarrow> py_datetime option"

definition cursor_payload :: "string \<Rightarrow> string \<Rightarrow> string" where
  "cursor_payload created_at i = json_dumps_flat [(''created_at'', Inl created_at), (''id'', Inl i)]"

definition encode_cursor :: "cursor_lib \<Rightarrow> datetime \<Rightarrow> uuid \<Rightarrow> string" where
  "encode_cursor lib created_at user_id = urlsafe_b64encode (cursor_payload (cl_isoformat lib created_at) (str_uuid user_id))"

definition caught_by_decode :: "exn \<Rightarrow> bool" where
  "caught_by_decode e \<longleftrightarrow> e = OtherException ''JSONDecodeError'' \<or> e = OtherException ''UnicodeDecodeError''"

text \<open>\<open>Err ()\<close> is \<open>InvalidCursorError\<close>.\<close>

definition decode_cursor :: "cursor_lib \<Rightarrow> string \<Rightarrow> (py_datetime \<times> uuid, unit) result outcome" where
  "decode_cursor lib token =
     (if token = [] then Returns (Err ())
      else if list_ex (\<lambda>c. 128 \<le> (of_char c :: nat)) token then Returns (Err ())
      else case urlsafe_b64decode token of
             None \<Rightarrow> Returns (Err ())
           | Some raw \<Rightarrow>
               (case cl_loads lib raw of
                  Raises e \<Rightarrow> if caught_by_decode e then Returns (Err ()) else Raises e
                | Returns (JObj payload) \<Rightarrow>
                    (case (dict_get payload ''created_at'', dict_get payload ''id'') of
                       (Some (JStr created_raw), Some (JStr id_raw)) \<Rightarrow>
                         (case cl_fromisoformat lib created_raw of
                            None \<Rightarrow> Returns (Err ())
                          | Some created_at \<Rightarrow>
                              (case UUID id_raw of None \<Rightarrow> Returns (Err ()) | Some user_id \<Rightarrow> Returns (Ok (created_at, user_id))))
                     | _ \<Rightarrow> Returns (Err ()))
                | Returns _ \<Rightarrow> Returns (Err ())))"

definition cursor_laws :: "cursor_lib \<Rightarrow> bool" where
  "cursor_laws lib \<longleftrightarrow>
     (\<forall>t i. cl_loads lib (cursor_payload (cl_isoformat lib t) (str_uuid i)) =
        Returns (JObj [(''created_at'', JStr (cl_isoformat lib t)), (''id'', JStr (str_uuid i))])) \<and>
     (\<forall>t. cl_fromisoformat lib (cl_isoformat lib t) = Some (Aware t))"


subsection \<open>Decoding inverts encoding\<close>

lemma b64_val_char: "n < 64 \<Longrightarrow> b64_val (b64_char n) = Some n"
proof -
  have "list_all (\<lambda>n. b64_val (b64_char n) = Some n) [0..<64]"
    by code_simp
  then show "n < 64 \<Longrightarrow> b64_val (b64_char n) = Some n"
    by (simp add: list_all_iff)
qed

lemma b64_char_plain: "n < 64 \<Longrightarrow> b64_char n \<noteq> CHR ''='' \<and> b64_char n \<noteq> CHR ''-'' \<and> b64_char n \<noteq> CHR ''_'' \<and> of_char (b64_char n) < (128 :: nat)"
proof -
  have "list_all (\<lambda>n. b64_char n \<noteq> CHR ''='' \<and> b64_char n \<noteq> CHR ''-'' \<and> b64_char n \<noteq> CHR ''_'' \<and> of_char (b64_char n) < (128 :: nat)) [0..<64]"
    by code_simp
  then show "n < 64 \<Longrightarrow> b64_char n \<noteq> CHR ''='' \<and> b64_char n \<noteq> CHR ''-'' \<and> b64_char n \<noteq> CHR ''_'' \<and> of_char (b64_char n) < (128 :: nat)"
    by (simp add: list_all_iff)
qed

lemma a2b_data:
  assumes "n < 64"
  shows "a2b_loop quad l p (b64_char n # rest) =
    (if quad = 0 then a2b_loop 1 n 0 rest
     else if quad = 1 then map_option ((#) (l * 4 + n div 16)) (a2b_loop 2 (n mod 16) 0 rest)
     else if quad = 2 then map_option ((#) (l * 16 + n div 4)) (a2b_loop 3 (n mod 4) 0 rest)
     else map_option ((#) (l * 64 + n)) (a2b_loop 0 0 0 rest))"
  using b64_val_char [OF assms] b64_char_plain [OF assms] by simp

lemma a2b_pad:
  "a2b_loop quad l p (CHR ''='' # rest) =
     (if 2 \<le> quad \<and> 4 \<le> quad + (p + 1) then Some [] else a2b_loop quad l (if 2 \<le> quad then p + 1 else p) rest)"
  by simp

declare a2b_loop.simps(2) [simp del]

lemma base64_groups:
  fixes a b c :: nat
  assumes "a < 256" "b < 256" "c < 256"
  shows "a div 4 < 64" "a mod 4 * 16 + b div 16 < 64" "a mod 4 * 16 < 64" "b mod 16 * 4 + c div 64 < 64" "b mod 16 * 4 < 64"
    "a div 4 * 4 + (a mod 4 * 16 + b div 16) div 16 = a" "(a mod 4 * 16 + b div 16) mod 16 * 16 + (b mod 16 * 4 + c div 64) div 4 = b"
    "(a mod 4 * 16 + b div 16) mod 16 * 16 + b mod 16 = b" "(b mod 16 * 4 + c div 64) mod 4 * 64 + c mod 64 = c"
proof -
  have small: "b div 16 < 16" "c div 64 < 4" "a mod 4 < 4" "b mod 16 < 16"
    using assms by (simp_all add: less_mult_imp_div_less)
  show "a div 4 < 64"
    using assms(1) by (simp add: less_mult_imp_div_less)
  show "a mod 4 * 16 + b div 16 < 64" "a mod 4 * 16 < 64" "b mod 16 * 4 + c div 64 < 64" "b mod 16 * 4 < 64"
    using small by linarith+
  have parts: "(a mod 4 * 16 + b div 16) div 16 = a mod 4" "(a mod 4 * 16 + b div 16) mod 16 = b div 16"
      "(b mod 16 * 4 + c div 64) div 4 = b mod 16" "(b mod 16 * 4 + c div 64) mod 4 = c div 64"
    using small by simp_all
  show "a div 4 * 4 + (a mod 4 * 16 + b div 16) div 16 = a" "(a mod 4 * 16 + b div 16) mod 16 * 16 + (b mod 16 * 4 + c div 64) div 4 = b"
      "(a mod 4 * 16 + b div 16) mod 16 * 16 + b mod 16 = b" "(b mod 16 * 4 + c div 64) mod 4 * 64 + c mod 64 = c"
    by (simp_all only: parts div_mult_mod_eq)
qed

lemma base64_round_trip: "list_all (\<lambda>n. n < 256) xs \<Longrightarrow> a2b_loop 0 l 0 (b2a_base64 xs) = Some xs"
proof (induction xs arbitrary: l rule: b2a_base64.induct)
  case (2 a)
  then show ?case
    using base64_groups [of a 0 0] by (simp add: a2b_data a2b_pad)
next
  case (3 a b)
  then show ?case
    using base64_groups [of a b 0] by (simp add: a2b_data a2b_pad)
next
  case (4 a b c rest)
  then show ?case
    using base64_groups [of a b c] by (simp add: a2b_data a2b_pad)
qed simp

text \<open>What the encoder prints: characters of the alphabet and padding.\<close>

lemma b2a_base64_chars:
  "list_all (\<lambda>n. n < 256) xs \<Longrightarrow> c \<in> set (b2a_base64 xs) \<Longrightarrow> c = CHR ''='' \<or> (\<exists>n < 64. c = b64_char n)"
proof (induction xs rule: b2a_base64.induct)
  case (2 a)
  then have "a < 256"
    by simp
  then have "a div 4 < 64" "a mod 4 * 16 < 64"
    using base64_groups(1,3) [of a 0 0] by linarith+
  then show ?case
    using 2(2) unfolding b2a_base64.simps list.set by blast
next
  case (3 a b)
  then have "a < 256" "b < 256"
    by simp_all
  then have "a div 4 < 64" "a mod 4 * 16 + b div 16 < 64" "b mod 16 * 4 < 64"
    using base64_groups(1,2,5) [of a b 0] by linarith+
  then show ?case
    using 3(2) unfolding b2a_base64.simps list.set by blast
next
  case (4 a b c' rest)
  then have small: "a < 256" "b < 256" "c' < 256" "list_all (\<lambda>n. n < 256) rest"
    by simp_all
  have "c' mod 64 < 64"
    by simp
  then show ?case
    using base64_groups(1,2,4) [OF small(1-3)] 4(1) [OF small(4)] 4(3) unfolding b2a_base64.simps list.set by blast
qed simp

definition url_safe :: "char \<Rightarrow> bool" where
  "url_safe c \<longleftrightarrow> c \<in> set ''ABCDEFGHIJKLMNOPQRSTUVWXYZabcdefghijklmnopqrstuvwxyz0123456789-_=''"

lemma b64_char_url_safe:
  "n < 64 \<Longrightarrow> b64_char n \<in> {CHR ''+'', CHR ''/''} \<or> url_safe (b64_char n)"
proof -
  have "list_all (\<lambda>n. b64_char n \<in> {CHR ''+'', CHR ''/''} \<or> url_safe (b64_char n)) [0..<64]"
    by code_simp
  then show "n < 64 \<Longrightarrow> b64_char n \<in> {CHR ''+'', CHR ''/''} \<or> url_safe (b64_char n)"
    by (simp add: list_all_iff)
qed

lemma urlsafe_chars: "list_all url_safe (urlsafe_b64encode s)"
proof -
  have "list_all (\<lambda>n. n < 256) (map of_char s :: nat list)"
    by (simp add: list_all_iff)
  then show ?thesis
    using b2a_base64_chars [of "map of_char s"] b64_char_url_safe
    by (fastforce simp: urlsafe_b64encode_def list_all_iff url_safe_def)
qed

lemma urlsafe_round_trip: "urlsafe_b64decode (urlsafe_b64encode s) = Some s"
proof -
  let ?b = "b2a_base64 (map of_char s)"
  have bytes: "list_all (\<lambda>n. n < 256) (map of_char s :: nat list)"
    by (simp add: list_all_iff)
  have "c \<noteq> CHR ''-'' \<and> c \<noteq> CHR ''_''" if "c \<in> set ?b" for c
    using b2a_base64_chars [OF bytes that] b64_char_plain by auto
  then have "map (\<lambda>c. if c = CHR ''-'' then CHR ''+'' else if c = CHR ''_'' then CHR ''/'' else c)
      (map (\<lambda>c. if c = CHR ''+'' then CHR ''-'' else if c = CHR ''/'' then CHR ''_'' else c) ?b) = ?b"
    by (auto simp: map_idI)
  then show ?thesis
    using base64_round_trip [OF bytes] by (simp add: urlsafe_b64encode_def urlsafe_b64decode_def a2b_base64_def comp_def)
qed

lemma url_safe_ascii: "url_safe c \<Longrightarrow> of_char c < (128 :: nat)"
  by (auto simp: url_safe_def)

lemma cursor_payload_nonempty: "urlsafe_b64encode (cursor_payload a b) \<noteq> []"
  using urlsafe_round_trip [of "cursor_payload a b"]
  by (auto simp: urlsafe_b64decode_def a2b_base64_def cursor_payload_def json_dumps_flat_def)

text \<open>
  C26. The cursor of a page is what the next request is served with: decoding inverts
  encoding, and a token consists of characters that need no quoting in a URL. A token
  of another origin is either decoded or refused as an invalid cursor, except that an
  exception of the JSON parser other than a decode error escapes.
\<close>

theorem cursor_codec:
  assumes "cursor_laws lib"
  shows "decode_cursor lib (encode_cursor lib t i) = Returns (Ok (Aware t, i)) \<and>
    list_all url_safe (encode_cursor lib t i) \<and>
    ((\<exists>r. decode_cursor lib token = Returns r) \<longleftrightarrow>
      \<not> (\<exists>raw e. token \<noteq> [] \<and> (\<forall>c\<in>set token. of_char c < (128 :: nat)) \<and> urlsafe_b64decode token = Some raw \<and>
           cl_loads lib raw = Raises e \<and> \<not> caught_by_decode e))"
proof (intro conjI)
  have safe: "list_all url_safe (encode_cursor lib t i)"
    by (simp add: encode_cursor_def urlsafe_chars)
  then have "\<not> list_ex (\<lambda>c. 128 \<le> (of_char c :: nat)) (encode_cursor lib t i)"
    using url_safe_ascii by (fastforce simp: list_ex_iff list_all_iff)
  then show "decode_cursor lib (encode_cursor lib t i) = Returns (Ok (Aware t, i))"
    using assms
    by (simp add: decode_cursor_def encode_cursor_def cursor_payload_nonempty urlsafe_round_trip cursor_laws_def dict_get_def)
  show "list_all url_safe (encode_cursor lib t i)"
    by (rule safe)
  have ascii: "list_ex (\<lambda>c. 128 \<le> (of_char c :: nat)) token \<longleftrightarrow> \<not> (\<forall>c\<in>set token. of_char c < (128 :: nat))"
    by (auto simp: list_ex_iff not_less)
  show "(\<exists>r. decode_cursor lib token = Returns r) \<longleftrightarrow>
      \<not> (\<exists>raw e. token \<noteq> [] \<and> (\<forall>c\<in>set token. of_char c < (128 :: nat)) \<and> urlsafe_b64decode token = Some raw \<and>
           cl_loads lib raw = Raises e \<and> \<not> caught_by_decode e)"
    unfolding decode_cursor_def ascii
    by (cases "urlsafe_b64decode token"; cases "cl_loads lib (the (urlsafe_b64decode token))")
      (auto split: json.split option.split)
qed

text \<open>A library with these laws: datetimes in unary, and a parser of the payloads alone.\<close>

definition plain :: "char \<Rightarrow> bool" where
  "plain c \<longleftrightarrow> json_escape c = [c] \<and> c \<noteq> CHR 0x22"

lemma json_quote_plain: "list_all plain s \<Longrightarrow> json_quote s = CHR 0x22 # s @ [CHR 0x22]"
  by (induction s) (auto simp: json_quote_def plain_def)

lemma hex_fixed_plain: "list_all plain (hex_fixed w n)"
proof -
  have digits: "list_all (\<lambda>n. plain (hex_digit n)) [0..<16]"
    by code_simp
  show ?thesis
    using digits by (induction w arbitrary: n) (auto simp: list_all_iff)
qed

lemma str_uuid_plain: "list_all plain (str_uuid u)"
proof -
  have dash: "plain (CHR ''-'')"
    by code_simp
  have "c \<in> set (hex_fixed 32 (unat u)) \<or> c = CHR ''-''" if "c \<in> set (str_uuid u)" for c
    using that by (auto simp: str_uuid_def Let_def dest: in_set_takeD in_set_dropD)
  then show ?thesis
    using hex_fixed_plain [of 32 "unat u"] dash by (fastforce simp: list_all_iff)
qed

definition unary :: "datetime \<Rightarrow> string" where
  "unary t = (if t < 0 then CHR ''-'' # replicate (nat (- t)) (CHR ''x'') else replicate (nat t) (CHR ''x''))"

definition sample_cursor_lib :: cursor_lib where
  "sample_cursor_lib =
     \<lparr>cl_loads = (\<lambda>raw.
        let body = drop 15 raw;
            created = takeWhile (\<lambda>c. c \<noteq> CHR 0x22) body;
            i = takeWhile (\<lambda>c. c \<noteq> CHR 0x22) (drop (length created + 8) body)
        in if take 1 raw = ''9'' then Raises ValueError else Returns (JObj [(''created_at'', JStr created), (''id'', JStr i)])),
      cl_isoformat = unary,
      cl_fromisoformat = (\<lambda>s. Some (Aware (case s of CHR ''-'' # xs \<Rightarrow> - int (length xs) | _ \<Rightarrow> int (length s))))\<rparr>"

lemma takeWhile_plain: "list_all plain s \<Longrightarrow> takeWhile (\<lambda>c. c \<noteq> CHR 0x22) (s @ CHR 0x22 # rest) = s"
  by (induction s) (auto simp: plain_def)

lemma unary_plain: "list_all plain (unary t)"
proof -
  have "plain (CHR ''-'')" "plain (CHR ''x'')"
    by code_simp+
  then show ?thesis
    by (auto simp: unary_def list_all_iff)
qed

lemma sample_cursor_laws: "cursor_laws sample_cursor_lib"
proof -
  have keys: "list_all plain ''created_at''" "list_all plain ''id''"
    by code_simp+
  have payload: "cursor_payload a b = ''{'' @ (CHR 0x22 # ''created_at'' @ [CHR 0x22]) @ '':'' @ (CHR 0x22 # a @ [CHR 0x22]) @ '','' @
      (CHR 0x22 # ''id'' @ [CHR 0x22]) @ '':'' @ (CHR 0x22 # b @ [CHR 0x22]) @ ''}''"
    if "list_all plain a" "list_all plain b" for a b
    by (simp add: cursor_payload_def json_dumps_flat_def json_quote_plain [OF keys(1)] json_quote_plain [OF keys(2)]
        json_quote_plain [OF that(1)] json_quote_plain [OF that(2)])
  have loads: "cl_loads sample_cursor_lib (cursor_payload a b) = Returns (JObj [(''created_at'', JStr a), (''id'', JStr b)])"
    if "list_all plain a" "list_all plain b" for a b
    using takeWhile_plain [OF that(1)] takeWhile_plain [OF that(2)]
    by (simp add: sample_cursor_lib_def payload [OF that] Let_def)
  have "cl_fromisoformat sample_cursor_lib (unary t) = Some (Aware t)" for t
    by (cases "t < 0"; cases "nat t") (auto simp: sample_cursor_lib_def unary_def split: list.split)
  then show ?thesis
    using loads [OF unary_plain str_uuid_plain] by (simp add: cursor_laws_def) (simp add: sample_cursor_lib_def)
qed

theorem cursor_codec_witness:
  "decode_cursor sample_cursor_lib (encode_cursor sample_cursor_lib 30 7) = Returns (Ok (Aware 30, 7)) \<and>
   (\<exists>r. decode_cursor sample_cursor_lib ''!'' = Returns r) \<and> \<not> (\<exists>r. decode_cursor sample_cursor_lib ''OQ=='' = Returns r)"
proof -
  have "urlsafe_b64decode ''!'' = Some []" "urlsafe_b64decode ''OQ=='' = Some ''9''" "of_char (CHR ''!'') < (128 :: nat)"
      "list_all (\<lambda>c. of_char c < (128 :: nat)) ''OQ==''" "\<not> caught_by_decode ValueError"
    by code_simp+
  moreover have "cl_loads sample_cursor_lib ''9'' = Raises ValueError" "\<exists>v. cl_loads sample_cursor_lib [] = Returns v"
    by (simp_all add: sample_cursor_lib_def Let_def)
  ultimately show ?thesis
    using cursor_codec [OF sample_cursor_laws, of 30 7 "''!''"] cursor_codec [OF sample_cursor_laws, of 30 7 "''OQ==''"]
    by (auto simp: list_all_iff)
qed

end
