(* ===== verification/Auth_Routes.thy ===== *)
theory Auth_Routes
  imports Auth_Http
begin

text \<open>
  The routes of the authentication feature
  (\<open>src/features/authentication/adapters/inbound/http/auth.py\<close> and
  \<open>dependencies.py\<close>), each a handler on the state of the running feature, and the
  dispatch of a request to its route. A body is given as the fields the client
  sent; the schema checks and normalises them first.
\<close>

subsection \<open>The current principal\<close>

definition bearer_exception :: http_problem where
  "bearer_exception = http_exception 401 [(''WWW-Authenticate'', ''Bearer'')]"

definition get_current_principal ::
  "('tok, 'c, 'p, 'r) auth_env \<Rightarrow> draws \<Rightarrow> 'tok http_request \<Rightarrow> (('c, 'p, 'r) auth_server, principal) http_action" where
  "get_current_principal en dr req =
     (case hr_bearer req of
        None \<Rightarrow> refuse bearer_exception
      | Some token \<Rightarrow>
          match_result (\<lambda>s.
            case resolve_principal (en_jwt en) (en_settings en) (en_cache en) (dr_resolve dr) token (sv_db s) (sv_cache s) of
              (r, c) \<Rightarrow> (r, s\<lparr>sv_cache := c\<rparr>)) reply)"

definition require_active_user ::
  "('tok, 'c, 'p, 'r) auth_env \<Rightarrow> draws \<Rightarrow> 'tok http_request \<Rightarrow> (('c, 'p, 'r) auth_server, principal) http_action" where
  "require_active_user en dr req =
     http_bind (get_current_principal en dr req) (\<lambda>p.
       if p_is_active p then reply p else refuse (http_exception 403 []))"


subsection \<open>Routes\<close>

definition token_reply ::
  "app_settings \<Rightarrow> 'tok issued_tokens \<times> principal \<Rightarrow> 'tok token_response http_response" where
  "token_reply st r =
     (case r of (tokens, p) \<Rightarrow>
        \<lparr>re_body = \<lparr>tr_access_token = access_token tokens, tr_token_type = token_type tokens,
           tr_expires_in = expires_in tokens, tr_user = principal_response p\<rparr>,
         re_cookie = Some (set_refresh_cookie st tokens)\<rparr>)"

definition plain :: "'a \<Rightarrow> 'a http_response" where
  "plain x = \<lparr>re_body = x, re_cookie = None\<rparr>"

definition route_register ::
  "('tok, 'c, 'p, 'r) auth_env \<Rightarrow> draws \<Rightarrow> 'tok http_request \<Rightarrow> string \<Rightarrow> string \<Rightarrow>
   (('c, 'p, 'r) auth_server, user_public http_response) http_action" where
  "route_register en dr req email0 password0 =
     http_bind (register_request email0 password0) (\<lambda>(email, password).
     http_bind (check_rate_limit en dr req ''registration'') (\<lambda>_.
     http_bind (check_per_account_rate_limit en dr ''login'' (Some email)) (\<lambda>_.
     match_result (on_db (register_user (en_hasher en) (en_writer en) (dr_clk dr) (dr_ids dr) email password
       (client_ip req) (user_agent req))) (\<lambda>user.
     reply (plain (user_public_of user))))))"

definition route_login ::
  "('tok, 'c, 'p, 'r) auth_env \<Rightarrow> draws \<Rightarrow> 'tok http_request \<Rightarrow> string \<Rightarrow> string \<Rightarrow>
   (('c, 'p, 'r) auth_server, 'tok token_response http_response) http_action" where
  "route_login en dr req email0 password0 =
     http_bind (login_request email0 password0) (\<lambda>(email, password).
     http_bind (check_rate_limit en dr req email) (\<lambda>_.
     http_bind (check_per_account_rate_limit en dr ''login'' (Some email)) (\<lambda>_.
     match_result (on_db (login_user (en_hasher en) (en_jwt en) (en_settings en) (dr_clk dr) (dr_ids dr) (dr_raw dr)
       email password (client_ip req) (user_agent req))) (\<lambda>r.
     reply (token_reply (en_settings en) r)))))"

definition route_refresh ::
  "('tok, 'c, 'p, 'r) auth_env \<Rightarrow> draws \<Rightarrow> 'tok http_request \<Rightarrow>
   (('c, 'p, 'r) auth_server, 'tok token_response http_response) http_action" where
  "route_refresh en dr req =
     http_bind (enforce_cookie_origin en req) (\<lambda>_.
     match_result (on_db (rotate_refresh_token (en_jwt en) (en_settings en) (dr_clk dr) (dr_ids dr) (dr_raw dr)
       (dict_get (hr_cookies req) REFRESH_COOKIE_NAME) (client_ip req) (user_agent req))) (\<lambda>r.
     reply (token_reply (en_settings en) r)))"

definition route_logout ::
  "('tok, 'c, 'p, 'r) auth_env \<Rightarrow> draws \<Rightarrow> 'tok http_request \<Rightarrow>
   (('c, 'p, 'r) auth_server, string http_response) http_action" where
  "route_logout en dr req =
     http_bind (enforce_cookie_origin en req) (\<lambda>_ s.
       reply \<lparr>re_body = ''Logged out'', re_cookie = Some (clear_refresh_cookie (en_settings en))\<rparr>
         (s\<lparr>sv_db := logout_user (dr_clk dr) (dict_get (hr_cookies req) REFRESH_COOKIE_NAME) (sv_db s)\<rparr>))"

definition route_logout_all ::
  "('tok, 'c, 'p, 'r) auth_env \<Rightarrow> draws \<Rightarrow> 'tok http_request \<Rightarrow>
   (('c, 'p, 'r) auth_server, string http_response) http_action" where
  "route_logout_all en dr req =
     http_bind (get_current_principal en dr req) (\<lambda>p.
     andthen (on_db_cache (\<lambda>dc. (Returns (), logout_all_sessions (Some (en_cache en)) (dr_clk dr) (dr_ids dr)
       (p_user_id p) (client_ip req) (user_agent req) dc))) (\<lambda>_.
     reply \<lparr>re_body = ''All sessions revoked'', re_cookie = Some (clear_refresh_cookie (en_settings en))\<rparr>))"

definition route_me ::
  "('tok, 'c, 'p, 'r) auth_env \<Rightarrow> draws \<Rightarrow> 'tok http_request \<Rightarrow>
   (('c, 'p, 'r) auth_server, principal_public http_response) http_action" where
  "route_me en dr req =
     http_bind (get_current_principal en dr req) (\<lambda>p. reply (plain (principal_response p)))"

definition route_forgot_password ::
  "('tok, 'c, 'p, 'r) auth_env \<Rightarrow> draws \<Rightarrow> 'tok http_request \<Rightarrow> string \<Rightarrow>
   (('c, 'p, 'r) auth_server, internal_token_response http_response) http_action" where
  "route_forgot_password en dr req email0 =
     http_bind (password_forgot_request email0) (\<lambda>email.
     http_bind (check_rate_limit en dr req email) (\<lambda>_.
     http_bind (check_per_account_rate_limit en dr ''reset'' (Some email)) (\<lambda>_.
     match_result (on_db (request_password_reset (en_hasher en) (en_settings en) (en_uow en) (dr_carrier dr)
       (dr_clk dr) (dr_ids dr) (dr_raw dr) email (client_ip req))) (\<lambda>r.
     reply (plain (forgot_password_reply r))))))"

definition route_reset_password ::
  "('tok, 'c, 'p, 'r) auth_env \<Rightarrow> draws \<Rightarrow> 'tok http_request \<Rightarrow> string \<Rightarrow> string \<Rightarrow>
   (('c, 'p, 'r) auth_server, string http_response) http_action" where
  "route_reset_password en dr req token0 new_password0 =
     http_bind (password_reset_request token0 new_password0) (\<lambda>(token, new_password).
     http_bind (check_rate_limit en dr req (take 32 (hash_token token))) (\<lambda>_.
     match_result (on_db_cache (confirm_password_reset (en_hasher en) (Some (en_cache en)) (en_writer en)
       (dr_clk dr) (dr_ids dr) token new_password)) (\<lambda>_.
     reply (plain ''Password reset complete''))))"

definition route_request_email_verify ::
  "('tok, 'c, 'p, 'r) auth_env \<Rightarrow> draws \<Rightarrow> 'tok http_request \<Rightarrow>
   (('c, 'p, 'r) auth_server, internal_token_response http_response) http_action" where
  "route_request_email_verify en dr req =
     http_bind (get_current_principal en dr req) (\<lambda>p.
     http_bind (check_rate_limit en dr req (str_uuid (p_user_id p))) (\<lambda>_.
     http_bind (check_per_account_rate_limit en dr ''verify'' (Some (str_uuid (p_user_id p)))) (\<lambda>_.
     match_result (on_db (request_email_verification (en_hasher en) (en_settings en) (en_uow en) (dr_carrier dr)
       (dr_clk dr) (dr_ids dr) (dr_raw dr) (p_user_id p) (client_ip req))) (\<lambda>r.
     reply (plain \<lparr>itr_message = ''Email verification token created'', itr_dev_token = ir_token r,
       itr_expires_at = ir_expires_at r\<rparr>)))))"

definition route_verify_email ::
  "('tok, 'c, 'p, 'r) auth_env \<Rightarrow> draws \<Rightarrow> string \<Rightarrow> (('c, 'p, 'r) auth_server, string http_response) http_action" where
  "route_verify_email en dr token0 =
     http_bind (email_verify_request token0) (\<lambda>token.
     match_result (on_db_cache (confirm_email_verification (Some (en_cache en)) (en_writer en)
       (dr_clk dr) (dr_ids dr) token)) (\<lambda>_.
     reply (plain ''Email verified'')))"


subsection \<open>Dispatch\<close>

datatype auth_call =
    Register string string
  | Login string string
  | Refresh
  | Logout
  | Logout_All
  | Me
  | Forgot_Password string
  | Reset_Password string string
  | Request_Email_Verify
  | Verify_Email string

datatype 'tok auth_reply =
    User_Reply "user_public http_response"
  | Token_Reply "'tok token_response http_response"
  | Principal_Reply "principal_public http_response"
  | Internal_Reply "internal_token_response http_response"
  | Message_Reply "string http_response"

fun call_path :: "auth_call \<Rightarrow> string" where
  "call_path (Register _ _) = ''/auth/register''"
| "call_path (Login _ _) = ''/auth/login''"
| "call_path Refresh = ''/auth/refresh''"
| "call_path Logout = ''/auth/logout''"
| "call_path Logout_All = ''/auth/logout-all''"
| "call_path Me = ''/auth/me''"
| "call_path (Forgot_Password _) = ''/auth/password/forgot''"
| "call_path (Reset_Password _ _) = ''/auth/password/reset''"
| "call_path Request_Email_Verify = ''/auth/email/verify/request''"
| "call_path (Verify_Email _) = ''/auth/email/verify''"

definition wrap :: "('a \<Rightarrow> 'b) \<Rightarrow> ('s, 'a) http_action \<Rightarrow> ('s, 'b) http_action" where
  "wrap f m = http_bind m (\<lambda>x. reply (f x))"

fun dispatch ::
  "('tok, 'c, 'p, 'r) auth_env \<Rightarrow> draws \<Rightarrow> 'tok http_request \<Rightarrow> auth_call \<Rightarrow>
   (('c, 'p, 'r) auth_server, 'tok auth_reply) http_action" where
  "dispatch en dr req (Register email password) = wrap User_Reply (route_register en dr req email password)"
| "dispatch en dr req (Login email password) = wrap Token_Reply (route_login en dr req email password)"
| "dispatch en dr req Refresh = wrap Token_Reply (route_refresh en dr req)"
| "dispatch en dr req Logout = wrap Message_Reply (route_logout en dr req)"
| "dispatch en dr req Logout_All = wrap Message_Reply (route_logout_all en dr req)"
| "dispatch en dr req Me = wrap Principal_Reply (route_me en dr req)"
| "dispatch en dr req (Forgot_Password email) = wrap Internal_Reply (route_forgot_password en dr req email)"
| "dispatch en dr req (Reset_Password token password) = wrap Message_Reply (route_reset_password en dr req token password)"
| "dispatch en dr req Request_Email_Verify = wrap Internal_Reply (route_request_email_verify en dr req)"
| "dispatch en dr req (Verify_Email token) = wrap Message_Reply (route_verify_email en dr token)"

definition serve ::
  "('tok, 'c, 'p, 'r) auth_env \<Rightarrow> draws \<Rightarrow> 'tok http_request \<Rightarrow> auth_call \<Rightarrow>
   (('c, 'p, 'r) auth_server, 'tok auth_reply) http_action" where
  "serve en dr req call = dispatch en dr (req\<lparr>hr_path := call_path call\<rparr>) call"

end
