(* ===== verification/Rate_Limit_Props.thy ===== *)
theory Rate_Limit_Props
  imports Rate_Limits
begin

text \<open>
  Both limiters implement the sliding log: the in-process one with the closed
  window of \<open>window_seconds\<close>, the Redis one with the half-open window of the same
  length, one millisecond shorter. Each is a sublocale of the limiter contract
  over its package, and the contract is interpreted on a concrete package state.
\<close>

subsection \<open>The in-process limiter\<close>

definition attempt_cache_laws ::
  "'c attempt_cache \<Rightarrow> int \<Rightarrow> nat \<Rightarrow> ('c \<Rightarrow> string set) \<Rightarrow> bool" where
  "attempt_cache_laws lib ttl maxsize keys \<longleftrightarrow>
     (\<forall>t now k v c. t \<le> now \<longrightarrow> k \<in> keys c \<or> card (keys c) < maxsize \<longrightarrow>
        ac_get lib now (ac_set lib t k v c) k = (if now < t + ttl then Some v else None)) \<and>
     (\<forall>t now k k' v c. t \<le> now \<longrightarrow> k \<in> keys c \<or> card (keys c) < maxsize \<longrightarrow> k' \<noteq> k \<longrightarrow>
        ac_get lib now (ac_set lib t k v c) k' = ac_get lib now c k') \<and>
     (\<forall>t k v c. keys (ac_set lib t k v c) \<subseteq> insert k (keys c))"

definition attempts_rel ::
  "'c attempt_cache \<Rightarrow> rate_limiter \<Rightarrow> ('c \<Rightarrow> string set) \<Rightarrow> int \<Rightarrow> string set \<Rightarrow> 'c \<Rightarrow> attempt_log \<Rightarrow> bool" where
  "attempts_rel lib rl keys t seen c hist \<longleftrightarrow>
     finite seen \<and> keys c \<subseteq> seen \<and> (\<forall>k. \<forall>ts\<in>set (hist k). ts \<le> t) \<and>
     (\<forall>k now \<theta>. t \<le> now \<longrightarrow> now - seconds (rl_window_seconds rl) \<le> \<theta> \<longrightarrow>
        filter (\<lambda>ts. \<theta> \<le> ts) (attempts_of lib now c k) = filter (\<lambda>ts. \<theta> \<le> ts) (hist k))"

lemma filter_above: "\<theta> \<le> (\<theta>' :: int) \<Longrightarrow> filter (\<lambda>ts. \<theta>' \<le> ts) (filter (\<lambda>ts. \<theta> \<le> ts) xs) = filter (\<lambda>ts. \<theta>' \<le> ts) xs"
  by (auto intro: filter_cong)

locale ttl_attempts =
  fixes lib :: "'c attempt_cache" and rl :: rate_limiter and maxsize :: nat and keys :: "'c \<Rightarrow> string set"
  assumes laws: "attempt_cache_laws lib (attempts_ttl rl) maxsize keys"
begin

lemma get_after_set:
  assumes "t \<le> now" and "k \<in> keys c \<or> card (keys c) < maxsize"
  shows "attempts_of lib now (ac_set lib t k v c) k' =
    (if k' = k then (if now < t + attempts_ttl rl then v else []) else attempts_of lib now c k')"
  using laws assms unfolding attempt_cache_laws_def attempts_of_def by auto

lemma keys_after_set: "keys (ac_set lib t k v c) \<subseteq> insert k (keys c)"
  using laws unfolding attempt_cache_laws_def by blast

lemma roomy:
  assumes "finite seen" and "keys c \<subseteq> seen" and "card (insert k seen) \<le> maxsize"
  shows "k \<in> keys c \<or> card (keys c) < maxsize"
proof (cases "k \<in> keys c")
  case False
  then have "card (keys c) < card (insert k seen)"
    using assms(1,2) by (intro psubset_card_mono) auto
  then show ?thesis
    using assms(3) by simp
qed simp

lemma set_keeps_rel:
  assumes rel: "attempts_rel lib rl keys t seen c hist" and "t \<le> now" and "card (insert key seen) \<le> maxsize"
    and old: "\<forall>ts\<in>set new. ts = now"
    and v: "v = filter (\<lambda>ts. now - seconds (rl_window_seconds rl) \<le> ts) (hist key) @ new"
  shows "attempts_rel lib rl keys now (insert key seen) (ac_set lib now key v c) (hist(key := hist key @ new))"
  unfolding attempts_rel_def
proof (intro conjI allI impI)
  have room: "key \<in> keys c \<or> card (keys c) < maxsize"
    using rel assms(3) roomy unfolding attempts_rel_def by blast
  have past: "ts \<le> now" if "ts \<in> set (hist k)" for k ts
    using rel that assms(2) unfolding attempts_rel_def by fastforce
  show "finite (insert key seen)" "keys (ac_set lib now key v c) \<subseteq> insert key seen"
    using rel keys_after_set unfolding attempts_rel_def by blast+
  show "\<forall>ts\<in>set ((hist(key := hist key @ new)) k). ts \<le> now" for k
    using past old by auto
  fix k now' \<theta>
  assume now': "now \<le> now'" and \<theta>: "now' - seconds (rl_window_seconds rl) \<le> \<theta>"
  show "filter (\<lambda>ts. \<theta> \<le> ts) (attempts_of lib now' (ac_set lib now key v c) k) =
      filter (\<lambda>ts. \<theta> \<le> ts) ((hist(key := hist key @ new)) k)"
  proof (cases "k = key")
    case False
    then show ?thesis
      using rel now' \<theta> assms(2) get_after_set [OF now' room] unfolding attempts_rel_def by simp
  next
    case True
    have "filter (\<lambda>ts. \<theta> \<le> ts) v = filter (\<lambda>ts. \<theta> \<le> ts) (hist key @ new)"
      using filter_above [of "now - seconds (rl_window_seconds rl)" \<theta> "hist key"] now' \<theta> by (simp add: v)
    moreover have "filter (\<lambda>ts. \<theta> \<le> ts) (hist key @ new) = []" if "now + attempts_ttl rl \<le> now'"
    proof -
      have "now < \<theta>"
        using that \<theta> by (simp add: attempts_ttl_def FIXED_WINDOW_TTL_SLACK_SECONDS_def)
      then show ?thesis
        using past [of _ key] old by (fastforce simp: filter_empty_conv)
    qed
    ultimately show ?thesis
      using get_after_set [OF now' room, of v k] True by auto
  qed
qed

end

sublocale ttl_attempts \<subseteq> in_process: sliding_limiter
  "\<lambda>(now, key, x :: unit). fixed_window_check lib rl now key" "attempts_rel lib rl keys" "\<lambda>(now, key, x). key"
  "\<lambda>k seen. card (insert k seen) \<le> maxsize" "\<lambda>_. rl_max_attempts rl" "\<lambda>_. seconds (rl_window_seconds rl)"
proof
  fix t seen c hist now key x r c' b hist'
  let ?W = "seconds (rl_window_seconds rl)"
  assume rel: "attempts_rel lib rl keys t seen c hist" and now: "t \<le> now"
    and room: "card (insert (case (now, key, x) of (now, key, x) \<Rightarrow> key) seen) \<le> maxsize"
    and check: "(case (now, key, x) of (now, key, x) \<Rightarrow> fixed_window_check lib rl now key) c = (r, c')"
    and log: "sliding_log_check (rl_max_attempts rl) ?W now key hist = (b, hist')"
  have window: "filter (\<lambda>ts. now - ?W \<le> ts) (attempts_of lib now c key) = recent ?W now (hist key)"
    using rel now unfolding attempts_rel_def recent_def by simp
  show "(r = Ok ()) = b \<and> attempts_rel lib rl keys now (insert (case (now, key, x) of (now, key, x) \<Rightarrow> key) seen) c' hist'"
  proof (cases "rl_max_attempts rl \<le> int (length (recent ?W now (hist key)))")
    case True
    have "attempts_rel lib rl keys now (insert key seen) (ac_set lib now key (recent ?W now (hist key)) c) (hist(key := hist key @ []))"
      by (rule set_keeps_rel [OF rel now]) (use room in \<open>simp_all add: recent_def\<close>)
    then show ?thesis
      using True check log window by (auto simp: fixed_window_check_def sliding_log_check_def)
  next
    case False
    have "attempts_rel lib rl keys now (insert key seen) (ac_set lib now key (recent ?W now (hist key) @ [now]) c)
        (hist(key := hist key @ [now]))"
      by (rule set_keeps_rel [OF rel now]) (use room in \<open>simp_all add: recent_def\<close>)
    then show ?thesis
      using False check log window by (auto simp: fixed_window_check_def sliding_log_check_def)
  qed
qed


subsection \<open>The Redis limiter\<close>

text \<open>\<open>zs now c k\<close> is the sorted set stored under \<open>k\<close> as a reader sees it at \<open>now\<close>.\<close>

definition redis_laws :: "'c redis_zsets \<Rightarrow> (int \<Rightarrow> 'c \<Rightarrow> string \<Rightarrow> zmember \<Rightarrow> int option) \<Rightarrow> bool" where
  "redis_laws lib zs \<longleftrightarrow>
     (\<forall>now k c. finite (dom (zs now c k)) \<and> zcard lib now k c = card (dom (zs now c k))) \<and>
     (\<forall>t now k k' lo hi c. t \<le> now \<longrightarrow> zs now (zremrangebyscore lib t k lo hi c) k' =
        (if k' = k then (zs now c k) |` {m. \<exists>s. zs now c k m = Some s \<and> \<not> (lo \<le> s \<and> s \<le> hi)} else zs now c k')) \<and>
     (\<forall>t k s m c. zs t (zadd lib t k s m c) k = (zs t c k)(m \<mapsto> s)) \<and>
     (\<forall>t now k k' s m c. t \<le> now \<longrightarrow> k' \<noteq> k \<longrightarrow> zs now (zadd lib t k s m c) k' = zs now c k') \<and>
     (\<forall>t now k k' n c. t \<le> now \<longrightarrow> zs t c k \<noteq> Map.empty \<longrightarrow> zs now (zexpire lib t k n c) k' =
        (if k' = k then (if now < t + 1000 * n then zs t c k else Map.empty) else zs now c k'))"

definition above :: "int \<Rightarrow> (zmember \<Rightarrow> int option) \<Rightarrow> zmember set" where
  "above \<theta> z = {m. \<exists>s. z m = Some s \<and> \<theta> < s}"

definition redis_rel ::
  "(string \<Rightarrow> rate_limiter) \<Rightarrow> (int \<Rightarrow> 'c \<Rightarrow> string \<Rightarrow> zmember \<Rightarrow> int option) \<Rightarrow> int \<Rightarrow> uuid set \<Rightarrow> 'c \<Rightarrow> attempt_log \<Rightarrow> bool" where
  "redis_rel rl zs t seen c hist \<longleftrightarrow>
     0 \<le> t \<and> (\<forall>k. \<forall>ts\<in>set (hist k). ts \<le> t) \<and>
     (\<forall>k now m s. t \<le> now \<longrightarrow> zs now c (''rate:'' @ k) m = Some s \<longrightarrow> 0 \<le> s \<and> snd m \<in> seen) \<and>
     (\<forall>k now \<theta>. t \<le> now \<longrightarrow> now - rl_window_seconds (rl k) * 1000 \<le> \<theta> \<longrightarrow>
        card (above \<theta> (zs now c (''rate:'' @ k))) = length (filter (\<lambda>ts. \<theta> < ts) (hist k)))"

lemma redis_relD:
  assumes "redis_rel rl zs t seen c hist"
  shows "0 \<le> t" and "ts \<in> set (hist k) \<Longrightarrow> ts \<le> t"
    and "t \<le> now \<Longrightarrow> zs now c (''rate:'' @ k) m = Some s \<Longrightarrow> 0 \<le> s \<and> snd m \<in> seen"
    and "t \<le> now \<Longrightarrow> now - rl_window_seconds (rl k) * 1000 \<le> \<theta> \<Longrightarrow>
      card (above \<theta> (zs now c (''rate:'' @ k))) = length (filter (\<lambda>ts. \<theta> < ts) (hist k))"
  using assms by (simp_all add: redis_rel_def del: split_paired_All)

locale redis_server =
  fixes lib :: "'c redis_zsets" and rl :: "string \<Rightarrow> rate_limiter" and zs :: "int \<Rightarrow> 'c \<Rightarrow> string \<Rightarrow> zmember \<Rightarrow> int option"
  assumes laws: "redis_laws lib zs"
begin

lemmas redis_facts =
  laws [unfolded redis_laws_def, THEN conjunct1, rule_format, THEN conjunct1]
  laws [unfolded redis_laws_def, THEN conjunct1, rule_format, THEN conjunct2]
  laws [unfolded redis_laws_def, THEN conjunct2, THEN conjunct1, rule_format]
  laws [unfolded redis_laws_def, THEN conjunct2, THEN conjunct2, THEN conjunct1, rule_format]
  laws [unfolded redis_laws_def, THEN conjunct2, THEN conjunct2, THEN conjunct2, THEN conjunct1, rule_format]
  laws [unfolded redis_laws_def, THEN conjunct2, THEN conjunct2, THEN conjunct2, THEN conjunct2, rule_format]

lemma finite_zs: "finite (dom (zs now c k))"
  by (rule redis_facts(1))

lemma zcard_zs: "zcard lib now k c = card (dom (zs now c k))"
  by (rule redis_facts(2))

lemma zs_rem:
  "t \<le> now \<Longrightarrow> zs now (zremrangebyscore lib t k lo hi c) k' =
     (if k' = k then (zs now c k) |` {m. \<exists>s. zs now c k m = Some s \<and> \<not> (lo \<le> s \<and> s \<le> hi)} else zs now c k')"
  by (rule redis_facts(3))

lemma zs_add: "zs t (zadd lib t k s m c) k = (zs t c k)(m \<mapsto> s)"
  by (rule redis_facts(4))

lemma zs_add_other: "t \<le> now \<Longrightarrow> k' \<noteq> k \<Longrightarrow> zs now (zadd lib t k s m c) k' = zs now c k'"
  by (rule redis_facts(5))

lemma zs_expire:
  "t \<le> now \<Longrightarrow> zs t c k \<noteq> Map.empty \<Longrightarrow> zs now (zexpire lib t k n c) k' =
     (if k' = k then (if now < t + 1000 * n then zs t c k else Map.empty) else zs now c k')"
  by (rule redis_facts(6))

lemma finite_above: "finite (above \<theta> (zs now c k))"
  by (rule finite_subset [OF _ finite_zs [of now c k]]) (auto simp: above_def)

lemma above_restrict:
  assumes "hi \<le> \<theta>"
  shows "above \<theta> (z |` {m. \<exists>s. z m = Some s \<and> \<not> (lo \<le> s \<and> s \<le> hi)}) = above \<theta> z"
  using assms by (auto simp: above_def restrict_map_def)

text \<open>What is left after the old entries are removed.\<close>

lemma rem_keeps_rel:
  assumes rel: "redis_rel rl zs t seen c hist" and now: "t \<le> now"
  shows "redis_rel rl zs now seen
    (zremrangebyscore lib now (''rate:'' @ key) 0 (now - rl_window_seconds (rl key) * 1000) c) hist"
  unfolding redis_rel_def
proof (intro conjI allI impI ballI)
  let ?c = "zremrangebyscore lib now (''rate:'' @ key) 0 (now - rl_window_seconds (rl key) * 1000) c"
  show "0 \<le> now"
    using rel now by (simp add: redis_rel_def)
  show "ts \<le> now" if "ts \<in> set (hist k)" for k ts
    using rel now that unfolding redis_rel_def by fastforce
  fix k now'
  assume now': "now \<le> now'"
  note zs' = zs_rem [OF now', of "''rate:'' @ key" 0 "now - rl_window_seconds (rl key) * 1000" c "''rate:'' @ k"]
  show "0 \<le> s" "snd m \<in> seen" if "zs now' ?c (''rate:'' @ k) m = Some s" for m s
  proof -
    have "zs now' c (''rate:'' @ k) m = Some s"
      using that unfolding zs' by (auto simp: restrict_map_def split: if_splits)
    then show "0 \<le> s" "snd m \<in> seen"
      using rel now now' unfolding redis_rel_def by (meson order_trans)+
  qed
  show "card (above \<theta> (zs now' ?c (''rate:'' @ k))) = length (filter (\<lambda>ts. \<theta> < ts) (hist k))"
    if \<theta>: "now' - rl_window_seconds (rl k) * 1000 \<le> \<theta>" for \<theta>
  proof -
    have "above \<theta> (zs now' ?c (''rate:'' @ k)) = above \<theta> (zs now' c (''rate:'' @ k))"
      unfolding zs' using above_restrict [of "now - rl_window_seconds (rl key) * 1000" \<theta>] \<theta> now' by auto
    moreover have "t \<le> now'"
      using now now' by simp
    ultimately show ?thesis
      using rel \<theta> unfolding redis_rel_def by simp
  qed
qed

lemma zcard_rem:
  assumes rel: "redis_rel rl zs t seen c hist" and now: "t \<le> now"
  shows "zcard lib now (''rate:'' @ key) (zremrangebyscore lib now (''rate:'' @ key) 0 (now - rl_window_seconds (rl key) * 1000) c) =
    length (recent (rl_window_seconds (rl key) * 1000 - 1) now (hist key))"
proof -
  let ?W = "rl_window_seconds (rl key) * 1000" and ?z = "zs now c (''rate:'' @ key)"
  have nonneg: "0 \<le> s" if "?z m = Some s" for m s
    using rel now that unfolding redis_rel_def by blast
  have "dom (?z |` {m. \<exists>s. ?z m = Some s \<and> \<not> (0 \<le> s \<and> s \<le> now - ?W)}) = above (now - ?W) ?z"
  proof (rule set_eqI)
    fix m
    show "m \<in> dom (?z |` {m. \<exists>s. ?z m = Some s \<and> \<not> (0 \<le> s \<and> s \<le> now - ?W)}) \<longleftrightarrow> m \<in> above (now - ?W) ?z"
      using nonneg [of m] by (cases "?z m") (auto simp: above_def restrict_map_def dom_def)
  qed
  then have "zcard lib now (''rate:'' @ key) (zremrangebyscore lib now (''rate:'' @ key) 0 (now - ?W) c) = card (above (now - ?W) ?z)"
    by (simp add: zcard_zs zs_rem)
  also have "\<dots> = length (filter (\<lambda>ts. now - ?W < ts) (hist key))"
    using rel now unfolding redis_rel_def by simp
  also have "filter (\<lambda>ts. now - ?W < ts) (hist key) = recent (?W - 1) now (hist key)"
    unfolding recent_def by (rule filter_cong) auto
  finally show ?thesis .
qed

lemma add_keeps_rel:
  assumes rel: "redis_rel rl zs now seen c hist" and fresh: "u \<notin> seen" and key: "k0 = ''rate:'' @ key"
  shows "redis_rel rl zs now (insert u seen)
    (zexpire lib now k0 (ceil_seconds (rl_window_seconds (rl key) * 1000)) (zadd lib now k0 now (now, u) c))
    (hist(key := hist key @ [now]))"
  unfolding redis_rel_def
proof (intro conjI allI impI ballI)
  let ?W = "rl_window_seconds (rl key) * 1000" and ?c = "zexpire lib now k0 (ceil_seconds (rl_window_seconds (rl key) * 1000)) (zadd lib now k0 now (now, u) c)"
  have ttl: "1000 * ceil_seconds ?W = ?W"
    by (simp add: ceil_seconds_def)
  show "0 \<le> now"
    using rel by (simp add: redis_rel_def)
  have past: "ts \<le> now" if "ts \<in> set (hist k)" for k ts
    using redis_relD(2) [OF rel that] .
  then show "ts \<le> now" if "ts \<in> set ((hist(key := hist key @ [now])) k)" for k ts
    using that by (auto split: if_splits)
  fix k now'
  assume now': "now \<le> now'"
  have zs': "zs now' ?c (''rate:'' @ k) =
      (if k = key then (if now' < now + ?W then (zs now c k0)((now, u) \<mapsto> now) else Map.empty) else zs now' c (''rate:'' @ k))"
    using zs_expire [OF now', of "zadd lib now k0 now (now, u) c" k0 "ceil_seconds ?W" "''rate:'' @ k"] ttl now'
    by (auto simp: key zs_add zs_add_other)
  have entry: "0 \<le> s \<and> snd m \<in> insert u seen" if "zs now' ?c (''rate:'' @ k) m = Some s" for m s
  proof (cases "k = key")
    case True
    then have "((zs now c k0)((now, u) \<mapsto> now)) m = Some s"
      using that unfolding zs' by (simp split: if_splits)
    then show ?thesis
      using redis_relD(1) [OF rel] redis_relD(3) [OF rel order_refl, of key m s]
      by (cases "m = (now, u)") (simp_all add: key)
  next
    case False
    then show ?thesis
      using that redis_relD(3) [OF rel now', of k m s] unfolding zs' by simp
  qed
  then show "0 \<le> s" "snd m \<in> insert u seen" if "zs now' ?c (''rate:'' @ k) m = Some s" for m s
    using that by blast+
  show "card (above \<theta> (zs now' ?c (''rate:'' @ k))) = length (filter (\<lambda>ts. \<theta> < ts) ((hist(key := hist key @ [now])) k))"
    if \<theta>: "now' - rl_window_seconds (rl k) * 1000 \<le> \<theta>" for \<theta>
  proof (cases "k = key \<and> now' < now + ?W")
    case True
    have "(now, u) \<notin> dom (zs now c k0)"
      using redis_relD(3) [OF rel order_refl, of key "(now, u)"] fresh by (auto simp: key)
    then have "above \<theta> ((zs now c k0)((now, u) \<mapsto> now)) = above \<theta> (zs now c k0) \<union> (if \<theta> < now then {(now, u)} else {})"
      "(now, u) \<notin> above \<theta> (zs now c k0)"
      by (auto simp: above_def)
    moreover have "card (above \<theta> (zs now c k0)) = length (filter (\<lambda>ts. \<theta> < ts) (hist key))"
      using redis_relD(4) [OF rel order_refl [of now], of key \<theta>] \<theta> now' True by (simp add: key)
    ultimately show ?thesis
      using True finite_above [of \<theta> now c k0] unfolding zs' by simp
  next
    case False
    have "filter (\<lambda>ts. \<theta> < ts) (hist key @ [now]) = []" if "k = key" "now + ?W \<le> now'"
      using that \<theta> past [of _ key] by (fastforce simp: filter_empty_conv)
    then show ?thesis
      using False redis_relD(4) [OF rel now' \<theta>] unfolding zs' by (auto simp: above_def)
  qed
qed

end

sublocale redis_server \<subseteq> distributed: sliding_limiter
  "\<lambda>(now, key, u). redis_check lib (rl key) now key u" "redis_rel rl zs" "\<lambda>(now, key, u). u"
  "\<lambda>u seen. u \<notin> seen" "\<lambda>key. rl_max_attempts (rl key)" "\<lambda>key. rl_window_seconds (rl key) * 1000 - 1"
proof
  fix t seen c hist now key u r c' b hist'
  let ?W = "rl_window_seconds (rl key) * 1000" and ?k = "''rate:'' @ key"
  let ?c1 = "zremrangebyscore lib now ?k 0 (now - ?W) c"
  assume rel: "redis_rel rl zs t seen c hist" and now: "t \<le> now"
    and fresh: "(case (now, key, u) of (now, key, u) \<Rightarrow> u) \<notin> seen"
    and check: "(case (now, key, u) of (now, key, u) \<Rightarrow> redis_check lib (rl key) now key u) c = (r, c')"
    and log: "sliding_log_check (rl_max_attempts (rl key)) (?W - 1) now key hist = (b, hist')"
  note rel1 = rem_keeps_rel [OF rel now, of key] and count = zcard_rem [OF rel now, of key]
  show "(r = Ok ()) = b \<and> redis_rel rl zs now (insert (case (now, key, u) of (now, key, u) \<Rightarrow> u) seen) c' hist'"
  proof (cases "rl_max_attempts (rl key) \<le> int (zcard lib now ?k ?c1)")
    case True
    moreover have "redis_rel rl zs now (insert u seen) ?c1 hist"
      using rel1 unfolding redis_rel_def by blast
    ultimately show ?thesis
      using check log count by (auto simp: redis_check_def sliding_window_script_def sliding_log_check_def Let_def)
  next
    case False
    moreover have "redis_rel rl zs now (insert u seen)
        (zexpire lib now ?k (ceil_seconds ?W) (zadd lib now ?k now (now, u) ?c1)) (hist(key := hist key @ [now]))"
      using add_keeps_rel [OF rel1 _ refl] fresh by simp
    ultimately show ?thesis
      using check log count by (auto simp: redis_check_def sliding_window_script_def sliding_log_check_def Let_def)
  qed
qed


subsection \<open>Runs from the empty state\<close>

context ttl_attempts
begin

lemma admissible_in_process:
  "sorted (t # map fst evs) \<Longrightarrow> finite seen \<Longrightarrow> card (seen \<union> snd ` set evs) \<le> maxsize \<Longrightarrow>
     in_process.admissible t seen (map (\<lambda>(now, key). (now, key, ())) evs)"
proof (induction evs arbitrary: t seen)
  case (Cons e evs)
  obtain now key where e: "e = (now, key)"
    by (cases e)
  have all: "seen \<union> snd ` set (e # evs) = insert key seen \<union> snd ` set evs"
    by (auto simp: e)
  have "card (insert key seen) \<le> card (insert key seen \<union> snd ` set evs)"
    using Cons.prems(2) by (intro card_mono) auto
  then show ?case
    using Cons.IH [of now "insert key seen"] Cons.prems unfolding all by (simp add: e)
qed simp

lemma in_process_runs:
  assumes "keys c0 = {}" and "\<And>now k. attempts_of lib now c0 k = []"
    and "sorted (map fst evs)" and "card (snd ` set evs) \<le> maxsize"
  shows "fst (run_checks (\<lambda>(now, key, x :: unit). fixed_window_check lib rl now key) (map (\<lambda>(now, key). (now, key, ())) evs) c0) =
    fst (run_log (\<lambda>_. rl_max_attempts rl) (\<lambda>_. seconds (rl_window_seconds rl)) evs (\<lambda>_. []))"
proof -
  let ?t = "case evs of [] \<Rightarrow> 0 | e # _ \<Rightarrow> fst e"
  have "attempts_rel lib rl keys ?t {} c0 (\<lambda>_. [])"
    by (simp add: attempts_rel_def assms(1,2))
  moreover have "in_process.admissible ?t {} (map (\<lambda>(now, key). (now, key, ())) evs)"
    using assms(3,4) by (intro admissible_in_process) (cases evs; simp)+
  ultimately show ?thesis
    using in_process.run_equiv by (fastforce simp: comp_def case_prod_beta)
qed

end

context redis_server
begin

lemma admissible_distributed:
  "sorted (t # map fst evs) \<Longrightarrow> distinct (map (\<lambda>(now, key, u). u) evs) \<Longrightarrow>
     seen \<inter> set (map (\<lambda>(now, key, u). u) evs) = {} \<Longrightarrow> distributed.admissible t seen evs"
  by (induction evs arbitrary: t seen) auto

lemma distributed_runs:
  assumes "\<And>now k. zs now c0 k = Map.empty" and "sorted (0 # map fst evs)" and "distinct (map (\<lambda>(now, key, u). u) evs)"
  shows "fst (run_checks (\<lambda>(now, key, u). redis_check lib (rl key) now key u) evs c0) =
    fst (run_log (\<lambda>key. rl_max_attempts (rl key)) (\<lambda>key. rl_window_seconds (rl key) * 1000 - 1) (map (\<lambda>(now, key, u). (now, key)) evs) (\<lambda>_. []))"
proof (rule distributed.run_equiv)
  show "redis_rel rl zs 0 {} c0 (\<lambda>_. [])"
    by (simp add: redis_rel_def assms(1) above_def)
  show "distributed.admissible 0 {} evs"
    using assms(2,3) by (intro admissible_distributed) auto
qed

end

lemma zip_events:
  assumes "length evs = length us"
  shows "map fst (map (\<lambda>((now, key), u). (now, key, u)) (zip evs us)) = map fst evs"
    and "map (\<lambda>(now, key, u). (now, key)) (map (\<lambda>((now, key), u). (now, key, u)) (zip evs us)) = evs"
    and "map (\<lambda>(now, key, u). u) (map (\<lambda>((now, key), u). (now, key, u)) (zip evs us)) = us"
  using assms by (induction evs us rule: list_induct2) auto

text \<open>
  C27. Both limiters are sliding logs. Started empty, on traffic in the order of
  time, the in-process limiter gives exactly the answers of the sliding log over
  the closed window (as long as no more keys than \<open>maxsize\<close> occur, although the
  cache forgets entries), and the Redis limiter exactly those of the log that is
  one millisecond shorter (as long as drawn ids differ, although sets expire and
  are trimmed). So neither ever accepts more than \<open>max_attempts\<close> attempts for a
  key within one window, wherever the window starts.
\<close>

theorem limiters_are_sliding_logs:
  assumes "attempt_cache_laws lib (attempts_ttl rl) maxsize keys" and "keys cache = {}"
    and "\<And>now k. attempts_of lib now cache k = []" and "card (snd ` set evs) \<le> maxsize"
    and "redis_laws rlib zs" and "\<And>now k. zs now server k = Map.empty"
    and "sorted (0 # map fst evs)" and "distinct us" and "length us = length evs"
  shows "\<exists>as bs. fst (run_checks (\<lambda>(now, key, x :: unit). fixed_window_check lib rl now key)
        (map (\<lambda>(now, key). (now, key, ())) evs) cache) = as \<and>
      as = fst (run_log (\<lambda>_. rl_max_attempts rl) (\<lambda>_. seconds (rl_window_seconds rl)) evs (\<lambda>_. [])) \<and>
      (\<forall>key a. int (hits_in (seconds (rl_window_seconds rl)) a (accepted evs as key)) \<le> max 0 (rl_max_attempts rl)) \<and>
    fst (run_checks (\<lambda>(now, key, u). redis_check rlib rl now key u)
        (map (\<lambda>((now, key), u). (now, key, u)) (zip evs us)) server) = bs \<and>
      bs = fst (run_log (\<lambda>_. rl_max_attempts rl) (\<lambda>_. rl_window_seconds rl * 1000 - 1) evs (\<lambda>_. [])) \<and>
      (\<forall>key a. int (hits_in (rl_window_seconds rl * 1000 - 1) a (accepted evs bs key)) \<le> max 0 (rl_max_attempts rl))"
proof -
  have bound: "int (hits_in width a (accepted evs (fst (run_log (\<lambda>_. n) (\<lambda>_. width) evs (\<lambda>_. []))) key)) \<le> max 0 n"
    for n width a key
    using run_log_bound [of "\<lambda>_. n" "\<lambda>_. width" evs] by (metis prod.collapse)
  let ?revs = "map (\<lambda>((now, key), u). (now, key, u)) (zip evs us)"
  note evs = zip_events [OF assms(9) [symmetric]]
  have "fst (run_checks (\<lambda>(now, key, u). redis_check rlib rl now key u) ?revs server) =
      fst (run_log (\<lambda>_. rl_max_attempts rl) (\<lambda>_. rl_window_seconds rl * 1000 - 1) evs (\<lambda>_. []))"
    using redis_server.distributed_runs [OF redis_server.intro [OF assms(5)] assms(6), of ?revs "\<lambda>_. rl"] assms(7,8)
    unfolding evs by simp
  moreover have "sorted (map fst evs)"
    using assms(7) by simp
  ultimately show ?thesis
    using ttl_attempts.in_process_runs [OF ttl_attempts.intro [OF assms(1)] assms(2,3) _ assms(4)] bound by simp
qed


subsection \<open>Concrete packages\<close>

definition sample_attempts :: "int \<Rightarrow> (string \<Rightarrow> (int \<times> int list) option) attempt_cache" where
  "sample_attempts ttl =
     \<lparr>ac_get = (\<lambda>now c k. case c k of None \<Rightarrow> None | Some (t, v) \<Rightarrow> if now < t + ttl then Some v else None),
      ac_set = (\<lambda>now k v c. c(k \<mapsto> (now, v))), ac_clear = (\<lambda>c. Map.empty)\<rparr>"

lemma sample_attempts_laws: "attempt_cache_laws (sample_attempts ttl) ttl maxsize dom"
  by (simp add: attempt_cache_laws_def sample_attempts_def)

interpretation sample_limiter: ttl_attempts "sample_attempts (attempts_ttl rl)" rl maxsize dom for rl maxsize
  by (rule ttl_attempts.intro) (rule sample_attempts_laws)

type_synonym sample_zstate = "string \<Rightarrow> (zmember \<times> int) list \<times> int option"

definition sample_entries :: "int \<Rightarrow> sample_zstate \<Rightarrow> string \<Rightarrow> (zmember \<times> int) list" where
  "sample_entries now c k =
     (case snd (c k) of None \<Rightarrow> fst (c k) | Some d \<Rightarrow> if d \<le> now then [] else fst (c k))"

definition sample_zs :: "int \<Rightarrow> sample_zstate \<Rightarrow> string \<Rightarrow> zmember \<Rightarrow> int option" where
  "sample_zs now c k = map_of (sample_entries now c k)"

definition outside :: "(zmember \<times> int) list \<Rightarrow> int \<Rightarrow> int \<Rightarrow> (zmember \<times> int) list" where
  "outside l lo hi = filter (\<lambda>p. \<exists>s. map_of l (fst p) = Some s \<and> \<not> (lo \<le> s \<and> s \<le> hi)) l"

definition sample_redis :: "sample_zstate redis_zsets" where
  "sample_redis =
     \<lparr>zremrangebyscore = (\<lambda>now k lo hi c. c(k := (outside (fst (c k)) lo hi, snd (c k)))),
      zcard = (\<lambda>now k c. card (dom (sample_zs now c k))),
      zadd = (\<lambda>now k s m c. c(k := ((m, s) # sample_entries now c k,
        case snd (c k) of None \<Rightarrow> None | Some d \<Rightarrow> if d \<le> now then None else Some d))),
      zexpire = (\<lambda>now k n c. c(k := (sample_entries now c k, Some (now + 1000 * n))))\<rparr>"

lemma map_of_filter_keys: "map_of (filter (\<lambda>p. P (fst p)) l) = map_of l |` {m. P m}"
  by (induction l) (auto simp: restrict_map_def fun_eq_iff)

lemma map_of_outside:
  "map_of (outside l lo hi) = map_of l |` {m. \<exists>s. map_of l m = Some s \<and> \<not> (lo \<le> s \<and> s \<le> hi)}"
  unfolding outside_def by (rule map_of_filter_keys)

lemma sample_entries_other: "k' \<noteq> k \<Longrightarrow> sample_entries now (c(k := x)) k' = sample_entries now c k'"
  by (cases "snd (c k')") (simp_all add: sample_entries_def)

lemma sample_redis_laws: "redis_laws sample_redis sample_zs"
proof -
  have rem: "sample_zs now (zremrangebyscore sample_redis t k lo hi c) k' =
      (if k' = k then sample_zs now c k |` {m. \<exists>s. sample_zs now c k m = Some s \<and> \<not> (lo \<le> s \<and> s \<le> hi)} else sample_zs now c k')"
    for now t k k' lo hi c
  proof (cases "k' = k")
    case True
    then show ?thesis
      by (cases "snd (c k)") (simp_all add: sample_redis_def sample_zs_def sample_entries_def map_of_outside)
  qed (simp add: sample_redis_def sample_zs_def sample_entries_other)
  have add: "sample_zs t (zadd sample_redis t k s m c) k = (sample_zs t c k)(m \<mapsto> s)" for t k s m c
    by (cases "snd (c k)") (simp_all add: sample_redis_def sample_zs_def sample_entries_def)
  have add_other: "sample_zs now (zadd sample_redis t k s m c) k' = sample_zs now c k'" if "k' \<noteq> k" for now t k k' s m c
    using that by (simp add: sample_redis_def sample_zs_def sample_entries_other)
  have expire: "sample_zs now (zexpire sample_redis t k n c) k' =
      (if k' = k then (if now < t + 1000 * n then sample_zs t c k else Map.empty) else sample_zs now c k')" for now t k k' n c
  proof (cases "k' = k")
    case True
    then show ?thesis
      by (simp add: sample_redis_def sample_zs_def sample_entries_def)
  qed (simp add: sample_redis_def sample_zs_def sample_entries_other)
  show ?thesis
    unfolding redis_laws_def
    using rem add add_other expire by (intro conjI allI impI) (simp_all add: sample_zs_def finite_dom_map_of sample_redis_def)
qed

interpretation sample_server: redis_server sample_redis rl sample_zs for rl
  by (rule redis_server.intro) (rule sample_redis_laws)

definition sample_limit :: rate_limiter where
  "sample_limit = \<lparr>rl_max_attempts = 1, rl_window_seconds = 60\<rparr>"

theorem limiters_are_sliding_logs_witness:
  "\<exists>as. fst (run_checks (\<lambda>(now, key, x :: unit). fixed_window_check (sample_attempts (attempts_ttl sample_limit)) sample_limit now key)
       (map (\<lambda>(now, key). (now, key, ())) [(0, ''k''), (59, ''k''), (59, ''l'')]) Map.empty) = as \<and>
     as = fst (run_log (\<lambda>_. 1) (\<lambda>_. seconds 60) [(0, ''k''), (59, ''k''), (59, ''l'')] (\<lambda>_. [])) \<and> as = [True, False, True] \<and>
     fst (run_checks (\<lambda>(now, key, u). redis_check sample_redis sample_limit now key u)
       (map (\<lambda>((now, key), u). (now, key, u)) (zip [(0, ''k''), (59, ''k''), (59, ''l'')] [1, 2, 3])) (\<lambda>k. ([], None))) = as"
proof -
  let ?evs = "[(0, ''k''), (59, ''k''), (59, ''l'')] :: (int \<times> string) list" and ?us = "[1, 2, 3] :: uuid list"
  have empty: "attempts_of (sample_attempts (attempts_ttl sample_limit)) now Map.empty k = []" for now k
    by (simp add: attempts_of_def sample_attempts_def)
  have rempty: "sample_zs now (\<lambda>k. ([], None)) k = Map.empty" for now k
    by (simp add: sample_zs_def sample_entries_def)
  have log: "fst (run_log (\<lambda>_. 1) (\<lambda>_. width) ?evs (\<lambda>_. [])) = [True, False, True]" if "59 \<le> width" for width
    using that by (simp add: sliding_log_check_def recent_def)
  show ?thesis
    using limiters_are_sliding_logs [where evs = ?evs and us = ?us and maxsize = 2 and rl = sample_limit and cache = Map.empty
        and server = "\<lambda>k. ([], None)", OF sample_attempts_laws dom_empty empty _ sample_redis_laws rempty]
      log [of "seconds 60"] log [of "60 * 1000 - 1"]
    by (simp add: sample_limit_def card_insert_if)
qed

end
