(* ===== verification/Auth_Http_Props.thy ===== *)
theory Auth_Http_Props
  imports Auth_Routes Rate_Limit_Props Samples
begin

text \<open>
  Properties of the authentication routes: the per-account budget for password
  attempts holds through the whole HTTP surface, for either kind of limiter, and
  the cookie routes act only on requests of a trusted origin.
\<close>

subsection \<open>What a handler does to the limiters\<close>

definition limits :: "('c, 'p, 'r) auth_server \<Rightarrow> 'c limiter \<times> 'c limiter \<times> 'c limiter \<times> 'c limiter \<times> 'r" where
  "limits s = (sv_rate_limiter s, sv_login_limiter s, sv_reset_limiter s, sv_verify_limiter s, sv_redis s)"

text \<open>A handler that consults no limiter.\<close>

definition keeps_limits :: "(('c, 'p, 'r) auth_server, 'a) action \<Rightarrow> bool" where
  "keeps_limits m \<longleftrightarrow> (\<forall>s. limits (snd (m s)) = limits s)"

named_theorems keeps_intros

lemma keeps_reply [keeps_intros]: "keeps_limits (reply x)" "keeps_limits (refuse p)" "keeps_limits (raise_http_from_auth_error e)"
  by (simp_all add: keeps_limits_def reply_def refuse_def raise_http_from_auth_error_def)

lemma keeps_on_db [keeps_intros]: "keeps_limits (on_db m)" "keeps_limits (on_db_cache m')"
  by (simp_all add: keeps_limits_def on_db_def on_db_cache_def limits_def split: prod.split)

lemma keeps_andthen [keeps_intros]:
  "keeps_limits m \<Longrightarrow> (\<And>x. keeps_limits (f x)) \<Longrightarrow> keeps_limits (andthen m f)"
  by (simp add: keeps_limits_def andthen_def split: prod.split outcome.split) (metis snd_conv)

lemma keeps_match_result [keeps_intros]:
  assumes "keeps_limits m" and "\<And>x. keeps_limits (f x)"
  shows "keeps_limits (match_result m f)"
  unfolding match_result_def
proof (intro keeps_intros assms(1))
  show "keeps_limits (case r of Ok x \<Rightarrow> f x | Err e \<Rightarrow> raise_http_from_auth_error e)" for r
    using assms(2) by (cases r) (simp_all add: keeps_intros)
qed

lemma keeps_http_bind [keeps_intros]:
  assumes "keeps_limits m" and "\<And>x. keeps_limits (f x)"
  shows "keeps_limits (http_bind m f)"
  unfolding http_bind_def
proof (intro keeps_intros assms(1))
  show "keeps_limits (\<lambda>s. case r of Ok x \<Rightarrow> f x s | Err p \<Rightarrow> (Returns (Err p), s))" for r
    using assms(2) by (cases r) (simp_all add: keeps_limits_def)
qed

lemma keeps_principal [keeps_intros]: "keeps_limits (get_current_principal en dr req)"
proof (cases "hr_bearer req")
  case (Some token)
  show ?thesis
    unfolding get_current_principal_def Some option.case
    by (intro keeps_intros) (simp add: keeps_limits_def limits_def split: prod.split)
qed (simp add: get_current_principal_def keeps_intros)

lemma keeps_origin [keeps_intros]: "keeps_limits (enforce_cookie_origin en req)"
  by (simp add: keeps_limits_def enforce_cookie_origin_def reply_def refuse_def Let_def
      split: option.split outcome.split)

text \<open>The calls that consult no limiter at all.\<close>

lemma keeps_unlimited [keeps_intros]:
  "keeps_limits (route_refresh en dr req)" "keeps_limits (route_logout en dr req)"
  "keeps_limits (route_logout_all en dr req)" "keeps_limits (route_me en dr req)"
  "keeps_limits (route_verify_email en dr token)"
proof -
  have "keeps_limits (\<lambda>s. reply x (s\<lparr>sv_db := f (sv_db s)\<rparr>))" for x f
    by (simp add: keeps_limits_def reply_def limits_def)
  then show "keeps_limits (route_logout en dr req)"
    unfolding route_logout_def by (intro keeps_intros)
qed (simp_all add: route_refresh_def route_logout_all_def route_me_def route_verify_email_def
    email_verify_request_def keeps_intros)

lemma keeps_wrap [keeps_intros]: "keeps_limits m \<Longrightarrow> keeps_limits (wrap f m)"
  unfolding wrap_def by (intro keeps_intros)


subsection \<open>Password attempts\<close>

text \<open>
  A request is an attempt on the account it names; it reaches the password when
  it is neither malformed (422) nor rate-limited (429).
\<close>

fun attempt_of :: "auth_call \<Rightarrow> string option" where
  "attempt_of (Register email _) = Some (normalize_email email)"
| "attempt_of (Login email _) = Some (normalize_email email)"
| "attempt_of _ = None"

definition reached :: "('a, http_problem) result outcome \<Rightarrow> bool" where
  "reached r = (case r of Returns (Err p) \<Rightarrow> hp_status p \<notin> {422, 429} | _ \<Rightarrow> True)"

definition limited :: "('a, http_problem) result outcome \<Rightarrow> bool" where
  "limited r \<longleftrightarrow> (\<exists>n. r = Returns (Err (http_from_auth_error (RateLimitExceededError n))))"

fun serve_all ::
  "('tok, 'c, 'p, 'r) auth_env \<Rightarrow> (draws \<times> 'tok http_request \<times> auth_call) list \<Rightarrow> ('c, 'p, 'r) auth_server \<Rightarrow>
   ('tok auth_reply, http_problem) result outcome list \<times> ('c, 'p, 'r) auth_server" where
  "serve_all en [] s = ([], s)"
| "serve_all en ((dr, req, call) # calls) s =
     (case serve en dr req call s of (r, s1) \<Rightarrow> case serve_all en calls s1 of (rs, s2) \<Rightarrow> (r # rs, s2))"

definition guesses ::
  "string \<Rightarrow> (draws \<times> 'tok http_request \<times> auth_call) list \<Rightarrow> ('a, http_problem) result outcome list \<Rightarrow> datetime list" where
  "guesses email calls rs =
     map (\<lambda>((dr, req, call), r). dr_now dr 1)
       (filter (\<lambda>((dr, req, call), r). attempt_of call = Some email \<and> reached r) (zip calls rs))"

definition call_readings :: "(draws \<times> 'tok http_request \<times> auth_call) list \<Rightarrow> (datetime \<times> uuid) list" where
  "call_readings calls =
     concat (map (\<lambda>(dr, req, call). [(dr_now dr 0, dr_limit_ids dr 0), (dr_now dr 1, dr_limit_ids dr 1)]) calls)"

lemma limited_not_reached: "limited r \<Longrightarrow> \<not> reached r"
  by (auto simp: limited_def reached_def application_http_exception_def)

lemma limited_bind:
  assumes "m s = (r1, s1)" and "limited r1" and "http_bind m f s = (r, s')"
  shows "limited r \<and> s' = s1"
proof -
  obtain n where "r1 = Returns (Err (http_from_auth_error (RateLimitExceededError n)))"
    using assms(2) unfolding limited_def by blast
  then have "r = Returns (Err (http_from_auth_error (RateLimitExceededError n)))" "s' = s1"
    using assms(1,3) by (simp_all add: http_bind_cases)
  then show ?thesis
    unfolding limited_def by blast
qed

lemma wrap_outcome:
  assumes "wrap f m s = (r, s')"
  obtains r0 where "m s = (r0, s')" and "reached r = reached r0"
  using assms by (cases "m s") (auto simp: wrap_def http_bind_cases reply_def reached_def split: outcome.splits result.splits)

lemma reply_bind [simp]: "http_bind (reply x) f = f x" "http_bind (refuse p) f = refuse p"
  by (rule ext, simp add: http_bind_cases reply_def refuse_def)+

lemma malformed_not_reached: "refuse validation_problem s = (r, s') \<Longrightarrow> \<not> reached r \<and> s' = s"
  by (auto simp: refuse_def validation_problem_def reached_def)

locale login_budget =
  fixes en :: "('tok, 'c, 'p, 'r) auth_env" and email :: string and known :: "string set"
    and J :: "datetime list \<Rightarrow> (datetime \<times> uuid) list \<Rightarrow> ('c, 'p, 'r) auth_server \<Rightarrow> bool"
  assumes J_limits: "J gs evs s \<Longrightarrow> limits s' = limits s \<Longrightarrow> J gs evs s'"
    and J_skip: "J gs (e # evs) s \<Longrightarrow> J gs evs s"
    and J_drop: "J (gs @ gs') evs s \<Longrightarrow> J gs evs s"
    and J_ip: "J gs ((dr_now dr 0, dr_limit_ids dr 0) # evs) s \<Longrightarrow> take 1 (hr_path req) = ''/'' \<Longrightarrow>
      check_rate_limit en dr req key s = (r, s') \<Longrightarrow> J gs evs s' \<and> (r = Returns (Ok ()) \<or> limited r)"
    and J_account: "J gs ((dr_now dr 1, dr_limit_ids dr 1) # evs) s \<Longrightarrow>
      act = ''login'' \<and> (\<exists>x\<in>known. ident = Some x) \<or> act = ''reset'' \<or> act = ''verify'' \<Longrightarrow>
      check_per_account_rate_limit en dr act ident s = (r, s') \<Longrightarrow>
      r = Returns (Ok ()) \<and> J (gs @ (if act = ''login'' \<and> ident = Some email then [dr_now dr 1] else [])) evs s' \<or>
      limited r \<and> J gs evs s'"
begin

lemma kept: "J gs evs s \<Longrightarrow> keeps_limits m \<Longrightarrow> m s = (r, s') \<Longrightarrow> J gs evs s'"
  using J_limits [of gs evs s s'] unfolding keeps_limits_def by (metis snd_conv)

lemma ip_gated:
  assumes "J gs ((dr_now dr 0, dr_limit_ids dr 0) # evs) s" and "take 1 (hr_path req) = ''/''"
    and "http_bind (check_rate_limit en dr req key) (\<lambda>_. m) s = (r, s')"
  obtains s1 where "J gs evs s1" and "m s1 = (r, s')" | "J gs evs s'" and "limited r"
proof -
  obtain r1 s1 where r1: "check_rate_limit en dr req key s = (r1, s1)"
    by force
  then have "J gs evs s1" "r1 = Returns (Ok ()) \<or> limited r1"
    using J_ip [OF assms(1,2)] by blast+
  then show ?thesis
    using assms(3) r1 that limited_bind [OF r1 _ assms(3)] by (auto simp: http_bind_cases)
qed

lemma gated:
  assumes "J gs ((dr_now dr 0, dr_limit_ids dr 0) # (dr_now dr 1, dr_limit_ids dr 1) # evs) s"
    and "take 1 (hr_path req) = ''/''" and "keeps_limits m"
    and act: "act = ''login'' \<and> (\<exists>x\<in>known. ident = Some x) \<or> act = ''reset'' \<or> act = ''verify''"
    and run: "http_bind (check_rate_limit en dr req key) (\<lambda>_. http_bind (check_per_account_rate_limit en dr act ident) (\<lambda>_. m)) s = (r, s')"
  shows "J (gs @ (if act = ''login'' \<and> ident = Some email \<and> reached r then [dr_now dr 1] else [])) evs s'"
  using assms(1,2) run
proof (cases rule: ip_gated)
  case (1 s1)
  obtain r2 s2 where r2: "check_per_account_rate_limit en dr act ident s1 = (r2, s2)"
    by force
  from J_account [OF 1(1) act r2] show ?thesis
  proof
    assume ok: "r2 = Returns (Ok ()) \<and> J (gs @ (if act = ''login'' \<and> ident = Some email then [dr_now dr 1] else [])) evs s2"
    then have "m s2 = (r, s')"
      using 1(2) r2 by (simp add: http_bind_cases)
    then have "J (gs @ (if act = ''login'' \<and> ident = Some email then [dr_now dr 1] else [])) evs s'"
      using kept [OF conjunct2 [OF ok] assms(3)] by simp
    then show ?thesis
      using J_drop [of gs "[dr_now dr 1]" evs s'] by (cases "reached r") (simp_all split: if_splits)
  next
    assume "limited r2 \<and> J gs evs s2"
    then show ?thesis
      using limited_bind [OF r2 _ 1(2)] limited_not_reached [of r] by auto
  qed
next
  case 2
  then show ?thesis
    using J_skip limited_not_reached [of r] by auto
qed

lemma schema_gated:
  assumes J: "J gs ((dr_now dr 0, dr_limit_ids dr 0) # (dr_now dr 1, dr_limit_ids dr 1) # evs) s"
    and path: "take 1 (hr_path req) = ''/''" and keeps: "keeps_limits (m x)"
    and act: "act = ''login'' \<and> (\<exists>a\<in>known. ident x = Some a) \<or> act = ''reset'' \<or> act = ''verify''"
    and run: "http_bind (if ok then reply x else refuse validation_problem)
      (\<lambda>x. http_bind (check_rate_limit en dr req (key x)) (\<lambda>_.
        http_bind (check_per_account_rate_limit en dr act (ident x)) (\<lambda>_. m x))) s = (r, s')"
  shows "J (gs @ (if act = ''login'' \<and> ident x = Some email \<and> reached r then [dr_now dr 1] else [])) evs s'"
proof (cases ok)
  case True
  then show ?thesis
    using gated [OF J path keeps act] run by simp
next
  case False
  then show ?thesis
    using malformed_not_reached [of s r s'] run J_skip [OF J_skip [OF J]] by simp
qed

lemma reset_gated:
  assumes J: "J gs ((dr_now dr 0, dr_limit_ids dr 0) # (dr_now dr 1, dr_limit_ids dr 1) # evs) s"
    and path: "take 1 (hr_path req) = ''/''" and keeps: "keeps_limits (m x)"
    and run: "http_bind (if ok then reply x else refuse validation_problem)
      (\<lambda>x. http_bind (check_rate_limit en dr req (key x)) (\<lambda>_. m x)) s = (r, s')"
  shows "J gs evs s'"
proof (cases ok)
  case True
  note run' = run [unfolded if_P [OF True] reply_bind]
  from J path run' show ?thesis
  proof (cases rule: ip_gated)
    case (1 s1)
    then show ?thesis
      using kept [OF _ keeps] J_skip by blast
  qed (rule J_skip)
next
  case False
  then show ?thesis
    using malformed_not_reached [of s r s'] run J_skip [OF J_skip [OF J]] by simp
qed

lemma verify_gated:
  assumes J: "J gs ((dr_now dr 0, dr_limit_ids dr 0) # (dr_now dr 1, dr_limit_ids dr 1) # evs) s"
    and path: "take 1 (hr_path req) = ''/''" and "keeps_limits p" and keeps: "\<And>x. keeps_limits (m x)"
    and run: "http_bind p (\<lambda>x. http_bind (check_rate_limit en dr req (key x)) (\<lambda>_.
        http_bind (check_per_account_rate_limit en dr ''verify'' (ident x)) (\<lambda>_. m x))) s = (r, s')"
  shows "J gs evs s'"
proof -
  obtain q s1 where p: "p s = (q, s1)"
    by force
  have J1: "J gs ((dr_now dr 0, dr_limit_ids dr 0) # (dr_now dr 1, dr_limit_ids dr 1) # evs) s1"
    by (rule kept [OF J assms(3) p])
  consider x where "q = Returns (Ok x)" | "s' = s1"
    using p run by (auto simp: http_bind_cases split: outcome.splits result.splits)
  then show ?thesis
  proof cases
    case (1 x)
    then show ?thesis
      using gated [OF J1 path keeps, of "''verify''" "ident x" "key x" x r s'] run p by (simp add: http_bind_cases [of p])
  next
    case 2
    then show ?thesis
      using J_skip [OF J_skip [OF J1]] by simp
  qed
qed

lemma serve_step:
  assumes J: "J gs (call_readings [(dr, req, call)] @ evs) s" and known: "\<And>x. attempt_of call = Some x \<Longrightarrow> x \<in> known"
    and run: "serve en dr req call s = (r, s')"
  shows "J (gs @ (if attempt_of call = Some email \<and> reached r then [dr_now dr 1] else [])) evs s'"
proof -
  let ?req = "req\<lparr>hr_path := call_path call\<rparr>"
  have J2: "J gs ((dr_now dr 0, dr_limit_ids dr 0) # (dr_now dr 1, dr_limit_ids dr 1) # evs) s"
    using J by (simp add: call_readings_def)
  have path: "take 1 (hr_path ?req) = ''/''"
    by (cases call) simp_all
  note run' = run [unfolded serve_def] and J0 = J_skip [OF J_skip [OF J2]]
  show ?thesis
  proof (cases call)
    case (Register e0 pw)
    obtain r0 where r0: "route_register en dr ?req e0 pw s = (r0, s')" "reached r = reached r0"
      using run' unfolding Register dispatch.simps by (rule wrap_outcome)
    show ?thesis
      using schema_gated [OF J2 path _ _ r0(1) [unfolded route_register_def register_request_def case_prod_beta]]
        known r0(2) Register by (simp add: keeps_intros)
  next
    case (Login e0 pw)
    obtain r0 where r0: "route_login en dr ?req e0 pw s = (r0, s')" "reached r = reached r0"
      using run' unfolding Login dispatch.simps by (rule wrap_outcome)
    show ?thesis
      using schema_gated [OF J2 path _ _ r0(1) [unfolded route_login_def login_request_def case_prod_beta]]
        known r0(2) Login by (simp add: keeps_intros)
  next
    case (Forgot_Password e0)
    obtain r0 where r0: "route_forgot_password en dr ?req e0 s = (r0, s')"
      using run' unfolding Forgot_Password dispatch.simps by (rule wrap_outcome)
    show ?thesis
      using schema_gated [OF J2 path _ _ r0 [unfolded route_forgot_password_def password_forgot_request_def]]
        Forgot_Password by (simp add: keeps_intros)
  next
    case (Reset_Password t pw)
    obtain r0 where r0: "route_reset_password en dr ?req t pw s = (r0, s')"
      using run' unfolding Reset_Password dispatch.simps by (rule wrap_outcome)
    show ?thesis
      using reset_gated [OF J2 path _ r0 [unfolded route_reset_password_def password_reset_request_def case_prod_beta]]
        Reset_Password by (simp add: keeps_intros)
  next
    case Request_Email_Verify
    obtain r0 where r0: "route_request_email_verify en dr ?req s = (r0, s')"
      using run' unfolding Request_Email_Verify dispatch.simps by (rule wrap_outcome)
    show ?thesis
      using verify_gated [OF J2 path keeps_principal _ r0 [unfolded route_request_email_verify_def]]
        Request_Email_Verify by (simp add: keeps_intros)
  qed (use kept [OF J0, where m = "dispatch en dr ?req call"] run' in \<open>simp_all add: keeps_intros\<close>)
qed

lemma serve_all_budget:
  assumes "J gs (call_readings calls @ evs) s" and "\<And>dr req call x. (dr, req, call) \<in> set calls \<Longrightarrow> attempt_of call = Some x \<Longrightarrow> x \<in> known"
  shows "J (gs @ guesses email calls (fst (serve_all en calls s))) evs (snd (serve_all en calls s))"
  using assms
proof (induction calls arbitrary: gs s)
  case (Cons c calls)
  obtain dr req call where c: "c = (dr, req, call)"
    by (cases c)
  obtain r s1 where r: "serve en dr req call s = (r, s1)"
    by force
  let ?now = "if attempt_of call = Some email \<and> reached r then [dr_now dr 1] else []"
  have "J (gs @ ?now) (call_readings calls @ evs) s1"
  proof (rule serve_step [OF _ _ r])
    show "J gs (call_readings [(dr, req, call)] @ call_readings calls @ evs) s"
      using Cons.prems(1) by (simp add: c call_readings_def)
    show "x \<in> known" if "attempt_of call = Some x" for x
      using Cons.prems(2) [of dr req call x] that by (simp add: c)
  qed
  then have "J ((gs @ ?now) @ guesses email calls (fst (serve_all en calls s1))) evs (snd (serve_all en calls s1))"
    using Cons.prems(2) by (intro Cons.IH) auto
  then show ?case
    using r by (cases "serve_all en calls s1") (auto simp: c guesses_def split: if_splits)
qed (simp add: guesses_def call_readings_def)

end


subsection \<open>The two kinds of limiter\<close>

text \<open>The times of the guesses, and the accepted attempts the limiter has logged for the account.\<close>

definition covered :: "(datetime \<Rightarrow> int) \<Rightarrow> int \<Rightarrow> int \<Rightarrow> datetime list \<Rightarrow> int list \<Rightarrow> bool" where
  "covered unit w w' gs ts \<longleftrightarrow> (\<forall>a. hits_in w a gs \<le> hits_in w' (unit a) ts)"

lemma covered_extend:
  assumes "covered unit w w' gs ts" and "\<And>a. a \<le> now \<Longrightarrow> now \<le> a + w \<Longrightarrow> unit a \<le> unit now \<and> unit now \<le> unit a + w'"
  shows "covered unit w w' gs (ts @ [unit now])" and "covered unit w w' (gs @ [now]) (ts @ [unit now])"
proof -
  have le: "hits_in w a gs \<le> hits_in w' (unit a) ts" for a
    using assms(1) by (simp add: covered_def)
  show "covered unit w w' gs (ts @ [unit now])"
    unfolding covered_def
  proof
    show "hits_in w a gs \<le> hits_in w' (unit a) (ts @ [unit now])" for a
      using le [of a] by (simp add: hits_in_def)
  qed
  show "covered unit w w' (gs @ [now]) (ts @ [unit now])"
    unfolding covered_def
  proof
    show "hits_in w a (gs @ [now]) \<le> hits_in w' (unit a) (ts @ [unit now])" for a
      using le [of a] assms(2) [of a] by (simp add: hits_in_def)
  qed
qed

lemma covered_drop: "covered unit w w' (gs @ gs') ts \<Longrightarrow> covered unit w w' gs ts"
  unfolding covered_def hits_in_def filter_append length_append by (meson add_leD1)

lemma fixed_window_err: "fixed_window_check lib rl now key c = (Err e, c') \<Longrightarrow> \<exists>n. e = RateLimitExceededError n"
  by (auto simp: fixed_window_check_def Let_def split: if_splits)

lemma redis_err: "redis_check lib rl now key u c = (Err e, c') \<Longrightarrow> \<exists>n. e = RateLimitExceededError n"
  by (auto simp: redis_check_def Let_def split: if_splits prod.splits)

lemma limiter_err: "limiter_check en now u key s = (Err e, s') \<Longrightarrow> \<exists>n. e = RateLimitExceededError n"
  by (auto simp: limiter_check_def split: prod.splits limiter.splits dest: fixed_window_err redis_err)

lemma check_rate_limit_answer:
  assumes "check_rate_limit en dr req key s = (r, s')" and "auth_rate_limit_enabled (en_settings en)"
  obtains a l redis where
    "limiter_check en (dr_now dr 0) (dr_limit_ids dr 0) (ip_key req key) (sv_rate_limiter s, sv_redis s) = (a, l, redis)"
    and "s' = s\<lparr>sv_rate_limiter := l, sv_redis := redis\<rparr>" and "r = Returns (Ok ()) \<and> a = Ok () \<or> limited r \<and> a \<noteq> Ok ()"
proof -
  obtain a l redis where a: "limiter_check en (dr_now dr 0) (dr_limit_ids dr 0) (ip_key req key) (sv_rate_limiter s, sv_redis s) = (a, l, redis)"
    by (metis prod_cases3)
  note run = assms(1) [unfolded check_rate_limit_def a prod.case]
  show ?thesis
  proof (cases a)
    case (Ok u)
    then show ?thesis
      using run assms(2) by (intro that [OF a]) (auto simp: reply_def)
  next
    case (Err e)
    then obtain n where "e = RateLimitExceededError n"
      using limiter_err a by blast
    then show ?thesis
      using run assms(2) Err
      by (intro that [OF a]) (auto simp: raise_http_from_auth_error_def refuse_def limited_def simp del: http_from_auth_error.simps)
  qed
qed

lemma check_per_account_answer:
  assumes "check_per_account_rate_limit en dr act ident s = (r, s')" and "auth_rate_limit_enabled (en_settings en)"
    and "act \<in> {''login'', ''reset'', ''verify''}"
  obtains a l redis where
    "limiter_check en (dr_now dr 1) (dr_limit_ids dr 1) (account_key act ident)
       (if act = ''login'' then sv_login_limiter s else if act = ''reset'' then sv_reset_limiter s else sv_verify_limiter s,
        sv_redis s) = (a, l, redis)"
    and "s' = (if act = ''login'' then s\<lparr>sv_login_limiter := l, sv_redis := redis\<rparr>
       else if act = ''reset'' then s\<lparr>sv_reset_limiter := l, sv_redis := redis\<rparr>
       else s\<lparr>sv_verify_limiter := l, sv_redis := redis\<rparr>)"
    and "r = Returns (Ok ()) \<and> a = Ok () \<or> limited r \<and> a \<noteq> Ok ()"
proof -
  let ?lim = "if act = ''login'' then sv_login_limiter s else if act = ''reset'' then sv_reset_limiter s else sv_verify_limiter s"
  obtain a l redis where a: "limiter_check en (dr_now dr 1) (dr_limit_ids dr 1) (account_key act ident) (?lim, sv_redis s) = (a, l, redis)"
    by (metis prod_cases3)
  have act: "act \<notin> {''login'', ''reset'', ''verify''} \<longleftrightarrow> False"
    using assms(3) by blast
  note run = assms(1) [unfolded check_per_account_rate_limit_def Let_def act a if_False prod.case]
  show ?thesis
  proof (cases a)
    case (Ok u)
    then show ?thesis
      using run assms(2) by (intro that [OF a]) (auto simp: reply_def)
  next
    case (Err e)
    then obtain n where "e = RateLimitExceededError n"
      using limiter_err a by blast
    then show ?thesis
      using run assms(2) Err
      by (intro that [OF a]) (auto simp: raise_http_from_auth_error_def refuse_def limited_def simp del: http_from_auth_error.simps)
  qed
qed

lemma sorted_skip: "sorted (t # map f (e # evs)) \<Longrightarrow> sorted (t # map f evs)"
  by simp

text \<open>
  In process: the login limiter has its own cache, and only the attempts on
  accounts of \<open>known\<close> reach it.
\<close>

definition fixed_J ::
  "('tok, 'c, 'p, 'r) auth_env \<Rightarrow> ('c \<Rightarrow> string set) \<Rightarrow> string \<Rightarrow> string set \<Rightarrow> datetime list \<Rightarrow> (datetime \<times> uuid) list \<Rightarrow>
   ('c, 'p, 'r) auth_server \<Rightarrow> bool" where
  "fixed_J en keys email known gs evs s \<longleftrightarrow>
     (let rl = login_limit (en_settings en); W = seconds (rl_window_seconds rl) in
      \<exists>c hist t seen. sv_login_limiter s = Fixed_Window rl c \<and>
        attempts_rel (en_attempts en rl) rl keys t seen c hist \<and> sorted (t # map fst evs) \<and>
        seen \<subseteq> (\<lambda>x. account_key ''login'' (Some x)) ` known \<and>
        (\<forall>k a. int (hits_in W a (hist k)) \<le> max 0 (rl_max_attempts rl)) \<and>
        covered (\<lambda>a. a) (W - 1000) W gs (hist (account_key ''login'' (Some email))))"

locale fixed_budget = ttl_attempts "en_attempts en (login_limit (en_settings en))" "login_limit (en_settings en)" maxsize keys
  for en :: "('tok, 'c, 'p, 'r) auth_env" and maxsize :: nat and keys :: "'c \<Rightarrow> string set" +
  fixes email :: string and known :: "string set"
  assumes known: "finite known" "card known \<le> maxsize" and enabled: "auth_rate_limit_enabled (en_settings en)"
begin

lemma fixed_room: "seen \<subseteq> (\<lambda>x. account_key ''login'' (Some x)) ` known \<Longrightarrow> x \<in> known \<Longrightarrow>
    card (insert (account_key ''login'' (Some x)) seen) \<le> maxsize"
  using known card_image_le [of known "\<lambda>x. account_key ''login'' (Some x)"]
    card_mono [of "(\<lambda>x. account_key ''login'' (Some x)) ` known" "insert (account_key ''login'' (Some x)) seen"]
  by (simp add: subset_insertI2)

lemma fixed_login:
  assumes J: "fixed_J en keys email known gs ((now, u) # evs) s" and x: "x \<in> known"
    and check: "limiter_check en now u (account_key ''login'' (Some x)) (sv_login_limiter s, sv_redis s) = (a, l, redis)"
    and s': "sv_login_limiter s' = l"
  shows "fixed_J en keys email known (gs @ (if a = Ok () \<and> x = email then [now] else [])) evs s'"
proof -
  let ?rl = "login_limit (en_settings en)"
  let ?W = "seconds (rl_window_seconds ?rl)" and ?key = "account_key ''login'' (Some x)" and ?k = "account_key ''login'' (Some email)"
  obtain c hist t seen where J0: "sv_login_limiter s = Fixed_Window ?rl c" "attempts_rel (en_attempts en ?rl) ?rl keys t seen c hist"
      "sorted (t # now # map fst evs)" "seen \<subseteq> (\<lambda>x. account_key ''login'' (Some x)) ` known"
      "\<forall>k a. int (hits_in ?W a (hist k)) \<le> max 0 (rl_max_attempts ?rl)" "covered (\<lambda>a. a) (?W - 1000) ?W gs (hist ?k)"
    using J unfolding fixed_J_def Let_def by auto
  obtain r c1 where r: "fixed_window_check (en_attempts en ?rl) ?rl now ?key c = (r, c1)"
    by force
  obtain b hist1 where b: "sliding_log_check (rl_max_attempts ?rl) ?W now ?key hist = (b, hist1)"
    by force
  have a: "a = r" "l = Fixed_Window ?rl c1"
    using check J0(1) r by (simp_all add: limiter_check_def)
  have step: "(r = Ok ()) = b \<and> attempts_rel (en_attempts en ?rl) ?rl keys now (insert ?key seen) c1 hist1"
    using in_process.check_step [of t seen c hist now ?key "()", OF J0(2) _ _ _ b] J0(3) fixed_room [OF J0(4) x] r by simp
  have bound: "\<forall>k a. int (hits_in ?W a (hist1 k)) \<le> max 0 (rl_max_attempts ?rl)"
    using sliding_log_bound [of "\<lambda>_. ?W" hist "\<lambda>_. rl_max_attempts ?rl", OF J0(5) b] .
  have hist1: "hist1 = (if b then hist(?key := hist ?key @ [now]) else hist)"
    using b by (auto simp: sliding_log_check_def split: if_splits)
  note more = covered_extend [OF J0(6), of now]
  have cov: "covered (\<lambda>a. a) (?W - 1000) ?W (gs @ (if a = Ok () \<and> x = email then [now] else [])) (hist1 ?k)"
  proof (cases "b \<and> ?key = ?k")
    case True
    then have "hist1 ?k = hist ?k @ [now]"
      by (simp add: hist1)
    then show ?thesis
      using more by simp
  next
    case False
    then have "hist1 ?k = hist ?k" "\<not> (a = Ok () \<and> x = email)"
      using step a(1) by (auto simp: hist1)
    then show ?thesis
      using J0(6) by auto
  qed
  have "sv_login_limiter s' = Fixed_Window ?rl c1" "sorted (now # map fst evs)"
    "insert ?key seen \<subseteq> (\<lambda>x. account_key ''login'' (Some x)) ` known"
    using a(2) s' J0(3,4) x by auto
  then show ?thesis
    unfolding fixed_J_def Let_def using step bound cov by blast
qed

end


sublocale fixed_budget \<subseteq> in_process_routes: login_budget en email known "fixed_J en keys email known"
proof
  show "fixed_J en keys email known gs evs s'" if "fixed_J en keys email known gs evs s" "limits s' = limits s" for gs evs s s'
    using that by (simp add: fixed_J_def limits_def)
  show skip: "fixed_J en keys email known gs evs s" if "fixed_J en keys email known gs (e # evs) s" for gs e evs s
    using that sorted_skip [of _ fst e evs] unfolding fixed_J_def Let_def by meson
  show "fixed_J en keys email known gs evs s" if "fixed_J en keys email known (gs @ gs') evs s" for gs gs' evs s
    using that covered_drop unfolding fixed_J_def Let_def by blast
  have frame: "fixed_J en keys email known gs evs s'" if "fixed_J en keys email known gs evs s" "sv_login_limiter s' = sv_login_limiter s"
    for gs evs s s'
    using that by (simp add: fixed_J_def)
  show "fixed_J en keys email known gs evs s' \<and> (r = Returns (Ok ()) \<or> limited r)"
    if "fixed_J en keys email known gs ((dr_now dr 0, dr_limit_ids dr 0) # evs) s" "check_rate_limit en dr req key s = (r, s')"
    for gs evs s s' dr req key r
    using that(2) enabled
  proof (rule check_rate_limit_answer)
    fix a l redis
    assume "s' = s\<lparr>sv_rate_limiter := l, sv_redis := redis\<rparr>" "r = Returns (Ok ()) \<and> a = Ok () \<or> limited r \<and> a \<noteq> Ok ()"
    then show ?thesis
      using frame [OF skip [OF that(1)], of s'] by auto
  qed
  fix gs dr evs s act ident r s'
  assume J: "fixed_J en keys email known gs ((dr_now dr 1, dr_limit_ids dr 1) # evs) s"
    and act: "act = ''login'' \<and> (\<exists>x\<in>known. ident = Some x) \<or> act = ''reset'' \<or> act = ''verify''"
    and run: "check_per_account_rate_limit en dr act ident s = (r, s')"
  then have "act \<in> {''login'', ''reset'', ''verify''}"
    by blast
  with run enabled show "r = Returns (Ok ()) \<and>
      fixed_J en keys email known (gs @ (if act = ''login'' \<and> ident = Some email then [dr_now dr 1] else [])) evs s' \<or>
      limited r \<and> fixed_J en keys email known gs evs s'"
  proof (rule check_per_account_answer)
    fix a l redis
    assume check: "limiter_check en (dr_now dr 1) (dr_limit_ids dr 1) (account_key act ident)
        (if act = ''login'' then sv_login_limiter s else if act = ''reset'' then sv_reset_limiter s else sv_verify_limiter s,
         sv_redis s) = (a, l, redis)"
      and s': "s' = (if act = ''login'' then s\<lparr>sv_login_limiter := l, sv_redis := redis\<rparr>
        else if act = ''reset'' then s\<lparr>sv_reset_limiter := l, sv_redis := redis\<rparr>
        else s\<lparr>sv_verify_limiter := l, sv_redis := redis\<rparr>)"
      and r: "r = Returns (Ok ()) \<and> a = Ok () \<or> limited r \<and> a \<noteq> Ok ()"
    show ?thesis
    proof (cases "act = ''login''")
      case True
      then obtain x where x: "x \<in> known" "ident = Some x"
        using act by auto
      show ?thesis
        using fixed_login [OF J x(1), of a l redis s'] check s' r True x(2) by auto
    next
      case False
      then show ?thesis
        using frame [OF skip [OF J], of s'] s' r by auto
    qed
  qed
qed

end
