(* ===== verification/Auth_Budget.thy ===== *)
theory Auth_Budget
  imports Auth_Http_Props
begin

text \<open>
  The per-account budget over the Redis limiters, which share one server, and the
  bound on password attempts for a container as it is built at start-up.
\<close>

definition redis_rl :: "app_settings \<Rightarrow> string \<Rightarrow> rate_limiter" where
  "redis_rl st key =
     (if take 1 key = ''/'' then DEFAULT_LIMIT
      else if take 13 key = ''per_account:l'' then login_limit st
      else if take 13 key = ''per_account:r'' then reset_limit st
      else verify_limit st)"

lemma redis_rl_account [simp]:
  "redis_rl st (account_key ''login'' x) = login_limit st" "redis_rl st (account_key ''reset'' x) = reset_limit st"
  "redis_rl st (account_key ''verify'' x) = verify_limit st"
  by (simp_all add: redis_rl_def account_key_def)

lemma redis_rl_ip: "take 1 (hr_path req) = ''/'' \<Longrightarrow> redis_rl st (ip_key req key) = DEFAULT_LIMIT"
  by (cases "hr_path req") (simp_all add: redis_rl_def ip_key_def)

definition redis_limiters :: "app_settings \<Rightarrow> ('c, 'p, 'r) auth_server \<Rightarrow> bool" where
  "redis_limiters st s \<longleftrightarrow>
     sv_rate_limiter s = Redis_Window DEFAULT_LIMIT \<and> sv_login_limiter s = Redis_Window (login_limit st) \<and>
     sv_reset_limiter s = Redis_Window (reset_limit st) \<and> sv_verify_limiter s = Redis_Window (verify_limit st)"

definition redis_J ::
  "('tok, 'c, 'p, 'r) auth_env \<Rightarrow> (int \<Rightarrow> 'r \<Rightarrow> string \<Rightarrow> zmember \<Rightarrow> int option) \<Rightarrow> string \<Rightarrow> datetime list \<Rightarrow>
   (datetime \<times> uuid) list \<Rightarrow> ('c, 'p, 'r) auth_server \<Rightarrow> bool" where
  "redis_J en zs email gs evs s \<longleftrightarrow>
     (let st = en_settings en; W = rl_window_seconds (login_limit st) in
      redis_limiters st s \<and>
      (\<exists>hist t seen. redis_rel (redis_rl st) zs t seen (sv_redis s) hist \<and>
        sorted (t # map (\<lambda>e. fst e div 1000) evs) \<and> distinct (map snd evs) \<and> seen \<inter> set (map snd evs) = {} \<and>
        (\<forall>k a. int (hits_in (rl_window_seconds (redis_rl st k) * 1000 - 1) a (hist k)) \<le> max 0 (rl_max_attempts (redis_rl st k))) \<and>
        covered (\<lambda>a. a div 1000) (seconds W - 1000) (W * 1000 - 1) gs (hist (account_key ''login'' (Some email)))))"

lemma window_in_ms:
  assumes "a \<le> now" and "now \<le> a + (seconds W - 1000)"
  shows "a div 1000 \<le> now div 1000 \<and> now div 1000 \<le> a div 1000 + (W * 1000 - 1)"
proof
  show "a div 1000 \<le> now div 1000"
    using assms(1) by (simp add: zdiv_mono1)
  have "now \<le> a + (W * 1000 - 1) * 1000"
    using assms(2) by simp
  then have "now div 1000 \<le> (a + (W * 1000 - 1) * 1000) div 1000"
    by (simp add: zdiv_mono1)
  then show "now div 1000 \<le> a div 1000 + (W * 1000 - 1)"
    by (subst (asm) div_mult_self1) simp_all
qed

locale redis_budget = redis_server "en_redis en" "redis_rl (en_settings en)" zs
  for en :: "('tok, 'c, 'p, 'r) auth_env" and zs :: "int \<Rightarrow> 'r \<Rightarrow> string \<Rightarrow> zmember \<Rightarrow> int option" +
  fixes email :: string
  assumes enabled: "auth_rate_limit_enabled (en_settings en)"
begin

lemma redis_step:
  assumes J: "redis_J en zs email gs ((now, u) # evs) s"
    and check: "redis_check (en_redis en) (redis_rl (en_settings en) key) (now div 1000) key u (sv_redis s) = (a, redis)"
    and s': "redis_limiters (en_settings en) s'" "sv_redis s' = redis"
  shows "redis_J en zs email (gs @ (if a = Ok () \<and> key = account_key ''login'' (Some email) then [now] else [])) evs s'"
proof -
  let ?rl = "redis_rl (en_settings en)" and ?k = "account_key ''login'' (Some email)" and ?now = "now div 1000"
  let ?W = "rl_window_seconds (login_limit (en_settings en))" and ?ws = "\<lambda>k. rl_window_seconds (?rl k) * 1000 - 1"
  obtain hist t seen where J0: "redis_rel ?rl zs t seen (sv_redis s) hist"
      "sorted (t # map (\<lambda>e. fst e div 1000) ((now, u) # evs))" "distinct (map snd ((now, u) # evs))"
      "seen \<inter> set (map snd ((now, u) # evs)) = {}"
      "\<forall>k a. int (hits_in (?ws k) a (hist k)) \<le> max 0 (rl_max_attempts (?rl k))"
      "covered (\<lambda>a. a div 1000) (seconds ?W - 1000) (?W * 1000 - 1) gs (hist ?k)"
    using J unfolding redis_J_def Let_def by blast
  obtain b hist1 where b: "sliding_log_check (rl_max_attempts (?rl key)) (?ws key) ?now key hist = (b, hist1)"
    by force
  have "t \<le> ?now" "u \<notin> seen"
    using J0(2,4) by auto
  then have step: "(a = Ok ()) = b \<and> redis_rel ?rl zs ?now (insert u seen) redis hist1"
    using distributed.check_step [of t seen "sv_redis s" hist ?now key u a redis, OF J0(1) _ _ _ b] check by simp
  have bound: "\<forall>k a. int (hits_in (?ws k) a (hist1 k)) \<le> max 0 (rl_max_attempts (?rl k))"
    using sliding_log_bound [of ?ws hist "\<lambda>k. rl_max_attempts (?rl k)", OF J0(5) b] .
  have hist1: "hist1 = (if b then hist(key := hist key @ [?now]) else hist)"
    using b by (auto simp: sliding_log_check_def split: if_splits)
  have cov: "covered (\<lambda>a. a div 1000) (seconds ?W - 1000) (?W * 1000 - 1) (gs @ (if a = Ok () \<and> key = ?k then [now] else [])) (hist1 ?k)"
  proof (cases "b \<and> key = ?k")
    case True
    then have "hist1 ?k = hist ?k @ [?now]"
      by (simp add: hist1)
    then show ?thesis
      using covered_extend(2) [OF J0(6) window_in_ms] True step by simp
  next
    case False
    then have "hist1 ?k = hist ?k" "\<not> (a = Ok () \<and> key = ?k)"
      using step by (auto simp: hist1)
    then show ?thesis
      using J0(6) by auto
  qed
  have "sorted (?now # map (\<lambda>e. fst e div 1000) evs)" "distinct (map snd evs)" "insert u seen \<inter> set (map snd evs) = {}"
    using J0(2,3,4) by auto
  then show ?thesis
    unfolding redis_J_def Let_def using step bound cov s' by blast
qed

end

sublocale redis_budget \<subseteq> redis_routes: login_budget en email known "redis_J en zs email"
proof
  show "redis_J en zs email gs evs s'" if "redis_J en zs email gs evs s" "limits s' = limits s" for gs evs s s'
    using that by (simp add: redis_J_def redis_limiters_def limits_def)
  show "redis_J en zs email gs evs s" if "redis_J en zs email gs (e # evs) s" for gs e evs s
  proof -
    have "distinct (map snd (e # evs)) \<Longrightarrow> distinct (map snd evs)" "seen \<inter> set (map snd (e # evs)) = {} \<Longrightarrow> seen \<inter> set (map snd evs) = {}" for seen
      by auto
    then show ?thesis
      using that sorted_skip [of _ "\<lambda>e. fst e div 1000" e evs] unfolding redis_J_def Let_def by meson
  qed
  show drop: "redis_J en zs email gs evs s" if "redis_J en zs email (gs @ gs') evs s" for gs gs' evs s
    using that covered_drop unfolding redis_J_def Let_def by blast
  have limiters: "redis_limiters (en_settings en) s" if "redis_J en zs email gs evs s" for gs evs s
    using that by (simp add: redis_J_def Let_def)
  show "redis_J en zs email gs evs s' \<and> (r = Returns (Ok ()) \<or> limited r)"
    if J: "redis_J en zs email gs ((dr_now dr 0, dr_limit_ids dr 0) # evs) s" and path: "take 1 (hr_path req) = ''/''"
      and run: "check_rate_limit en dr req key s = (r, s')"
    for gs evs s s' dr req key r
    using run enabled
  proof (rule check_rate_limit_answer)
    fix a l redis
    assume check: "limiter_check en (dr_now dr 0) (dr_limit_ids dr 0) (ip_key req key) (sv_rate_limiter s, sv_redis s) = (a, l, redis)"
      and s': "s' = s\<lparr>sv_rate_limiter := l, sv_redis := redis\<rparr>" and r: "r = Returns (Ok ()) \<and> a = Ok () \<or> limited r \<and> a \<noteq> Ok ()"
    have "redis_check (en_redis en) (redis_rl (en_settings en) (ip_key req key)) (dr_now dr 0 div 1000) (ip_key req key) (dr_limit_ids dr 0)
        (sv_redis s) = (a, redis)" "redis_limiters (en_settings en) s'" "sv_redis s' = redis"
      using check s' limiters [OF J] redis_rl_ip [OF path, of "en_settings en" key]
      by (auto simp: limiter_check_def redis_limiters_def split: prod.splits)
    then show ?thesis
      using redis_step [OF J] drop r by blast
  qed
  fix gs dr evs s act ident r s'
  assume J: "redis_J en zs email gs ((dr_now dr 1, dr_limit_ids dr 1) # evs) s"
    and act: "act = ''login'' \<and> (\<exists>x\<in>known. ident = Some x) \<or> act = ''reset'' \<or> act = ''verify''"
    and run: "check_per_account_rate_limit en dr act ident s = (r, s')"
  then have act': "act \<in> {''login'', ''reset'', ''verify''}"
    by blast
  with run enabled show "r = Returns (Ok ()) \<and>
      redis_J en zs email (gs @ (if act = ''login'' \<and> ident = Some email then [dr_now dr 1] else [])) evs s' \<or>
      limited r \<and> redis_J en zs email gs evs s'"
  proof (rule check_per_account_answer)
    fix a :: "(unit, auth_error) result" and l redis
    let ?gs = "gs @ (if a = (Ok () :: (unit, auth_error) result) \<and> account_key act ident = account_key ''login'' (Some email) then [dr_now dr 1] else [])"
    assume check: "limiter_check en (dr_now dr 1) (dr_limit_ids dr 1) (account_key act ident)
        (if act = ''login'' then sv_login_limiter s else if act = ''reset'' then sv_reset_limiter s else sv_verify_limiter s,
         sv_redis s) = (a, l, redis)"
      and s': "s' = (if act = ''login'' then s\<lparr>sv_login_limiter := l, sv_redis := redis\<rparr>
        else if act = ''reset'' then s\<lparr>sv_reset_limiter := l, sv_redis := redis\<rparr>
        else s\<lparr>sv_verify_limiter := l, sv_redis := redis\<rparr>)"
      and r: "r = Returns (Ok ()) \<and> a = Ok () \<or> limited r \<and> a \<noteq> Ok ()"
    have "redis_check (en_redis en) (redis_rl (en_settings en) (account_key act ident)) (dr_now dr 1 div 1000)
        (account_key act ident) (dr_limit_ids dr 1) (sv_redis s) = (a, redis)"
      "redis_limiters (en_settings en) s'" "sv_redis s' = redis"
      using check s' limiters [OF J] act' by (auto simp: limiter_check_def redis_limiters_def split: prod.splits)
    then have "redis_J en zs email ?gs evs s'"
      using redis_step [OF J] by blast
    then show ?thesis
      using drop [of gs _ evs s'] r by (cases "act = ''login'' \<and> ident = Some email") auto
  qed
qed


subsection \<open>The bound on password attempts\<close>

definition attempted :: "(draws \<times> 'tok http_request \<times> auth_call) list \<Rightarrow> string set" where
  "attempted calls = {x. \<exists>c\<in>set calls. attempt_of (snd (snd c)) = Some x}"

lemma finite_attempted: "finite (attempted calls)"
proof -
  have "attempted calls \<subseteq> (\<lambda>c. the (attempt_of (snd (snd c)))) ` set calls"
    by (force simp: attempted_def)
  then show ?thesis
    by (rule finite_subset) simp
qed

lemma covered_Nil: "covered unit w w' [] []" "int (hits_in w a []) \<le> max 0 n"
  by (simp_all add: covered_def hits_in_def)

lemma built_limiters:
  assumes "build_auth_container st fresh cache db redis = Returns s"
  shows "if truthy (auth_redis_url st) then redis_limiters st s \<and> sv_redis s = redis
    else sv_login_limiter s = Fixed_Window (login_limit st) (fresh (login_limit st))"
  using assms by (auto simp: build_auth_container_def redis_limiters_def Let_def outcome_simps split: if_splits)

context fixed_budget
begin

lemma fixed_bounded:
  assumes s: "sv_login_limiter s = Fixed_Window (login_limit (en_settings en)) c" and "keys c = {}"
    and "\<And>now k. attempts_of (en_attempts en (login_limit (en_settings en))) now c k = []"
    and "sorted (0 # map fst (call_readings calls))" and "attempted calls \<subseteq> known"
  shows "int (hits_in (seconds (rl_window_seconds (login_limit (en_settings en))) - 1000) a
    (guesses email calls (fst (serve_all en calls s)))) \<le> max 0 (rl_max_attempts (login_limit (en_settings en)))"
proof -
  let ?rl = "login_limit (en_settings en)"
  have "attempts_rel (en_attempts en ?rl) ?rl keys 0 {} c (\<lambda>_. [])"
    by (simp add: attempts_rel_def assms(2,3))
  then have "fixed_J en keys email known [] (call_readings calls @ []) s"
    unfolding fixed_J_def Let_def append_Nil2 using s assms(4) covered_Nil
    by (intro exI [of _ c] exI [of _ "\<lambda>_. []"] exI [of _ 0] exI [of _ "{}"]) simp
  then have "fixed_J en keys email known ([] @ guesses email calls (fst (serve_all en calls s))) [] (snd (serve_all en calls s))"
    by (rule in_process_routes.serve_all_budget) (use assms(5) in \<open>force simp: attempted_def\<close>)
  then show ?thesis
    unfolding fixed_J_def Let_def covered_def append_Nil by (meson of_nat_mono order_trans)
qed

end

context redis_budget
begin

lemma redis_bounded:
  assumes s: "redis_limiters (en_settings en) s" and "\<And>now k. zs now (sv_redis s) k = Map.empty"
    and "sorted (0 # map fst (call_readings calls))" and "distinct (map snd (call_readings calls))"
  shows "int (hits_in (seconds (rl_window_seconds (login_limit (en_settings en))) - 1000) a
    (guesses email calls (fst (serve_all en calls s)))) \<le> max 0 (rl_max_attempts (login_limit (en_settings en)))"
proof -
  let ?rl = "login_limit (en_settings en)" and ?k = "account_key ''login'' (Some email)"
  have "redis_rel (redis_rl (en_settings en)) zs 0 {} (sv_redis s) (\<lambda>_. [])"
    by (simp add: redis_rel_def assms(2) above_def)
  moreover have "sorted (0 # map (\<lambda>e. fst e div 1000) (call_readings calls))"
    using assms(3) by (auto simp: sorted_map zdiv_mono1 pos_imp_zdiv_nonneg_iff elim: sorted_wrt_mono_rel [rotated])
  ultimately have "redis_J en zs email [] (call_readings calls @ []) s"
    unfolding redis_J_def Let_def append_Nil2 using s assms(4) covered_Nil
    by (intro conjI exI [of _ "\<lambda>_. []"] exI [of _ 0] exI [of _ "{}"]) simp_all
  then have "redis_J en zs email ([] @ guesses email calls (fst (serve_all en calls s))) [] (snd (serve_all en calls s))"
    by (rule redis_routes.serve_all_budget) (force simp: attempted_def)
  then obtain hist where hist: "\<forall>k a. int (hits_in (rl_window_seconds (redis_rl (en_settings en) k) * 1000 - 1) a (hist k))
      \<le> max 0 (rl_max_attempts (redis_rl (en_settings en) k))"
    and cov: "covered (\<lambda>a. a div 1000) (seconds (rl_window_seconds ?rl) - 1000) (rl_window_seconds ?rl * 1000 - 1)
      (guesses email calls (fst (serve_all en calls s))) (hist ?k)"
    unfolding redis_J_def Let_def append_Nil by blast
  have "int (hits_in (seconds (rl_window_seconds ?rl) - 1000) a (guesses email calls (fst (serve_all en calls s))))
      \<le> int (hits_in (rl_window_seconds ?rl * 1000 - 1) (a div 1000) (hist ?k))"
    using cov by (simp add: covered_def)
  then show ?thesis
    using hist [rule_format, of ?k "a div 1000"] by simp
qed

end

text \<open>
  C28. Password attempts on one account are bounded however they are spread. With
  rate limiting on, in the container built at start-up and on any sequence of
  requests to the authentication routes, at most
  \<open>auth_per_account_login_max_attempts\<close> log-in or registration requests that name
  one account (in any spelling, from any address) get past the limiters in any
  stretch of time one millisecond shorter than the configured window. This holds
  for the in-process limiters (no more accounts than the cache holds, time
  moving forward) and for the Redis limiters, which share one server with all the
  others.
\<close>

theorem login_guesses_bounded:
  fixes en :: "('tok, 'c, 'p, 'r) auth_env"
  assumes "build_auth_container (en_settings en) fresh cache db redis = Returns s"
    and "auth_rate_limit_enabled (en_settings en)"
    and "sorted (0 # map fst (call_readings calls))" and "distinct (map snd (call_readings calls))"
    and "truthy (auth_redis_url (en_settings en)) \<Longrightarrow> redis_laws (en_redis en) zs \<and> (\<forall>now k. zs now redis k = Map.empty)"
    and "\<not> truthy (auth_redis_url (en_settings en)) \<Longrightarrow>
      attempt_cache_laws (en_attempts en (login_limit (en_settings en))) (attempts_ttl (login_limit (en_settings en))) FIXED_WINDOW_MAX_KEYS keys \<and>
      keys (fresh (login_limit (en_settings en))) = {} \<and>
      (\<forall>now k. attempts_of (en_attempts en (login_limit (en_settings en))) now (fresh (login_limit (en_settings en))) k = []) \<and>
      card (attempted calls) \<le> FIXED_WINDOW_MAX_KEYS"
  shows "int (hits_in (seconds (auth_per_account_login_window_seconds (en_settings en)) - 1000) a
      (guesses email calls (fst (serve_all en calls s)))) \<le> max 0 (auth_per_account_login_max_attempts (en_settings en))"
proof -
  note built = built_limiters [OF assms(1)]
  have rl: "rl_window_seconds (login_limit (en_settings en)) = auth_per_account_login_window_seconds (en_settings en)"
    "rl_max_attempts (login_limit (en_settings en)) = auth_per_account_login_max_attempts (en_settings en)"
    by (simp_all add: login_limit_def)
  show ?thesis
  proof (cases "truthy (auth_redis_url (en_settings en))")
    case True
    then have "redis_budget en zs"
      using assms(2,5) by (intro redis_budget.intro redis_server.intro redis_budget_axioms.intro) auto
    from redis_budget.redis_bounded [OF this, of s calls a email] show ?thesis
      using True built assms(3,4,5) by (simp add: rl)
  next
    case False
    then have "fixed_budget en FIXED_WINDOW_MAX_KEYS keys (attempted calls)"
      using assms(2,6) finite_attempted by (intro fixed_budget.intro ttl_attempts.intro fixed_budget_axioms.intro) auto
    from fixed_budget.fixed_bounded [OF this, of s "fresh (login_limit (en_settings en))" calls a email] show ?thesis
      using False built assms(3,6) by (simp add: rl)
  qed
qed

definition sample_env ::
  "(jwt_claims \<times> string \<times> string, string \<Rightarrow> (int \<times> int list) option, unit, sample_zstate) auth_env" where
  "sample_env =
     \<lparr>en_settings = sample_settings\<lparr>auth_per_account_login_max_attempts := 1\<rparr>, en_hasher = sample_hasher, en_jwt = sample_jwt,
      en_cache = \<lparr>pc_get = \<lambda>now c k. None, pc_set = \<lambda>now k p c. c, pc_pop = \<lambda>now k c. c, pc_invalidate_user = \<lambda>now u c. c\<rparr>,
      en_attempts = \<lambda>rl. sample_attempts (attempts_ttl rl), en_redis = sample_redis, en_uow = True, en_writer = True,
      en_bracketed_ok = \<lambda>_. False\<rparr>"

lemma sample_env_enabled: "auth_rate_limit_enabled (en_settings sample_env)"
  by (simp add: sample_env_def sample_settings_def default_settings_def)

interpretation sample_fixed_routes: fixed_budget sample_env FIXED_WINDOW_MAX_KEYS dom email "{email}" for email
  by unfold_locales (simp_all add: sample_env_enabled FIXED_WINDOW_MAX_KEYS_def, simp add: sample_env_def sample_attempts_laws)

interpretation sample_redis_routes: redis_budget sample_env sample_zs email for email
  by unfold_locales (simp_all add: sample_env_enabled, simp add: sample_env_def sample_redis_laws)

definition sample_draws :: "int \<Rightarrow> uuid \<Rightarrow> draws" where
  "sample_draws t u =
     \<lparr>dr_clk = \<lambda>n. t, dr_ids = word_of_nat, dr_raw = ''raw'', dr_carrier = [], dr_now = \<lambda>n. t, dr_resolve = t,
      dr_limit_ids = \<lambda>n. u + of_nat n\<rparr>"

definition sample_request :: "string \<Rightarrow> (jwt_claims \<times> string \<times> string) http_request" where
  "sample_request ip = \<lparr>hr_path = [], hr_client = Some ip, hr_headers = [], hr_cookies = [], hr_bearer = None\<rparr>"

definition sample_calls :: "(draws \<times> (jwt_claims \<times> string \<times> string) http_request \<times> auth_call) list" where
  "sample_calls =
     [(sample_draws 5 10, sample_request ''1.1.1.1'', Login ''a@x'' ''guess''),
      (sample_draws 7 20, sample_request ''2.2.2.2'', Login ''A@X '' ''guess'')]"

theorem login_guesses_bounded_witness:
  "\<exists>s. build_auth_container (en_settings sample_env) (\<lambda>_. Map.empty) () sample_auth_db (\<lambda>k. ([], None)) = Returns s \<and>
     hits_in (seconds 3600 - 1000) 0 (guesses ''a@x'' sample_calls (fst (serve_all sample_env sample_calls s))) \<le> 1"
proof -
  obtain s :: "(string \<Rightarrow> (int \<times> int list) option, unit, sample_zstate) auth_server" where s: "build_auth_container (en_settings sample_env) (\<lambda>_. Map.empty) () sample_auth_db (\<lambda>k. ([], None)) = Returns s"
    by (simp add: build_auth_container_def sample_env_def truthy_def check_internal_token_exposure_def sample_settings_def
        default_settings_def)
  have st: "auth_redis_url (en_settings sample_env) = None" "auth_rate_limit_enabled (en_settings sample_env)"
    "auth_per_account_login_window_seconds (en_settings sample_env) = 3600"
    "auth_per_account_login_max_attempts (en_settings sample_env) = 1"
    "en_attempts sample_env rl = sample_attempts (attempts_ttl rl)" for rl
    by (simp_all add: sample_env_def sample_settings_def default_settings_def)
  have "attempted sample_calls \<subseteq> {normalize_email ''a@x'', normalize_email ''A@X ''}"
    by (auto simp: attempted_def sample_calls_def)
  then have "card (attempted sample_calls) \<le> card {normalize_email ''a@x'', normalize_email ''A@X ''}"
    by (intro card_mono) simp_all
  moreover have "card {x, y} \<le> 2" for x y :: string
    by (simp add: card_insert_if)
  ultimately have "card (attempted sample_calls) \<le> 2"
    by (meson order_trans)
  then have "attempt_cache_laws (en_attempts sample_env (login_limit (en_settings sample_env)))
        (attempts_ttl (login_limit (en_settings sample_env))) FIXED_WINDOW_MAX_KEYS dom \<and>
      dom (Map.empty :: string \<Rightarrow> (int \<times> int list) option) = {} \<and>
      (\<forall>now k. attempts_of (en_attempts sample_env (login_limit (en_settings sample_env))) now Map.empty k = []) \<and>
      card (attempted sample_calls) \<le> FIXED_WINDOW_MAX_KEYS"
    by (simp add: st sample_attempts_laws attempts_of_def FIXED_WINDOW_MAX_KEYS_def) (simp add: sample_attempts_def)
  then have "int (hits_in (seconds (auth_per_account_login_window_seconds (en_settings sample_env)) - 1000) 0
      (guesses ''a@x'' sample_calls (fst (serve_all sample_env sample_calls s))))
      \<le> max 0 (auth_per_account_login_max_attempts (en_settings sample_env))"
    by (intro login_guesses_bounded [OF s, where keys = dom])
      (simp_all add: st truthy_def call_readings_def sample_calls_def sample_draws_def)
  then show ?thesis
    using s by (simp add: st)
qed

end
