(* ===== verification/Cookie_Origin.thy ===== *)
theory Cookie_Origin
  imports Auth_Budget
begin

text \<open>
  The cookie routes (refresh and logout) act only on requests that come from a
  configured origin. \<open>provenance\<close> is the origin a request claims, by its
  \<open>Origin\<close> header or else by its \<open>Referer\<close>.
\<close>

definition provenance :: "('tok, 'c, 'p, 'r) auth_env \<Rightarrow> 'tok http_request \<Rightarrow> string option outcome" where
  "provenance en req =
     (case get_header req ''origin'' of
        Some o1 \<Rightarrow> Returns (Some o1)
      | None \<Rightarrow> (case get_header req ''referer'' of None \<Rightarrow> Returns None | Some ref \<Rightarrow> referer_origin (en_bracketed_ok en) ref))"

definition trusted_request :: "('tok, 'c, 'p, 'r) auth_env \<Rightarrow> 'tok http_request \<Rightarrow> bool" where
  "trusted_request en req \<longleftrightarrow> (\<exists>o1\<in>set (cors_origins (en_settings en)). provenance en req = Returns (Some o1))"

lemma enforce_eq:
  assumes "dict_has (hr_cookies req) REFRESH_COOKIE_NAME" and "''*'' \<notin> set (cors_origins (en_settings en))"
  shows "enforce_cookie_origin en req s =
    (case provenance en req of
       Raises e \<Rightarrow> (Raises e, s)
     | Returns None \<Rightarrow> refuse (http_exception 403 []) s
     | Returns (Some o1) \<Rightarrow>
         if o1 \<in> set (cors_origins (en_settings en)) then reply () s else refuse (http_exception 403 []) s)"
proof -
  have wildcard: "(cors_origins (en_settings en) = [''*''] \<or> ''*'' \<in> set (cors_origins (en_settings en))) = False"
    using assms(2) by auto
  show ?thesis
    unfolding enforce_cookie_origin_def provenance_def Let_def wildcard
    using assms(1) by (simp split: option.split outcome.split)
qed

lemma referer_origin_raises: "referer_origin ok ref = Raises e \<Longrightarrow> e = ValueError"
  by (auto simp: referer_origin_def split_port_def split: outcome.splits option.splits if_splits)

lemma provenance_raises: "provenance en req = Raises e \<Longrightarrow> e = ValueError \<and> get_header req ''origin'' = None"
  by (auto simp: provenance_def dest: referer_origin_raises split: option.splits)

lemma auth_error_has_code: "http_from_auth_error e \<noteq> http_exception 403 []"
  by (cases e) (simp_all add: application_http_exception_def http_exception_def)

lemma match_result_coded: "(\<And>x s. fst (f x s) \<noteq> Returns (Err (http_exception 403 []))) \<Longrightarrow>
    fst (match_result m f s) \<noteq> Returns (Err (http_exception 403 []))"
  unfolding match_result_def andthen_def raise_http_from_auth_error_def refuse_def
  by (auto simp: auth_error_has_code split: prod.split outcome.split result.split)

lemma wrap_problem: "wrap f m s = (Returns (Err p), s') \<longleftrightarrow> m s = (Returns (Err p), s')"
  by (auto simp: wrap_def http_bind_cases reply_def split: prod.splits outcome.splits result.splits)

lemma wrap_gated:
  assumes "wrap g (http_bind m f) s = (r, s')"
  shows "m s = (Returns (Err p), s1) \<Longrightarrow> r = Returns (Err p) \<and> s' = s1"
    and "m s = (Raises e, s1) \<Longrightarrow> r = Raises e \<and> s' = s1"
    and "m s = (Returns (Ok x), s1) \<Longrightarrow> wrap g (f x) s1 = (r, s')"
  using assms by (auto simp: wrap_def http_bind_cases)

lemma origin_gate:
  assumes "dict_has (hr_cookies req) REFRESH_COOKIE_NAME" and "''*'' \<notin> set (cors_origins (en_settings en))"
    and run: "wrap g (http_bind (enforce_cookie_origin en req) f) s = (r, s')"
    and f: "\<And>x s. fst (f x s) \<noteq> Returns (Err (http_exception 403 []))"
  shows "if trusted_request en req then r \<noteq> Returns (Err (http_exception 403 []))
    else s' = s \<and> (r = Returns (Err (http_exception 403 [])) \<or>
      r = Raises ValueError \<and> get_header req ''origin'' = None \<and> reply_status 200 r = 500)"
proof (cases "trusted_request en req")
  case True
  then have "enforce_cookie_origin en req s = (Returns (Ok ()), s)"
    using enforce_eq [OF assms(1,2)] by (auto simp: trusted_request_def reply_def)
  then show ?thesis
    using True wrap_gated(3) [OF run] f wrap_problem [of g "f ()" s] by (metis fst_conv)
next
  case False
  show ?thesis
  proof (cases "provenance en req")
    case (Raises e)
    then show ?thesis
      using False wrap_gated(2) [OF run] enforce_eq [OF assms(1,2), of s] provenance_raises [OF Raises]
      by (simp add: reply_status_def)
  next
    case (Returns p)
    then have "enforce_cookie_origin en req s = (Returns (Err (http_exception 403 [])), s)"
      using False enforce_eq [OF assms(1,2), of s] by (auto simp: trusted_request_def refuse_def split: option.splits)
    then show ?thesis
      using False wrap_gated(1) [OF run] by simp
  qed
qed

text \<open>
  C29. The refresh cookie is of no use to another site. Unless the configuration
  trusts every origin, a refresh or logout that carries the cookie and does not
  come from a configured origin changes nothing and is refused with 403; a
  configured origin is never refused that way. A \<open>Referer\<close> with a malformed port is the exception: it is not
  refused, the handler raises \<open>ValueError\<close> and the client sees a 500.
\<close>

theorem cookie_needs_trusted_origin:
  assumes "dict_has (hr_cookies req) REFRESH_COOKIE_NAME" and "''*'' \<notin> set (cors_origins (en_settings en))"
    and "call = Refresh \<or> call = Logout" and "serve en dr req call s = (r, s')"
  shows "if trusted_request en req then r \<noteq> Returns (Err (http_exception 403 []))
    else s' = s \<and> (r = Returns (Err (http_exception 403 [])) \<or>
      r = Raises ValueError \<and> get_header req ''origin'' = None \<and> reply_status 200 r = 500)"
proof -
  let ?req = "req\<lparr>hr_path := call_path call\<rparr>"
  have same: "get_header ?req h = get_header req h" "hr_cookies ?req = hr_cookies req" for h
    by (simp_all add: get_header_def)
  have trusted: "trusted_request en ?req = trusted_request en req"
    unfolding trusted_request_def provenance_def same ..
  have "if trusted_request en ?req then r \<noteq> Returns (Err (http_exception 403 []))
    else s' = s \<and> (r = Returns (Err (http_exception 403 [])) \<or>
      r = Raises ValueError \<and> get_header ?req ''origin'' = None \<and> reply_status 200 r = 500)"
    using assms(3)
  proof
    assume Refresh: "call = Refresh"
    show ?thesis
      using assms(4) unfolding serve_def Refresh dispatch.simps route_refresh_def
      by (rule origin_gate [rotated 2]) (use assms(1,2) in \<open>simp_all add: match_result_coded reply_def\<close>)
  next
    assume Logout: "call = Logout"
    show ?thesis
      using assms(4) unfolding serve_def Logout dispatch.simps route_logout_def
      by (rule origin_gate [rotated 2]) (use assms(1,2) in \<open>simp_all add: reply_def\<close>)
  qed
  then show ?thesis
    unfolding trusted same .
qed

definition evil_request :: "(jwt_claims \<times> string \<times> string) http_request" where
  "evil_request =
     \<lparr>hr_path = [], hr_client = None, hr_headers = [(''referer'', ''http://evil:x/'')],
      hr_cookies = [(REFRESH_COOKIE_NAME, ''raw'')], hr_bearer = None\<rparr>"

lemma evil_referer: "referer_origin ok ''http://evil:x/'' = Raises ValueError"
  by code_simp

definition evil_env where
  "evil_env = sample_env\<lparr>en_settings := sample_settings\<lparr>cors_origins := [''https://app'']\<rparr>\<rparr>"

definition sample_server_state :: "(string \<Rightarrow> (int \<times> int list) option, unit, sample_zstate) auth_server" where
  "sample_server_state =
     \<lparr>sv_db = sample_auth_db, sv_cache = (), sv_rate_limiter = Fixed_Window DEFAULT_LIMIT Map.empty,
      sv_login_limiter = Fixed_Window DEFAULT_LIMIT Map.empty, sv_reset_limiter = Fixed_Window DEFAULT_LIMIT Map.empty,
      sv_verify_limiter = Fixed_Window DEFAULT_LIMIT Map.empty, sv_redis = \<lambda>k. ([], None)\<rparr>"

theorem cookie_needs_trusted_origin_witness:
  "\<exists>r. serve evil_env (sample_draws 5 10) evil_request Refresh sample_server_state = (r, sample_server_state) \<and>
     reply_status 200 r = 500"
proof -
  obtain r s' where run: "serve evil_env (sample_draws 5 10) evil_request Refresh sample_server_state = (r, s')"
    by force
  have cookie: "dict_has (hr_cookies evil_request) REFRESH_COOKIE_NAME"
    by (simp add: evil_request_def dict_has_def dict_get_def)
  have cors: "''*'' \<notin> set (cors_origins (en_settings evil_env))"
    by (simp add: evil_env_def)
  have "provenance evil_env evil_request = Raises ValueError"
    using evil_referer by (simp add: provenance_def evil_request_def get_header_def dict_get_def)
  then have "\<not> trusted_request evil_env evil_request"
    by (simp add: trusted_request_def)
  moreover have "r \<noteq> Returns (Err (http_exception 403 []))"
    using run evil_referer
    by (auto simp: serve_def route_refresh_def wrap_def http_bind_cases enforce_cookie_origin_def get_header_def dict_get_def
        evil_request_def)
  ultimately show ?thesis
    using cookie_needs_trusted_origin [OF cookie cors _ run] run by auto
qed

end
