(* ===== verification/User_Data_Props.thy ===== *)
theory User_Data_Props
  imports User_Data Account_Props Outbox_Relay
begin

text \<open>
  Both storage adapters implement a key-value store, and what the cleanup of a
  user's blobs does on any such store. A key is one of \<open>K\<close>, a set on which the
  paths of the local adapter do not collide (SHA-256 is only known to be
  collision-resistant). An operation that reports an error may or may not have
  taken effect.
\<close>

subsection \<open>The contract of the port\<close>

locale blob_store =
  fixes ops :: "'s storage_ops" and view :: "'s \<Rightarrow> string \<Rightarrow> bytes option" and inv :: "'s \<Rightarrow> bool" and K :: "string set"
  assumes put_law: "inv s \<Longrightarrow> k \<in> K \<Longrightarrow> so_put ops k c ty s = (r, s') \<Longrightarrow>
      inv s' \<and> (view s' = (view s)(k \<mapsto> c) \<or> r \<noteq> Ok () \<and> view s' = view s)"
    and delete_law: "inv s \<Longrightarrow> k \<in> K \<Longrightarrow> so_delete ops k s = (r', s') \<Longrightarrow>
      inv s' \<and> (view s' = (view s)(k := None) \<or> r' \<noteq> Ok () \<and> view s' = view s)"
    and get_law: "inv s \<Longrightarrow> k \<in> K \<Longrightarrow>
      (case so_get ops k s of Ok c \<Rightarrow> view s k = Some c | Err (ObjectNotFoundError k') \<Rightarrow> view s k = None | Err e \<Rightarrow> True)"
    and list_law: "inv s \<Longrightarrow> so_list ops pre s = Ok keys \<Longrightarrow> set keys = {k \<in> dom (view s). prefix pre k}"
    and view_keys: "inv s \<Longrightarrow> dom (view s) \<subseteq> K"

datatype storage_call = Put string bytes string | Delete string

fun call_key :: "storage_call \<Rightarrow> string" where
  "call_key (Put k c ty) = k"
| "call_key (Delete k) = k"

fun storage_step :: "'s storage_ops \<Rightarrow> storage_call \<Rightarrow> 's \<Rightarrow> (unit, storage_error) result \<times> 's" where
  "storage_step ops (Put k c ty) s = so_put ops k c ty s"
| "storage_step ops (Delete k) s = so_delete ops k s"

fun storage_run :: "'s storage_ops \<Rightarrow> storage_call list \<Rightarrow> 's \<Rightarrow> (unit, storage_error) result list \<times> 's" where
  "storage_run ops [] s = ([], s)"
| "storage_run ops (c # cs) s =
     (case storage_step ops c s of (r, s1) \<Rightarrow> case storage_run ops cs s1 of (rs, s2) \<Rightarrow> (r # rs, s2))"

fun map_step :: "storage_call \<Rightarrow> (string \<Rightarrow> bytes option) \<Rightarrow> string \<Rightarrow> bytes option" where
  "map_step (Put k c ty) m = m(k \<mapsto> c)"
| "map_step (Delete k) m = m(k := None)"

text \<open>The map that calls with these answers may lead to.\<close>

fun reflects :: "storage_call list \<Rightarrow> (unit, storage_error) result list \<Rightarrow> (string \<Rightarrow> bytes option) \<Rightarrow> (string \<Rightarrow> bytes option) \<Rightarrow> bool" where
  "reflects (c # cs) (r # rs) m m' \<longleftrightarrow> reflects cs rs (map_step c m) m' \<or> r \<noteq> Ok () \<and> reflects cs rs m m'"
| "reflects cs rs m m' \<longleftrightarrow> cs = [] \<and> rs = [] \<and> m' = m"

definition answers_as :: "'s storage_ops \<Rightarrow> string set \<Rightarrow> (string \<Rightarrow> bytes option) \<Rightarrow> 's \<Rightarrow> bool" where
  "answers_as ops K m s \<longleftrightarrow>
     (\<forall>k\<in>K. case so_get ops k s of Ok c \<Rightarrow> m k = Some c | Err (ObjectNotFoundError k') \<Rightarrow> m k = None | Err e \<Rightarrow> True) \<and>
     (\<forall>pre keys. so_list ops pre s = Ok keys \<longrightarrow> set keys = {k \<in> dom m. prefix pre k})"

context blob_store
begin

lemma step_law:
  assumes "inv s" and "call_key c \<in> K" and "storage_step ops c s = (r, s')"
  shows "inv s' \<and> (view s' = map_step c (view s) \<or> r \<noteq> Ok () \<and> view s' = view s)"
proof (cases c)
  case (Put k c' ty)
  then show ?thesis
    using put_law [OF assms(1), of k c' ty r s'] assms(2,3) by simp
next
  case (Delete k)
  then show ?thesis
    using delete_law [OF assms(1), of k r s'] assms(2,3) by simp
qed

lemma run_law:
  "inv s \<Longrightarrow> call_key ` set cs \<subseteq> K \<Longrightarrow> storage_run ops cs s = (rs, s') \<Longrightarrow> inv s' \<and> reflects cs rs (view s) (view s')"
proof (induction cs arbitrary: s rs s')
  case (Cons c cs)
  obtain r s1 where r: "storage_step ops c s = (r, s1)"
    by force
  obtain rs1 s2 where rest: "storage_run ops cs s1 = (rs1, s2)"
    by force
  have eqs: "rs = r # rs1" "s' = s2"
    using Cons.prems(3) r rest by auto
  have step: "inv s1" "view s1 = map_step c (view s) \<or> r \<noteq> Ok () \<and> view s1 = view s"
    using step_law [OF Cons.prems(1) _ r] Cons.prems(2) by auto
  have "inv s2 \<and> reflects cs rs1 (view s1) (view s2)"
    using Cons.IH [OF step(1) _ rest] Cons.prems(2) by simp
  then show ?case
    using step(2) eqs by auto
qed simp

lemma run_answers:
  assumes "inv s" and "call_key ` set cs \<subseteq> K" and "storage_run ops cs s = (rs, s')"
  shows "\<exists>m. reflects cs rs (view s) m \<and> answers_as ops K m s'"
proof -
  have run: "inv s'" "reflects cs rs (view s) (view s')"
    using run_law [OF assms] by blast+
  have "answers_as ops K (view s') s'"
    unfolding answers_as_def using get_law [OF run(1)] list_law [OF run(1)] by (intro conjI ballI allI impI)
  then show ?thesis
    using run(2) by blast
qed

lemma delete_keys_law:
  "inv s \<Longrightarrow> set keys \<subseteq> K \<Longrightarrow> delete_keys ops keys s = (r, s') \<Longrightarrow>
     inv s' \<and> (\<forall>k. k \<notin> set keys \<longrightarrow> view s' k = view s k) \<and> view s' \<subseteq>\<^sub>m view s \<and>
     (r = Ok () \<longrightarrow> (\<forall>k\<in>set keys. view s' k = None))"
proof (induction keys arbitrary: s)
  case (Cons key keys)
  obtain q s1 where q: "so_delete ops key s = (q, s1)"
    by force
  have step: "inv s1" "view s1 = (view s)(key := None) \<or> q \<noteq> Ok () \<and> view s1 = view s"
    using delete_law [OF Cons.prems(1) _ q] Cons.prems(2) by auto
  then have sub: "view s1 \<subseteq>\<^sub>m view s"
    by (auto simp: map_le_def split: if_splits)
  show ?case
  proof (cases q)
    case (Err e)
    then show ?thesis
      using Cons.prems(3) q step sub by auto
  next
    case (Ok u)
    have IH: "inv s' \<and> (\<forall>k. k \<notin> set keys \<longrightarrow> view s' k = view s1 k) \<and> view s' \<subseteq>\<^sub>m view s1 \<and>
        (r = Ok () \<longrightarrow> (\<forall>k\<in>set keys. view s' k = None))"
      using Cons.IH [OF step(1)] Cons.prems(2,3) q Ok by simp
    moreover have "view s1 = (view s)(key := None)"
      using step(2) Ok by auto
    ultimately show ?thesis
      using map_le_trans [of "view s'", OF _ sub] by auto
  qed
qed simp

lemma cleanup_law:
  assumes inv: "inv s" and run: "delete_user_assets ops i s = (r, s')"
  shows "inv s' \<and> (\<forall>k. \<not> prefix (user_prefix i) k \<longrightarrow> view s' k = view s k) \<and> view s' \<subseteq>\<^sub>m view s \<and>
    (r = Ok () \<longrightarrow> (\<forall>k. prefix (user_prefix i) k \<longrightarrow> view s' k = None))"
proof (cases "so_list ops (user_prefix i) s")
  case (Err e)
  then show ?thesis
    using assms by (auto simp: delete_user_assets_def)
next
  case (Ok keys)
  have keys: "set keys = {k \<in> dom (view s). prefix (user_prefix i) k}"
    by (rule list_law [OF inv Ok])
  obtain q s1 where q: "delete_keys ops keys s = (q, s1)"
    by force
  have run': "s' = s1" "r = Ok () \<longleftrightarrow> q = Ok ()"
    using run Ok q by (auto simp: delete_user_assets_def split: if_splits result.splits)
  have "set keys \<subseteq> K"
    using keys view_keys [OF inv] by auto
  then have law: "inv s1" "\<forall>k. k \<notin> set keys \<longrightarrow> view s1 k = view s k" "view s1 \<subseteq>\<^sub>m view s"
      "q = Ok () \<longrightarrow> (\<forall>k\<in>set keys. view s1 k = None)"
    using delete_keys_law [OF inv _ q] by blast+
  have gone: "view s1 k = None" if "q = Ok ()" "prefix (user_prefix i) k" for k
  proof (cases "k \<in> set keys")
    case False
    then have "view s k = None"
      using keys that(2) by auto
    then show ?thesis
      using law(2) False by simp
  qed (use law(4) that(1) in simp)
  show ?thesis
    unfolding run' using law(1,2,3) keys gone by auto
qed

end


subsection \<open>The local adapter\<close>

definition local_view :: "string \<Rightarrow> string set \<Rightarrow> filesystem \<Rightarrow> string \<Rightarrow> bytes option" where
  "local_view base_dir K fs k = (if k \<in> K then dict_get (fs_objects fs) (object_path base_dir k) else None)"

text \<open>Every object has its sidecar, and every sidecar is readable and belongs to an object.\<close>

definition local_inv :: "string \<Rightarrow> string set \<Rightarrow> filesystem \<Rightarrow> bool" where
  "local_inv base_dir K fs \<longleftrightarrow>
     (\<forall>k\<in>K. \<not> fs_broken fs (metadata_path base_dir k) \<and>
        dict_has (fs_objects fs) (object_path base_dir k) = dict_has (fs_sidecars fs) (metadata_path base_dir k)) \<and>
     (\<forall>entry\<in>set (fs_sidecars fs). \<exists>k\<in>K. fst entry = metadata_path base_dir k \<and> dict_get (snd entry) ''key'' = Some (JStr k))"

lemma dict_set_entries: "entry \<in> set (dict_set d k v) \<Longrightarrow> entry = (k, v) \<or> entry \<in> set d"
  unfolding dict_set_def by (induction d) (auto split: if_splits)

lemma dict_pop_entries: "entry \<in> set (dict_pop d k) \<Longrightarrow> entry \<in> set d \<and> fst entry \<noteq> k"
  by (cases entry) (auto simp: dict_pop_def AList.delete_eq)

locale local_store =
  fixes base_dir :: string and file_uri :: "string \<Rightarrow> string" and K :: "string set"
  assumes no_collision: "inj_on (object_path base_dir) K"
begin

lemma object_path_eq [simp]: "k \<in> K \<Longrightarrow> k' \<in> K \<Longrightarrow> object_path base_dir k = object_path base_dir k' \<longleftrightarrow> k = k'"
  using no_collision by (auto dest: inj_onD)

lemma metadata_path_eq [simp]: "k \<in> K \<Longrightarrow> k' \<in> K \<Longrightarrow> metadata_path base_dir k = metadata_path base_dir k' \<longleftrightarrow> k = k'"
  by (simp add: metadata_path_def)

lemma local_put_law:
  assumes inv: "local_inv base_dir K fs" and k: "k \<in> K" and run: "local_put base_dir k c ty fs = (r, fs')"
  shows "local_inv base_dir K fs' \<and>
    (local_view base_dir K fs' = (local_view base_dir K fs)(k \<mapsto> c) \<or> r \<noteq> Ok () \<and> local_view base_dir K fs' = local_view base_dir K fs)"
proof (cases "fs_broken fs (object_dir base_dir k) \<or> fs_broken fs (object_path base_dir k)")
  case True
  then show ?thesis
    using inv run by (auto simp: local_put_def)
next
  case False
  let ?fs = "fs\<lparr>fs_objects := dict_set (fs_objects fs) (object_path base_dir k) c,
    fs_sidecars := dict_set (fs_sidecars fs) (metadata_path base_dir k) [(''key'', JStr k), (''content_type'', JStr ty)]\<rparr>"
  have fs': "fs' = ?fs"
    using False run inv k by (auto simp: local_put_def local_inv_def Let_def)
  have "local_inv base_dir K ?fs"
    unfolding local_inv_def
  proof (intro conjI ballI)
    fix entry
    assume "entry \<in> set (fs_sidecars ?fs)"
    then have "entry = (metadata_path base_dir k, [(''key'', JStr k), (''content_type'', JStr ty)]) \<or> entry \<in> set (fs_sidecars fs)"
      using dict_set_entries [of entry "fs_sidecars fs"] by simp
    then show "\<exists>k\<in>K. fst entry = metadata_path base_dir k \<and> dict_get (snd entry) ''key'' = Some (JStr k)"
      using inv k unfolding local_inv_def by (auto simp: dict_get_def)
  qed (use inv k in \<open>auto simp: local_inv_def\<close>)
  moreover have "local_view base_dir K ?fs = (local_view base_dir K fs)(k \<mapsto> c)"
    using k by (auto simp: local_view_def fun_eq_iff)
  ultimately show ?thesis
    using fs' by simp
qed

lemma local_delete_law:
  assumes inv: "local_inv base_dir K fs" and k: "k \<in> K" and run: "local_delete base_dir k fs = (r, fs')"
  shows "local_inv base_dir K fs' \<and>
    (local_view base_dir K fs' = (local_view base_dir K fs)(k := None) \<or> r \<noteq> Ok () \<and> local_view base_dir K fs' = local_view base_dir K fs)"
proof (cases "fs_broken fs (object_path base_dir k)")
  case True
  then show ?thesis
    using inv run by (auto simp: local_delete_def)
next
  case False
  let ?fs = "fs\<lparr>fs_objects := dict_pop (fs_objects fs) (object_path base_dir k),
    fs_sidecars := dict_pop (fs_sidecars fs) (metadata_path base_dir k)\<rparr>"
  have fs': "fs' = ?fs"
    using False run inv k by (auto simp: local_delete_def local_inv_def Let_def)
  have "local_inv base_dir K ?fs"
    using inv k by (auto simp: local_inv_def dest!: dict_pop_entries)
  moreover have "local_view base_dir K ?fs = (local_view base_dir K fs)(k := None)"
    using k by (auto simp: local_view_def fun_eq_iff)
  ultimately show ?thesis
    using fs' by simp
qed

lemma local_list_law:
  assumes inv: "local_inv base_dir K fs" and run: "local_list pre fs = Ok keys"
  shows "set keys = {k \<in> dom (local_view base_dir K fs). prefix pre k}"
proof -
  have keys: "k \<in> set keys \<longleftrightarrow> (\<exists>entry\<in>set (fs_sidecars fs). listed_key fs pre entry = Some k)" for k
    using run by (force simp: local_list_def List.map_filter_def image_iff)
  have listed: "listed_key fs pre entry = Some k \<longleftrightarrow> k \<in> K \<and> fst entry = metadata_path base_dir k \<and> prefix pre k"
    if entry: "entry \<in> set (fs_sidecars fs)" for entry k
  proof -
    obtain k0 where "k0 \<in> K" "fst entry = metadata_path base_dir k0" "dict_get (snd entry) ''key'' = Some (JStr k0)"
      "\<not> fs_broken fs (metadata_path base_dir k0)"
      using bspec [OF conjunct2 [OF inv [unfolded local_inv_def]] entry] conjunct1 [OF inv [unfolded local_inv_def]] by blast
    then show ?thesis
      by (auto simp: listed_key_def)
  qed
  have stored: "(\<exists>entry\<in>set (fs_sidecars fs). fst entry = metadata_path base_dir k) \<longleftrightarrow> k \<in> dom (local_view base_dir K fs)"
    if "k \<in> K" for k
  proof -
    have "(\<exists>entry\<in>set (fs_sidecars fs). fst entry = metadata_path base_dir k) \<longleftrightarrow> dict_has (fs_sidecars fs) (metadata_path base_dir k)"
      by (force simp: dict_get_def map_of_eq_None_iff)
    then show ?thesis
      using inv that by (auto simp: local_inv_def local_view_def dom_def)
  qed
  have "k \<in> K" if "k \<in> dom (local_view base_dir K fs)" for k
    using that by (auto simp: local_view_def split: if_splits)
  then show ?thesis
    using keys listed stored by blast
qed

end

sublocale local_store \<subseteq> files: blob_store "local_ops file_uri base_dir" "local_view base_dir K" "local_inv base_dir K" K
proof
  show "case so_get (local_ops file_uri base_dir) k fs of Ok c \<Rightarrow> local_view base_dir K fs k = Some c
      | Err (ObjectNotFoundError k') \<Rightarrow> local_view base_dir K fs k = None | Err e \<Rightarrow> True" if "k \<in> K" for fs k
    using that by (auto simp: local_ops_def local_get_def local_view_def split: option.split)
  show "dom (local_view base_dir K fs) \<subseteq> K" for fs
    by (auto simp: local_view_def split: if_splits)
qed (unfold local_ops_def storage_ops.simps, (erule local_put_law local_delete_law local_list_law; assumption)+)


context local_store
begin

lemmas local_answers = files.run_answers and local_cleanup = files.cleanup_law

end


subsection \<open>The S3 adapter\<close>

text \<open>What the code relies on of the client; \<open>vw s\<close> is the content of the bucket.\<close>

definition s3_laws :: "'s s3_client \<Rightarrow> string \<Rightarrow> ('s \<Rightarrow> string \<Rightarrow> bytes option) \<Rightarrow> bool" where
  "s3_laws client bucket vw \<longleftrightarrow>
     (\<forall>k c ty s r s'. put_object client bucket k c ty s = (r, s') \<longrightarrow>
        vw s' = (vw s)(k \<mapsto> c) \<or> r \<noteq> Answer () \<and> vw s' = vw s) \<and>
     (\<forall>k s r s'. delete_object client bucket k s = (r, s') \<longrightarrow>
        vw s' = (vw s)(k := None) \<or> r \<noteq> Answer () \<and> vw s' = vw s) \<and>
     (\<forall>k c s. get_object client bucket k s = Answer c \<longrightarrow> vw s k = Some c) \<and>
     (\<forall>k code msg status s. get_object client bucket k s = Client_Error code msg status \<longrightarrow>
        is_not_found code status \<longrightarrow> vw s k = None) \<and>
     (\<forall>pre pages s. list_objects_v2 client bucket pre s = Answer pages \<longrightarrow>
        set (concat pages) = {k \<in> dom (vw s). prefix pre k})"

lemma from_boto_Ok [simp]: "from_boto r = Ok x \<longleftrightarrow> r = Answer x"
  by (cases r) simp_all

locale s3_store =
  fixes client :: "'s s3_client" and bucket :: string and vw :: "'s \<Rightarrow> string \<Rightarrow> bytes option"
  assumes laws: "s3_laws client bucket vw"
begin

lemmas s3_facts =
  laws [unfolded s3_laws_def, THEN conjunct1, rule_format]
  laws [unfolded s3_laws_def, THEN conjunct2, THEN conjunct1, rule_format]
  laws [unfolded s3_laws_def, THEN conjunct2, THEN conjunct2, THEN conjunct1, rule_format]
  laws [unfolded s3_laws_def, THEN conjunct2, THEN conjunct2, THEN conjunct2, THEN conjunct1, rule_format]
  laws [unfolded s3_laws_def, THEN conjunct2, THEN conjunct2, THEN conjunct2, THEN conjunct2, rule_format]

end

sublocale s3_store \<subseteq> bucket: blob_store "s3_ops client bucket" vw "\<lambda>_. True" UNIV
proof
  fix s k c ty r s'
  show "True \<and> (vw s' = (vw s)(k \<mapsto> c) \<or> r \<noteq> Ok () \<and> vw s' = vw s)" if run: "so_put (s3_ops client bucket) k c ty s = (r, s')"
  proof -
    obtain q where "put_object client bucket k c ty s = (q, s')" "r = from_boto q"
      using run by (cases "put_object client bucket k c ty s") (simp add: s3_ops_def s3_put_def)
    then show ?thesis
      using s3_facts(1) [of k c ty s q s'] by auto
  qed
  show "True \<and> (vw s' = (vw s)(k := None) \<or> r \<noteq> Ok () \<and> vw s' = vw s)" if run: "so_delete (s3_ops client bucket) k s = (r, s')"
  proof -
    obtain q where "delete_object client bucket k s = (q, s')" "r = from_boto q"
      using run by (cases "delete_object client bucket k s") (simp add: s3_ops_def s3_delete_def)
    then show ?thesis
      using s3_facts(2) [of k s q s'] by auto
  qed
  show "case so_get (s3_ops client bucket) k s of Ok c \<Rightarrow> vw s k = Some c
      | Err (ObjectNotFoundError k') \<Rightarrow> vw s k = None | Err e \<Rightarrow> True"
    using s3_facts(3,4) [of k]
    by (cases "get_object client bucket k s") (auto simp: s3_ops_def s3_get_def)
  show "set keys = {k \<in> dom (vw s). prefix pre k}" if "so_list (s3_ops client bucket) pre s = Ok keys" for pre keys
    using that s3_facts(5) [of pre s]
    by (cases "list_objects_v2 client bucket pre s") (auto simp: s3_ops_def s3_list_def result_map_def)
qed simp

context s3_store
begin

lemmas s3_answers = bucket.run_answers and s3_cleanup = bucket.cleanup_law

end

end
