(* ===== verification/Storage_Props.thy ===== *)
theory Storage_Props
  imports User_Data_Props Sample_Hashes
begin

text \<open>
  The properties of file storage and of the data of an erased user, over the two
  adapters of the storage port, with a concrete bucket for the S3 client.
\<close>

lemma object_path_eq_iff: "object_path b k = object_path b k' \<longleftrightarrow> hash_token k = hash_token k'"
proof
  assume eq: "object_path b k = object_path b k'"
  have len: "length (hash_token x) = 64" for x
    by (simp add: hash_token_def length_hexdigest length_sha256)
  then have dirs: "length (object_dir b k) = length (object_dir b k')"
    by (simp add: object_dir_def Let_def hash_token_def)
  show "hash_token k = hash_token k'"
    using eq dirs by (simp add: object_path_def hash_token_def)
qed (simp add: object_path_def object_dir_def hash_token_def)

lemma local_store_hashes: "inj_on hash_token K \<Longrightarrow> local_store b K"
  by unfold_locales (simp add: inj_on_def object_path_eq_iff)

lemma storage_step_healthy:
  assumes "\<forall>p. \<not> fs_broken fs p" and "storage_step (local_ops uri b) c fs = (r, fs')"
  shows "r = Ok () \<and> (\<forall>p. \<not> fs_broken fs' p)"
  using assms by (cases c) (auto simp: local_ops_def local_put_def local_delete_def Let_def)

lemma storage_run_healthy:
  "\<forall>p. \<not> fs_broken fs p \<Longrightarrow> storage_run (local_ops uri b) cs fs = (rs, fs') \<Longrightarrow> set rs \<subseteq> {Ok ()}"
proof (induction cs arbitrary: fs rs)
  case (Cons c cs)
  obtain r fs1 where r: "storage_step (local_ops uri b) c fs = (r, fs1)"
    by force
  obtain rs1 fs2 where rest: "storage_run (local_ops uri b) cs fs1 = (rs1, fs2)"
    by force
  have "fs2 = fs'" "rs = r # rs1"
    using Cons.prems(2) r rest by auto
  then show ?case
    using storage_step_healthy [OF Cons.prems(1) r] Cons.IH [of fs1 rs1] rest by auto
qed simp


definition sample_bucket :: "(string, bytes) dict s3_client" where
  "sample_bucket =
     \<lparr>put_object = \<lambda>b k c ty d. (Answer (), dict_set d k c),
      get_object = \<lambda>b k d. case dict_get d k of None \<Rightarrow> Client_Error (Some ''NoSuchKey'') ''missing'' 404 | Some c \<Rightarrow> Answer c,
      head_object = \<lambda>b k d. if dict_has d k then Answer () else Client_Error (Some ''404'') ''missing'' 404,
      delete_object = \<lambda>b k d. (Answer (), dict_pop d k),
      list_objects_v2 = \<lambda>b pre d. Answer [filter (prefix pre) (map fst d)],
      generate_presigned_url = \<lambda>b k n d. Answer k\<rparr>"

lemma dom_dict_get: "dom (dict_get d) = fst ` set d"
  unfolding dom_def dict_get_def by (auto simp: map_of_eq_None_iff)

lemma sample_bucket_laws: "s3_laws sample_bucket b dict_get"
  by (auto simp: s3_laws_def sample_bucket_def fun_eq_iff dom_dict_get split: option.splits)

interpretation sample_bucket: s3_store sample_bucket b dict_get for b
  by unfold_locales (rule sample_bucket_laws)

lemma inj_sample_keys: "inj_on hash_token {''old'', ''raw''}"
  using hash_old_raw by auto

interpretation sample_files: local_store b uri "{''old'', ''raw''}" for b uri
  by (rule local_store_hashes [OF inj_sample_keys])

definition empty_disk :: filesystem where
  "empty_disk = \<lparr>fs_objects = [], fs_sidecars = [], fs_broken = \<lambda>_. False\<rparr>"



subsection \<open>The data of an erased user\<close>

lemma dispatched_user_id:
  assumes "om_payload m = [(''user_id'', JStr x)]"
  shows "dict_get (dispatched_payload m) ''user_id'' = Some (JStr x)"
    and "dict_get (dispatched_payload m) OUTBOX_MESSAGE_ID_KEY = Some (JStr (str_uuid (om_id m)))"
  using assms by (simp_all add: dispatched_payload_def Let_def TRACE_KEY_def OUTBOX_MESSAGE_ID_KEY_def dict_get_def [of "[_]"])

lemma handler_first_run:
  assumes "om_payload m = [(''user_id'', JStr (str_uuid i))]" and "\<And>p. p \<in> set (processed_marks db) \<Longrightarrow> pm_id p \<noteq> om_id m"
    and "delete_user_assets_handler (Some (handler_dedupe now)) ops (dispatched_payload m) (db, s) = (Returns (), (db', s'))"
  shows "delete_user_assets ops i s = (Ok (), s')"
    and "db' = db\<lparr>processed_marks := processed_marks db @ [\<lparr>pm_id = om_id m, pm_processed_at = now\<rparr>]\<rparr>"
proof -
  have "\<not> list_ex (\<lambda>p. pm_id p = om_id m) (processed_marks db)"
    using assms(2) by (auto simp: list_ex_iff)
  then have "delete_user_assets_body ops (dispatched_payload m)
      (db\<lparr>processed_marks := processed_marks db @ [\<lparr>pm_id = om_id m, pm_processed_at = now\<rparr>]\<rparr>, s) = (Returns (), (db', s'))"
    using assms(3) dispatched_user_id(2) [OF assms(1)]
    by (simp add: delete_user_assets_handler_def deduped_def handler_dedupe_def)
  then show "delete_user_assets ops i s = (Ok (), s')"
    "db' = db\<lparr>processed_marks := processed_marks db @ [\<lparr>pm_id = om_id m, pm_processed_at = now\<rparr>]\<rparr>"
    using dispatched_user_id(1) [OF assms(1)]
    by (auto simp: delete_user_assets_body_def payload_uuid_def split: prod.splits result.splits)
qed

lemma export_key_outside: "\<not> prefix (user_prefix i) (export_key j n)"
  by (simp add: user_prefix_def export_key_def)

lemma export_user_data_Ok:
  assumes "export_user_data isoformat dumps ops clk n i db s = (Ok contract, s')" and "get_raw_by_id i db = Some u"
  shows "so_put ops (export_key i n)
    (dumps (build_export_payload isoformat (clk 0) u (list_for_user isoformat i db) (list_user_files ops i s))) ''application/json'' s = (Ok (), s')"
  using assms by (auto simp: export_user_data_def Let_def split: prod.splits result.splits)

lemma erased_db_marks: "processed_marks (erased_db clk ids carrier i reason db) = processed_marks db"
  by (simp add: erased_db_def enqueue_assets_cleanup_def outbox_enqueue_def record_user_erased_event_def record_audit_event_def
      update_user_def delete_credentials_and_tokens_def scrub_audit_events_def Let_def)

text \<open>
  C31. What erasure deletes from storage, and what it leaves. Take an account that
  exports its data and is then erased, and let the queued cleanup job run to
  success on the local adapter. No credential, token or personal audit datum is
  left in the database and no blob under \<open>users/{id}/\<close> is left in storage; but the
  export of the account, with its address and its audit events, is still there
  under \<open>exports/{id}/\<close>, and so is every other blob.
\<close>

theorem exports_survive_erasure:
  assumes "inj_on hash_token K" and "local_inv b K fs" and "export_key i n \<in> K" and user: "get_by_id i db = Some u"
    and export: "export_user_data isoformat dumps (local_ops uri b) clk n i db fs = (Ok contract, fs1)"
    and erase: "erase_user clk' ids carrier i reason db = (Returns (Ok ()), db1)" and row: "outbox_messages db1 = outbox_messages db @ [m]"
    and fresh: "\<And>p. p \<in> set (processed_marks db) \<Longrightarrow> pm_id p \<noteq> om_id m"
    and cleanup: "delete_user_assets_handler (Some (handler_dedupe now)) (local_ops uri b) (dispatched_payload m) (db1, fs1) = (Returns (), (db2, fs2))"
  shows "no_artifacts i db2 \<and>
    (\<forall>k. k \<in> K \<and> prefix (user_prefix i) k \<longrightarrow> local_get b k fs2 = Err (ObjectNotFoundError k)) \<and>
    (\<forall>k. k \<in> K \<and> \<not> prefix (user_prefix i) k \<longrightarrow> local_view b K fs2 k = local_view b K fs1 k) \<and>
    local_view b K fs2 (export_key i n) =
      Some (dumps (build_export_payload isoformat (clk 0) u (list_for_user isoformat i db) (list_user_files (local_ops uri b) i fs)))"
proof -
  note store = local_store_hashes [OF assms(1), of b]
  have u: "find_user i db = Some u" "\<not> u_is_erased u"
    using user by (auto simp: get_by_id_def split: option.splits if_splits)
  have db1: "db1 = erased_db clk' ids carrier i reason db"
    using erase erase_user_eq [OF u] by (simp split: if_splits)
  obtain m' where "outbox_messages db1 = outbox_messages db @ [m']" "om_payload m' = [(''user_id'', JStr (str_uuid i))]"
    using outbox_erased_db unfolding db1 by blast
  then have payload: "om_payload m = [(''user_id'', JStr (str_uuid i))]"
    using row by simp
  have put: "local_put b (export_key i n)
      (dumps (build_export_payload isoformat (clk 0) u (list_for_user isoformat i db) (list_user_files (local_ops uri b) i fs)))
      ''application/json'' fs = (Ok (), fs1)"
    using export_user_data_Ok [OF export] u(1) by (simp add: get_raw_by_id_def local_ops_def)
  have fs1: "local_inv b K fs1" "local_view b K fs1 = (local_view b K fs)(export_key i n \<mapsto>
      dumps (build_export_payload isoformat (clk 0) u (list_for_user isoformat i db) (list_user_files (local_ops uri b) i fs)))"
    using local_store.local_put_law [OF store assms(2,3) put] by simp_all
  note run = handler_first_run [OF payload _ cleanup]
  have ran: "delete_user_assets (local_ops uri b) i fs1 = (Ok (), fs2)"
    "db2 = db1\<lparr>processed_marks := processed_marks db1 @ [\<lparr>pm_id = om_id m, pm_processed_at = now\<rparr>]\<rparr>"
    using run fresh by (simp_all add: db1 erased_db_marks)
  note law = local_store.local_cleanup [OF store fs1(1) ran(1)]
  have "local_get b k fs2 = Err (ObjectNotFoundError k)" if "k \<in> K" "prefix (user_prefix i) k" for k
    using law that by (auto simp: local_view_def local_get_def)
  moreover have "no_artifacts i db2"
    using no_artifacts_erased_db [of i clk' ids carrier reason db] by (simp add: ran(2) db1 no_artifacts_def)
  moreover have "local_view b K fs2 (export_key i n) = local_view b K fs1 (export_key i n)"
    using law export_key_outside by blast
  ultimately show ?thesis
    using law fs1(2) by simp
qed

theorem exports_survive_erasure_witness:
  "\<exists>db1 m db2 contract fs1 fs2.
     export_user_data (\<lambda>t. []) (\<lambda>j. [1]) (local_ops id ''/var'') int 3 7 sample_auth_db empty_disk = (Ok contract, fs1) \<and>
     erase_user (\<lambda>n. 5) (\<lambda>n. of_nat n) [] 7 ''self_request'' sample_auth_db = (Returns (Ok ()), db1) \<and>
     outbox_messages db1 = outbox_messages sample_auth_db @ [m] \<and>
     delete_user_assets_handler (Some (handler_dedupe 6)) (local_ops id ''/var'') (dispatched_payload m) (db1, fs1) = (Returns (), (db2, fs2)) \<and>
     no_artifacts 7 db2 \<and> local_view ''/var'' {export_key 7 3} fs2 (export_key 7 3) = Some [1]"
proof -
  let ?ops = "local_ops id ''/var''" and ?k = "export_key 7 3" and ?db1 = "erased_db (\<lambda>n. 5) (\<lambda>n. of_nat n) [] 7 ''self_request'' sample_auth_db"
  define fs1 where "fs1 = empty_disk\<lparr>fs_objects := [(object_path ''/var'' ?k, [1])],
    fs_sidecars := [(metadata_path ''/var'' ?k, [(''key'', JStr ?k), (''content_type'', JStr ''application/json'')])]\<rparr>"
  have user: "get_by_id 7 sample_auth_db = Some sample_account" "find_user 7 sample_auth_db = Some sample_account"
    "\<not> u_is_erased sample_account"
    by (simp_all add: get_by_id_def find_user_def sample_account_def)
  have put: "local_put ''/var'' ?k [1] ''application/json'' empty_disk = (Ok (), fs1)"
    by (simp add: local_put_def empty_disk_def fs1_def dict_set_def)
  have "local_signed_url id ''/var'' ?k 900 fs1 = Ok (object_path ''/var'' ?k)"
    by (simp add: local_signed_url_def fs1_def dict_get_def)
  then have "\<exists>contract. export_user_data (\<lambda>t. []) (\<lambda>j. [1]) ?ops int 3 7 sample_auth_db empty_disk = (Ok contract, fs1)"
    using put user(2) by (simp add: export_user_data_def get_raw_by_id_def local_ops_def EXPORT_URL_TTL_SECONDS_def Let_def)
  then obtain contract where export: "export_user_data (\<lambda>t. []) (\<lambda>j. [1]) ?ops int 3 7 sample_auth_db empty_disk = (Ok contract, fs1)"
    by blast
  have "emails_unique ?db1"
    by (simp add: emails_unique_def users_erased_db update_where_def)
  then have erase: "erase_user (\<lambda>n. 5) (\<lambda>n. of_nat n) [] 7 ''self_request'' sample_auth_db = (Returns (Ok ()), ?db1)"
    using erase_user_eq [OF user(2,3)] by simp
  obtain m where m: "outbox_messages ?db1 = outbox_messages sample_auth_db @ [m]" "om_payload m = [(''user_id'', JStr (str_uuid 7))]"
    using outbox_erased_db by blast
  have "local_list (user_prefix 7) fs1 = Ok []"
    by (simp add: local_list_def fs1_def listed_key_def dict_get_def export_key_outside List.map_filter_simps)
  then have "delete_user_assets ?ops 7 fs1 = (Ok (), fs1)"
    by (simp add: delete_user_assets_def local_ops_def)
  moreover have marks: "processed_marks ?db1 = []" "processed_marks sample_auth_db = []"
    by (simp_all add: erased_db_marks sample_auth_db_def empty_db_def)
  ultimately obtain db2 where cleanup:
      "delete_user_assets_handler (Some (handler_dedupe 6)) ?ops (dispatched_payload m) (?db1, fs1) = (Returns (), (db2, fs1))"
    using dispatched_user_id [OF m(2)]
    by (simp add: delete_user_assets_handler_def deduped_def handler_dedupe_def delete_user_assets_body_def payload_uuid_def)
  have inv: "local_inv ''/var'' {?k} empty_disk"
    by (simp add: local_inv_def empty_disk_def)
  have "no_artifacts 7 db2 \<and> local_view ''/var'' {?k} fs1 ?k = Some [1]"
    using exports_survive_erasure [OF _ inv _ user(1) export erase m(1) _ cleanup] by (simp add: marks)
  then show ?thesis
    using export erase m(1) cleanup by blast
qed

end
