(* ===== verification/Redis_Cache.thy ===== *)
theory Redis_Cache
  imports Principal_Cache
begin

text \<open>
  The principal cache that replicas share
  (\<open>RedisPrincipalCache\<close> in \<open>src/features/authentication/application/cache.py\<close>).

  The Redis server is a parameter: the commands the class sends, each at a reading of
  the server's clock, with the documented behaviour \<open>redis_kv_laws\<close> on a server that
  does not evict keys under memory pressure. A pipeline is a transaction, so its
  commands share one reading. A stored value is kept as the JSON document it is the
  text of. A sorted or ordered answer is never relied on: \<open>SMEMBERS\<close> gives the members
  in any order.
\<close>

subsection \<open>The server\<close>

record 'r redis_kv =
  rd_get :: "datetime \<Rightarrow> 'r \<Rightarrow> string \<Rightarrow> json_object option"
  rd_setex :: "datetime \<Rightarrow> string \<Rightarrow> int \<Rightarrow> json_object \<Rightarrow> 'r \<Rightarrow> 'r"
  rd_delete :: "datetime \<Rightarrow> string list \<Rightarrow> 'r \<Rightarrow> 'r"
  rd_sadd :: "datetime \<Rightarrow> string \<Rightarrow> string \<Rightarrow> 'r \<Rightarrow> 'r"
  rd_expire :: "datetime \<Rightarrow> string \<Rightarrow> int \<Rightarrow> 'r \<Rightarrow> 'r"
  rd_smembers :: "datetime \<Rightarrow> 'r \<Rightarrow> string \<Rightarrow> string list"

text \<open>What is observed at \<open>t\<close>, now or later, after a command at \<open>now\<close>.\<close>

definition redis_kv_laws :: "'r redis_kv \<Rightarrow> bool" where
  "redis_kv_laws lib \<longleftrightarrow>
     (\<forall>now t r k. now \<le> t \<longrightarrow>
        (\<forall>v. rd_get lib t r k = Some v \<longrightarrow> rd_get lib now r k = Some v) \<and>
        set (rd_smembers lib t r k) \<subseteq> set (rd_smembers lib now r k)) \<and>
     (\<forall>now t k n v r k'. now \<le> t \<longrightarrow> 0 < n \<longrightarrow>
        rd_get lib t (rd_setex lib now k n v r) k' =
          (if k' = k then if t < now + seconds n then Some v else None else rd_get lib t r k') \<and>
        (k' \<noteq> k \<longrightarrow> set (rd_smembers lib t (rd_setex lib now k n v r) k') = set (rd_smembers lib t r k'))) \<and>
     (\<forall>now t ks r k. now \<le> t \<longrightarrow>
        rd_get lib t (rd_delete lib now ks r) k = (if k \<in> set ks then None else rd_get lib t r k) \<and>
        set (rd_smembers lib t (rd_delete lib now ks r) k) = (if k \<in> set ks then {} else set (rd_smembers lib t r k))) \<and>
     (\<forall>now t k m r k'. now \<le> t \<longrightarrow>
        set (rd_smembers lib now (rd_sadd lib now k m r) k) = insert m (set (rd_smembers lib now r k)) \<and>
        (k' \<noteq> k \<longrightarrow> rd_get lib t (rd_sadd lib now k m r) k' = rd_get lib t r k' \<and>
           set (rd_smembers lib t (rd_sadd lib now k m r) k') = set (rd_smembers lib t r k'))) \<and>
     (\<forall>now t k n r k'. now \<le> t \<longrightarrow> 0 < n \<longrightarrow>
        (t < now + seconds n \<longrightarrow> set (rd_smembers lib t (rd_expire lib now k n r) k) = set (rd_smembers lib now r k)) \<and>
        (k' \<noteq> k \<longrightarrow> rd_get lib t (rd_expire lib now k n r) k' = rd_get lib t r k' \<and>
           set (rd_smembers lib t (rd_expire lib now k n r) k') = set (rd_smembers lib t r k')))"

lemma redis_kv_lawsD:
  assumes "redis_kv_laws lib" and "now \<le> t"
  shows "rd_get lib t r k = Some v \<Longrightarrow> rd_get lib now r k = Some v"
    and "x \<in> set (rd_smembers lib t r k) \<Longrightarrow> x \<in> set (rd_smembers lib now r k)"
    and "0 < n \<Longrightarrow> rd_get lib t (rd_setex lib now k n w r) k' =
      (if k' = k then if t < now + seconds n then Some w else None else rd_get lib t r k')"
    and "0 < n \<Longrightarrow> k' \<noteq> k \<Longrightarrow> set (rd_smembers lib t (rd_setex lib now k n w r) k') = set (rd_smembers lib t r k')"
    and "rd_get lib t (rd_delete lib now ks r) k = (if k \<in> set ks then None else rd_get lib t r k)"
    and "set (rd_smembers lib t (rd_delete lib now ks r) k) = (if k \<in> set ks then {} else set (rd_smembers lib t r k))"
    and "set (rd_smembers lib now (rd_sadd lib now k m r) k) = insert m (set (rd_smembers lib now r k))"
    and "k' \<noteq> k \<Longrightarrow> rd_get lib t (rd_sadd lib now k m r) k' = rd_get lib t r k'"
    and "k' \<noteq> k \<Longrightarrow> set (rd_smembers lib t (rd_sadd lib now k m r) k') = set (rd_smembers lib t r k')"
    and "0 < n \<Longrightarrow> t < now + seconds n \<Longrightarrow> set (rd_smembers lib t (rd_expire lib now k n r) k) = set (rd_smembers lib now r k)"
    and "0 < n \<Longrightarrow> k' \<noteq> k \<Longrightarrow> rd_get lib t (rd_expire lib now k n r) k' = rd_get lib t r k'"
    and "0 < n \<Longrightarrow> k' \<noteq> k \<Longrightarrow> set (rd_smembers lib t (rd_expire lib now k n r) k') = set (rd_smembers lib t r k')"
proof -
  note laws = assms(1) [unfolded redis_kv_laws_def]
  note 1 = laws [THEN conjunct1, THEN spec [of _ now], THEN spec [of _ t], THEN spec [of _ r], THEN spec [of _ k], THEN mp, OF assms(2)]
  note 2 = laws [THEN conjunct2, THEN conjunct1, THEN spec [of _ now], THEN spec [of _ t], THEN spec [of _ k], THEN spec [of _ n],
      THEN spec [of _ w], THEN spec [of _ r], THEN spec [of _ k'], THEN mp, OF assms(2)]
  note 3 = laws [THEN conjunct2, THEN conjunct2, THEN conjunct1, THEN spec [of _ now], THEN spec [of _ t], THEN spec [of _ ks],
      THEN spec [of _ r], THEN spec [of _ k], THEN mp, OF assms(2)]
  note 4 = laws [THEN conjunct2, THEN conjunct2, THEN conjunct2, THEN conjunct1, THEN spec [of _ now], THEN spec [of _ t],
      THEN spec [of _ k], THEN spec [of _ m], THEN spec [of _ r], THEN spec [of _ k'], THEN mp, OF assms(2)]
  note 5 = laws [THEN conjunct2, THEN conjunct2, THEN conjunct2, THEN conjunct2, THEN spec [of _ now], THEN spec [of _ t],
      THEN spec [of _ k], THEN spec [of _ n], THEN spec [of _ r], THEN spec [of _ k'], THEN mp, OF assms(2)]
  show "rd_get lib t r k = Some v \<Longrightarrow> rd_get lib now r k = Some v"
    and "x \<in> set (rd_smembers lib t r k) \<Longrightarrow> x \<in> set (rd_smembers lib now r k)"
    using 1 by blast+
  show "0 < n \<Longrightarrow> rd_get lib t (rd_setex lib now k n w r) k' =
      (if k' = k then if t < now + seconds n then Some w else None else rd_get lib t r k')"
    and "0 < n \<Longrightarrow> k' \<noteq> k \<Longrightarrow> set (rd_smembers lib t (rd_setex lib now k n w r) k') = set (rd_smembers lib t r k')"
    using 2 by blast+
  show "rd_get lib t (rd_delete lib now ks r) k = (if k \<in> set ks then None else rd_get lib t r k)"
    and "set (rd_smembers lib t (rd_delete lib now ks r) k) = (if k \<in> set ks then {} else set (rd_smembers lib t r k))"
    using 3 by blast+
  show "set (rd_smembers lib now (rd_sadd lib now k m r) k) = insert m (set (rd_smembers lib now r k))"
    and "k' \<noteq> k \<Longrightarrow> rd_get lib t (rd_sadd lib now k m r) k' = rd_get lib t r k'"
    and "k' \<noteq> k \<Longrightarrow> set (rd_smembers lib t (rd_sadd lib now k m r) k') = set (rd_smembers lib t r k')"
    using 4 by blast+
  show "0 < n \<Longrightarrow> t < now + seconds n \<Longrightarrow> set (rd_smembers lib t (rd_expire lib now k n r) k) = set (rd_smembers lib now r k)"
    and "0 < n \<Longrightarrow> k' \<noteq> k \<Longrightarrow> rd_get lib t (rd_expire lib now k n r) k' = rd_get lib t r k'"
    and "0 < n \<Longrightarrow> k' \<noteq> k \<Longrightarrow> set (rd_smembers lib t (rd_expire lib now k n r) k') = set (rd_smembers lib t r k')"
    using 5 by blast+
qed


subsection \<open>The cache\<close>

definition principal_key :: "string \<Rightarrow> string" where
  "principal_key token_id = ''auth:principal:'' @ token_id"

definition user_key :: "string \<Rightarrow> string" where
  "user_key user_id = ''auth:user_tokens:'' @ user_id"

definition principal_encode :: "principal \<Rightarrow> json_object" where
  "principal_encode p =
     [(''user_id'', JStr (str_uuid (p_user_id p))), (''email'', JStr (p_email p)), (''is_active'', JBool (p_is_active p)),
      (''is_verified'', JBool (p_is_verified p)), (''authz_version'', JInt (p_authz_version p))]"

text \<open>
  Decoding a document with the fields of a principal. The fields other than the id
  are taken as they are, so a document of another shape would give an object that
  is no \<open>principal\<close>; no such document is ever stored.
\<close>

fun principal_decode :: "json_object \<Rightarrow> principal outcome" where
  "principal_decode data =
     (case (dict_get data ''user_id'', dict_get data ''email'', dict_get data ''is_active'', dict_get data ''is_verified'',
            dict_get data ''authz_version'') of
        (Some (JStr user_id), Some (JStr email), Some (JBool is_active), Some (JBool is_verified), Some (JInt authz_version)) \<Rightarrow>
          (case UUID user_id of
             None \<Rightarrow> Raises ValueError
           | Some i \<Rightarrow> Returns \<lparr>p_user_id = i, p_email = email, p_is_active = is_active, p_is_verified = is_verified,
                                p_authz_version = authz_version\<rparr>)
      | _ \<Rightarrow> Raises KeyError)"

declare principal_decode.simps [simp del]

definition redis_cache_get :: "'r redis_kv \<Rightarrow> datetime \<Rightarrow> 'r \<Rightarrow> string \<Rightarrow> principal option outcome" where
  "redis_cache_get lib now r token_id =
     (case rd_get lib now r (principal_key token_id) of
        None \<Rightarrow> Returns None
      | Some raw \<Rightarrow> bind_outcome (principal_decode raw) (\<lambda>p. Returns (Some p)))"

definition redis_cache_set :: "'r redis_kv \<Rightarrow> int \<Rightarrow> datetime \<Rightarrow> string \<Rightarrow> principal \<Rightarrow> 'r \<Rightarrow> 'r" where
  "redis_cache_set lib ttl now token_id p r =
     (let uid = str_uuid (p_user_id p)
      in rd_expire lib now (user_key uid) ttl
           (rd_sadd lib now (user_key uid) token_id
             (rd_setex lib now (principal_key token_id) ttl (principal_encode p) r)))"

definition redis_cache_pop :: "'r redis_kv \<Rightarrow> datetime \<Rightarrow> string \<Rightarrow> 'r \<Rightarrow> 'r" where
  "redis_cache_pop lib now token_id = rd_delete lib now [principal_key token_id]"

text \<open>\<open>invalidate_user\<close> talks to the server twice: the pipeline, then the deletion of the keys it read.\<close>

definition redis_take_tokens :: "'r redis_kv \<Rightarrow> datetime \<Rightarrow> uuid \<Rightarrow> 'r \<Rightarrow> string list \<times> 'r" where
  "redis_take_tokens lib now user_id r =
     (let key = user_key (str_uuid user_id) in (rd_smembers lib now r key, rd_delete lib now [key] r))"

definition redis_drop_tokens :: "'r redis_kv \<Rightarrow> datetime \<Rightarrow> string list \<Rightarrow> 'r \<Rightarrow> 'r" where
  "redis_drop_tokens lib now token_ids r =
     (if token_ids \<noteq> [] then rd_delete lib now (map principal_key token_ids) r else r)"

definition redis_invalidate_user :: "'r redis_kv \<Rightarrow> datetime \<Rightarrow> uuid \<Rightarrow> 'r \<Rightarrow> 'r" where
  "redis_invalidate_user lib now user_id r =
     (case redis_take_tokens lib now user_id r of (token_ids, r1) \<Rightarrow> redis_drop_tokens lib now token_ids r1)"

text \<open>The class as the port; \<open>redis_get_ok\<close> below shows that \<open>get\<close> does not raise.\<close>

definition redis_port :: "'r redis_kv \<Rightarrow> int \<Rightarrow> 'r cache_port" where
  "redis_port lib ttl =
     \<lparr>pc_get = (\<lambda>now r token_id. case redis_cache_get lib now r token_id of Returns p \<Rightarrow> p | Raises e \<Rightarrow> None),
      pc_set = redis_cache_set lib ttl, pc_pop = redis_cache_pop lib, pc_invalidate_user = redis_invalidate_user lib\<rparr>"


subsection \<open>The contract\<close>

lemma principal_decode_encode [simp]: "principal_decode (principal_encode p) = Returns p"
  by (simp add: principal_encode_def dict_get_def UUID_str_uuid principal_decode.simps)

lemma principal_encode_inject [simp]: "principal_encode p = principal_encode q \<longleftrightarrow> p = q"
  by (metis principal_decode_encode outcome.inject(1))

lemma redis_keys [simp]:
  "principal_key a = principal_key b \<longleftrightarrow> a = b" "user_key a = user_key b \<longleftrightarrow> a = b"
  "principal_key a \<noteq> user_key b" "user_key b \<noteq> principal_key a"
  by (simp_all add: principal_key_def user_key_def)

text \<open>
  What holds of the server from \<open>now\<close> on: a cached document is a principal's, lives
  at most \<open>ttl\<close> seconds more, and as long as it lives the index of its user lists it.
\<close>

definition redis_ok :: "'r redis_kv \<Rightarrow> int \<Rightarrow> datetime \<Rightarrow> 'r \<Rightarrow> bool" where
  "redis_ok lib ttl now r \<longleftrightarrow>
     (\<forall>t\<ge>now. \<forall>token_id raw. rd_get lib t r (principal_key token_id) = Some raw \<longrightarrow>
        t < now + seconds ttl \<and>
        (\<exists>p. raw = principal_encode p \<and> token_id \<in> set (rd_smembers lib t r (user_key (str_uuid (p_user_id p))))))"

lemma redis_okD:
  assumes "redis_ok lib ttl now r" and "now \<le> t" and "rd_get lib t r (principal_key token_id) = Some raw"
  obtains p where "raw = principal_encode p" "t < now + seconds ttl"
    "token_id \<in> set (rd_smembers lib t r (user_key (str_uuid (p_user_id p))))"
  using assms unfolding redis_ok_def by blast

lemma redis_get_ok:
  assumes "redis_ok lib ttl now r"
  shows "redis_cache_get lib now r token_id = Returns (pc_get (redis_port lib ttl) now r token_id)"
proof (cases "rd_get lib now r (principal_key token_id)")
  case (Some raw)
  then obtain p where "raw = principal_encode p"
    using redis_okD [OF assms order_refl] by blast
  then show ?thesis
    using Some by (simp add: redis_cache_get_def redis_port_def)
qed (simp add: redis_cache_get_def redis_port_def)

lemma redis_port_get:
  assumes "redis_ok lib ttl now r"
  shows "pc_get (redis_port lib ttl) now r token_id = Some p \<longleftrightarrow>
    rd_get lib now r (principal_key token_id) = Some (principal_encode p)"
proof (cases "rd_get lib now r (principal_key token_id)")
  case (Some raw)
  then obtain q where "raw = principal_encode q"
    using redis_okD [OF assms order_refl] by blast
  then show ?thesis
    using Some by (simp add: redis_cache_get_def redis_port_def)
qed (simp add: redis_cache_get_def redis_port_def)

lemma redis_ok_later:
  assumes "redis_ok lib ttl now r" and "now \<le> now'"
  shows "redis_ok lib ttl now' r"
  unfolding redis_ok_def
proof (intro allI impI)
  fix t token_id raw
  assume t: "now' \<le> t" "rd_get lib t r (principal_key token_id) = Some raw"
  then obtain p where "raw = principal_encode p" "t < now + seconds ttl"
      "token_id \<in> set (rd_smembers lib t r (user_key (str_uuid (p_user_id p))))"
    using redis_okD [OF assms(1), of t token_id raw] assms(2) by force
  then show "t < now' + seconds ttl \<and> (\<exists>p. raw = principal_encode p \<and>
      token_id \<in> set (rd_smembers lib t r (user_key (str_uuid (p_user_id p)))))"
    using assms(2) by force
qed

lemma redis_get_set:
  assumes "redis_kv_laws lib" and "0 < ttl" and "now \<le> t"
  shows "rd_get lib t (redis_cache_set lib ttl now token_id p r) (principal_key k) =
    (if k = token_id then if t < now + seconds ttl then Some (principal_encode p) else None
     else rd_get lib t r (principal_key k))"
  using assms(2) by (simp add: redis_cache_set_def Let_def redis_kv_lawsD(3,8,11) [OF assms(1,3)])

lemma redis_index_set:
  assumes "redis_kv_laws lib" and "0 < ttl" and "now \<le> t"
  shows "t < now + seconds ttl \<Longrightarrow> set (rd_smembers lib t (redis_cache_set lib ttl now token_id p r) (user_key (str_uuid (p_user_id p)))) =
      insert token_id (set (rd_smembers lib now r (user_key (str_uuid (p_user_id p)))))"
    and "u \<noteq> p_user_id p \<Longrightarrow> set (rd_smembers lib t (redis_cache_set lib ttl now token_id p r) (user_key (str_uuid u))) =
      set (rd_smembers lib t r (user_key (str_uuid u)))"
proof -
  note later = redis_kv_lawsD [OF assms(1,3)] and at = redis_kv_lawsD [OF assms(1) order_refl]
  show "t < now + seconds ttl \<Longrightarrow> set (rd_smembers lib t (redis_cache_set lib ttl now token_id p r) (user_key (str_uuid (p_user_id p)))) =
      insert token_id (set (rd_smembers lib now r (user_key (str_uuid (p_user_id p)))))"
    using assms(2) by (simp add: redis_cache_set_def Let_def later(10) at(7) at(4))
  show "u \<noteq> p_user_id p \<Longrightarrow> set (rd_smembers lib t (redis_cache_set lib ttl now token_id p r) (user_key (str_uuid u))) =
      set (rd_smembers lib t r (user_key (str_uuid u)))"
    using assms(2) by (simp add: redis_cache_set_def Let_def later(12) later(9) later(4))
qed

lemma redis_ok_set:
  assumes "redis_kv_laws lib" and "0 < ttl" and "redis_ok lib ttl now r"
  shows "redis_ok lib ttl now (redis_cache_set lib ttl now token_id p r)"
  unfolding redis_ok_def
proof (intro allI impI)
  fix t k raw
  assume t: "now \<le> t" and raw: "rd_get lib t (redis_cache_set lib ttl now token_id p r) (principal_key k) = Some raw"
  let ?r = "redis_cache_set lib ttl now token_id p r"
  note get = redis_get_set [OF assms(1,2) t] and index = redis_index_set [OF assms(1,2) t]
  show "t < now + seconds ttl \<and> (\<exists>q. raw = principal_encode q \<and> k \<in> set (rd_smembers lib t ?r (user_key (str_uuid (p_user_id q)))))"
  proof (cases "k = token_id")
    case True
    then have "raw = principal_encode p" "t < now + seconds ttl"
      using raw get by (auto split: if_splits)
    then show ?thesis
      using True index(1) by blast
  next
    case False
    then have "rd_get lib t r (principal_key k) = Some raw"
      using raw get by simp
    then obtain q where q: "raw = principal_encode q" "t < now + seconds ttl"
        "k \<in> set (rd_smembers lib t r (user_key (str_uuid (p_user_id q))))"
      using redis_okD [OF assms(3) t] by blast
    then have "k \<in> set (rd_smembers lib now r (user_key (str_uuid (p_user_id q))))"
      using redis_kv_lawsD(2) [OF assms(1) t] by blast
    then have "k \<in> set (rd_smembers lib t ?r (user_key (str_uuid (p_user_id q))))"
      using index q(2,3) by (cases "p_user_id q = p_user_id p") simp_all
    then show ?thesis
      using q by blast
  qed
qed

text \<open>Deleting cached documents keeps the invariant; so does deleting an index together with all it lists.\<close>

lemma redis_ok_delete:
  assumes "redis_kv_laws lib" and "redis_ok lib ttl now r"
  shows "redis_ok lib ttl now (rd_delete lib now (map principal_key ks) r)"
  unfolding redis_ok_def
proof (intro allI impI)
  fix t k raw
  let ?r = "rd_delete lib now (map principal_key ks) r"
  assume t: "now \<le> t" and raw: "rd_get lib t ?r (principal_key k) = Some raw"
  note del = redis_kv_lawsD(5,6) [OF assms(1) t]
  have "rd_get lib t r (principal_key k) = Some raw"
    using raw by (simp add: del split: if_splits)
  then obtain p where "raw = principal_encode p" "t < now + seconds ttl"
      "k \<in> set (rd_smembers lib t r (user_key (str_uuid (p_user_id p))))"
    using redis_okD [OF assms(2) t] by blast
  moreover have "user_key (str_uuid (p_user_id p)) \<notin> set (map principal_key ks)"
    by auto
  ultimately show "t < now + seconds ttl \<and> (\<exists>p. raw = principal_encode p \<and>
      k \<in> set (rd_smembers lib t ?r (user_key (str_uuid (p_user_id p)))))"
    using del(2) by auto
qed

lemma redis_invalidate_get:
  assumes "redis_kv_laws lib" and "now \<le> t"
  shows "rd_get lib t (redis_invalidate_user lib now u r) (principal_key k) =
    (if k \<in> set (rd_smembers lib now r (user_key (str_uuid u))) then None else rd_get lib t r (principal_key k))"
  by (auto simp: redis_invalidate_user_def redis_take_tokens_def redis_drop_tokens_def Let_def
      redis_kv_lawsD(5) [OF assms] split: prod.split)

lemma redis_invalidate_evicts:
  assumes "redis_kv_laws lib" and "redis_ok lib ttl now r" and "now \<le> t"
    and "rd_get lib t (redis_invalidate_user lib now u r) (principal_key k) = Some (principal_encode p)"
  shows "p_user_id p \<noteq> u \<and> rd_get lib t r (principal_key k) = Some (principal_encode p)"
proof -
  have k: "k \<notin> set (rd_smembers lib now r (user_key (str_uuid u)))" "rd_get lib t r (principal_key k) = Some (principal_encode p)"
    using assms(4) by (auto simp: redis_invalidate_get [OF assms(1,3)] split: if_splits)
  then have "k \<in> set (rd_smembers lib t r (user_key (str_uuid (p_user_id p))))"
    using redis_okD [OF assms(2,3) k(2)] by (metis principal_encode_inject)
  then have "k \<in> set (rd_smembers lib now r (user_key (str_uuid (p_user_id p))))"
    using redis_kv_lawsD(2) [OF assms(1,3)] by blast
  with k show ?thesis
    by auto
qed

lemma redis_ok_invalidate:
  assumes "redis_kv_laws lib" and "redis_ok lib ttl now r"
  shows "redis_ok lib ttl now (redis_invalidate_user lib now u r)"
  unfolding redis_ok_def
proof (intro allI impI)
  fix t k raw
  let ?r = "redis_invalidate_user lib now u r"
  assume t: "now \<le> t" and raw: "rd_get lib t ?r (principal_key k) = Some raw"
  then have "rd_get lib t r (principal_key k) = Some raw"
    by (simp add: redis_invalidate_get [OF assms(1) t] split: if_splits)
  then obtain p where p: "raw = principal_encode p" "t < now + seconds ttl"
      "k \<in> set (rd_smembers lib t r (user_key (str_uuid (p_user_id p))))"
    using redis_okD [OF assms(2) t] by blast
  have "p_user_id p \<noteq> u"
    using redis_invalidate_evicts [OF assms t] raw p(1) by blast
  then have "set (rd_smembers lib t ?r (user_key (str_uuid (p_user_id p)))) =
      set (rd_smembers lib t r (user_key (str_uuid (p_user_id p))))"
    by (auto simp: redis_invalidate_user_def redis_take_tokens_def redis_drop_tokens_def Let_def
        redis_kv_lawsD(6) [OF assms(1) t] split: prod.split)
  then show "t < now + seconds ttl \<and> (\<exists>p. raw = principal_encode p \<and>
      k \<in> set (rd_smembers lib t ?r (user_key (str_uuid (p_user_id p)))))"
    using p by blast
qed

text \<open>The cache replicas share fulfils the contract of the port, too.\<close>

lemma redis_contract_set:
  assumes "redis_kv_laws lib" and "0 < ttl" and ok: "redis_ok lib ttl now r"
  shows "pc_get (redis_port lib ttl) now (redis_cache_set lib ttl now tid p r) \<subseteq>\<^sub>m (pc_get (redis_port lib ttl) now r)(tid \<mapsto> p)"
proof (rule map_leI)
  fix k q
  assume "pc_get (redis_port lib ttl) now (redis_cache_set lib ttl now tid p r) k = Some q"
  then have "rd_get lib now (redis_cache_set lib ttl now tid p r) (principal_key k) = Some (principal_encode q)"
    by (simp add: redis_port_get [OF redis_ok_set [OF assms]])
  then show "((pc_get (redis_port lib ttl) now r)(tid \<mapsto> p)) k = Some q"
    by (auto simp: redis_get_set [OF assms(1,2) order_refl] redis_port_get [OF ok] split: if_splits)
qed

lemma redis_ok_pop:
  "redis_kv_laws lib \<Longrightarrow> redis_ok lib ttl now r \<Longrightarrow> redis_ok lib ttl now (redis_cache_pop lib now tid r)"
  using redis_ok_delete [of lib ttl now r "[tid]"] by (simp add: redis_cache_pop_def)

lemma redis_contract_pop:
  assumes "redis_kv_laws lib" and ok: "redis_ok lib ttl now r"
  shows "pc_get (redis_port lib ttl) now (redis_cache_pop lib now tid r) \<subseteq>\<^sub>m (pc_get (redis_port lib ttl) now r)(tid := None)"
proof (rule map_leI)
  fix k q
  assume "pc_get (redis_port lib ttl) now (redis_cache_pop lib now tid r) k = Some q"
  then have "rd_get lib now (rd_delete lib now [principal_key tid] r) (principal_key k) = Some (principal_encode q)"
    using redis_port_get [OF redis_ok_pop [OF assms], of tid k q] by (simp add: redis_cache_pop_def)
  then show "((pc_get (redis_port lib ttl) now r)(tid := None)) k = Some q"
    by (auto simp: redis_kv_lawsD(5) [OF assms(1) order_refl] redis_port_get [OF ok] split: if_splits)
qed

lemma redis_contract_invalidate:
  assumes "redis_kv_laws lib" and ok: "redis_ok lib ttl now r"
  shows "pc_get (redis_port lib ttl) now (redis_invalidate_user lib now u r) \<subseteq>\<^sub>m
    (\<lambda>t. case pc_get (redis_port lib ttl) now r t of None \<Rightarrow> None | Some p \<Rightarrow> if p_user_id p = u then None else Some p)"
proof (rule map_leI)
  fix k q
  assume "pc_get (redis_port lib ttl) now (redis_invalidate_user lib now u r) k = Some q"
  then have "p_user_id q \<noteq> u \<and> pc_get (redis_port lib ttl) now r k = Some q"
    using redis_invalidate_evicts [OF assms order_refl]
    by (simp add: redis_port_get [OF redis_ok_invalidate [OF assms]] redis_port_get [OF ok])
  then show "(case pc_get (redis_port lib ttl) now r k of None \<Rightarrow> None | Some p \<Rightarrow> if p_user_id p = u then None else Some p) = Some q"
    by simp
qed

lemma redis_contract_later:
  assumes "redis_kv_laws lib" and ok: "redis_ok lib ttl now r" and "now \<le> t"
  shows "pc_get (redis_port lib ttl) t r \<subseteq>\<^sub>m pc_get (redis_port lib ttl) now r"
  using redis_kv_lawsD(1) [OF assms(1,3)]
  by (intro map_leI) (simp add: redis_port_get [OF ok] redis_port_get [OF redis_ok_later [OF ok assms(3)]])

lemma redis_cache_contract:
  assumes "redis_kv_laws lib" and "0 < ttl"
  shows "cache_contract (redis_port lib ttl) (redis_ok lib ttl)"
proof -
  have ops: "pc_set (redis_port lib ttl) = redis_cache_set lib ttl" "pc_pop (redis_port lib ttl) = redis_cache_pop lib"
      "pc_invalidate_user (redis_port lib ttl) = redis_invalidate_user lib"
    by (simp_all add: redis_port_def)
  show ?thesis
    unfolding cache_contract_def ops
    by (intro conjI allI impI) (blast intro: redis_ok_later redis_contract_later [OF assms(1)] redis_ok_set [OF assms]
      redis_contract_set [OF assms] redis_ok_pop [OF assms(1)] redis_contract_pop [OF assms(1)] redis_ok_invalidate [OF assms(1)]
      redis_contract_invalidate [OF assms(1)])+
qed

end
