(* ===== verification/Shared_Cache.thy ===== *)
theory Shared_Cache
  imports Redis_Cache Auth_Access_Props
begin

text \<open>
  Replicas over the shared principal cache. A resolution reads the account from the
  database and writes the cache in a later round trip, an eviction reads the index
  and deletes the documents in two, and the round trips of all replicas interleave:
  \<open>cluster_step\<close>. The clock is the server's.
\<close>

record 'r cluster =
  cl_now :: datetime
  cl_redis :: 'r
  cl_inflight :: "(string \<times> principal) list"
  cl_evicting :: "string list list"

inductive cluster_step ::
  "'tok jwt_lib \<Rightarrow> app_settings \<Rightarrow> 'r redis_kv \<Rightarrow> int \<Rightarrow> (string \<Rightarrow> uuid \<times> int) \<Rightarrow> (database \<Rightarrow> bool) \<Rightarrow>
   'r cluster \<Rightarrow> 'r cluster \<Rightarrow> bool"
  for jwt st lib ttl claims allowed_db where
  account_read: "cl_now c \<le> now \<Longrightarrow> allowed_db db \<Longrightarrow> decode_access_token jwt st now token = Returns (Ok pl) \<Longrightarrow>
    claims (tp_token_id pl) = (tp_subject pl, tp_authz_version pl) \<Longrightarrow>
    redis_cache_get lib now (cl_redis c) (tp_token_id pl) = Returns None \<Longrightarrow>
    get_by_id (tp_subject pl) db = Some user \<Longrightarrow> u_is_active user \<Longrightarrow> u_authz_version user = tp_authz_version pl \<Longrightarrow>
    cluster_step jwt st lib ttl claims allowed_db c
      (c\<lparr>cl_now := now, cl_inflight := (tp_token_id pl, principal_from_user user) # cl_inflight c\<rparr>)"
| cache_write: "cl_now c \<le> now \<Longrightarrow> (tid, p) \<in> set (cl_inflight c) \<Longrightarrow>
    cluster_step jwt st lib ttl claims allowed_db c
      (c\<lparr>cl_now := now, cl_redis := redis_cache_set lib ttl now tid p (cl_redis c),
         cl_inflight := remove1 (tid, p) (cl_inflight c)\<rparr>)"
| cache_pop: "cl_now c \<le> now \<Longrightarrow>
    cluster_step jwt st lib ttl claims allowed_db c (c\<lparr>cl_now := now, cl_redis := redis_cache_pop lib now tid (cl_redis c)\<rparr>)"
| take_tokens: "cl_now c \<le> now \<Longrightarrow> redis_take_tokens lib now i (cl_redis c) = (tids, r) \<Longrightarrow>
    cluster_step jwt st lib ttl claims allowed_db c (c\<lparr>cl_now := now, cl_redis := r, cl_evicting := tids # cl_evicting c\<rparr>)"
| drop_tokens: "cl_now c \<le> now \<Longrightarrow> tids \<in> set (cl_evicting c) \<Longrightarrow>
    cluster_step jwt st lib ttl claims allowed_db c
      (c\<lparr>cl_now := now, cl_redis := redis_drop_tokens lib now tids (cl_redis c), cl_evicting := remove1 tids (cl_evicting c)\<rparr>)"

inductive_cases cluster_stepE: "cluster_step jwt st lib ttl claims allowed_db c c'"


subsection \<open>Both caches behind the port\<close>

locale redis_library =
  fixes lib :: "'r redis_kv" and ttl :: int
  assumes kv_laws: "redis_kv_laws lib" and ttl_pos: "0 < ttl"

sublocale redis_library \<subseteq> shared: principal_cache "redis_port lib ttl" "redis_ok lib ttl"
  using kv_laws ttl_pos by unfold_locales (rule redis_cache_contract)

text \<open>A server with the documented behaviour: values and sets with their expiry.\<close>

record sample_kv_state =
  kv_values :: "string \<Rightarrow> (json_object \<times> datetime) option"
  kv_sets :: "string \<Rightarrow> string list \<times> datetime option"

definition kv_members :: "datetime \<Rightarrow> sample_kv_state \<Rightarrow> string \<Rightarrow> string list" where
  "kv_members now r k =
     (case kv_sets r k of (ms, None) \<Rightarrow> ms | (ms, Some e) \<Rightarrow> if now < e then ms else [])"

definition sample_kv :: "sample_kv_state redis_kv" where
  "sample_kv =
     \<lparr>rd_get = (\<lambda>now r k. case kv_values r k of Some (v, e) \<Rightarrow> if now < e then Some v else None | None \<Rightarrow> None),
      rd_setex = (\<lambda>now k n v r. r\<lparr>kv_values := (kv_values r)(k \<mapsto> (v, now + seconds n))\<rparr>),
      rd_delete = (\<lambda>now ks r. r\<lparr>kv_values := (\<lambda>k. if k \<in> set ks then None else kv_values r k),
        kv_sets := (\<lambda>k. if k \<in> set ks then ([], None) else kv_sets r k)\<rparr>),
      rd_sadd = (\<lambda>now k m r. r\<lparr>kv_sets := (kv_sets r)(k :=
        (List.insert m (kv_members now r k), if kv_members now r k = [] then None else snd (kv_sets r k)))\<rparr>),
      rd_expire = (\<lambda>now k n r. r\<lparr>kv_sets := (kv_sets r)(k := (kv_members now r k, Some (now + seconds n)))\<rparr>),
      rd_smembers = kv_members\<rparr>"

lemma kv_members_later: "now \<le> t \<Longrightarrow> set (kv_members t r k) \<subseteq> set (kv_members now r k)"
  by (cases "kv_sets r k"; cases "snd (kv_sets r k)") (auto simp: kv_members_def)

lemma sample_kv_laws: "redis_kv_laws sample_kv"
  unfolding redis_kv_laws_def sample_kv_def
proof (intro conjI allI impI, goal_cases)
  case (2 now t r k)
  then show ?case
    using kv_members_later by simp
qed (auto simp: kv_members_def split: option.splits prod.splits if_splits)

interpretation sample_server: redis_library sample_kv 5
  by unfold_locales (simp_all add: sample_kv_laws)


text \<open>
  C15. Both principal caches keep the contract of the cache port: entries appear
  only by \<open>set\<close>, disappear at any time, and after \<open>invalidate_user\<close> no entry of that
  user is returned, although the eviction only follows the secondary index. For the
  Redis cache this rests on the index living at least as long as every document it
  lists; its \<open>get\<close> never meets a document it cannot decode.
\<close>

theorem principal_caches_refine_port:
  shows "(ttl_laws tlib \<longrightarrow> cache_contract (inprocess_port tlib) (index_ok tlib)) \<and>
    (redis_kv_laws lib \<and> 0 < ttl \<longrightarrow> cache_contract (redis_port lib ttl) (redis_ok lib ttl) \<and>
      (\<forall>now r token_id. redis_ok lib ttl now r \<longrightarrow>
        redis_cache_get lib now r token_id = Returns (pc_get (redis_port lib ttl) now r token_id)))"
  by (intro conjI impI allI; (elim conjE)?)
    (simp_all add: inprocess_cache_contract redis_cache_contract redis_get_ok [symmetric])

theorem principal_caches_refine_port_witness:
  "cache_contract (inprocess_port sample_ttl) (index_ok sample_ttl) \<and>
   cache_contract (redis_port sample_kv 5) (redis_ok sample_kv 5) \<and>
   redis_cache_get sample_kv 3 (redis_cache_set sample_kv 5 1 ''t'' (principal_from_user sample_account)
     \<lparr>kv_values = Map.empty, kv_sets = (\<lambda>_. ([], None))\<rparr>) ''t'' = Returns (Some (principal_from_user sample_account))"
proof -
  let ?r = "\<lparr>kv_values = Map.empty, kv_sets = (\<lambda>_. ([], None))\<rparr>"
  have empty: "redis_ok sample_kv 5 1 ?r"
    by (simp add: redis_ok_def sample_kv_def)
  have ok: "redis_ok sample_kv 5 3 (redis_cache_set sample_kv 5 1 ''t'' (principal_from_user sample_account) ?r)"
    by (rule redis_ok_later [OF redis_ok_set [OF sample_kv_laws _ empty]]) simp_all
  note both = principal_caches_refine_port [of sample_ttl sample_kv 5]
  have hit: "pc_get (redis_port sample_kv 5) 3 (redis_cache_set sample_kv 5 1 ''t'' (principal_from_user sample_account) ?r) ''t'' =
      Some (principal_from_user sample_account)"
    by (simp add: redis_port_get [OF ok] redis_get_set [OF sample_kv_laws, of 5 1 3])
  show ?thesis
    using both ok hit sample_kv_laws by (simp add: sample_ttl_laws)
qed


subsection \<open>How long a revoked token survives\<close>

text \<open>From \<open>now\<close> on, no resolution of the token is in flight and its document is gone at \<open>until\<close>.\<close>

definition fading :: "'r redis_kv \<Rightarrow> string \<Rightarrow> datetime \<Rightarrow> 'r cluster \<Rightarrow> bool" where
  "fading lib tid until c \<longleftrightarrow>
     (\<forall>p. (tid, p) \<notin> set (cl_inflight c)) \<and>
     (\<forall>t\<ge>cl_now c. rd_get lib t (cl_redis c) (principal_key tid) \<noteq> None \<longrightarrow> t < until)"

lemma fading_redis:
  assumes "fading lib tid until c" and "cl_now c \<le> now"
    and "\<And>t. now \<le> t \<Longrightarrow> rd_get lib t r (principal_key tid) \<noteq> None \<Longrightarrow> rd_get lib t (cl_redis c) (principal_key tid) \<noteq> None"
    and "set inflight \<subseteq> set (cl_inflight c)"
  shows "fading lib tid until (c\<lparr>cl_now := now, cl_redis := r, cl_inflight := inflight, cl_evicting := ev\<rparr>)"
  unfolding fading_def
proof (intro conjI allI impI)
  show "(tid, p) \<notin> set (cl_inflight (c\<lparr>cl_now := now, cl_redis := r, cl_inflight := inflight, cl_evicting := ev\<rparr>))" for p
    using assms(1,4) by (auto simp: fading_def)
  fix t
  assume "cl_now (c\<lparr>cl_now := now, cl_redis := r, cl_inflight := inflight, cl_evicting := ev\<rparr>) \<le> t"
    and "rd_get lib t (cl_redis (c\<lparr>cl_now := now, cl_redis := r, cl_inflight := inflight, cl_evicting := ev\<rparr>)) (principal_key tid) \<noteq> None"
  then have "now \<le> t" "rd_get lib t (cl_redis c) (principal_key tid) \<noteq> None"
    using assms(3) by simp_all
  then show "t < until"
    using assms(1,2) unfolding fading_def by (meson order_trans)
qed

lemma get_after_delete:
  "redis_kv_laws lib \<Longrightarrow> now \<le> t \<Longrightarrow> rd_get lib t (rd_delete lib now ks r) k \<noteq> None \<Longrightarrow> rd_get lib t r k \<noteq> None"
  by (auto simp: redis_kv_lawsD(5) split: if_splits)

lemma fading_step:
  assumes "redis_kv_laws lib" and "0 < ttl" and "claims tid = (u, v)"
    and "cluster_step jwt st lib ttl claims (left_version u v) c c'" and "fading lib tid until c"
  shows "fading lib tid until c'"
  using assms(4)
proof cases
  case (account_read now db token pl user)
  have "tp_token_id pl \<noteq> tid"
    using account_read assms(3) by (auto simp: left_version_def)
  then show ?thesis
    using account_read assms(5) unfolding fading_def by auto
next
  case (cache_write now k p)
  have "k \<noteq> tid"
    using cache_write assms(5) by (auto simp: fading_def)
  then have "rd_get lib t (redis_cache_set lib ttl now k p (cl_redis c)) (principal_key tid) =
      rd_get lib t (cl_redis c) (principal_key tid)" if "now \<le> t" for t
    using redis_get_set [OF assms(1,2) that] by simp
  then show ?thesis
    using fading_redis [OF assms(5) cache_write(2), of "redis_cache_set lib ttl now k p (cl_redis c)"
        "remove1 (k, p) (cl_inflight c)" "cl_evicting c"] cache_write(1) by (auto dest: in_set_remove1 notin_set_remove1 simp: set_remove1_subset)
next
  case (cache_pop now k)
  have "rd_get lib t (redis_cache_pop lib now k (cl_redis c)) (principal_key tid) \<noteq> None \<Longrightarrow>
      rd_get lib t (cl_redis c) (principal_key tid) \<noteq> None" if "now \<le> t" for t
    unfolding redis_cache_pop_def by (rule get_after_delete [OF assms(1) that])
  from fading_redis [where ev = "cl_evicting c", OF assms(5) cache_pop(2) this order_refl] show ?thesis
    using cache_pop(1) by simp
next
  case (take_tokens now i tids r)
  have "rd_get lib t r (principal_key tid) = rd_get lib t (cl_redis c) (principal_key tid)" if "now \<le> t" for t
    using take_tokens(3) that by (auto simp: redis_take_tokens_def Let_def redis_kv_lawsD(5) [OF assms(1)])
  then show ?thesis
    using fading_redis [OF assms(5) take_tokens(2), of r "cl_inflight c" "tids # cl_evicting c"] take_tokens(1) by auto
next
  case (drop_tokens now tids)
  have "rd_get lib t (redis_drop_tokens lib now tids (cl_redis c)) (principal_key tid) \<noteq> None \<Longrightarrow>
      rd_get lib t (cl_redis c) (principal_key tid) \<noteq> None" if "now \<le> t" for t
    unfolding redis_drop_tokens_def using get_after_delete [OF assms(1) that] by (simp split: if_splits)
  from fading_redis [where ev = "remove1 tids (cl_evicting c)", OF assms(5) drop_tokens(2) this order_refl] show ?thesis
    using drop_tokens(1) by simp
qed

lemma fading_steps:
  assumes "redis_kv_laws lib" and "0 < ttl" and "claims tid = (u, v)"
    and "(cluster_step jwt st lib ttl claims (left_version u v))\<^sup>*\<^sup>* c c'" and "fading lib tid until c"
  shows "fading lib tid until c' \<and> cl_now c \<le> cl_now c'"
  using assms(4)
proof (induction rule: rtranclp_induct)
  case (step y z)
  have "cl_now y \<le> cl_now z"
    using step.hyps(2) by cases simp_all
  then show ?case
    using fading_step [OF assms(1-3) step.hyps(2)] step.IH by auto
qed (simp add: assms(5))

text \<open>
  C17. How long a revoked token survives in a cluster. Take a moment after the
  account's version has left \<open>v\<close> at which no resolution of the token is between its
  read of the account and its write of the cache. However the round trips of the
  replicas interleave from then on, the token is refused once the TTL has passed,
  even if no eviction succeeds. An eviction does not make this immediate: a
  resolution in flight may write the old principal after the eviction has finished,
  and then the token is accepted until that document expires.
\<close>

theorem shared_revocation_lag:
  assumes "redis_kv_laws lib" and "0 < ttl" and "redis_ok lib ttl (cl_now c) (cl_redis c)"
    and "decode_access_token jwt st now token = Returns (Ok pl)"
    and "claims (tp_token_id pl) = (tp_subject pl, tp_authz_version pl)"
    and "left_version (tp_subject pl) (tp_authz_version pl) db"
    and "(cluster_step jwt st lib ttl claims (left_version (tp_subject pl) (tp_authz_version pl)))\<^sup>*\<^sup>* c c'" and "cl_now c' \<le> now"
  shows "((\<forall>p. (tp_token_id pl, p) \<notin> set (cl_inflight c)) \<and> cl_now c + seconds ttl \<le> now \<longrightarrow>
      (\<exists>e\<in>{InvalidTokenError, InactiveUserError, StaleTokenError}.
        fst (resolve_principal jwt st (redis_port lib ttl) now token db (cl_redis c')) = Returns (Err e))) \<and>
    ((tp_token_id pl, p) \<in> set (cl_inflight c) \<and> cl_now c \<le> t \<and> t \<le> now \<and> now < t + seconds ttl \<longrightarrow>
      (\<exists>c2. cluster_step jwt st lib ttl claims (left_version (tp_subject pl) (tp_authz_version pl))
          (c\<lparr>cl_redis := redis_invalidate_user lib (cl_now c) (tp_subject pl) (cl_redis c)\<rparr>) c2 \<and> cl_now c2 = t \<and>
        fst (resolve_principal jwt st (redis_port lib ttl) now token db (cl_redis c2)) = Returns (Ok p)))"
proof (intro conjI impI; elim conjE)
  assume "\<forall>p. (tp_token_id pl, p) \<notin> set (cl_inflight c)" and late: "cl_now c + seconds ttl \<le> now"
  then have "fading lib (tp_token_id pl) (cl_now c + seconds ttl) c"
    using assms(3) unfolding fading_def redis_ok_def by blast
  then have "rd_get lib now (cl_redis c') (principal_key (tp_token_id pl)) = None"
    using fading_steps [OF assms(1,2,5,7)] assms(8) late unfolding fading_def by fastforce
  then have "pc_get (redis_port lib ttl) now (cl_redis c') (tp_token_id pl) = None"
    by (simp add: redis_port_def redis_cache_get_def)
  then show "\<exists>e\<in>{InvalidTokenError, InactiveUserError, StaleTokenError}.
      fst (resolve_principal jwt st (redis_port lib ttl) now token db (cl_redis c')) = Returns (Err e)"
    using assms(4,6)
    by (auto simp: resolve_principal_def left_version_def principal_from_user_def Let_def split: option.splits)
next
  let ?c = "c\<lparr>cl_redis := redis_invalidate_user lib (cl_now c) (tp_subject pl) (cl_redis c)\<rparr>"
  let ?r = "redis_cache_set lib ttl t (tp_token_id pl) p (cl_redis ?c)"
  assume p: "(tp_token_id pl, p) \<in> set (cl_inflight c)" and t: "cl_now c \<le> t" "t \<le> now" "now < t + seconds ttl"
  have "rd_get lib now ?r (principal_key (tp_token_id pl)) = Some (principal_encode p)"
    using redis_get_set [OF assms(1,2) t(2)] t(3) by simp
  then have "pc_get (redis_port lib ttl) now ?r (tp_token_id pl) = Some p"
    by (simp add: redis_port_def redis_cache_get_def)
  then have "fst (resolve_principal jwt st (redis_port lib ttl) now token db ?r) = Returns (Ok p)"
    using assms(4) by (simp add: resolve_principal_def)
  moreover have "cluster_step jwt st lib ttl claims (left_version (tp_subject pl) (tp_authz_version pl)) ?c
      (?c\<lparr>cl_now := t, cl_redis := ?r, cl_inflight := remove1 (tp_token_id pl, p) (cl_inflight ?c)\<rparr>)"
    using p t(1) by (intro cluster_step.cache_write) simp_all
  ultimately show "\<exists>c2. cluster_step jwt st lib ttl claims (left_version (tp_subject pl) (tp_authz_version pl)) ?c c2 \<and>
      cl_now c2 = t \<and> fst (resolve_principal jwt st (redis_port lib ttl) now token db (cl_redis c2)) = Returns (Ok p)"
    by (intro exI conjI) (assumption, simp_all)
qed

definition bumped_db :: database where
  "bumped_db = sample_auth_db\<lparr>users := [sample_account\<lparr>u_authz_version := 2\<rparr>]\<rparr>"

definition idle_cluster :: "sample_kv_state cluster" where
  "idle_cluster = \<lparr>cl_now = 20, cl_redis = \<lparr>kv_values = Map.empty, kv_sets = (\<lambda>_. ([], None))\<rparr>, cl_inflight = [], cl_evicting = []\<rparr>"

text \<open>A token read while it was valid, evicted, written and still accepted; and refused after the TTL if nothing was in flight.\<close>

theorem shared_revocation_lag_witness:
  "\<exists>token ttl c c2 p. issue_access_token sample_jwt sample_settings 5 9 7 1 = Returns (token, ttl) \<and>
     cluster_step sample_jwt sample_settings sample_kv 5 (\<lambda>_. (7, 1)) (\<lambda>db. db = sample_auth_db) idle_cluster c \<and>
     cluster_step sample_jwt sample_settings sample_kv 5 (\<lambda>_. (7, 1)) (left_version 7 1)
       (c\<lparr>cl_redis := redis_invalidate_user sample_kv 20 7 (cl_redis c)\<rparr>) c2 \<and>
     fst (resolve_principal sample_jwt sample_settings (redis_port sample_kv 5) 40 token bumped_db (cl_redis c2)) = Returns (Ok p) \<and>
     (\<exists>e. fst (resolve_principal sample_jwt sample_settings (redis_port sample_kv 5) (seconds 6) token bumped_db (cl_redis idle_cluster)) =
        Returns (Err e))"
proof -
  let ?pl = "\<lparr>tp_subject = 7, tp_authz_version = 1, tp_expires_at = seconds 900, tp_token_id = str_uuid 9\<rparr> :: access_token_payload"
  obtain token ttl where tok: "issue_access_token sample_jwt sample_settings 5 9 7 1 = Returns (token, ttl)"
    by (auto simp: issue_access_token_def jwt_secret_def)
  have dec: "decode_access_token sample_jwt sample_settings now token = Returns (Ok ?pl)" if "0 \<le> now" "now < seconds 900" for now
    using decode_issued [OF sample_jwt_laws _ tok, of now] that by (simp add: numeric_date_def)
  have left: "left_version (tp_subject ?pl) (tp_authz_version ?pl) bumped_db"
    by (simp add: left_version_def bumped_db_def get_by_id_def find_user_def sample_account_def)
  have ok: "redis_ok sample_kv 5 20 (cl_redis idle_cluster)"
    by (simp add: redis_ok_def idle_cluster_def sample_kv_def)
  let ?c = "idle_cluster\<lparr>cl_now := 20, cl_inflight := (tp_token_id ?pl, principal_from_user sample_account) # cl_inflight idle_cluster\<rparr>"
  have user: "get_by_id (tp_subject ?pl) sample_auth_db = Some sample_account"
    by (simp add: get_by_id_def find_user_def sample_account_def)
  have read: "cluster_step sample_jwt sample_settings sample_kv 5 (\<lambda>_. (7, 1)) (\<lambda>db. db = sample_auth_db) idle_cluster ?c"
    using dec [of 20] user
    by (intro cluster_step.account_read [where token = token and db = sample_auth_db])
      (simp_all add: idle_cluster_def redis_cache_get_def sample_kv_def sample_account_def)
  have now: "cl_now ?c = 20" "cl_now idle_cluster = 20"
    by (simp_all add: idle_cluster_def)
  have "\<exists>c2. cluster_step sample_jwt sample_settings sample_kv 5 (\<lambda>_. (7, 1)) (left_version 7 1)
      (?c\<lparr>cl_redis := redis_invalidate_user sample_kv 20 7 (cl_redis ?c)\<rparr>) c2 \<and>
      fst (resolve_principal sample_jwt sample_settings (redis_port sample_kv 5) 40 token bumped_db (cl_redis c2)) =
        Returns (Ok (principal_from_user sample_account))"
    using shared_revocation_lag [where c = ?c and c' = ?c and claims = "\<lambda>_. (7, 1)" and now = 40 and t = 30 and ttl = 5
        and p = "principal_from_user sample_account", OF sample_kv_laws _ _ dec [of 40] _ left rtranclp.rtrancl_refl] ok now
    by auto
  moreover have "\<exists>e. fst (resolve_principal sample_jwt sample_settings (redis_port sample_kv 5) (seconds 6) token bumped_db
      (cl_redis idle_cluster)) = Returns (Err e)"
    using shared_revocation_lag [where c = idle_cluster and c' = idle_cluster and claims = "\<lambda>_. (7, 1)" and now = "seconds 6"
        and ttl = 5, OF sample_kv_laws _ _ dec [of "seconds 6"] _ left rtranclp.rtrancl_refl] ok now
    by (auto simp: idle_cluster_def)
  ultimately show ?thesis
    using tok read by blast
qed

end
