(* ===== verification/Feature_Settings.thy ===== *)
theory Feature_Settings
  imports Http File_Storage "HOL-Library.Sublist"
begin

text \<open>
  Validation of the configuration: the views the features and the platform take of
  it (\<open>composition/settings.py\<close> of each feature, \<open>src/app_platform/config/sub_settings.py\<close>)
  and the two validators of \<open>AppSettings\<close> (\<open>src/app_platform/config/settings.py\<close>)
  that run when the program loads its settings. A message appended to the list of
  errors is a constructor of \<open>config_error\<close>; the storage view, which is modelled with
  its adapters, gives its messages as text. Floating-point settings are finite.
\<close>

subsection \<open>The views\<close>

datatype config_error =
    Jwt_Secret_Missing
  | Jwt_Secret_Short
  | Jwt_Issuer_Missing
  | Jwt_Audience_Missing
  | Cookie_Not_Secure
  | Cookie_Samesite_None
  | Internal_Tokens_Returned
  | Redis_Url_Missing
  | Rbac_Disabled
  | Email_Backend_Console
  | Jobs_Backend_In_Process
  | Storage_Error string
  | Outbox_Relay_Interval
  | Outbox_Claim_Batch_Size
  | Outbox_Max_Attempts
  | Outbox_Retry_Base
  | Outbox_Retry_Max
  | Outbox_Retry_Order
  | Outbox_Retention_Delivered
  | Outbox_Retention_Failed
  | Outbox_Prune_Batch_Size
  | Outbox_Disabled
  | Cors_Wildcard
  | Docs_Enabled
  | Trusted_Hosts_Wildcard
  | Trusted_Proxies_Missing
  | Public_Url_Missing
  | Public_Url_Scheme
  | Public_Url_Host_Missing
  | Public_Url_Not_In_Cors
  | Sampler_Ratio
  | Ready_Probe_Timeout
  | Shutdown_Timeout
  | Jwt_Algorithm
  | Jwt_Leeway

abbreviation error_if :: "bool \<Rightarrow> config_error \<Rightarrow> config_error list" where
  "error_if b e \<equiv> (if b then [e] else [])"

record authentication_settings =
  as_jwt_secret_key :: "string option"
  as_jwt_algorithm :: string
  as_jwt_issuer :: "string option"
  as_jwt_audience :: "string option"
  as_jwt_leeway_seconds :: int
  as_access_token_expire_minutes :: int
  as_refresh_token_expire_days :: int
  as_cookie_secure :: bool
  as_cookie_samesite :: string
  as_password_reset_token_expire_minutes :: int
  as_email_verify_token_expire_minutes :: int
  as_rate_limit_enabled :: bool
  as_require_distributed_rate_limit :: bool
  as_redis_url :: "string option"
  as_require_email_verification :: bool
  as_seed_on_startup :: bool
  as_bootstrap_super_admin_email :: "string option"
  as_bootstrap_super_admin_password :: "string option"
  as_bootstrap_promote_existing :: bool
  as_default_user_role :: string
  as_super_admin_role :: string
  as_return_internal_tokens :: bool
  as_auth_token_retention_days :: int
  as_auth_token_purge_interval_minutes :: int
  as_per_account_login_max_attempts :: int
  as_per_account_login_window_seconds :: int
  as_per_account_reset_max_attempts :: int
  as_per_account_reset_window_seconds :: int
  as_per_account_verify_max_attempts :: int
  as_per_account_verify_window_seconds :: int

definition authentication_settings_of :: "app_settings \<Rightarrow> authentication_settings" where
  "authentication_settings_of app = \<lparr>
     as_jwt_secret_key = auth_jwt_secret_key app,
     as_jwt_algorithm = auth_jwt_algorithm app,
     as_jwt_issuer = auth_jwt_issuer app,
     as_jwt_audience = auth_jwt_audience app,
     as_jwt_leeway_seconds = auth_jwt_leeway_seconds app,
     as_access_token_expire_minutes = auth_access_token_expire_minutes app,
     as_refresh_token_expire_days = auth_refresh_token_expire_days app,
     as_cookie_secure = auth_cookie_secure app,
     as_cookie_samesite = auth_cookie_samesite app,
     as_password_reset_token_expire_minutes = auth_password_reset_token_expire_minutes app,
     as_email_verify_token_expire_minutes = auth_email_verify_token_expire_minutes app,
     as_rate_limit_enabled = auth_rate_limit_enabled app,
     as_require_distributed_rate_limit = auth_require_distributed_rate_limit app,
     as_redis_url = auth_redis_url app,
     as_require_email_verification = auth_require_email_verification app,
     as_seed_on_startup = auth_seed_on_startup app,
     as_bootstrap_super_admin_email = auth_bootstrap_super_admin_email app,
     as_bootstrap_super_admin_password = auth_bootstrap_super_admin_password app,
     as_bootstrap_promote_existing = auth_bootstrap_promote_existing app,
     as_default_user_role = auth_default_user_role app,
     as_super_admin_role = auth_super_admin_role app,
     as_return_internal_tokens = auth_return_internal_tokens app,
     as_auth_token_retention_days = auth_token_retention_days app,
     as_auth_token_purge_interval_minutes = auth_token_purge_interval_minutes app,
     as_per_account_login_max_attempts = auth_per_account_login_max_attempts app,
     as_per_account_login_window_seconds = auth_per_account_login_window_seconds app,
     as_per_account_reset_max_attempts = auth_per_account_reset_max_attempts app,
     as_per_account_reset_window_seconds = auth_per_account_reset_window_seconds app,
     as_per_account_verify_max_attempts = auth_per_account_verify_max_attempts app,
     as_per_account_verify_window_seconds = auth_per_account_verify_window_seconds app\<rparr>"

definition MIN_HS_JWT_SECRET_LEN :: nat where
  "MIN_HS_JWT_SECRET_LEN = 32"

definition authentication_validate_production :: "authentication_settings \<Rightarrow> config_error list" where
  "authentication_validate_production s =
     (if \<not> truthy (as_jwt_secret_key s) then [Jwt_Secret_Missing]
      else error_if (take 2 (as_jwt_algorithm s) = ''HS'' \<and>
             length (the (as_jwt_secret_key s)) < MIN_HS_JWT_SECRET_LEN) Jwt_Secret_Short) @
     error_if (\<not> truthy (as_jwt_issuer s)) Jwt_Issuer_Missing @
     error_if (\<not> truthy (as_jwt_audience s)) Jwt_Audience_Missing @
     error_if (\<not> as_cookie_secure s) Cookie_Not_Secure @
     error_if (as_cookie_samesite s = ''none'') Cookie_Samesite_None @
     error_if (as_return_internal_tokens s) Internal_Tokens_Returned @
     error_if (\<not> truthy (as_redis_url s)) Redis_Url_Missing"

record authorization_settings =
  zs_rbac_enabled :: bool
  zs_principal_cache_ttl_seconds :: int

definition authorization_settings_of :: "app_settings \<Rightarrow> authorization_settings" where
  "authorization_settings_of app =
     \<lparr>zs_rbac_enabled = auth_rbac_enabled app, zs_principal_cache_ttl_seconds = auth_principal_cache_ttl_seconds app\<rparr>"

definition authorization_validate_production :: "authorization_settings \<Rightarrow> config_error list" where
  "authorization_validate_production s = error_if (\<not> zs_rbac_enabled s) Rbac_Disabled"

record users_settings =
  us_default_user_role :: string
  us_super_admin_role :: string
  us_require_email_verification :: bool

definition users_settings_of :: "app_settings \<Rightarrow> users_settings" where
  "users_settings_of app =
     \<lparr>us_default_user_role = auth_default_user_role app, us_super_admin_role = auth_super_admin_role app,
      us_require_email_verification = auth_require_email_verification app\<rparr>"

definition users_validate_production :: "users_settings \<Rightarrow> config_error list" where
  "users_validate_production s = []"

record email_settings =
  es_backend :: string
  es_from_address :: "string option"
  es_console_log_bodies :: bool

definition email_settings_of :: "app_settings \<Rightarrow> email_settings outcome" where
  "email_settings_of app =
     (if email_backend app \<notin> {''console''} then Raises ValueError
      else Returns \<lparr>es_backend = email_backend app, es_from_address = email_from app,
                    es_console_log_bodies = email_console_log_bodies app\<rparr>)"

definition email_validate :: "email_settings \<Rightarrow> config_error list" where
  "email_validate s = []"

definition email_validate_production :: "email_settings \<Rightarrow> config_error list" where
  "email_validate_production s = error_if (es_backend s = ''console'') Email_Backend_Console"

record jobs_settings =
  js_backend :: string

definition jobs_settings_of :: "app_settings \<Rightarrow> jobs_settings outcome" where
  "jobs_settings_of app =
     (if jobs_backend app \<notin> {''in_process''} then Raises ValueError
      else Returns \<lparr>js_backend = jobs_backend app\<rparr>)"

definition jobs_validate :: "jobs_settings \<Rightarrow> config_error list" where
  "jobs_validate s = []"

definition jobs_validate_production :: "jobs_settings \<Rightarrow> config_error list" where
  "jobs_validate_production s = error_if (js_backend s = ''in_process'') Jobs_Backend_In_Process"

record outbox_settings =
  os_enabled :: bool
  os_relay_interval_seconds :: rat
  os_claim_batch_size :: int
  os_max_attempts :: int
  os_retry_base_seconds :: rat
  os_retry_max_seconds :: rat
  os_worker_id :: string
  os_retention_delivered_days :: int
  os_retention_failed_days :: int
  os_prune_batch_size :: int

text \<open>The host name and the process id are those of the running process.\<close>

record process =
  gethostname :: string
  getpid :: nat

definition default_worker_id :: "process \<Rightarrow> string" where
  "default_worker_id proc = gethostname proc @ '':'' @ str_nat (getpid proc)"

definition outbox_settings_of :: "process \<Rightarrow> app_settings \<Rightarrow> outbox_settings" where
  "outbox_settings_of proc app = \<lparr>
     os_enabled = outbox_enabled app,
     os_relay_interval_seconds = outbox_relay_interval_seconds app,
     os_claim_batch_size = outbox_claim_batch_size app,
     os_max_attempts = outbox_max_attempts app,
     os_retry_base_seconds = outbox_retry_base_seconds app,
     os_retry_max_seconds = outbox_retry_max_seconds app,
     os_worker_id = (if truthy (outbox_worker_id app) then the (outbox_worker_id app) else default_worker_id proc),
     os_retention_delivered_days = outbox_retention_delivered_days app,
     os_retention_failed_days = outbox_retention_failed_days app,
     os_prune_batch_size = outbox_prune_batch_size app\<rparr>"

definition dedup_retention_seconds :: "outbox_settings \<Rightarrow> rat" where
  "dedup_retention_seconds s = 2 * os_retry_max_seconds s"

definition outbox_validate :: "outbox_settings \<Rightarrow> config_error list" where
  "outbox_validate s =
     error_if (os_relay_interval_seconds s \<le> 0) Outbox_Relay_Interval @
     error_if (os_claim_batch_size s \<le> 0) Outbox_Claim_Batch_Size @
     error_if (os_max_attempts s \<le> 0) Outbox_Max_Attempts @
     error_if (os_retry_base_seconds s \<le> 0) Outbox_Retry_Base @
     error_if (os_retry_max_seconds s \<le> 0) Outbox_Retry_Max @
     error_if (os_retry_max_seconds s < os_retry_base_seconds s) Outbox_Retry_Order @
     error_if (os_retention_delivered_days s \<le> 0) Outbox_Retention_Delivered @
     error_if (os_retention_failed_days s \<le> 0) Outbox_Retention_Failed @
     error_if (os_prune_batch_size s \<le> 0) Outbox_Prune_Batch_Size"

definition outbox_validate_production :: "outbox_settings \<Rightarrow> config_error list" where
  "outbox_validate_production s = error_if (\<not> os_enabled s) Outbox_Disabled"


subsection \<open>The platform's views\<close>

record database_settings =
  ds_dsn :: string
  ds_pool_size :: int
  ds_max_overflow :: int
  ds_pool_recycle_seconds :: int
  ds_pool_pre_ping :: bool

definition database_settings_of :: "app_settings \<Rightarrow> database_settings" where
  "database_settings_of app =
     \<lparr>ds_dsn = postgresql_dsn app, ds_pool_size = db_pool_size app, ds_max_overflow = db_max_overflow app,
      ds_pool_recycle_seconds = db_pool_recycle_seconds app, ds_pool_pre_ping = db_pool_pre_ping app\<rparr>"

definition database_validate_production :: "database_settings \<Rightarrow> config_error list" where
  "database_validate_production s = []"

record api_settings =
  ap_enable_docs :: bool
  ap_cors_origins :: "string list"
  ap_trusted_hosts :: "string list"
  ap_trusted_proxy_ips :: "string list"
  ap_max_request_bytes :: int
  ap_public_url :: string
  ap_display_name :: string

definition api_settings_of :: "app_settings \<Rightarrow> api_settings" where
  "api_settings_of app =
     \<lparr>ap_enable_docs = enable_docs app, ap_cors_origins = cors_origins app, ap_trusted_hosts = trusted_hosts app,
      ap_trusted_proxy_ips = trusted_proxy_ips app, ap_max_request_bytes = max_request_bytes app,
      ap_public_url = app_public_url app, ap_display_name = app_display_name app\<rparr>"

text \<open>The hosts of the origins that are URLs; an origin the URL splitter rejects raises.\<close>

fun origin_hosts :: "(string \<Rightarrow> bool) \<Rightarrow> string list \<Rightarrow> string list outcome" where
  "origin_hosts bracketed_ok [] = Returns []"
| "origin_hosts bracketed_ok (o1 # os) =
     (if sublist ''://'' o1
      then bind_outcome (urlsplit bracketed_ok o1) (\<lambda>u.
             bind_outcome (origin_hosts bracketed_ok os) (\<lambda>hosts.
               Returns (case split_hostname u of None \<Rightarrow> hosts | Some h \<Rightarrow> h # hosts)))
      else origin_hosts bracketed_ok os)"

definition public_url_errors :: "(string \<Rightarrow> bool) \<Rightarrow> api_settings \<Rightarrow> config_error list outcome" where
  "public_url_errors bracketed_ok s =
     (if ap_public_url s = [] then Returns [Public_Url_Missing]
      else bind_outcome (urlsplit bracketed_ok (ap_public_url s)) (\<lambda>parsed.
        if su_scheme parsed \<noteq> ''https'' then Returns [Public_Url_Scheme]
        else case split_hostname parsed of
               None \<Rightarrow> Returns [Public_Url_Host_Missing]
             | Some host \<Rightarrow> if host = [] then Returns [Public_Url_Host_Missing]
                 else bind_outcome (origin_hosts bracketed_ok (ap_cors_origins s)) (\<lambda>hosts.
                   Returns (error_if (host \<notin> set hosts) Public_Url_Not_In_Cors))))"

definition api_validate_production :: "(string \<Rightarrow> bool) \<Rightarrow> api_settings \<Rightarrow> config_error list outcome" where
  "api_validate_production bracketed_ok s =
     bind_outcome (public_url_errors bracketed_ok s) (\<lambda>url_errors. Returns (
       error_if (ap_cors_origins s = [''*''] \<or> ''*'' \<in> set (ap_cors_origins s)) Cors_Wildcard @
       error_if (ap_enable_docs s) Docs_Enabled @
       error_if (list_ex (\<lambda>host. CHR ''*'' \<in> set host) (ap_trusted_hosts s)) Trusted_Hosts_Wildcard @
       error_if (ap_trusted_proxy_ips s = []) Trusted_Proxies_Missing @
       url_errors))"

record observability_settings =
  bs_log_level :: string
  bs_otel_exporter_endpoint :: "string option"
  bs_otel_service_name :: string
  bs_otel_service_version :: string
  bs_otel_traces_sampler_ratio :: rat
  bs_otel_instrument_sqlalchemy :: bool
  bs_otel_instrument_httpx :: bool
  bs_otel_instrument_redis :: bool
  bs_metrics_enabled :: bool
  bs_health_ready_probe_timeout_seconds :: rat
  bs_shutdown_timeout_seconds :: rat
  bs_auth_redis_url :: "string option"
  bs_environment :: environment_kind

definition observability_settings_of :: "app_settings \<Rightarrow> observability_settings" where
  "observability_settings_of app = \<lparr>
     bs_log_level = log_level app,
     bs_otel_exporter_endpoint = otel_exporter_endpoint app,
     bs_otel_service_name = otel_service_name app,
     bs_otel_service_version = otel_service_version app,
     bs_otel_traces_sampler_ratio = otel_traces_sampler_ratio app,
     bs_otel_instrument_sqlalchemy = otel_instrument_sqlalchemy app,
     bs_otel_instrument_httpx = otel_instrument_httpx app,
     bs_otel_instrument_redis = otel_instrument_redis app,
     bs_metrics_enabled = metrics_enabled app,
     bs_health_ready_probe_timeout_seconds = health_ready_probe_timeout_seconds app,
     bs_shutdown_timeout_seconds = shutdown_timeout_seconds app,
     bs_auth_redis_url = auth_redis_url app,
     bs_environment = environment app\<rparr>"

definition observability_validate :: "observability_settings \<Rightarrow> config_error list" where
  "observability_validate s =
     error_if (\<not> (0 \<le> bs_otel_traces_sampler_ratio s \<and> bs_otel_traces_sampler_ratio s \<le> 1)) Sampler_Ratio @
     error_if (\<not> (0 < bs_health_ready_probe_timeout_seconds s \<and> bs_health_ready_probe_timeout_seconds s \<le> 30))
       Ready_Probe_Timeout @
     error_if (\<not> (0 < bs_shutdown_timeout_seconds s \<and> bs_shutdown_timeout_seconds s \<le> 300)) Shutdown_Timeout"

definition observability_validate_production :: "observability_settings \<Rightarrow> config_error list" where
  "observability_validate_production s = []"


subsection \<open>The validators of the settings\<close>

definition JWT_ALGORITHM_WHITELIST :: "string list" where
  "JWT_ALGORITHM_WHITELIST = [''HS256'', ''RS256'']"

definition MAX_JWT_LEEWAY_SECONDS :: int where
  "MAX_JWT_LEEWAY_SECONDS = 60"

definition validate_auth_settings :: "process \<Rightarrow> app_settings \<Rightarrow> app_settings outcome" where
  "validate_auth_settings proc app =
     bind_outcome (email_settings_of app) (\<lambda>email.
     bind_outcome (jobs_settings_of app) (\<lambda>jobs.
     bind_outcome (storage_settings_of app) (\<lambda>storage.
       let errors =
         error_if (auth_jwt_algorithm app \<notin> set JWT_ALGORITHM_WHITELIST) Jwt_Algorithm @
         error_if (\<not> (0 \<le> auth_jwt_leeway_seconds app \<and> auth_jwt_leeway_seconds app \<le> MAX_JWT_LEEWAY_SECONDS)) Jwt_Leeway @
         email_validate email @ jobs_validate jobs @ map Storage_Error (storage_validate storage) @
         outbox_validate (outbox_settings_of proc app) @ observability_validate (observability_settings_of app)
       in if errors \<noteq> [] then Raises ValueError else Returns app)))"

definition production_errors :: "(string \<Rightarrow> bool) \<Rightarrow> process \<Rightarrow> app_settings \<Rightarrow> config_error list outcome" where
  "production_errors bracketed_ok proc app =
     bind_outcome (email_settings_of app) (\<lambda>email.
     bind_outcome (jobs_settings_of app) (\<lambda>jobs.
     bind_outcome (storage_settings_of app) (\<lambda>storage.
     bind_outcome (api_validate_production bracketed_ok (api_settings_of app)) (\<lambda>api. Returns (
       authentication_validate_production (authentication_settings_of app) @
       users_validate_production (users_settings_of app) @
       authorization_validate_production (authorization_settings_of app) @
       email_validate_production email @ jobs_validate_production jobs @
       map Storage_Error (storage_validate_production storage) @
       outbox_validate_production (outbox_settings_of proc app) @
       database_validate_production (database_settings_of app) @ api @
       observability_validate_production (observability_settings_of app))))))"

definition validate_production_settings :: "(string \<Rightarrow> bool) \<Rightarrow> process \<Rightarrow> app_settings \<Rightarrow> app_settings outcome" where
  "validate_production_settings bracketed_ok proc app =
     (if environment app \<noteq> Production then Returns app
      else bind_outcome (production_errors bracketed_ok proc app) (\<lambda>errors.
             if errors \<noteq> [] then Raises ValueError else Returns app))"

text \<open>Constructing \<open>AppSettings\<close> runs the validators in the order of the class.\<close>

definition load_settings :: "(string \<Rightarrow> bool) \<Rightarrow> process \<Rightarrow> app_settings \<Rightarrow> app_settings outcome" where
  "load_settings bracketed_ok proc app =
     bind_outcome (validate_auth_settings proc app) (validate_production_settings bracketed_ok proc)"

lemma bind_outcome_Raises_iff:
  "bind_outcome m f = Raises e \<longleftrightarrow> m = Raises e \<or> (\<exists>x. m = Returns x \<and> f x = Raises e)"
  by (cases m) auto

lemma urlsplit_raises: "urlsplit ok url = Raises e \<Longrightarrow> e = ValueError"
  by (auto simp: urlsplit_def Let_def split: if_splits prod.splits)

lemma origin_hosts_raises: "origin_hosts ok os = Raises e \<Longrightarrow> e = ValueError"
  by (induction os) (auto simp: bind_outcome_Raises_iff dest: urlsplit_raises split: if_splits)

lemma api_validate_production_raises: "api_validate_production ok s = Raises e \<Longrightarrow> e = ValueError"
  by (auto simp: api_validate_production_def public_url_errors_def bind_outcome_Raises_iff
      dest: urlsplit_raises origin_hosts_raises split: if_splits option.splits)

text \<open>What the first validator guarantees of the settings it lets pass.\<close>

definition settings_valid :: "app_settings \<Rightarrow> bool" where
  "settings_valid app \<longleftrightarrow>
     auth_jwt_algorithm app \<in> {''HS256'', ''RS256''} \<and>
     0 \<le> auth_jwt_leeway_seconds app \<and> auth_jwt_leeway_seconds app \<le> 60 \<and>
     email_backend app = ''console'' \<and> jobs_backend app = ''in_process'' \<and>
     storage_backend app \<in> {''local'', ''s3''} \<and>
     (storage_enabled app \<longrightarrow> truthy (if storage_backend app = ''local'' then storage_local_path app else storage_s3_bucket app)) \<and>
     0 < outbox_relay_interval_seconds app \<and> 0 < outbox_claim_batch_size app \<and> 0 < outbox_max_attempts app \<and>
     0 < outbox_retry_base_seconds app \<and> outbox_retry_base_seconds app \<le> outbox_retry_max_seconds app \<and>
     0 < outbox_retention_delivered_days app \<and> 0 < outbox_retention_failed_days app \<and>
     0 < outbox_prune_batch_size app \<and>
     0 \<le> otel_traces_sampler_ratio app \<and> otel_traces_sampler_ratio app \<le> 1 \<and>
     0 < health_ready_probe_timeout_seconds app \<and> health_ready_probe_timeout_seconds app \<le> 30 \<and>
     0 < shutdown_timeout_seconds app \<and> shutdown_timeout_seconds app \<le> 300"

text \<open>What the second validator asks for beside the two backends that do not exist yet.\<close>

definition hardened :: "(string \<Rightarrow> bool) \<Rightarrow> app_settings \<Rightarrow> bool" where
  "hardened bracketed_ok app \<longleftrightarrow>
     truthy (auth_jwt_secret_key app) \<and>
     (take 2 (auth_jwt_algorithm app) = ''HS'' \<longrightarrow> 32 \<le> length (the (auth_jwt_secret_key app))) \<and>
     truthy (auth_jwt_issuer app) \<and> truthy (auth_jwt_audience app) \<and>
     auth_cookie_secure app \<and> auth_cookie_samesite app \<noteq> ''none'' \<and> \<not> auth_return_internal_tokens app \<and>
     truthy (auth_redis_url app) \<and> auth_rbac_enabled app \<and>
     (storage_enabled app \<longrightarrow> storage_backend app = ''s3'') \<and> outbox_enabled app \<and>
     ''*'' \<notin> set (cors_origins app) \<and> \<not> enable_docs app \<and>
     (\<forall>host \<in> set (trusted_hosts app). CHR ''*'' \<notin> set host) \<and> trusted_proxy_ips app \<noteq> [] \<and>
     (\<exists>url host hosts. urlsplit bracketed_ok (app_public_url app) = Returns url \<and> su_scheme url = ''https'' \<and>
        split_hostname url = Some host \<and> origin_hosts bracketed_ok (cors_origins app) = Returns hosts \<and> host \<in> set hosts)"

lemmas view_defs =
  authentication_settings_of_def authorization_settings_of_def users_settings_of_def outbox_settings_of_def
  database_settings_of_def api_settings_of_def observability_settings_of_def

lemmas view_validate_defs =
  email_validate_def jobs_validate_def storage_validate_def outbox_validate_def observability_validate_def

lemma validate_auth_settings_decides:
  "validate_auth_settings proc app = (if settings_valid app then Returns app else Raises ValueError)"
proof (cases "email_backend app = ''console'' \<and> jobs_backend app = ''in_process'' \<and> storage_backend app \<in> {''local'', ''s3''}")
  case True
  then show ?thesis
    by (auto simp: validate_auth_settings_def settings_valid_def email_settings_of_def jobs_settings_of_def
        storage_settings_of_def JWT_ALGORITHM_WHITELIST_def MAX_JWT_LEEWAY_SECONDS_def view_defs view_validate_defs)
next
  case False
  then show ?thesis
    by (auto simp: validate_auth_settings_def settings_valid_def email_settings_of_def jobs_settings_of_def storage_settings_of_def)
qed

lemma production_errors_raises: "production_errors ok proc app = Raises e \<Longrightarrow> e = ValueError"
  by (auto simp: production_errors_def bind_outcome_Raises_iff email_settings_of_def jobs_settings_of_def
      storage_settings_of_def dest: api_validate_production_raises split: if_splits)

lemma production_errors_backends:
  "production_errors ok proc app = Returns es \<Longrightarrow> Email_Backend_Console \<in> set es \<and> Jobs_Backend_In_Process \<in> set es"
  by (auto simp: production_errors_def bind_outcome_Returns_iff email_settings_of_def jobs_settings_of_def
      email_validate_production_def jobs_validate_production_def split: if_splits)

lemma validate_production_settings_refuses:
  "environment app = Production \<Longrightarrow> validate_production_settings ok proc app = Raises ValueError"
  using production_errors_raises [of ok proc app] production_errors_backends [of ok proc app]
  by (cases "production_errors ok proc app") (auto simp: validate_production_settings_def)

lemma only_middle: "xs @ m @ ys = m \<longleftrightarrow> xs = [] \<and> ys = []"
proof
  assume eq: "xs @ m @ ys = m"
  have "length (xs @ m @ ys) = length m"
    by (rule arg_cong [OF eq])
  then show "xs = [] \<and> ys = []"
    by simp
qed simp

lemma api_validate_production_clean:
  "api_validate_production ok (api_settings_of app) = Returns [] \<longleftrightarrow>
     ''*'' \<notin> set (cors_origins app) \<and> \<not> enable_docs app \<and>
     (\<forall>host \<in> set (trusted_hosts app). CHR ''*'' \<notin> set host) \<and> trusted_proxy_ips app \<noteq> [] \<and>
     (\<exists>url host hosts. urlsplit ok (app_public_url app) = Returns url \<and> su_scheme url = ''https'' \<and>
        split_hostname url = Some host \<and> origin_hosts ok (cors_origins app) = Returns hosts \<and> host \<in> set hosts)"
proof -
  have empty: "urlsplit ok [] = Returns u \<Longrightarrow> su_scheme u = []" for u
    by (auto simp: urlsplit_def partition_at_def)
  have named: "split_hostname u \<noteq> Some []" for u
    by (cases "fst (hostinfo u)") (auto simp: split_hostname_def Let_def partition_at_def lower_def split: if_splits)
  have "public_url_errors ok (api_settings_of app) = Returns [] \<longleftrightarrow>
     (\<exists>url host hosts. urlsplit ok (app_public_url app) = Returns url \<and> su_scheme url = ''https'' \<and>
        split_hostname url = Some host \<and> origin_hosts ok (cors_origins app) = Returns hosts \<and> host \<in> set hosts)"
  proof (cases "urlsplit ok (app_public_url app)")
    case (Returns u)
    then show ?thesis
      using empty named [of u]
      by (cases "split_hostname u"; cases "origin_hosts ok (cors_origins app)"; cases "app_public_url app = []")
        (auto simp: public_url_errors_def view_defs)
  qed (simp add: public_url_errors_def view_defs)
  then show ?thesis
    by (auto simp: api_validate_production_def bind_outcome_Returns_iff view_defs list_ex_iff)
qed

lemma authentication_validate_production_clean:
  "authentication_validate_production (authentication_settings_of app) = [] \<longleftrightarrow>
     truthy (auth_jwt_secret_key app) \<and>
     (take 2 (auth_jwt_algorithm app) = ''HS'' \<longrightarrow> 32 \<le> length (the (auth_jwt_secret_key app))) \<and>
     truthy (auth_jwt_issuer app) \<and> truthy (auth_jwt_audience app) \<and>
     auth_cookie_secure app \<and> auth_cookie_samesite app \<noteq> ''none'' \<and> \<not> auth_return_internal_tokens app \<and>
     truthy (auth_redis_url app)"
  by (auto simp: authentication_validate_production_def authentication_settings_of_def MIN_HS_JWT_SECRET_LEN_def)

lemma production_errors_hardened:
  assumes "settings_valid app"
  shows "production_errors ok proc app = Returns [Email_Backend_Console, Jobs_Backend_In_Process] \<longleftrightarrow> hardened ok app"
proof -
  have views: "email_settings_of app = Returns \<lparr>es_backend = ''console'', es_from_address = email_from app,
        es_console_log_bodies = email_console_log_bodies app\<rparr>"
      "jobs_settings_of app = Returns \<lparr>js_backend = ''in_process''\<rparr>"
      "storage_backend app \<in> {''local'', ''s3''}"
    using assms by (auto simp: settings_valid_def email_settings_of_def jobs_settings_of_def)
  then obtain st where st: "storage_settings_of app = Returns st" "ss_enabled st = storage_enabled app" "ss_backend st = storage_backend app"
    by (auto simp: storage_settings_of_def)
  define front where "front = authentication_validate_production (authentication_settings_of app) @
    authorization_validate_production (authorization_settings_of app)"
  define rest where "rest = (\<lambda>api. map Storage_Error (storage_validate_production st) @
    outbox_validate_production (outbox_settings_of proc app) @ api)"
  have "production_errors ok proc app = bind_outcome (api_validate_production ok (api_settings_of app)) (\<lambda>api.
      Returns (front @ [Email_Backend_Console, Jobs_Backend_In_Process] @ rest api))"
    by (simp add: production_errors_def views st(1) front_def rest_def email_validate_production_def
        jobs_validate_production_def users_validate_production_def database_validate_production_def
        observability_validate_production_def)
  then have "production_errors ok proc app = Returns [Email_Backend_Console, Jobs_Backend_In_Process] \<longleftrightarrow>
      front = [] \<and> (\<exists>api. api_validate_production ok (api_settings_of app) = Returns api \<and> rest api = [])"
    using only_middle [of front "[Email_Backend_Console, Jobs_Backend_In_Process]"]
    by (auto simp: bind_outcome_Returns_iff)
  also have "\<dots> \<longleftrightarrow> front = [] \<and> map Storage_Error (storage_validate_production st) = [] \<and>
      outbox_validate_production (outbox_settings_of proc app) = [] \<and>
      api_validate_production ok (api_settings_of app) = Returns []"
    by (auto simp: rest_def)
  also have "\<dots> \<longleftrightarrow> hardened ok app"
    unfolding api_validate_production_clean front_def append_is_Nil_conv authentication_validate_production_clean hardened_def
    using views(3) st(2,3) by (auto simp: authorization_validate_production_def authorization_settings_of_def
        storage_validate_production_def outbox_validate_production_def outbox_settings_of_def)
  finally show ?thesis .
qed

text \<open>
  C33. Which configurations start. Loading the settings returns them unchanged
  exactly if every setting is in range and the environment is not production;
  every other configuration raises \<open>ValueError\<close>. So no production configuration
  starts, because the only email and jobs backends are refused there; and these
  two are all that is wrong exactly with a configuration that has a long secret,
  issuer and audience, secure cookies that are not sent across sites, Redis, role
  checks, the outbox on, no wildcard hosts or origins, named proxies, no
  documentation pages, and a public https URL on a trusted origin.
\<close>

theorem settings_validation_decides:
  "load_settings ok proc app =
     (if environment app \<noteq> Production \<and> settings_valid app then Returns app else Raises ValueError) \<and>
   (settings_valid app \<longrightarrow>
      (production_errors ok proc app = Returns [Email_Backend_Console, Jobs_Backend_In_Process] \<longleftrightarrow> hardened ok app))"
  using production_errors_hardened [of app ok proc] validate_production_settings_refuses [of app ok proc]
  by (auto simp: load_settings_def validate_auth_settings_decides validate_production_settings_def)

definition sample_production :: app_settings where
  "sample_production = default_settings
     \<lparr>environment := Production, enable_docs := False, app_public_url := ''https://app.example.com/'',
      cors_origins := [''https://app.example.com''], trusted_hosts := [''app.example.com''],
      trusted_proxy_ips := [''10.0.0.0/8''], auth_jwt_secret_key := Some (replicate 32 (CHR ''k'')),
      auth_jwt_issuer := Some ''iss'', auth_jwt_audience := Some ''aud'', auth_cookie_secure := True,
      auth_redis_url := Some ''redis://cache'', outbox_enabled := True\<rparr>"

definition sample_process :: process where
  "sample_process = \<lparr>gethostname = ''web'', getpid = 7\<rparr>"

lemma default_settings_valid: "settings_valid default_settings"
  by (simp add: settings_valid_def default_settings_def)

lemma sample_production_hardened: "settings_valid sample_production" "hardened (\<lambda>_. False) sample_production"
proof -
  let ?url = "\<lparr>su_scheme = ''https'', su_netloc = ''app.example.com''\<rparr>"
  show "settings_valid sample_production"
    by (simp add: settings_valid_def sample_production_def default_settings_def)
  have url: "urlsplit (\<lambda>_. False) ''https://app.example.com/'' = Returns ?url"
      "urlsplit (\<lambda>_. False) ''https://app.example.com'' = Returns ?url"
    by (simp_all add: urlsplit_def partition_at_def is_upper_def is_lower_def is_alnum_def is_digit_def lower_def lower_char_def)
  have host: "split_hostname ?url = Some ''app.example.com''"
    by (simp add: split_hostname_def hostinfo_def partition_at_def after_last_def lower_def lower_char_def is_upper_def)
  have "sublist ''://'' ''https://app.example.com''"
    by (simp add: sublist_code)
  then have "origin_hosts (\<lambda>_. False) [''https://app.example.com''] = Returns [''app.example.com'']"
    by (simp add: url host)
  then show "hardened (\<lambda>_. False) sample_production"
    using url host by (simp add: hardened_def sample_production_def default_settings_def truthy_def)
qed

theorem settings_validation_decides_witness:
  "load_settings (\<lambda>_. False) sample_process default_settings = Returns default_settings \<and>
   load_settings (\<lambda>_. False) sample_process sample_production = Raises ValueError \<and>
   production_errors (\<lambda>_. False) sample_process sample_production = Returns [Email_Backend_Console, Jobs_Backend_In_Process]"
  using settings_validation_decides [of "\<lambda>_. False" sample_process default_settings]
    settings_validation_decides [of "\<lambda>_. False" sample_process sample_production]
    default_settings_valid sample_production_hardened
  by (simp add: sample_production_def default_settings_def)

end
