(* ===== verification/Workers.thy ===== *)
theory Workers
  imports Feature_Settings Outbox_Props Auth_Token_Props User_Data Email "HOL-Library.Char_ord" "HOL-Library.List_Lexorder"
begin

text \<open>
  The worker process: the outbox container and its schedule
  (\<open>src/features/outbox/composition/container.py\<close>, \<open>worker.py\<close>), the token purge
  schedule (\<open>src/features/authentication/composition/worker.py\<close>), the email and jobs
  containers, and the scaffold of \<open>src/worker.py\<close> that puts them together. No job
  runtime exists yet; \<open>run_callable\<close> is what one invocation of a scheduled callable
  does. Datetimes count microseconds from 1970; those of Python reach from the
  year 1 to the year 9999.
\<close>

subsection \<open>Durations\<close>

text \<open>\<open>round\<close>, and the rounding of \<open>timedelta\<close> to microseconds: ties go to the even neighbour.\<close>

definition round_half_even :: "rat \<Rightarrow> int" where
  "round_half_even x =
     (let n = \<lfloor>x\<rfloor>; frac = x - of_int n
      in if frac < 1 / 2 \<or> (frac = 1 / 2 \<and> even n) then n else n + 1)"

definition timedelta_seconds :: "rat \<Rightarrow> int outcome" where
  "timedelta_seconds s = timedelta_times (round_half_even (s * 1000000)) 1"

definition timedelta_days :: "int \<Rightarrow> int outcome" where
  "timedelta_days n = timedelta_times (days 1) n"

definition datetime_min :: datetime where
  "datetime_min = - seconds 62135596800"

definition datetime_max :: datetime where
  "datetime_max = seconds 253402300800 - 1"

definition datetime_minus :: "datetime \<Rightarrow> int \<Rightarrow> datetime outcome" where
  "datetime_minus t d = (if datetime_min \<le> t - d \<and> t - d \<le> datetime_max then Returns (t - d) else Raises OverflowError)"


subsection \<open>The outbox container and its schedule\<close>

record outbox_container =
  oc_settings :: outbox_settings
  oc_dispatch_pending :: dispatch_pending

definition build_outbox_container :: "outbox_settings \<Rightarrow> outbox_container outcome" where
  "build_outbox_container settings =
     bind_outcome (timedelta_seconds (os_retry_base_seconds settings)) (\<lambda>retry_base.
     bind_outcome (timedelta_seconds (os_retry_max_seconds settings)) (\<lambda>retry_max.
       Returns \<lparr>oc_settings = settings,
                oc_dispatch_pending =
                  \<lparr>dp_batch_size = os_claim_batch_size settings, dp_max_attempts = os_max_attempts settings,
                   dp_worker_id = os_worker_id settings, dp_retry_base = retry_base, dp_retry_max = retry_max\<rparr>\<rparr>))"

datatype cron_callable =
    Dispatch_Tick dispatch_pending
  | Prune_Tick int int rat int
  | Purge_Tick int

record cron_spec =
  cs_name :: string
  cs_interval_seconds :: int
  cs_run_at_startup :: bool
  cs_callable :: cron_callable

definition DIVISORS_OF_60 :: "int list" where
  "DIVISORS_OF_60 = [1, 2, 3, 4, 5, 6, 10, 12, 15, 20, 30, 60]"

text \<open>\<open>min\<close> with the key \<open>(abs(d - rounded), -d)\<close>: the first of the smallest.\<close>

definition closer :: "int \<Rightarrow> int \<Rightarrow> int \<Rightarrow> bool" where
  "closer rounded d best \<longleftrightarrow>
     \<bar>d - rounded\<bar> < \<bar>best - rounded\<bar> \<or> (\<bar>d - rounded\<bar> = \<bar>best - rounded\<bar> \<and> - d < - best)"

definition nearest_divisor :: "int \<Rightarrow> int" where
  "nearest_divisor rounded =
     foldl (\<lambda>best d. if closer rounded d best then d else best) (hd DIVISORS_OF_60) (tl DIVISORS_OF_60)"

definition outbox_snap_to_divisor :: "rat \<Rightarrow> int" where
  "outbox_snap_to_divisor interval_seconds = nearest_divisor (max 1 (round_half_even interval_seconds))"

definition build_relay_cron_specs :: "outbox_container \<Rightarrow> cron_spec list" where
  "build_relay_cron_specs container =
     (let settings = oc_settings container
      in if \<not> os_enabled settings then []
         else [\<lparr>cs_name = ''outbox-relay'',
                cs_interval_seconds = outbox_snap_to_divisor (os_relay_interval_seconds settings),
                cs_run_at_startup = True,
                cs_callable = Dispatch_Tick (oc_dispatch_pending container)\<rparr>,
               \<lparr>cs_name = ''outbox-prune'',
                cs_interval_seconds = 3600,
                cs_run_at_startup = False,
                cs_callable = Prune_Tick (os_retention_delivered_days settings) (os_retention_failed_days settings)
                  (dedup_retention_seconds settings) (os_prune_batch_size settings)\<rparr>])"


subsection \<open>The token purge\<close>

definition auth_snap_to_divisor :: "int \<Rightarrow> int" where
  "auth_snap_to_divisor interval_minutes = nearest_divisor (max 1 interval_minutes)"

definition build_auth_maintenance_cron_specs :: "int \<Rightarrow> int \<Rightarrow> cron_spec list" where
  "build_auth_maintenance_cron_specs retention_days interval_minutes =
     (if interval_minutes \<le> 0 then []
      else [\<lparr>cs_name = ''auth-purge-tokens'',
             cs_interval_seconds = auth_snap_to_divisor interval_minutes * 60,
             cs_run_at_startup = False,
             cs_callable = Purge_Tick retention_days\<rparr>])"

text \<open>One invocation of a callable; a loop that does not end is \<open>None\<close>.\<close>

definition prune_tick ::
  "datetime \<Rightarrow> int \<Rightarrow> int \<Rightarrow> rat \<Rightarrow> int \<Rightarrow> (database \<times> 'm) \<Rightarrow> (unit outcome \<times> (database \<times> 'm)) option" where
  "prune_tick now d f p b s =
     (case bind_outcome (timedelta_days d) (\<lambda>td. bind_outcome (datetime_minus now td) (\<lambda>_.
           bind_outcome (timedelta_days f) (\<lambda>tf. bind_outcome (datetime_minus now tf) (\<lambda>_.
           bind_outcome (timedelta_seconds p) (\<lambda>tp. bind_outcome (datetime_minus now tp) (\<lambda>_. Returns tp)))))) of
        Raises e \<Rightarrow> Some (Raises e, s)
      | Returns dedup_retention \<Rightarrow>
          (case prune_outbox now d f dedup_retention b (fst s) of
             None \<Rightarrow> None | Some (summary, db) \<Rightarrow> Some (Returns (), (db, snd s))))"

definition purge_tick ::
  "datetime \<Rightarrow> int \<Rightarrow> (database \<times> 'm) \<Rightarrow> (unit outcome \<times> (database \<times> 'm)) option" where
  "purge_tick now retention_days s =
     (case bind_outcome (timedelta_days retention_days) (datetime_minus now) of
        Raises e \<Rightarrow> Some (Raises e, s)
      | Returns cutoff \<Rightarrow>
          (case purge_expired_tokens now retention_days (fst s) of
             None \<Rightarrow> None | Some (report, db) \<Rightarrow> Some (Returns (), (db, snd s))))"

fun run_callable ::
  "(exn \<Rightarrow> string) \<Rightarrow> 'm job_queue \<Rightarrow> uuid set \<Rightarrow> datetime \<Rightarrow> cron_callable \<Rightarrow> (database \<times> 'm) \<Rightarrow>
   (unit outcome \<times> (database \<times> 'm)) option" where
  "run_callable show_exn enqueue locked now (Dispatch_Tick cfg) s =
     (case dispatch_pending_execute cfg show_exn enqueue locked now s of
        (Returns report, s') \<Rightarrow> Some (Returns (), s') | (Raises e, s') \<Rightarrow> Some (Raises e, s'))"
| "run_callable show_exn enqueue locked now (Prune_Tick d f p b) s = prune_tick now d f p b s"
| "run_callable show_exn enqueue locked now (Purge_Tick n) s = purge_tick now n s"


subsection \<open>The email and jobs containers\<close>

fun environment_name :: "environment_kind \<Rightarrow> string" where
  "environment_name Development = ''development''"
| "environment_name Test = ''test''"
| "environment_name Production = ''production''"

datatype email_adapter = Console_Adapter bool string

definition build_email_container :: "email_settings \<Rightarrow> string \<Rightarrow> (email_adapter \<times> email_template_registry) outcome" where
  "build_email_container settings env =
     (if es_backend settings = ''console''
      then Returns (Console_Adapter (es_console_log_bodies settings) env, empty_template_registry)
      else Raises RuntimeError)"

text \<open>The adapter renders from the registry the container holds, as it is when a message is sent.\<close>

fun adapter_send ::
  "jinja \<Rightarrow> file_contents \<Rightarrow> email_template_registry \<Rightarrow> email_adapter \<Rightarrow> console_line list email_port" where
  "adapter_send jinja files reg (Console_Adapter log_bodies env) = console_send jinja files reg log_bodies env"

definition PASSWORD_RESET_TEMPLATE :: string where
  "PASSWORD_RESET_TEMPLATE = ''authentication/password_reset''"

definition VERIFY_EMAIL_TEMPLATE :: string where
  "VERIFY_EMAIL_TEMPLATE = ''authentication/verify_email''"

definition register_authentication_email_templates ::
  "file_contents \<Rightarrow> string \<Rightarrow> email_template_registry \<Rightarrow> email_template_registry outcome" where
  "register_authentication_email_templates files templates_dir reg =
     bind_outcome (register_template files PASSWORD_RESET_TEMPLATE ''Reset your {{ app_name }} password''
       (templates_dir, ''password_reset.txt'') reg)
       (register_template files VERIFY_EMAIL_TEMPLATE ''Verify your {{ app_name }} email'' (templates_dir, ''verify_email.txt''))"

definition build_jobs_container :: "jobs_settings \<Rightarrow> 's job_handler_registry outcome" where
  "build_jobs_container settings =
     (if js_backend settings = ''in_process'' then Returns empty_job_registry else Raises RuntimeError)"


subsection \<open>The scaffold\<close>

text \<open>
  What the worker finds around it: the URL check, files, Jinja2, the storage
  adapters over a storage state \<open>'s\<close>, and, for a run of a handler, the clock, new
  ids and the trace carrier. The handlers share the database, the mail log and the
  storage.
\<close>

record 's worker_env =
  we_process :: process
  we_bracketed_ok :: "string \<Rightarrow> bool"
  we_files :: file_contents
  we_templates_dir :: string
  we_jinja :: jinja
  we_mkdir_ok :: "string \<Rightarrow> bool"
  we_boto3 :: bool
  we_storage :: "storage_port \<Rightarrow> 's storage_ops"
  we_dedupe_now :: datetime
  we_clock :: "nat \<Rightarrow> datetime"
  we_ids :: "nat \<Rightarrow> uuid"
  we_carrier :: json_object

type_synonym 's worker_state = "database \<times> (console_line list \<times> 's)"

definition on_mail :: "(database \<times> console_line list) job_handler \<Rightarrow> ('s worker_state) job_handler" where
  "on_mail h payload s =
     (case h payload (fst s, fst (snd s)) of (r, (db, mails)) \<Rightarrow> (r, (db, (mails, snd (snd s)))))"

definition on_storage :: "(database \<times> 's) job_handler \<Rightarrow> ('s worker_state) job_handler" where
  "on_storage h payload s =
     (case h payload (fst s, snd (snd s)) of (r, (db, st)) \<Rightarrow> (r, (db, (fst (snd s), st))))"

record 's worker_scaffold =
  ws_jobs_settings :: jobs_settings
  ws_registry :: "('s worker_state) job_handler_registry"
  ws_registered_jobs :: "string list"
  ws_cron_specs :: "cron_spec list"
  ws_shutdown_timeout_seconds :: rat

definition build_worker_scaffold :: "'s worker_env \<Rightarrow> app_settings \<Rightarrow> 's worker_scaffold outcome" where
  "build_worker_scaffold env app0 =
     bind_outcome (load_settings (we_bracketed_ok env) (we_process env) app0) (\<lambda>app.
     bind_outcome (email_settings_of app) (\<lambda>email_settings.
     bind_outcome (build_email_container email_settings (environment_name (environment app))) (\<lambda>(adapter, templates0).
     bind_outcome (register_authentication_email_templates (we_files env) (we_templates_dir env) templates0) (\<lambda>templates1.
     let port = adapter_send (we_jinja env) (we_files env) (email_seal templates1) adapter;
         dedupe = Some (handler_dedupe (we_dedupe_now env)) in
     bind_outcome (jobs_settings_of app) (\<lambda>jobs_settings.
     bind_outcome (build_jobs_container jobs_settings) (\<lambda>reg0.
     bind_outcome (build_outbox_container (outbox_settings_of (we_process env) app)) (\<lambda>outbox.
     bind_outcome (storage_settings_of app) (\<lambda>storage_settings.
     bind_outcome (build_file_storage_container (we_mkdir_ok env) (we_boto3 env) storage_settings) (\<lambda>storage.
     bind_outcome (register_handler ''send_email'' (on_mail (send_email_handler dedupe port)) None reg0) (\<lambda>reg1.
     bind_outcome (register_handler DELETE_USER_ASSETS_JOB
       (on_storage (delete_user_assets_handler dedupe (we_storage env storage))) None reg1) (\<lambda>reg2.
     bind_outcome (register_handler ERASE_USER_JOB
       (on_storage (erase_user_handler dedupe (we_clock env) (we_ids env) (we_carrier env))) None reg2) (\<lambda>reg3.
     Returns
       \<lparr>ws_jobs_settings = jobs_settings,
        ws_registry = jobs_seal reg3,
        ws_registered_jobs = sort (map fst (jr_handlers reg3)),
        ws_cron_specs = build_relay_cron_specs outbox @
          build_auth_maintenance_cron_specs (auth_token_retention_days app) (auth_token_purge_interval_minutes app),
        ws_shutdown_timeout_seconds = shutdown_timeout_seconds app\<rparr>))))))))))))"


subsection \<open>Intervals\<close>

lemma foldl_closest:
  assumes "\<And>x. x \<in> A \<Longrightarrow> \<not> closer r x b"
  shows "foldl (\<lambda>best d. if closer r d best then d else best) b ds \<in> insert b (set ds) \<and>
    (\<forall>x \<in> A \<union> set ds. \<not> closer r x (foldl (\<lambda>best d. if closer r d best then d else best) b ds))"
  using assms
proof (induction ds arbitrary: b A)
  case (Cons d ds)
  let ?b = "if closer r d b then d else b"
  have "\<not> closer r x ?b" if "x \<in> insert d A" for x
    using that Cons.prems [of x] by (auto simp: closer_def)
  from Cons.IH [of "insert d A" ?b, OF this] show ?case
    by auto
qed simp

lemma nearest_divisor_spec:
  "nearest_divisor r \<in> set DIVISORS_OF_60 \<and> (\<forall>d \<in> set DIVISORS_OF_60. \<not> closer r d (nearest_divisor r))"
proof -
  have "set DIVISORS_OF_60 = insert (hd DIVISORS_OF_60) (set (tl DIVISORS_OF_60))"
    by (simp add: DIVISORS_OF_60_def)
  moreover have "\<And>x. x \<in> {hd DIVISORS_OF_60} \<Longrightarrow> \<not> closer r x (hd DIVISORS_OF_60)"
    by (simp add: closer_def)
  then have "nearest_divisor r \<in> insert (hd DIVISORS_OF_60) (set (tl DIVISORS_OF_60)) \<and>
      (\<forall>d \<in> {hd DIVISORS_OF_60} \<union> set (tl DIVISORS_OF_60). \<not> closer r d (nearest_divisor r))"
    unfolding nearest_divisor_def by (rule foldl_closest)
  ultimately show ?thesis
    by simp
qed

lemma DIVISORS_OF_60_iff: "d \<in> set DIVISORS_OF_60 \<longleftrightarrow> 0 < d \<and> d dvd 60"
proof
  assume "0 < d \<and> d dvd 60"
  then have "d \<in> set [1..60]" and mod: "60 mod d = 0"
    by (auto dest: zdvd_imp_le)
  moreover have "list_all (\<lambda>d. 60 mod d = 0 \<longrightarrow> d \<in> set DIVISORS_OF_60) [1..60]"
    by (simp add: upto_rec1 [of 1 60] upto_rec_numeral DIVISORS_OF_60_def)
  ultimately show "d \<in> set DIVISORS_OF_60"
    by (auto simp: list_all_iff)
qed (auto simp: DIVISORS_OF_60_def)

text \<open>The interval is the divisor of 60 nearest to the configured value, and of two equally near ones the larger.\<close>

lemma nearest_divisor_nearest:
  "0 < nearest_divisor r" "nearest_divisor r dvd 60"
  "0 < d \<Longrightarrow> d dvd 60 \<Longrightarrow> \<bar>nearest_divisor r - r\<bar> \<le> \<bar>d - r\<bar>"
  "0 < d \<Longrightarrow> d dvd 60 \<Longrightarrow> \<bar>nearest_divisor r - r\<bar> = \<bar>d - r\<bar> \<Longrightarrow> d \<le> nearest_divisor r"
  using nearest_divisor_spec [of r, THEN conjunct1] nearest_divisor_spec [of r, THEN conjunct2, rule_format, of d]
  by (auto simp: DIVISORS_OF_60_iff closer_def)

lemma round_half_even_mono: "x \<le> y \<Longrightarrow> round_half_even x \<le> round_half_even y"
proof (cases "\<lfloor>x\<rfloor> = \<lfloor>y\<rfloor>")
  case False
  assume "x \<le> y"
  then have "\<lfloor>x\<rfloor> + 1 \<le> \<lfloor>y\<rfloor>"
    using False floor_mono [of x y] by linarith
  then show ?thesis
    by (simp add: round_half_even_def Let_def)
qed (auto simp: round_half_even_def Let_def)

lemma round_half_even_nonneg: "0 \<le> x \<Longrightarrow> 0 \<le> round_half_even x"
  using round_half_even_mono [of 0 x] by (simp add: round_half_even_def)


subsection \<open>What the scaffold gives\<close>

definition auth_templates :: "string \<Rightarrow> (string, template_entry) dict" where
  "auth_templates dir =
     [(PASSWORD_RESET_TEMPLATE, \<lparr>te_subject = ''Reset your {{ app_name }} password'', te_body_path = (dir, ''password_reset.txt'')\<rparr>),
      (VERIFY_EMAIL_TEMPLATE, \<lparr>te_subject = ''Verify your {{ app_name }} email'', te_body_path = (dir, ''verify_email.txt'')\<rparr>)]"

lemma register_authentication_email_templates_Returns:
  assumes "register_authentication_email_templates files dir empty_template_registry = Returns reg"
  shows "reg = \<lparr>er_entries = auth_templates dir, er_sealed = False, er_search_paths = [dir]\<rparr>"
  using assms
  by (auto simp: register_authentication_email_templates_def register_template_def email_guard_unsealed_def
      empty_template_registry_def auth_templates_def PASSWORD_RESET_TEMPLATE_def VERIFY_EMAIL_TEMPLATE_def
      dict_has_def dict_set_def split: if_splits)

lemma register_three:
  assumes "distinct [a, b, c]"
  shows "bind_outcome (register_handler a ha None empty_job_registry) (\<lambda>r1.
      bind_outcome (register_handler b hb None r1) (\<lambda>r2. bind_outcome (register_handler c hc None r2) f)) =
    f \<lparr>jr_handlers = [(a, \<lparr>je_handler = ha, je_keep_result_seconds = None\<rparr>), (b, \<lparr>je_handler = hb, je_keep_result_seconds = None\<rparr>),
         (c, \<lparr>je_handler = hc, je_keep_result_seconds = None\<rparr>)], jr_sealed = False\<rparr>"
  using assms by (auto simp: register_handler_def jobs_guard_unsealed_def empty_job_registry_def dict_set_def dict_get_def)

lemma load_settings_Returns:
  "load_settings ok proc app = Returns app' \<Longrightarrow> app' = app \<and> environment app \<noteq> Production \<and> settings_valid app"
  using validate_production_settings_refuses [of app ok proc]
  by (cases "environment app = Production")
    (auto simp: load_settings_def validate_auth_settings_decides validate_production_settings_def split: if_splits)

text \<open>The mail port and the handlers the scaffold registers.\<close>

definition worker_port :: "'s worker_env \<Rightarrow> app_settings \<Rightarrow> console_line list email_port" where
  "worker_port env app =
     console_send (we_jinja env) (we_files env)
       \<lparr>er_entries = auth_templates (we_templates_dir env), er_sealed = True, er_search_paths = [we_templates_dir env]\<rparr>
       (email_console_log_bodies app) (environment_name (environment app))"

definition worker_handlers ::
  "'s worker_env \<Rightarrow> app_settings \<Rightarrow> storage_port \<Rightarrow> (string \<times> ('s worker_state) job_handler) list" where
  "worker_handlers env app storage =
     (let dedupe = Some (handler_dedupe (we_dedupe_now env))
      in [(''send_email'', on_mail (send_email_handler dedupe (worker_port env app))),
          (''delete_user_assets'', on_storage (delete_user_assets_handler dedupe (we_storage env storage))),
          (''erase_user'', on_storage (erase_user_handler dedupe (we_clock env) (we_ids env) (we_carrier env)))])"

lemma scaffold_templates:
  assumes "build_worker_scaffold env app = Returns w"
  shows "\<exists>templates. register_authentication_email_templates (we_files env) (we_templates_dir env) empty_template_registry = Returns templates"
proof -
  obtain app' where load: "load_settings (we_bracketed_ok env) (we_process env) app = Returns app'"
    using assms by (cases "load_settings (we_bracketed_ok env) (we_process env) app") (auto simp: build_worker_scaffold_def)
  then have "settings_valid app'"
    using load_settings_Returns by blast
  then have "email_settings_of app' = Returns \<lparr>es_backend = ''console'', es_from_address = email_from app',
        es_console_log_bodies = email_console_log_bodies app'\<rparr>"
    by (simp add: settings_valid_def email_settings_of_def)
  then show ?thesis
    using assms load
    by (cases "register_authentication_email_templates (we_files env) (we_templates_dir env) empty_template_registry")
      (auto simp: build_worker_scaffold_def build_email_container_def)
qed

lemma scaffold_shape:
  assumes "build_worker_scaffold env app = Returns w"
  obtains outbox storage st where "load_settings (we_bracketed_ok env) (we_process env) app = Returns app"
    and "build_outbox_container (outbox_settings_of (we_process env) app) = Returns outbox"
    and "storage_settings_of app = Returns st" "build_file_storage_container (we_mkdir_ok env) (we_boto3 env) st = Returns storage"
    and "jr_sealed (ws_registry w)"
    and "jr_handlers (ws_registry w) =
      map (\<lambda>(name, h). (name, \<lparr>je_handler = h, je_keep_result_seconds = None\<rparr>)) (worker_handlers env app storage)"
    and "ws_registered_jobs w = sort (map fst (worker_handlers env app storage))"
    and "ws_cron_specs w = build_relay_cron_specs outbox @
      build_auth_maintenance_cron_specs (auth_token_retention_days app) (auth_token_purge_interval_minutes app)"
proof -
  obtain app' where "load_settings (we_bracketed_ok env) (we_process env) app = Returns app'"
    using assms by (cases "load_settings (we_bracketed_ok env) (we_process env) app") (auto simp: build_worker_scaffold_def)
  then have load: "load_settings (we_bracketed_ok env) (we_process env) app = Returns app" and valid: "settings_valid app"
    using load_settings_Returns by blast+
  have views: "email_settings_of app = Returns \<lparr>es_backend = ''console'', es_from_address = email_from app,
        es_console_log_bodies = email_console_log_bodies app\<rparr>"
      "jobs_settings_of app = Returns \<lparr>js_backend = ''in_process''\<rparr>"
    using valid by (auto simp: settings_valid_def email_settings_of_def jobs_settings_of_def)
  have names: "distinct [''send_email'', ''delete_user_assets'', ''erase_user'']"
    by simp
  obtain templates where t: "register_authentication_email_templates (we_files env) (we_templates_dir env) empty_template_registry = Returns templates"
    using scaffold_templates [OF assms] by blast
  have port: "console_send (we_jinja env) (we_files env) (email_seal templates) (email_console_log_bodies app)
      (environment_name (environment app)) = worker_port env app"
    by (simp add: register_authentication_email_templates_Returns [OF t] email_seal_def worker_port_def)
  note built = build_worker_scaffold_def load views t build_email_container_def build_jobs_container_def Let_def
  obtain outbox where outbox: "build_outbox_container (outbox_settings_of (we_process env) app) = Returns outbox"
    using assms by (cases "build_outbox_container (outbox_settings_of (we_process env) app)") (auto simp: built)
  obtain st where st: "storage_settings_of app = Returns st"
    using assms by (cases "storage_settings_of app") (auto simp: built outbox)
  obtain storage where parts: "build_outbox_container (outbox_settings_of (we_process env) app) = Returns outbox"
      "storage_settings_of app = Returns st"
      "build_file_storage_container (we_mkdir_ok env) (we_boto3 env) st = Returns storage"
    using assms outbox st
    by (cases "build_file_storage_container (we_mkdir_ok env) (we_boto3 env) st") (auto simp: built)
  show thesis
    using assms
    by (intro that [OF load parts])
      (auto simp: built parts port register_three [OF names] jobs_seal_def worker_handlers_def
        DELETE_USER_ASSETS_JOB_def ERASE_USER_JOB_def)
qed

lemma build_outbox_container_Returns:
  assumes "build_outbox_container settings = Returns c"
  shows "oc_settings c = settings \<and>
    oc_dispatch_pending c = \<lparr>dp_batch_size = os_claim_batch_size settings, dp_max_attempts = os_max_attempts settings,
      dp_worker_id = os_worker_id settings, dp_retry_base = round_half_even (os_retry_base_seconds settings * 1000000),
      dp_retry_max = round_half_even (os_retry_max_seconds settings * 1000000)\<rparr>"
  using assms by (auto simp: build_outbox_container_def timedelta_seconds_def timedelta_times_def bind_outcome_Returns_iff split: if_splits)

lemma prune_tick_ends: "0 < b \<Longrightarrow> \<exists>r s'. prune_tick now d f p b s = Some (r, s')"
  by (auto simp: prune_tick_def prune_outbox_sweeps split: outcome.split)

lemma purge_tick_ends: "\<exists>r s'. purge_tick now n s = Some (r, s')"
proof -
  obtain report db where "purge_expired_tokens now n (fst s) = Some (report, db)"
    using purge_sweeps [of now n "fst s"] by blast
  then show ?thesis
    by (auto simp: purge_tick_def split: outcome.split)
qed

text \<open>A relay configuration as the settings validator allows it.\<close>

definition relay_in_range :: "dispatch_pending \<Rightarrow> bool" where
  "relay_in_range cfg \<longleftrightarrow>
     0 < dp_batch_size cfg \<and> 0 < dp_max_attempts cfg \<and> 0 \<le> dp_retry_base cfg \<and> dp_retry_base cfg \<le> dp_retry_max cfg"

lemma container_in_range:
  assumes "settings_valid app" and "build_outbox_container (outbox_settings_of proc app) = Returns c"
  shows "relay_in_range (oc_dispatch_pending c)"
proof -
  have "outbox_retry_base_seconds app * 1000000 \<le> outbox_retry_max_seconds app * 1000000"
    "0 \<le> outbox_retry_base_seconds app * 1000000"
    using assms(1) by (simp_all add: settings_valid_def)
  then show ?thesis
    using build_outbox_container_Returns [OF assms(2)] assms(1) round_half_even_mono round_half_even_nonneg
    by (simp add: relay_in_range_def outbox_settings_of_def settings_valid_def)
qed

lemma run_callable_ends:
  assumes "case c of Prune_Tick d f p b \<Rightarrow> 0 < b | _ \<Rightarrow> True"
  shows "\<exists>r s'. run_callable show_exn enqueue locked now c s = Some (r, s')"
proof (cases c)
  case (Dispatch_Tick cfg)
  then show ?thesis
    by (cases "dispatch_pending_execute cfg show_exn enqueue locked now s") (auto split: outcome.split)
next
  case (Prune_Tick d f p b)
  then show ?thesis
    using assms prune_tick_ends by simp
next
  case (Purge_Tick n)
  then show ?thesis
    using purge_tick_ends by simp
qed

lemma dispatch_tick_returns:
  assumes "within_budget cfg (fst s)" "0 \<le> dp_retry_base cfg" "dp_retry_base cfg * 2 ^ nat (dp_max_attempts cfg) \<le> timedelta_max"
  shows "\<exists>s'. run_callable show_exn enqueue locked now (Dispatch_Tick cfg) s = Some (Returns (), s')"
  using tick_returns [OF assms, of show_exn enqueue locked now] by auto

lemma cron_spec_cases:
  assumes "spec \<in> set (build_relay_cron_specs c @ build_auth_maintenance_cron_specs n i)"
  shows "0 < cs_interval_seconds spec \<and> cs_interval_seconds spec dvd 3600 \<and>
    (case cs_callable spec of Prune_Tick d f p b \<Rightarrow> b = os_prune_batch_size (oc_settings c) | _ \<Rightarrow> True)"
proof -
  have "nearest_divisor r * 60 dvd 60 * 60" and "nearest_divisor r dvd 60 * 60" for r
    using mult_dvd_mono [OF nearest_divisor_nearest(2) [of r] dvd_refl [of 60]] dvd_mult2 [OF nearest_divisor_nearest(2) [of r], of 60]
    by (simp_all only:)
  then show ?thesis
    using assms nearest_divisor_nearest(1)
    by (auto simp: build_relay_cron_specs_def build_auth_maintenance_cron_specs_def outbox_snap_to_divisor_def
        auth_snap_to_divisor_def Let_def split: if_splits)
qed


lemma sorted_worker_jobs:
  "sort (map fst (worker_handlers env app storage)) = [''delete_user_assets'', ''erase_user'', ''send_email'']"
proof -
  have "map fst (worker_handlers env app storage) = [''send_email'', ''delete_user_assets'', ''erase_user'']"
    by (simp add: worker_handlers_def Let_def)
  moreover have "sort [''send_email'', ''delete_user_assets'', ''erase_user''] = [''delete_user_assets'', ''erase_user'', ''send_email'']"
    by code_simp
  ultimately show ?thesis
    by simp
qed

text \<open>A registered template of the authentication feature renders, provided Jinja2 renders its sources.\<close>

lemma worker_port_sends:
  assumes "register_authentication_email_templates (we_files env) (we_templates_dir env) empty_template_registry = Returns templates"
    and "\<And>source ctx. we_jinja env source ctx \<noteq> None"
    and "template \<in> {PASSWORD_RESET_TEMPLATE, VERIFY_EMAIL_TEMPLATE}"
  shows "\<exists>lines. lines \<noteq> [] \<and> worker_port env app to_addr template ctx mails = (Ok (), mails @ lines)"
proof -
  let ?reg = "\<lparr>er_entries = auth_templates (we_templates_dir env), er_sealed = True, er_search_paths = [we_templates_dir env]\<rparr>"
  obtain b1 b2 where files: "we_files env (we_templates_dir env, ''password_reset.txt'') = Some b1"
      "we_files env (we_templates_dir env, ''verify_email.txt'') = Some b2"
    using assms(1) by (auto simp: register_authentication_email_templates_def register_template_def
        bind_outcome_Returns_iff split: if_splits)
  obtain y1 y2 y3 y4 where jinja: "we_jinja env ''Reset your {{ app_name }} password'' ctx = Some y1" "we_jinja env b1 ctx = Some y2"
      "we_jinja env ''Verify your {{ app_name }} email'' ctx = Some y3" "we_jinja env b2 ctx = Some y4"
    using assms(2) by (metis option.exhaust)
  have "\<exists>message. render_template (we_jinja env) (we_files env) ?reg to_addr template ctx = Ok message"
    using assms(3)
    by (auto simp: render_template_def auth_templates_def load_template_def dict_get_def PASSWORD_RESET_TEMPLATE_def
        VERIFY_EMAIL_TEMPLATE_def files jinja)
  then show ?thesis
    by (auto simp: worker_port_def console_send_def)
qed

text \<open>
  What the worker can run. A composed worker has exactly the three jobs that
  producers enqueue, each runs its own handler with the dedup marks of the outbox,
  any other name raises \<open>UnknownJobError\<close> and touches nothing, and no handler can be
  added. If Jinja2 renders the template sources, a \<open>send_email\<close> job for a template of
  the authentication feature (with no message id to deduplicate on) is sent.
\<close>

theorem worker_serves_jobs:
  assumes "build_worker_scaffold env app = Returns w"
  shows "\<exists>storage. ws_registered_jobs w = [''delete_user_assets'', ''erase_user'', ''send_email''] \<and>
    in_process_enqueue (ws_registry w) name payload s =
      (case map_of (worker_handlers env app storage) name of
         None \<Rightarrow> (Raises (UnknownJobError name), s) | Some handler \<Rightarrow> handler payload s) \<and>
    register_handler name' handler' keep (ws_registry w) = Raises RuntimeError \<and>
    ((\<forall>source ctx. we_jinja env source ctx \<noteq> None) \<longrightarrow>
     template \<in> {PASSWORD_RESET_TEMPLATE, VERIFY_EMAIL_TEMPLATE} \<longrightarrow>
       (\<exists>lines. lines \<noteq> [] \<and> in_process_enqueue (ws_registry w) ''send_email''
          [(''to'', JStr to_addr), (''template_name'', JStr template), (''context'', JObj ctx)] s =
          (Returns (), (fst s, (fst (snd s) @ lines, snd (snd s))))))"
proof -
  obtain storage where jobs: "jr_sealed (ws_registry w)" "jr_handlers (ws_registry w) =
        map (\<lambda>(name, h). (name, \<lparr>je_handler = h, je_keep_result_seconds = None\<rparr>)) (worker_handlers env app storage)"
      "ws_registered_jobs w = sort (map fst (worker_handlers env app storage))"
    using scaffold_shape [OF assms] by metis
  have "dict_get (jr_handlers (ws_registry w)) name =
      map_option (\<lambda>h. \<lparr>je_handler = h, je_keep_result_seconds = None\<rparr>) (map_of (worker_handlers env app storage) name)" for name
    by (simp add: jobs(2) dict_get_def map_of_map)
  then have run: "in_process_enqueue (ws_registry w) name payload s =
      (case map_of (worker_handlers env app storage) name of
         None \<Rightarrow> (Raises (UnknownJobError name), s) | Some handler \<Rightarrow> handler payload s)" for name payload s
    by (auto simp: in_process_enqueue_known in_process_enqueue_unknown split: option.split)
  have "\<exists>lines. lines \<noteq> [] \<and> in_process_enqueue (ws_registry w) ''send_email''
          [(''to'', JStr to_addr), (''template_name'', JStr template), (''context'', JObj ctx)] s =
          (Returns (), (fst s, (fst (snd s) @ lines, snd (snd s))))"
    if jinja: "\<And>source ctx. we_jinja env source ctx \<noteq> None" and known: "template \<in> {PASSWORD_RESET_TEMPLATE, VERIFY_EMAIL_TEMPLATE}"
  proof -
    obtain templates where "register_authentication_email_templates (we_files env) (we_templates_dir env) empty_template_registry = Returns templates"
      using scaffold_templates [OF assms] by blast
    from worker_port_sends [OF this jinja known, of app to_addr ctx "fst (snd s)"] obtain lines where
      "lines \<noteq> []" "worker_port env app to_addr template ctx (fst (snd s)) = (Ok (), fst (snd s) @ lines)"
      by blast
    then show ?thesis
      by (simp add: run worker_handlers_def Let_def on_mail_def send_email_handler_def send_email_deliver_def dict_get_def
          payload_text_def json_text_def payload_context_def OUTBOX_MESSAGE_ID_KEY_def)
  qed
  then show ?thesis
    using run jobs(1) by (intro exI [of _ storage])
      (auto simp: jobs(3) sorted_worker_jobs register_handler_def jobs_guard_unsealed_def)
qed


subsection \<open>A worker\<close>

definition sample_worker :: "filesystem worker_env" where
  "sample_worker = \<lparr>we_process = sample_process, we_bracketed_ok = (\<lambda>_. False),
     we_files = (\<lambda>path. Some ''hello''), we_templates_dir = ''templates'', we_jinja = (\<lambda>source ctx. Some source),
     we_mkdir_ok = (\<lambda>_. True), we_boto3 = False, we_storage = (\<lambda>_. local_ops id ''var''), we_dedupe_now = 0,
     we_clock = int, we_ids = of_nat, we_carrier = []\<rparr>"

definition no_files :: filesystem where
  "no_files = \<lparr>fs_objects = [], fs_sidecars = [], fs_broken = (\<lambda>_. False)\<rparr>"

definition sample_worker_settings :: app_settings where
  "sample_worker_settings = default_settings\<lparr>outbox_enabled := True\<rparr>"

lemma sample_worker_built: "\<exists>w. build_worker_scaffold sample_worker sample_worker_settings = Returns w"
proof -
  have valid: "settings_valid sample_worker_settings" "environment sample_worker_settings \<noteq> Production"
    by (simp_all add: sample_worker_settings_def settings_valid_def default_settings_def)
  then have load: "load_settings ok proc sample_worker_settings = Returns sample_worker_settings" for ok proc
    by (simp add: load_settings_def validate_auth_settings_decides validate_production_settings_def)
  have "distinct [''send_email'', ''delete_user_assets'', ''erase_user'']"
    by simp
  note three = register_three [OF this]
  show ?thesis
    by (simp add: build_worker_scaffold_def sample_worker_def load email_settings_of_def jobs_settings_of_def
        build_email_container_def build_jobs_container_def register_authentication_email_templates_def register_template_def
        email_guard_unsealed_def empty_template_registry_def PASSWORD_RESET_TEMPLATE_def VERIFY_EMAIL_TEMPLATE_def
        dict_set_def dict_get_def build_outbox_container_def outbox_settings_of_def timedelta_seconds_def timedelta_times_def
        timedelta_max_def round_half_even_def storage_settings_of_def build_file_storage_container_def
        DELETE_USER_ASSETS_JOB_def ERASE_USER_JOB_def three)
      (simp add: sample_worker_settings_def default_settings_def Let_def)
qed


theorem worker_serves_jobs_witness:
  "\<exists>w lines. build_worker_scaffold sample_worker sample_worker_settings = Returns w \<and>
     ws_registered_jobs w = [''delete_user_assets'', ''erase_user'', ''send_email''] \<and>
     in_process_enqueue (ws_registry w) ''nope'' [] (empty_db, ([], no_files)) =
       (Raises (UnknownJobError ''nope''), (empty_db, ([], no_files))) \<and>
     lines \<noteq> [] \<and> in_process_enqueue (ws_registry w) ''send_email'' [(''to'', JStr ''a@b''),
       (''template_name'', JStr VERIFY_EMAIL_TEMPLATE), (''context'', JObj [])] (empty_db, ([], no_files)) =
       (Returns (), (empty_db, (lines, no_files)))"
proof -
  obtain w where w: "build_worker_scaffold sample_worker sample_worker_settings = Returns w"
    using sample_worker_built by blast
  note t = worker_serves_jobs [OF w, of "''nope''" "[]" "(empty_db, ([], no_files))" _ _ _ VERIFY_EMAIL_TEMPLATE "''a@b''" "[]"]
  have "\<forall>source ctx. we_jinja sample_worker source ctx \<noteq> None"
    by (simp add: sample_worker_def)
  with t w show ?thesis
    by (auto simp: worker_handlers_def Let_def)
qed

end
