(* ===== verification/Bootstrap.thy ===== *)
theory Bootstrap
  imports Authz_Spec Auth_UseCases Samples
begin

text \<open>
  The bootstrap of the system administrator
  (\<open>src/features/authorization/application/use_cases/bootstrap_system_admin.py\<close>)
  with the adapters it reaches through its ports: the registrar of the users
  feature, and the credential verifier, credential writer, audit and cache
  adapters of the authentication feature. Each adapter call commits on its own.
  The invalidation of the cache may raise; the use case swallows that.
\<close>

subsection \<open>Adapters\<close>

definition lookup_by_email :: "string \<Rightarrow> database \<Rightarrow> uuid option" where
  "lookup_by_email email db = map_option u_id (get_by_email (lower (strip email)) db)"

definition set_initial_password :: "hasher \<Rightarrow> uuid \<Rightarrow> datetime \<Rightarrow> uuid \<Rightarrow> string \<Rightarrow> database \<Rightarrow> database" where
  "set_initial_password ph new_id now user_id password =
     upsert_credential new_id now user_id ''argon2'' (hash_password ph password)"

definition register_or_lookup ::
  "hasher \<Rightarrow> (nat \<Rightarrow> datetime) \<Rightarrow> (nat \<Rightarrow> uuid) \<Rightarrow> string \<Rightarrow> string \<Rightarrow> (database, uuid) action" where
  "register_or_lookup ph clk ids email password db =
     (let normalized = lower (strip email) in
      case get_by_email normalized db of
        Some existing \<Rightarrow> (Returns (u_id existing), db)
      | None \<Rightarrow>
          (case create_user (ids 0) (clk 0) (clk 1) normalized db of
             (Ok created, db1) \<Rightarrow>
               (Returns (u_id created), set_initial_password ph (ids 1) (clk 2) (u_id created) password db1)
           | (Err UserAlreadyExistsError, db1) \<Rightarrow>
               (case get_by_email normalized db1 of
                  Some racer \<Rightarrow> (Returns (u_id racer), db1)
                | None \<Rightarrow> (Raises RuntimeError, db1))
           | (Err UserNotFoundError, db1) \<Rightarrow> (Raises RuntimeError, db1)))"

datatype authorization_error =
    CredentialVerificationError uuid
  | BootstrapRefusedExistingUserError uuid string
  | BootstrapPasswordMismatchError uuid

definition credential_verify ::
  "hasher \<Rightarrow> uuid \<Rightarrow> string \<Rightarrow> database \<Rightarrow> (unit, authorization_error) result outcome" where
  "credential_verify ph user_id password db =
     (case get_credential_for_user user_id ''argon2'' db of
        None \<Rightarrow> Returns (Err (CredentialVerificationError user_id))
      | Some credential \<Rightarrow>
          bind_outcome (verify_password ph (cr_hash credential) password) (\<lambda>ok.
            Returns (if ok then Ok () else Err (CredentialVerificationError user_id))))"

definition audit_record :: "uuid \<Rightarrow> datetime \<Rightarrow> string \<Rightarrow> uuid option \<Rightarrow> json_object \<Rightarrow> database \<Rightarrow> database" where
  "audit_record new_id now event_type user_id metadata = record_audit_event new_id now event_type user_id None None metadata"


subsection \<open>The use case\<close>

definition EVENT_TYPE :: string where
  "EVENT_TYPE = ''authz.system_admin_bootstrapped''"

definition admin_tuple :: "uuid \<Rightarrow> relationship" where
  "admin_tuple user_id =
     \<lparr>resource_type = ''system'', resource_id = ''main'', relation = ''admin'', subject_type = ''user'',
      subject_id = str_uuid user_id\<rparr>"

definition grant_and_invalidate ::
  "(uuid \<Rightarrow> 'c \<Rightarrow> unit outcome \<times> 'c) \<Rightarrow> (nat \<Rightarrow> datetime) \<Rightarrow> (nat \<Rightarrow> uuid) \<Rightarrow> uuid \<Rightarrow> (database \<times> 'c, unit) action" where
  "grant_and_invalidate invalidate clk ids user_id s =
     (case write_relationships clk ids [admin_tuple user_id] (fst s) of
        (Raises e, db1) \<Rightarrow> (Raises e, (db1, snd s))
      | (Returns _, db1) \<Rightarrow> (Returns (), (db1, snd (invalidate user_id (snd s)))))"

definition grant_and_record ::
  "(uuid \<Rightarrow> 'c \<Rightarrow> unit outcome \<times> 'c) \<Rightarrow> (nat \<Rightarrow> datetime) \<Rightarrow> (nat \<Rightarrow> uuid) \<Rightarrow> string \<Rightarrow> uuid \<Rightarrow>
   (database \<times> 'c, (uuid, authorization_error) result) action" where
  "grant_and_record invalidate clk ids subevent user_id =
     andthen (grant_and_invalidate invalidate (\<lambda>n. clk (n + 4)) (\<lambda>n. ids (n + 3)) user_id) (\<lambda>_ s.
       (Returns (Ok user_id),
        (audit_record (ids 2) (clk 3) EVENT_TYPE (Some user_id)
           [(''actor'', JStr ''system''), (''reason'', JStr ''bootstrap_on_startup''), (''subevent'', JStr subevent)] (fst s),
         snd s)))"

text \<open>\<open>None\<close> stands for a check that does not end.\<close>

definition bootstrap_system_admin ::
  "authorization_registry \<Rightarrow> hasher \<Rightarrow> bool \<Rightarrow> (uuid \<Rightarrow> 'c \<Rightarrow> unit outcome \<times> 'c) \<Rightarrow> (nat \<Rightarrow> datetime) \<Rightarrow> (nat \<Rightarrow> uuid) \<Rightarrow>
   string \<Rightarrow> string \<Rightarrow> database \<times> 'c \<Rightarrow>
   ((uuid, authorization_error) result outcome \<times> database \<times> 'c) option" where
  "bootstrap_system_admin reg ph promote invalidate clk ids email password s =
     (case lookup_by_email email (fst s) of
        None \<Rightarrow>
          Some (case register_or_lookup ph clk ids email password (fst s) of
                  (Raises e, db1) \<Rightarrow> (Raises e, (db1, snd s))
                | (Returns user_id, db1) \<Rightarrow> grant_and_record invalidate clk ids ''created'' user_id (db1, snd s))
      | Some existing_id \<Rightarrow>
          (case authz_check reg (fst s) existing_id ''manage_users'' ''system'' ''main'' of
             None \<Rightarrow> None
           | Some (Raises e) \<Rightarrow> Some (Raises e, s)
           | Some (Returns True) \<Rightarrow> Some (Returns (Ok existing_id), s)
           | Some (Returns False) \<Rightarrow>
               Some (if \<not> promote then (Returns (Err (BootstrapRefusedExistingUserError existing_id email)), s)
                     else (case credential_verify ph existing_id password (fst s) of
                             Raises e \<Rightarrow> (Raises e, s)
                           | Returns (Err _) \<Rightarrow> (Returns (Err (BootstrapPasswordMismatchError existing_id)), s)
                           | Returns (Ok _) \<Rightarrow> grant_and_record invalidate clk ids ''promoted_existing'' existing_id s))))"


subsection \<open>What a bootstrap changes\<close>

definition has_system :: "authorization_registry \<Rightarrow> bool" where
  "has_system reg \<longleftrightarrow> dict_get (ar_leaves reg) ''system'' =
     Some \<lparr>le_actions = [(''manage_users'', {''admin''}), (''read_audit'', {''admin''})], le_hierarchy = [(''admin'', {''admin''})]\<rparr>"

definition is_admin :: "uuid \<Rightarrow> database \<Rightarrow> bool" where
  "is_admin u db \<longleftrightarrow> tuple_exists (admin_tuple u) db"

definition manages_users :: "authorization_registry \<Rightarrow> database \<Rightarrow> uuid \<Rightarrow> bool outcome option" where
  "manages_users reg db u = authz_check reg db u ''manage_users'' ''system'' ''main''"

lemma system_registry_has_system: "\<exists>reg. system_registry = Returns reg \<and> has_system reg"
  by (simp add: system_registry_def has_system_def register_resource_type_def authz_guard_unsealed_def authz_guard_unique_def
      empty_authorization_registry_def)

lemma manages_users_eq:
  assumes "has_system reg"
  shows "manages_users reg db u = Some (Returns (is_admin u db))"
proof -
  have leaf: "resolve_leaf reg ''system'' =
      Returns \<lparr>le_actions = [(''manage_users'', {''admin''}), (''read_audit'', {''admin''})], le_hierarchy = [(''admin'', {''admin''})]\<rparr>"
    using assms by (intro resolve_leaf_of_leaf) (simp add: has_system_def)
  have "relations_for reg ''system'' ''manage_users'' = Returns {''admin''}" "expand_relations reg ''system'' {''admin''} = Returns {''admin''}"
    by (simp_all add: relations_for_def expand_relations_def leaf dict_get_def)
  moreover have "walk_to_stored reg ''system'' ''main'' = Some (Some (''system'', ''main''))"
    using assms by (simp add: walk_to_stored.simps has_stored_relations_def has_system_def)
  moreover have "exists_relation db ''system'' ''main'' {''admin''} u = is_admin u db"
    by (simp add: exists_relation_iff is_admin_def tuple_exists_iff tuple_key_def admin_tuple_def)
  ultimately show ?thesis
    by (simp add: manages_users_def authz_check_def)
qed

lemma admin_tuple_inject [simp]: "admin_tuple u = admin_tuple v \<longleftrightarrow> u = v"
  by (simp add: admin_tuple_def)

lemma email_bump_one: "map_option u_id (get_by_email e (bump_one t u db)) = map_option u_id (get_by_email e db)"
proof -
  have "map_option u_id (find P (update_where Q f us)) = map_option u_id (find P us)"
    if "\<And>x. P (f x) = P x" "\<And>x. u_id (f x) = u_id x" for P Q f and us :: "user_row list"
    using that by (induction us) auto
  then show ?thesis
    by (simp add: get_by_email_def bump_one_def)
qed

lemma email_bump_users: "map_option u_id (get_by_email e (bump_users clk n us db)) = map_option u_id (get_by_email e db)"
  by (induction us arbitrary: n db) (simp_all add: email_bump_one)

lemma email_grant:
  assumes "write_relationships clk ids ts db = (Returns x, db')"
  shows "map_option u_id (get_by_email e db') = map_option u_id (get_by_email e db)"
proof -
  obtain rels where "db' = bump_affected_users clk ts (db\<lparr>relationships := rels\<rparr>)"
    using write_relationships_session_ReturnsE [OF write_relationships_ReturnsD [OF assms]] by blast
  then show ?thesis
    by (simp add: bump_affected_users_def email_bump_users) (simp add: get_by_email_def)
qed

lemma is_admin_cong: "relationships db = relationships db' \<Longrightarrow> is_admin u db = is_admin u db'"
  by (simp add: is_admin_def tuple_exists_iff)

lemma grant_and_record_cases:
  assumes "grant_and_record invalidate clk ids sub i s = (r, s')"
  shows "r = Returns (Ok i) \<and> (\<forall>u. is_admin u (fst s') \<longleftrightarrow> is_admin u (fst s) \<or> u = i) \<and>
      lookup_by_email e (fst s') = lookup_by_email e (fst s) \<or>
    (\<exists>x. r = Raises x) \<and> s' = s"
proof (cases "write_relationships (\<lambda>n. clk (n + 4)) (\<lambda>n. ids (n + 3)) [admin_tuple i] (fst s)")
  case (Pair q db1)
  show ?thesis
  proof (cases q)
    case (Raises x)
    then have "db1 = fst s"
      using Pair write_relationships_Raises by blast
    then show ?thesis
      using assms Pair Raises by (auto simp: grant_and_record_def grant_and_invalidate_def andthen_def)
  next
    case (Returns x)
    have s': "fst s' = audit_record (ids 2) (clk 3) EVENT_TYPE (Some i)
        [(''actor'', JStr ''system''), (''reason'', JStr ''bootstrap_on_startup''), (''subevent'', JStr sub)] db1" "r = Returns (Ok i)"
      using assms Pair Returns by (auto simp: grant_and_record_def grant_and_invalidate_def andthen_def)
    have admins: "is_admin u db1 \<longleftrightarrow> is_admin u (fst s) \<or> u = i" for u
      using tuple_exists_write [OF write_relationships_ReturnsD [OF Pair [unfolded Returns]], of "admin_tuple u"]
      by (simp add: is_admin_def)
    have frame: "relationships (fst s') = relationships db1" "users (fst s') = users db1"
      by (simp_all add: s' audit_record_def record_audit_event_def)
    have "lookup_by_email e (fst s') = lookup_by_email e db1"
      by (simp add: lookup_by_email_def get_by_email_def frame)
    also have "\<dots> = lookup_by_email e (fst s)"
      unfolding lookup_by_email_def by (rule email_grant [OF Pair [unfolded Returns]])
    finally show ?thesis
      using s'(2) admins is_admin_cong [OF frame(1)] by simp
  qed
qed

lemma register_or_lookup_new:
  assumes "lookup_by_email email db = None" and "register_or_lookup ph clk ids email password db = (r, db')"
  shows "relationships db' = relationships db \<and>
    (case r of Raises x \<Rightarrow> db' = db | Returns i \<Rightarrow> i = ids 0 \<and> lookup_by_email email db' = Some i \<and> i \<notin> u_id ` set (users db))"
proof -
  have none: "get_by_email (lower (strip email)) db = None"
    using assms(1) by (simp add: lookup_by_email_def)
  show ?thesis
  proof (cases "list_ex (\<lambda>u. u_email u = lower (strip email) \<or> u_id u = ids 0) (users db)")
    case True
    then show ?thesis
      using assms(2) none by (auto simp: register_or_lookup_def create_user_def)
  next
    case False
    have users: "users (upsert_credential a b c d e f) = users f" "relationships (upsert_credential a b c d e f) = relationships f" for a b c d e f
      by (simp_all add: upsert_credential_def split: option.split)
    have run: "r = Returns (ids 0)" "users db' = users db @ [\<lparr>u_id = ids 0, u_email = lower (strip email), u_is_active = True,
        u_is_verified = False, u_is_erased = False, u_authz_version = 1, u_created_at = clk 0, u_updated_at = clk 1, u_last_login_at = None\<rparr>]"
      "relationships db' = relationships db"
      using assms(2) none False by (auto simp: register_or_lookup_def create_user_def set_initial_password_def users Let_def)
    have "lookup_by_email email db' = Some (ids 0)"
      using none by (simp add: lookup_by_email_def get_by_email_def run(2) find_append)
    moreover have "ids 0 \<notin> u_id ` set (users db)"
      using False by (auto simp: list_ex_iff)
    ultimately show ?thesis
      using run by simp
  qed
qed

lemma bootstrap_again:
  assumes "has_system reg" and "lookup_by_email email (fst s) = Some i" and "is_admin i (fst s)"
  shows "bootstrap_system_admin reg ph promote invalidate clk ids email password s = Some (Returns (Ok i), s)"
  using assms manages_users_eq [OF assms(1), of "fst s" i] by (simp add: bootstrap_system_admin_def manages_users_def)

text \<open>What a bootstrap does, by its result.\<close>

lemma bootstrap_outcome:
  assumes "has_system reg"
  shows "\<exists>r s'. bootstrap_system_admin reg ph promote invalidate clk ids email password s = Some (r, s') \<and>
    (case r of
       Returns (Ok i) \<Rightarrow>
         lookup_by_email email (fst s') = Some i \<and> manages_users reg (fst s') i = Some (Returns True) \<and>
         (\<forall>u. u \<noteq> i \<longrightarrow> manages_users reg (fst s') u = manages_users reg (fst s) u) \<and>
         (lookup_by_email email (fst s) = Some i \<and> manages_users reg (fst s) i \<noteq> Some (Returns True) \<longrightarrow>
            promote \<and> credential_verify ph i password (fst s) = Returns (Ok ())) \<and>
         bootstrap_system_admin reg ph' promote' invalidate' clk' ids' email password' s' = Some (Returns (Ok i), s')
     | Returns (Err e) \<Rightarrow> s' = s \<and> (\<exists>i. lookup_by_email email (fst s) = Some i \<and> manages_users reg (fst s) i = Some (Returns False))
     | Raises e \<Rightarrow> \<forall>u. manages_users reg (fst s') u = manages_users reg (fst s) u)"
proof (cases "lookup_by_email email (fst s)")
  case None
  obtain q db1 where q: "register_or_lookup ph clk ids email password (fst s) = (q, db1)"
    by force
  have rels: "is_admin u db1 = is_admin u (fst s)" for u
    using register_or_lookup_new [OF None q] is_admin_cong by blast
  show ?thesis
  proof (cases q)
    case (Raises e)
    then show ?thesis
      using q None rels by (simp add: bootstrap_system_admin_def manages_users_eq [OF assms])
  next
    case (Returns i)
    have i: "lookup_by_email email db1 = Some i"
      using register_or_lookup_new [OF None q] Returns by simp
    obtain r s' where g: "grant_and_record invalidate clk ids ''created'' i (db1, snd s) = (r, s')"
      by (rule prod.exhaust)
    have run: "bootstrap_system_admin reg ph promote invalidate clk ids email password s = Some (r, s')"
      using q None Returns g by (simp add: bootstrap_system_admin_def)
    show ?thesis
      using grant_and_record_cases [OF g, of email] run rels i None bootstrap_again [OF assms, of email s' i]
      by (auto simp: manages_users_eq [OF assms])
  qed
next
  case (Some i)
  note check = manages_users_eq [OF assms, of "fst s" i, unfolded manages_users_def]
  consider "is_admin i (fst s)" | "\<not> is_admin i (fst s)" "\<not> promote" | "\<not> is_admin i (fst s)" promote
    by blast
  then show ?thesis
  proof cases
    case 1
    then show ?thesis
      using bootstrap_again [OF assms Some 1] Some by (simp add: manages_users_eq [OF assms])
  next
    case 2
    then show ?thesis
      using Some check by (simp add: bootstrap_system_admin_def manages_users_eq [OF assms])
  next
    case 3
    show ?thesis
    proof (cases "credential_verify ph i password (fst s) = Returns (Ok ())")
      case True
      obtain r s' where g: "grant_and_record invalidate clk ids ''promoted_existing'' i s = (r, s')"
        by (rule prod.exhaust)
      have run: "bootstrap_system_admin reg ph promote invalidate clk ids email password s = Some (r, s')"
        using Some check 3 True g by (simp add: bootstrap_system_admin_def)
      show ?thesis
        using grant_and_record_cases [OF g, of email] run Some True 3 bootstrap_again [OF assms, of email s' i]
        by (auto simp: manages_users_eq [OF assms])
    next
      case False
      then have "bootstrap_system_admin reg ph promote invalidate clk ids email password s =
          Some (Returns (Err (BootstrapPasswordMismatchError i)), s) \<or>
          (\<exists>e. bootstrap_system_admin reg ph promote invalidate clk ids email password s = Some (Raises e, s))"
        using Some check 3 by (auto simp: bootstrap_system_admin_def split: outcome.split result.split)
      then show ?thesis
        using Some 3 by (auto simp: manages_users_eq [OF assms] simp del: split_paired_Ex)
    qed
  qed
qed

text \<open>
  C32. The bootstrap of the administrator. In a system with the \<open>system\<close> resource
  type it always ends. If it succeeds, the account of the configured address
  manages users, nobody else has gained or lost that right, and a later bootstrap
  (whatever its password) succeeds again without changing anything. An existing
  account that was not an administrator is only promoted with the opt-in and after
  the stored credential accepted the password. If it is refused nothing at all has
  changed, and if it fails nobody's right has changed.
\<close>

theorem bootstrap_grants_only_when_due:
  assumes "has_system reg"
  shows "\<exists>r s'. bootstrap_system_admin reg ph promote invalidate clk ids email password s = Some (r, s') \<and>
    (case r of
       Returns (Ok i) \<Rightarrow>
         lookup_by_email email (fst s') = Some i \<and> manages_users reg (fst s') i = Some (Returns True) \<and>
         (\<forall>u. u \<noteq> i \<longrightarrow> manages_users reg (fst s') u = manages_users reg (fst s) u) \<and>
         (lookup_by_email email (fst s) = Some i \<and> manages_users reg (fst s) i \<noteq> Some (Returns True) \<longrightarrow>
            promote \<and> credential_verify ph i password (fst s) = Returns (Ok ())) \<and>
         bootstrap_system_admin reg ph' promote' invalidate' clk' ids' email password' s' = Some (Returns (Ok i), s')
     | Returns (Err e) \<Rightarrow> s' = s \<and> (\<exists>i. lookup_by_email email (fst s) = Some i \<and> manages_users reg (fst s) i = Some (Returns False))
     | Raises e \<Rightarrow> \<forall>u. manages_users reg (fst s') u = manages_users reg (fst s) u)"
  using assms by (rule bootstrap_outcome)

theorem bootstrap_grants_only_when_due_witness:
  "\<exists>reg i. system_registry = Returns reg \<and>
     bootstrap_system_admin reg sample_hasher False (\<lambda>u c. (Raises RedisError, c)) int word_of_nat ''a@x'' ''pw'' (sample_auth_db, ()) =
       Some (Returns (Err (BootstrapRefusedExistingUserError 7 ''a@x'')), (sample_auth_db, ())) \<and>
     lookup_by_email ''a@x'' sample_auth_db = Some i \<and> manages_users reg sample_auth_db i = Some (Returns False)"
proof -
  let ?run = "\<lambda>reg. bootstrap_system_admin reg sample_hasher False (\<lambda>u c. (Raises RedisError, c)) int word_of_nat ''a@x'' ''pw'' (sample_auth_db, ())"
  obtain reg where reg: "system_registry = Returns reg" "has_system reg"
    using system_registry_has_system by blast
  have no: "manages_users reg sample_auth_db 7 = Some (Returns False)"
    by (simp add: manages_users_eq [OF reg(2)] is_admin_def tuple_exists_iff sample_auth_db_def empty_db_def)
  have "lookup_by_email ''a@x'' sample_auth_db = Some 7"
    by (simp add: lookup_by_email_def get_by_email_def lower_def strip_def strip_by_def lower_char_def is_space_def
        sample_auth_db_def empty_db_def sample_account_def)
  then have run: "?run reg = Some (Returns (Err (BootstrapRefusedExistingUserError 7 ''a@x'')), (sample_auth_db, ()))"
    using no by (simp add: bootstrap_system_admin_def manages_users_def)
  then show ?thesis
    using bootstrap_grants_only_when_due [OF reg(2), of sample_hasher False "\<lambda>u c. (Raises RedisError, c)" int word_of_nat "''a@x''" "''pw''" "(sample_auth_db, ())"
        sample_hasher False "\<lambda>u c. (Raises RedisError, c)" int word_of_nat "''pw''"] reg(1)
    by auto
qed

end
