(* ===== verification/Lifespan.thy ===== *)
theory Lifespan
  imports Workers Bootstrap Auth_Http
begin

text \<open>
  The processes of the program: start-up and shutdown of the web application
  (\<open>src/main.py\<close>, \<open>src/app_platform/api/lifespan.py\<close>), its readiness probe
  (\<open>src/app_platform/api/health.py\<close>), the drain and exit of the worker
  (\<open>src/worker.py\<close>), and the two operator commands of \<open>src/cli\<close>. Closing an engine, a
  Redis client or the tracer are actions on the resources \<open>'w\<close> of the process. What a
  probe of a dependency did within its timeout is given; start-up stops the process
  either with an exit status or with an exception.
\<close>

subsection \<open>The readiness probe\<close>

record app_state =
  as_ready :: bool
  as_container :: "app_settings option"
  as_health_db_engine :: bool
  as_redis_client :: bool

definition initial_state :: app_state where
  "initial_state = \<lparr>as_ready = False, as_container = None, as_health_db_engine = False, as_redis_client = False\<rparr>"

text \<open>How a probe ended: in time, with \<open>TimeoutError\<close>, or with an exception of some class and text.\<close>

datatype probe_end = Probe_Done | Probe_TimeoutError | Probe_Exception string string

definition MAX_REASON_LEN :: nat where
  "MAX_REASON_LEN = 200"

text \<open>The line boundaries of \<open>str.splitlines\<close> among the ASCII characters.\<close>

definition is_line_break :: "char \<Rightarrow> bool" where
  "is_line_break c \<longleftrightarrow> (of_char c :: nat) \<in> {10, 11, 12, 13, 28, 29, 30}"

definition short_reason :: "string \<Rightarrow> string \<Rightarrow> string" where
  "short_reason cls_name text =
     (let stripped = strip text;
          message = (if stripped \<noteq> [] then takeWhile (\<lambda>c. \<not> is_line_break c) stripped else cls_name);
          message = (if MAX_REASON_LEN < length message then take (MAX_REASON_LEN - 3) message @ ''...'' else message)
      in if message = cls_name then message else cls_name @ '': '' @ message)"

datatype probe_status = Probe_Ok | Probe_Fail string

fun run_probe :: "string \<Rightarrow> probe_end \<Rightarrow> string \<times> probe_status" where
  "run_probe name Probe_Done = (name, Probe_Ok)"
| "run_probe name Probe_TimeoutError = (name, Probe_Fail ''timeout'')"
| "run_probe name (Probe_Exception cls text) = (name, Probe_Fail (short_reason cls text))"

record ready_response =
  rr_status :: nat
  rr_content :: json_object
  rr_retry_after :: "string option"

definition starting_response :: ready_response where
  "starting_response = \<lparr>rr_status = 503, rr_content = [(''status'', JStr ''starting'')], rr_retry_after = None\<rparr>"

definition probed :: "app_state \<Rightarrow> app_settings \<Rightarrow> string list" where
  "probed st settings =
     (if as_health_db_engine st then [''db''] else []) @ (if as_redis_client st then [''redis''] else []) @
     (if storage_enabled settings \<and> storage_backend settings = ''s3'' \<and> truthy (storage_s3_bucket settings) then [''s3''] else [])"

fun dep_view :: "probe_status \<Rightarrow> json" where
  "dep_view Probe_Ok = JStr ''ok''"
| "dep_view (Probe_Fail reason) = JObj [(''status'', JStr ''fail''), (''reason'', JStr reason)]"

definition health_ready :: "(string \<Rightarrow> probe_end) \<Rightarrow> app_state \<Rightarrow> ready_response" where
  "health_ready ended st =
     (if \<not> as_ready st then starting_response
      else case as_container st of
             None \<Rightarrow> starting_response
           | Some settings \<Rightarrow>
               (let results = map (\<lambda>name. run_probe name (ended name)) (probed st settings);
                    has_failure = list_ex (\<lambda>(_, payload). payload \<noteq> Probe_Ok) results;
                    deps_view = map (\<lambda>(name, payload). (name, dep_view payload)) results
                in if has_failure
                   then \<lparr>rr_status = 503, rr_content = [(''status'', JStr ''fail''), (''deps'', JObj deps_view)], rr_retry_after = Some ''1''\<rparr>
                   else \<lparr>rr_status = 200, rr_content = [(''status'', JStr ''ok''), (''deps'', JObj deps_view)], rr_retry_after = None\<rparr>))"


subsection \<open>Finalizers\<close>

text \<open>A finalizer that raises is logged by its label; the resources keep what it did.\<close>

definition safe_finalize :: "string \<Rightarrow> ('w, unit) action \<Rightarrow> 'w \<times> string list \<Rightarrow> 'w \<times> string list" where
  "safe_finalize label fn s =
     (case fn (fst s) of (Returns _, w) \<Rightarrow> (w, snd s) | (Raises e, w) \<Rightarrow> (w, snd s @ [label]))"

definition no_shutdown :: "('w, unit) action" where
  "no_shutdown w = (Returns (), w)"

text \<open>\<open>auth.shutdown\<close>: the engine, the four limiters, the cache; an exception skips the rest.\<close>

fun close_all :: "('w, unit) action list \<Rightarrow> ('w, unit) action" where
  "close_all [] = (\<lambda>w. (Returns (), w))"
| "close_all (step # steps) = andthen step (\<lambda>_. close_all steps)"

record 'w resources =
  rs_engine_dispose :: "('w, unit) action"
  rs_limiter_closes :: "('w, unit) action list"
  rs_cache_close :: "('w, unit) action"
  rs_redis_close :: "('w, unit) action"
  rs_shutdown_tracing :: "('w, unit) action"

definition auth_shutdown :: "'w resources \<Rightarrow> ('w, unit) action" where
  "auth_shutdown rs = close_all (rs_engine_dispose rs # rs_limiter_closes rs @ [rs_cache_close rs])"

definition finalizers :: "'w resources \<Rightarrow> bool \<Rightarrow> (string \<times> ('w, unit) action) list" where
  "finalizers rs redis_client =
     [(''outbox'', no_shutdown), (''jobs'', no_shutdown), (''users'', no_shutdown), (''authorization'', no_shutdown),
      (''auth'', auth_shutdown rs)] @ (if redis_client then [(''redis'', rs_redis_close rs)] else []) @
     [(''tracing'', rs_shutdown_tracing rs)]"

definition lifespan_shutdown :: "'w resources \<Rightarrow> app_state \<times> 'w \<Rightarrow> app_state \<times> 'w \<times> string list" where
  "lifespan_shutdown rs s =
     (let st = (fst s)\<lparr>as_ready := False\<rparr>;
          (w, logs) = fold (\<lambda>(label, fn). safe_finalize label fn) (finalizers rs (as_redis_client st)) (snd s, [])
      in (st\<lparr>as_container := None, as_redis_client := False, as_health_db_engine := False\<rparr>, w, logs))"

text \<open>The drain of the worker guards its three steps in the same way.\<close>

definition drain_worker :: "('w, unit) action option \<Rightarrow> ('w, unit) action option \<Rightarrow> ('w, unit) action \<Rightarrow> 'w \<Rightarrow> 'w \<times> string list" where
  "drain_worker engine redis_client shutdown_tracing w =
     safe_finalize ''worker.shutdown.tracing.shutdown_failed'' shutdown_tracing
       (safe_finalize ''worker.shutdown.redis.close_failed'' (case redis_client of None \<Rightarrow> no_shutdown | Some close \<Rightarrow> close)
         (safe_finalize ''worker.shutdown.engine.dispose_failed'' (case engine of None \<Rightarrow> no_shutdown | Some dispose \<Rightarrow> dispose) (w, [])))"

text \<open>\<open>worker.main\<close>: composition errors surface, otherwise the worker drains and exits with 1.\<close>

definition worker_main :: "'s worker_env \<Rightarrow> app_settings \<Rightarrow> 'w resources \<Rightarrow> 'w \<Rightarrow> int outcome \<times> 'w" where
  "worker_main env app rs w =
     (case build_worker_scaffold env app of
        Raises e \<Rightarrow> (Raises e, w)
      | Returns scaffold \<Rightarrow> (Returns 1, fst (drain_worker (Some (rs_engine_dispose rs)) None (rs_shutdown_tracing rs) w)))"


subsection \<open>Start-up of the web application\<close>

datatype startup_failure = SystemExit int | Uncaught exn

text \<open>How the two callers of the bootstrap translate its result; another error value matches no case and is ignored.\<close>

fun bootstrap_exit :: "(uuid, authorization_error) result outcome \<Rightarrow> (unit, startup_failure) result" where
  "bootstrap_exit (Raises e) = Err (Uncaught e)"
| "bootstrap_exit (Returns (Ok _)) = Ok ()"
| "bootstrap_exit (Returns (Err (BootstrapRefusedExistingUserError _ _))) = Err (SystemExit 2)"
| "bootstrap_exit (Returns (Err (BootstrapPasswordMismatchError _))) = Err (SystemExit 2)"
| "bootstrap_exit (Returns (Err (CredentialVerificationError _))) = Ok ()"

text \<open>\<open>_run_authz_bootstrap\<close>; the outer \<open>None\<close> is a check that does not end.\<close>

definition run_authz_bootstrap ::
  "authorization_registry \<Rightarrow> hasher \<Rightarrow> (uuid \<Rightarrow> 'c \<Rightarrow> unit outcome \<times> 'c) \<Rightarrow> (nat \<Rightarrow> datetime) \<Rightarrow> (nat \<Rightarrow> uuid) \<Rightarrow> app_settings \<Rightarrow>
   database \<times> 'c \<Rightarrow> ((unit, startup_failure) result \<times> database \<times> 'c) option" where
  "run_authz_bootstrap authz ph invalidate clk ids app s =
     (if \<not> auth_seed_on_startup app then Some (Ok (), s)
      else if truthy (auth_bootstrap_super_admin_email app) \<noteq> truthy (auth_bootstrap_super_admin_password app)
      then Some (Err (Uncaught RuntimeError), s)
      else case (auth_bootstrap_super_admin_email app, auth_bootstrap_super_admin_password app) of
             (Some email, Some password) \<Rightarrow>
               if email = [] \<or> password = [] then Some (Ok (), s)
               else map_option (\<lambda>(r, s'). (bootstrap_exit r, s'))
                      (bootstrap_system_admin authz ph (auth_bootstrap_promote_existing app) invalidate clk ids email password s)
           | _ \<Rightarrow> Some (Ok (), s))"

record ('s, 'c, 'p, 'r) web_parts =
  wp_registry :: "('s worker_state) job_handler_registry"
  wp_server :: "('c, 'p, 'r) auth_server"
  wp_authz :: authorization_registry

text \<open>The containers, in the order of the lifespan.\<close>

definition compose_web ::
  "'s worker_env \<Rightarrow> app_settings \<Rightarrow> (rate_limiter \<Rightarrow> 'c) \<Rightarrow> 'p \<Rightarrow> 'r \<Rightarrow> database \<Rightarrow> ('s, 'c, 'p, 'r) web_parts outcome" where
  "compose_web env app fresh cache redis db =
     bind_outcome (email_settings_of app) (\<lambda>email_settings.
     bind_outcome (build_email_container email_settings (environment_name (environment app))) (\<lambda>(adapter, templates0).
     bind_outcome (register_authentication_email_templates (we_files env) (we_templates_dir env) templates0) (\<lambda>templates1.
     let port = adapter_send (we_jinja env) (we_files env) (email_seal templates1) adapter;
         dedupe = Some (handler_dedupe (we_dedupe_now env)) in
     bind_outcome (jobs_settings_of app) (\<lambda>jobs_settings.
     bind_outcome (build_jobs_container jobs_settings) (\<lambda>reg0.
     bind_outcome (build_outbox_container (outbox_settings_of (we_process env) app)) (\<lambda>outbox.
     bind_outcome (storage_settings_of app) (\<lambda>storage_settings.
     bind_outcome (build_file_storage_container (we_mkdir_ok env) (we_boto3 env) storage_settings) (\<lambda>storage.
     bind_outcome (register_handler ''send_email'' (on_mail (send_email_handler dedupe port)) None reg0) (\<lambda>reg1.
     bind_outcome (register_handler DELETE_USER_ASSETS_JOB
       (on_storage (delete_user_assets_handler dedupe (we_storage env storage))) None reg1) (\<lambda>reg2.
     bind_outcome (build_auth_container app fresh cache db redis) (\<lambda>server.
     bind_outcome (register_handler ERASE_USER_JOB
       (on_storage (erase_user_handler dedupe (we_clock env) (we_ids env) (we_carrier env))) None reg2) (\<lambda>reg3.
     bind_outcome system_registry (\<lambda>authz.
     Returns \<lparr>wp_registry = jobs_seal reg3, wp_server = server, wp_authz = authz_seal authz\<rparr>)))))))))))))"

record ('s, 'c, 'p, 'r) web_app =
  wa_parts :: "('s, 'c, 'p, 'r) web_parts"
  wa_state :: app_state

definition lifespan_startup ::
  "'s worker_env \<Rightarrow> app_settings \<Rightarrow> (rate_limiter \<Rightarrow> 'c) \<Rightarrow> 'r \<Rightarrow> bool \<Rightarrow> hasher \<Rightarrow> (uuid \<Rightarrow> 'p \<Rightarrow> unit outcome \<times> 'p) \<Rightarrow>
   (nat \<Rightarrow> datetime) \<Rightarrow> (nat \<Rightarrow> uuid) \<Rightarrow> database \<times> 'p \<Rightarrow>
   ((('s, 'c, 'p, 'r) web_app, startup_failure) result \<times> database \<times> 'p) option" where
  "lifespan_startup env app fresh redis redis_lib ph invalidate clk ids s =
     (case compose_web env app fresh (snd s) redis (fst s) of
        Raises e \<Rightarrow> Some (Err (Uncaught e), s)
      | Returns parts \<Rightarrow>
          (case run_authz_bootstrap (wp_authz parts) ph invalidate clk ids app s of
             None \<Rightarrow> None
           | Some (Err f, s') \<Rightarrow> Some (Err f, s')
           | Some (Ok _, s') \<Rightarrow>
               if truthy (auth_redis_url app) \<and> \<not> redis_lib then Some (Err (Uncaught RuntimeError), s')
               else Some (Ok \<lparr>wa_parts = parts\<lparr>wp_server := (wp_server parts)\<lparr>sv_db := fst s', sv_cache := snd s'\<rparr>\<rparr>,
                              wa_state = initial_state\<lparr>as_container := Some app, as_redis_client := truthy (auth_redis_url app),
                                           as_health_db_engine := True, as_ready := True\<rparr>\<rparr>, s')))"

text \<open>\<open>create_app\<close> for the process: the settings are loaded first, so an invalid configuration starts nothing.\<close>

definition start_web ::
  "'s worker_env \<Rightarrow> app_settings \<Rightarrow> (rate_limiter \<Rightarrow> 'c) \<Rightarrow> 'r \<Rightarrow> bool \<Rightarrow> hasher \<Rightarrow> (uuid \<Rightarrow> 'p \<Rightarrow> unit outcome \<times> 'p) \<Rightarrow>
   (nat \<Rightarrow> datetime) \<Rightarrow> (nat \<Rightarrow> uuid) \<Rightarrow> database \<times> 'p \<Rightarrow>
   ((('s, 'c, 'p, 'r) web_app, startup_failure) result \<times> database \<times> 'p) option" where
  "start_web env app0 fresh redis redis_lib ph invalidate clk ids s =
     (case load_settings (we_bracketed_ok env) (we_process env) app0 of
        Raises e \<Rightarrow> Some (Err (Uncaught e), s)
      | Returns app \<Rightarrow> lifespan_startup env app fresh redis redis_lib ph invalidate clk ids s)"


subsection \<open>The operator commands\<close>

text \<open>
  The containers of \<open>create_super_admin.py\<close>: no erasure handler, the console adapter
  with its defaults, and the job registry sealed before the rest is built.
\<close>

definition build_containers ::
  "'s worker_env \<Rightarrow> app_settings \<Rightarrow> (rate_limiter \<Rightarrow> 'c) \<Rightarrow> 'p \<Rightarrow> 'r \<Rightarrow> database \<Rightarrow> ('s, 'c, 'p, 'r) web_parts outcome" where
  "build_containers env app0 fresh cache redis db =
     bind_outcome (load_settings (we_bracketed_ok env) (we_process env) app0) (\<lambda>app.
     bind_outcome (email_settings_of (app\<lparr>email_console_log_bodies := False\<rparr>)) (\<lambda>email_settings.
     bind_outcome (build_email_container email_settings ''development'') (\<lambda>(adapter, templates0).
     bind_outcome (register_authentication_email_templates (we_files env) (we_templates_dir env) templates0) (\<lambda>templates1.
     let port = adapter_send (we_jinja env) (we_files env) (email_seal templates1) adapter;
         dedupe = Some (handler_dedupe (we_dedupe_now env)) in
     bind_outcome (jobs_settings_of app) (\<lambda>jobs_settings.
     bind_outcome (build_jobs_container jobs_settings) (\<lambda>reg0.
     bind_outcome (build_outbox_container (outbox_settings_of (we_process env) app)) (\<lambda>outbox.
     bind_outcome (storage_settings_of app) (\<lambda>storage_settings.
     bind_outcome (build_file_storage_container (we_mkdir_ok env) (we_boto3 env) storage_settings) (\<lambda>storage.
     bind_outcome (register_handler ''send_email'' (on_mail (send_email_handler dedupe port)) None reg0) (\<lambda>reg1.
     bind_outcome (register_handler DELETE_USER_ASSETS_JOB
       (on_storage (delete_user_assets_handler dedupe (we_storage env storage))) None reg1) (\<lambda>reg2.
     bind_outcome (build_auth_container app fresh cache db redis) (\<lambda>server.
     bind_outcome system_registry (\<lambda>authz.
     Returns \<lparr>wp_registry = jobs_seal reg2, wp_server = server, wp_authz = authz_seal authz\<rparr>)))))))))))))"

text \<open>An exception of the final \<open>auth.shutdown\<close> replaces the exit status. Without a password the exit status is 1.\<close>

definition create_super_admin ::
  "'s worker_env \<Rightarrow> app_settings \<Rightarrow> (rate_limiter \<Rightarrow> 'c) \<Rightarrow> 'r \<Rightarrow> hasher \<Rightarrow> (uuid \<Rightarrow> 'p \<Rightarrow> unit outcome \<times> 'p) \<Rightarrow>
   (nat \<Rightarrow> datetime) \<Rightarrow> (nat \<Rightarrow> uuid) \<Rightarrow> 'w resources \<Rightarrow> (string \<Rightarrow> string option) \<Rightarrow> string \<Rightarrow> string \<Rightarrow>
   (database \<times> 'p) \<times> 'w \<Rightarrow> ((unit, startup_failure) result \<times> (database \<times> 'p) \<times> 'w) option" where
  "create_super_admin env app fresh redis ph invalidate clk ids rs getenv email password_env s =
     (case getenv password_env of
        None \<Rightarrow> Some (Err (SystemExit 1), s)
      | Some password \<Rightarrow>
          if password = [] then Some (Err (SystemExit 1), s)
          else case build_containers env app fresh (snd (fst s)) redis (fst (fst s)) of
                 Raises e \<Rightarrow> Some (Err (Uncaught e), s)
               | Returns parts \<Rightarrow>
                   (case bootstrap_system_admin (wp_authz parts) ph (auth_bootstrap_promote_existing app) invalidate clk ids
                           email password (fst s) of
                      None \<Rightarrow> None
                    | Some (r, s') \<Rightarrow>
                        (case auth_shutdown rs (snd s) of
                           (Returns _, w) \<Rightarrow> Some (bootstrap_exit r, (s', w))
                         | (Raises e, w) \<Rightarrow> Some (Err (Uncaught e), (s', w)))))"

text \<open>\<open>outbox_prune.run_once\<close>: one sweep with the configured retentions; the engine is disposed in any case.\<close>

definition outbox_prune_run_once ::
  "'s worker_env \<Rightarrow> app_settings \<Rightarrow> 'w resources \<Rightarrow> datetime \<Rightarrow> database \<times> 'w \<Rightarrow> (int outcome \<times> database \<times> 'w) option" where
  "outbox_prune_run_once env app0 rs now s =
     (case load_settings (we_bracketed_ok env) (we_process env) app0 of
        Raises e \<Rightarrow> Some (Raises e, s)
      | Returns app \<Rightarrow>
          (let settings = outbox_settings_of (we_process env) app
           in case prune_tick now (os_retention_delivered_days settings) (os_retention_failed_days settings)
                     (dedup_retention_seconds settings) (os_prune_batch_size settings) s of
                None \<Rightarrow> None
              | Some (r, s') \<Rightarrow>
                  (case rs_engine_dispose rs (snd s') of
                     (Raises e, w) \<Rightarrow> Some (Raises e, (fst s', w))
                   | (Returns _, w) \<Rightarrow> Some (bind_outcome r (\<lambda>_. Returns 0), (fst s', w)))))"

end
