(* ===== verification/Lifespan_Props.thy ===== *)
theory Lifespan_Props
  imports Lifespan
begin

text \<open>
  What the processes guarantee: a started application is composed like the worker
  and has the administrator it was configured with, the readiness probe tells the
  truth from start to shutdown, and shutdown runs every finalizer.
\<close>

subsection \<open>Composition\<close>

lemma system_registry_sealed:
  assumes "system_registry = Returns authz"
  shows "has_system (authz_seal authz)" "register_resource_type name actions hierarchy (authz_seal authz) = Raises RuntimeError"
proof -
  have "has_system authz"
    using assms system_registry_has_system by (metis outcome.inject(1))
  then show "has_system (authz_seal authz)"
    by (simp add: has_system_def authz_seal_def)
  show "register_resource_type name actions hierarchy (authz_seal authz) = Raises RuntimeError"
    by (simp add: authz_seal_def register_resource_type_def authz_guard_unsealed_def)
qed

lemma register_chain:
  fixes ha hb hc :: "('s worker_state) job_handler"
  defines "e \<equiv> \<lambda>h :: ('s worker_state) job_handler. \<lparr>je_handler = h, je_keep_result_seconds = None\<rparr>"
  shows "register_handler a ha None empty_job_registry = Returns \<lparr>jr_handlers = [(a, e ha)], jr_sealed = False\<rparr>"
    and "a \<noteq> b \<Longrightarrow> register_handler b hb None \<lparr>jr_handlers = [(a, e ha)], jr_sealed = False\<rparr> =
      Returns \<lparr>jr_handlers = [(a, e ha), (b, e hb)], jr_sealed = False\<rparr>"
    and "a \<noteq> c \<Longrightarrow> b \<noteq> c \<Longrightarrow> register_handler c hc None \<lparr>jr_handlers = [(a, e ha), (b, e hb)], jr_sealed = False\<rparr> =
      Returns \<lparr>jr_handlers = [(a, e ha), (b, e hb), (c, e hc)], jr_sealed = False\<rparr>"
  unfolding e_def
  by (auto simp: register_handler_def jobs_guard_unsealed_def empty_job_registry_def dict_set_def dict_get_def)

lemma compose_web_Returns:
  assumes load: "load_settings (we_bracketed_ok env) (we_process env) app = Returns app"
    and "compose_web env app fresh cache redis db = Returns parts"
  shows "\<exists>w authz. build_worker_scaffold env app = Returns w \<and> wp_registry parts = ws_registry w \<and>
    build_auth_container app fresh cache db redis = Returns (wp_server parts) \<and>
    system_registry = Returns authz \<and> wp_authz parts = authz_seal authz"
proof -
  have valid: "settings_valid app"
    using load_settings_Returns [OF load] by blast
  have views: "email_settings_of app = Returns \<lparr>es_backend = ''console'', es_from_address = email_from app,
        es_console_log_bodies = email_console_log_bodies app\<rparr>"
      "jobs_settings_of app = Returns \<lparr>js_backend = ''in_process''\<rparr>"
    using valid by (auto simp: settings_valid_def email_settings_of_def jobs_settings_of_def)
  have "distinct [''send_email'', ''delete_user_assets'', ''erase_user'']"
    by simp
  note built = compose_web_def views build_email_container_def build_jobs_container_def Let_def
  obtain templates where t: "register_authentication_email_templates (we_files env) (we_templates_dir env) empty_template_registry = Returns templates"
    using assms(2) by (cases "register_authentication_email_templates (we_files env) (we_templates_dir env) empty_template_registry")
      (auto simp: built)
  obtain outbox where o: "build_outbox_container (outbox_settings_of (we_process env) app) = Returns outbox"
    using assms(2) by (cases "build_outbox_container (outbox_settings_of (we_process env) app)") (auto simp: built t)
  obtain st where st: "storage_settings_of app = Returns st"
    using assms(2) by (cases "storage_settings_of app") (auto simp: built t o)
  obtain storage where storage: "build_file_storage_container (we_mkdir_ok env) (we_boto3 env) st = Returns storage"
    using assms(2) by (cases "build_file_storage_container (we_mkdir_ok env) (we_boto3 env) st") (auto simp: built t o st)
  obtain authz where authz: "system_registry = Returns authz"
    using system_registry_has_system by blast
  obtain server where server: "build_auth_container app fresh cache db redis = Returns server"
    using assms(2)
    by (cases "build_auth_container app fresh cache db redis")
      (auto simp: built t o st storage register_chain(1,2) DELETE_USER_ASSETS_JOB_def)
  show ?thesis
    using assms(2)
    by (auto simp: built t o st storage server authz register_chain build_worker_scaffold_def load DELETE_USER_ASSETS_JOB_def ERASE_USER_JOB_def)
qed


subsection \<open>Readiness\<close>

lemma run_probe_ok [simp]: "snd (run_probe name ended) = Probe_Ok \<longleftrightarrow> ended = Probe_Done"
  by (cases ended) simp_all

lemma fst_run_probe [simp]: "fst (run_probe name ended) = name"
  by (cases ended) simp_all

lemma length_short_reason: "length (short_reason cls text) \<le> length cls + 2 + MAX_REASON_LEN"
  by (simp add: short_reason_def Let_def MAX_REASON_LEN_def)





subsection \<open>Shutdown\<close>

text \<open>The specification: each step runs on what the previous one left, and the labels of those that raise are reported.\<close>

fun every_step :: "(string \<times> ('w, unit) action) list \<Rightarrow> 'w \<Rightarrow> 'w" where
  "every_step [] w = w"
| "every_step ((label, fn) # steps) w = every_step steps (snd (fn w))"

fun failed_steps :: "(string \<times> ('w, unit) action) list \<Rightarrow> 'w \<Rightarrow> string list" where
  "failed_steps [] w = []"
| "failed_steps ((label, fn) # steps) w =
     (case fst (fn w) of Raises e \<Rightarrow> [label] | Returns _ \<Rightarrow> []) @ failed_steps steps (snd (fn w))"

lemma fold_safe_finalize:
  "fold (\<lambda>(label, fn). safe_finalize label fn) steps (w, logs) = (every_step steps w, logs @ failed_steps steps w)"
proof (induction steps arbitrary: w logs)
  case (Cons a steps)
  then show ?case
    by (cases a; cases "snd a w") (auto simp: safe_finalize_def split: outcome.split)
qed simp

lemma lifespan_shutdown_eq:
  "lifespan_shutdown rs (st, w) =
     (st\<lparr>as_ready := False, as_container := None, as_redis_client := False, as_health_db_engine := False\<rparr>,
      every_step (finalizers rs (as_redis_client st)) w, failed_steps (finalizers rs (as_redis_client st)) w)"
  by (simp add: lifespan_shutdown_def fold_safe_finalize)

lemma every_step_append: "every_step (xs @ ys) w = every_step ys (every_step xs w)"
  by (induction xs w rule: every_step.induct) simp_all

lemma finalizers_world:
  "every_step (finalizers rs redis) w =
     snd (rs_shutdown_tracing rs ((if redis then \<lambda>w. snd (rs_redis_close rs w) else id) (snd (auth_shutdown rs w))))"
  by (simp add: finalizers_def every_step_append no_shutdown_def)



subsection \<open>Start-up\<close>

text \<open>The state in which an application was started.\<close>

definition started_state :: "app_settings \<Rightarrow> app_state" where
  "started_state app = \<lparr>as_ready = True, as_container = Some app, as_health_db_engine = True,
     as_redis_client = truthy (auth_redis_url app)\<rparr>"

text \<open>What a bootstrap does, by the way its caller ends.\<close>

lemma bootstrap_result:
  assumes "has_system authz"
  obtains r s' where "bootstrap_system_admin authz ph promote invalidate clk ids email password s = Some (r, s')"
    "case bootstrap_exit r of
       Ok _ \<Rightarrow> \<exists>i. lookup_by_email email (fst s') = Some i \<and> is_admin i (fst s')
     | Err (SystemExit n) \<Rightarrow> n = 2 \<and> s' = s
     | Err (Uncaught e) \<Rightarrow> \<forall>u. is_admin u (fst s') = is_admin u (fst s)"
proof -
  obtain r s' where run: "bootstrap_system_admin authz ph promote invalidate clk ids email password s = Some (r, s')"
    and res: "case r of
       Returns (Ok i) \<Rightarrow> lookup_by_email email (fst s') = Some i \<and> is_admin i (fst s')
     | Returns (Err e) \<Rightarrow> s' = s
     | Raises e \<Rightarrow> \<forall>u. is_admin u (fst s') = is_admin u (fst s)"
    using bootstrap_outcome [OF assms, of ph promote invalidate clk ids email password s]
    by (force simp: manages_users_eq [OF assms] split: outcome.splits result.splits)
  have "r \<noteq> Returns (Err (CredentialVerificationError j))" for j
    using run by (auto simp: bootstrap_system_admin_def grant_and_record_def andthen_def
        split: option.splits prod.splits outcome.splits bool.splits if_splits result.splits)
  then have "case bootstrap_exit r of
       Ok _ \<Rightarrow> \<exists>i. lookup_by_email email (fst s') = Some i \<and> is_admin i (fst s')
     | Err (SystemExit n) \<Rightarrow> n = 2 \<and> s' = s
     | Err (Uncaught e) \<Rightarrow> \<forall>u. is_admin u (fst s') = is_admin u (fst s)"
    using res by (cases r rule: bootstrap_exit.cases) auto
  with run show thesis
    by (rule that)
qed

text \<open>What the bootstrap at start-up does: it ends, and by its result.\<close>

lemma run_authz_bootstrap_cases:
  assumes "has_system authz"
  obtains (ok) s' where "run_authz_bootstrap authz ph invalidate clk ids app s = Some (Ok (), s')"
      "\<And>email. auth_seed_on_startup app \<Longrightarrow> auth_bootstrap_super_admin_email app = Some email \<Longrightarrow> email \<noteq> [] \<Longrightarrow>
        \<exists>i. lookup_by_email email (fst s') = Some i \<and> is_admin i (fst s')"
    | (exits) "run_authz_bootstrap authz ph invalidate clk ids app s = Some (Err (SystemExit 2), s)"
    | (raises) e s' where "run_authz_bootstrap authz ph invalidate clk ids app s = Some (Err (Uncaught e), s')"
      "\<And>u. is_admin u (fst s') = is_admin u (fst s)"
proof (cases "auth_seed_on_startup app \<and> truthy (auth_bootstrap_super_admin_email app) \<and> truthy (auth_bootstrap_super_admin_password app)")
  case True
  then obtain email password where creds: "auth_bootstrap_super_admin_email app = Some email" "email \<noteq> []"
      "auth_bootstrap_super_admin_password app = Some password" "password \<noteq> []"
    by (auto simp: truthy_def split: option.splits)
  obtain r s' where run: "bootstrap_system_admin authz ph (auth_bootstrap_promote_existing app) invalidate clk ids email password s = Some (r, s')"
    and res: "case bootstrap_exit r of
       Ok _ \<Rightarrow> \<exists>i. lookup_by_email email (fst s') = Some i \<and> is_admin i (fst s')
     | Err (SystemExit n) \<Rightarrow> n = 2 \<and> s' = s
     | Err (Uncaught e) \<Rightarrow> \<forall>u. is_admin u (fst s') = is_admin u (fst s)"
    by (rule bootstrap_result [OF assms])
  have startup: "run_authz_bootstrap authz ph invalidate clk ids app s = Some (bootstrap_exit r, s')"
    using True creds run by (simp add: run_authz_bootstrap_def truthy_def)
  show thesis
  proof (cases "bootstrap_exit r")
    case (Ok x)
    then show thesis
      using startup res creds(1) by (intro ok [of s']) auto
  next
    case (Err f)
    then show thesis
      using startup res exits raises by (cases f) simp_all
  qed
next
  case False
  show thesis
  proof (cases "auth_seed_on_startup app \<and> truthy (auth_bootstrap_super_admin_email app) \<noteq> truthy (auth_bootstrap_super_admin_password app)")
    case True
    then show thesis
      using raises by (simp add: run_authz_bootstrap_def)
  next
    case False': False
    then have "run_authz_bootstrap authz ph invalidate clk ids app s = Some (Result.Ok (), s)"
      using False by (auto simp: run_authz_bootstrap_def truthy_def split: option.splits)
    moreover have "\<not> (auth_seed_on_startup app \<and> truthy (auth_bootstrap_super_admin_email app))"
      using False False' by blast
    ultimately show thesis
      by (intro ok [of s]) (auto simp: truthy_def)
  qed
qed


definition seeding_settings :: app_settings where
  "seeding_settings = sample_worker_settings\<lparr>auth_jwt_secret_key := Some ''secret'', auth_seed_on_startup := True,
     auth_bootstrap_super_admin_email := Some ''a@x'', auth_bootstrap_super_admin_password := Some ''pw'',
     auth_bootstrap_promote_existing := True\<rparr>"

lemma seeding_settings_load: "load_settings ok proc seeding_settings = Returns seeding_settings"
proof -
  have "settings_valid seeding_settings" "environment seeding_settings \<noteq> Production"
    by (simp_all add: seeding_settings_def sample_worker_settings_def settings_valid_def default_settings_def)
  then show ?thesis
    by (simp add: load_settings_def validate_auth_settings_decides validate_production_settings_def)
qed

lemma seeding_settings_sel:
  "email_settings_of seeding_settings = Returns \<lparr>es_backend = ''console'', es_from_address = None, es_console_log_bodies = False\<rparr>"
  "jobs_settings_of seeding_settings = Returns \<lparr>js_backend = ''in_process''\<rparr>"
  "storage_settings_of seeding_settings = storage_settings_of default_settings"
  "outbox_settings_of proc seeding_settings = outbox_settings_of proc sample_worker_settings"
  by (simp_all add: seeding_settings_def sample_worker_settings_def default_settings_def email_settings_of_def
      jobs_settings_of_def storage_settings_of_def outbox_settings_of_def)

lemma seeding_composes:
  "\<exists>parts. compose_web sample_worker seeding_settings fresh cache redis db = Returns parts"
proof -
  obtain authz where authz: "system_registry = Returns authz"
    using system_registry_has_system by blast
  obtain templates where t: "register_authentication_email_templates (we_files sample_worker) (we_templates_dir sample_worker)
      empty_template_registry = Returns templates"
    by (simp add: sample_worker_def register_authentication_email_templates_def register_template_def
        email_guard_unsealed_def empty_template_registry_def PASSWORD_RESET_TEMPLATE_def VERIFY_EMAIL_TEMPLATE_def dict_set_def dict_get_def)
  obtain outbox where o: "build_outbox_container (outbox_settings_of (we_process sample_worker) sample_worker_settings) = Returns outbox"
    by (simp add: build_outbox_container_def outbox_settings_of_def timedelta_seconds_def timedelta_times_def
        timedelta_max_def round_half_even_def sample_worker_settings_def default_settings_def)
  obtain st where st: "storage_settings_of default_settings = Returns st"
    by (simp add: storage_settings_of_def default_settings_def)
  obtain storage where storage: "build_file_storage_container (we_mkdir_ok sample_worker) (we_boto3 sample_worker) st = Returns storage"
    using st by (auto simp: build_file_storage_container_def sample_worker_def storage_settings_of_def default_settings_def)
  have secret: "truthy (auth_jwt_secret_key seeding_settings)" "\<not> truthy (auth_redis_url seeding_settings)"
      "environment seeding_settings = Development"
    by (simp_all add: seeding_settings_def sample_worker_settings_def default_settings_def truthy_def)
  obtain server where server: "build_auth_container seeding_settings fresh cache db redis = Returns server"
    by (simp add: build_auth_container_def check_internal_token_exposure_def secret Let_def)
  show ?thesis
    by (simp add: compose_web_def seeding_settings_sel build_email_container_def build_jobs_container_def t o st storage
        server authz register_chain DELETE_USER_ASSETS_JOB_def ERASE_USER_JOB_def Let_def)
qed

lemma seeding_bootstraps:
  assumes "has_system authz"
  shows "\<exists>s'. bootstrap_system_admin authz sample_hasher True (\<lambda>u c. (Returns (), c)) int word_of_nat ''a@x'' ''pw'' (sample_auth_db, ()) =
    Some (Returns (Ok 7), s')"
proof -
  have "manages_users authz sample_auth_db 7 = Some (Returns False)"
    by (simp add: manages_users_eq [OF assms] is_admin_def tuple_exists_iff sample_auth_db_def empty_db_def)
  moreover have "lookup_by_email ''a@x'' sample_auth_db = Some 7"
    by (simp add: lookup_by_email_def get_by_email_def lower_def strip_def strip_by_def lower_char_def is_space_def
        sample_auth_db_def empty_db_def sample_account_def)
  moreover have "credential_verify sample_hasher 7 ''pw'' sample_auth_db = Returns (Ok ())"
    by (simp add: credential_verify_def get_credential_for_user_def sample_credential_def verify_password_def sample_hasher_def)
  moreover have "relationships sample_auth_db = []"
    by (simp add: sample_auth_db_def empty_db_def)
  ultimately show ?thesis
    by (simp add: bootstrap_system_admin_def manages_users_def grant_and_record_def grant_and_invalidate_def andthen_def
        write_relationships_def write_relationships_session_def transaction_def)
qed



subsection \<open>The commands\<close>

lemma build_containers_Returns:
  assumes "build_containers env app fresh cache redis db = Returns parts"
  shows "has_system (wp_authz parts)"
proof -
  have "\<exists>authz. system_registry = Returns authz \<and> wp_authz parts = authz_seal authz"
    using assms by (auto simp: build_containers_def bind_outcome_Returns_iff Let_def)
  then show ?thesis
    using system_registry_sealed(1) by metis
qed

lemma prune_command_ends: "\<exists>r s'. outbox_prune_run_once env app rs now s = Some (r, s')"
proof (cases "load_settings (we_bracketed_ok env) (we_process env) app")
  case (Raises e)
  then show ?thesis
    by (simp add: outbox_prune_run_once_def)
next
  case (Returns app')
  then have "settings_valid app'"
    using load_settings_Returns by blast
  then have "0 < os_prune_batch_size (outbox_settings_of (we_process env) app')"
    by (simp add: settings_valid_def outbox_settings_of_def)
  from prune_tick_ends [OF this] show ?thesis
    unfolding outbox_prune_run_once_def Returns Let_def by (fastforce split: option.split prod.split outcome.split)
qed

text \<open>
  The commands end. Creating the administrator: without a password it exits with
  1 and touches nothing; if it succeeds, the account of the address is an
  administrator; if it exits with 2 the data is what it was; if it raises before its
  resources were released, nobody's right has changed. Pruning the outbox always
  ends. The worker never exits with 0, because no job runtime is wired.
\<close>

theorem commands_end:
  "(\<exists>r s'. create_super_admin env app fresh redis ph invalidate clk ids rs getenv email password_env s = Some (r, s') \<and>
      (getenv password_env \<in> {None, Some []} \<longrightarrow> r = Err (SystemExit 1) \<and> s' = s) \<and>
      (case r of
         Ok _ \<Rightarrow> \<exists>i. lookup_by_email email (fst (fst s')) = Some i \<and> is_admin i (fst (fst s'))
       | Err (SystemExit n) \<Rightarrow> n \<in> {1, 2} \<and> fst s' = fst s
       | Err (Uncaught e) \<Rightarrow> (\<forall>e'. fst (auth_shutdown rs (snd s)) \<noteq> Raises e') \<longrightarrow>
           (\<forall>u. is_admin u (fst (fst s')) = is_admin u (fst (fst s))))) \<and>
   (\<exists>r s'. outbox_prune_run_once env app rs now (db, w) = Some (r, s')) \<and>
   fst (worker_main env app rs w) \<noteq> Returns 0"
proof (intro conjI)
  show "\<exists>r s'. outbox_prune_run_once env app rs now (db, w) = Some (r, s')"
    by (rule prune_command_ends)
  show "fst (worker_main env app rs w) \<noteq> Returns 0"
    by (simp add: worker_main_def split: outcome.split)
  let ?run = "create_super_admin env app fresh redis ph invalidate clk ids rs getenv email password_env s"
  show "\<exists>r s'. ?run = Some (r, s') \<and>
      (getenv password_env \<in> {None, Some []} \<longrightarrow> r = Err (SystemExit 1) \<and> s' = s) \<and>
      (case r of
         Ok _ \<Rightarrow> \<exists>i. lookup_by_email email (fst (fst s')) = Some i \<and> is_admin i (fst (fst s'))
       | Err (SystemExit n) \<Rightarrow> n \<in> {1, 2} \<and> fst s' = fst s
       | Err (Uncaught e) \<Rightarrow> (\<forall>e'. fst (auth_shutdown rs (snd s)) \<noteq> Raises e') \<longrightarrow>
           (\<forall>u. is_admin u (fst (fst s')) = is_admin u (fst (fst s))))"
  proof (cases "getenv password_env \<in> {None, Some []}")
    case True
    then show ?thesis
      by (auto simp: create_super_admin_def simp del: split_paired_Ex)
  next
    case False
    then obtain password where pw: "getenv password_env = Some password" "password \<noteq> []"
      by auto
    show ?thesis
    proof (cases "build_containers env app fresh (snd (fst s)) redis (fst (fst s))")
      case (Raises e)
      then show ?thesis
        using pw by (simp add: create_super_admin_def del: split_paired_Ex)
    next
      case (Returns parts)
      obtain r s' where run: "bootstrap_system_admin (wp_authz parts) ph (auth_bootstrap_promote_existing app) invalidate clk ids
          email password (fst s) = Some (r, s')"
        and res: "case bootstrap_exit r of
           Ok _ \<Rightarrow> \<exists>i. lookup_by_email email (fst s') = Some i \<and> is_admin i (fst s')
         | Err (SystemExit n) \<Rightarrow> n = 2 \<and> s' = fst s
         | Err (Uncaught e) \<Rightarrow> \<forall>u. is_admin u (fst s') = is_admin u (fst (fst s))"
        by (rule bootstrap_result [OF build_containers_Returns [OF Returns]])
      have "?run = (case auth_shutdown rs (snd s) of
          (Returns _, w) \<Rightarrow> Some (bootstrap_exit r, (s', w)) | (Raises e, w) \<Rightarrow> Some (Err (Uncaught e), (s', w)))"
        using pw run by (simp add: create_super_admin_def Returns)
      then show ?thesis
        using pw res by (cases "auth_shutdown rs (snd s)"; cases "fst (auth_shutdown rs (snd s))"; cases "bootstrap_exit r")
          (auto simp del: split_paired_Ex split: startup_failure.splits)
    qed
  qed
qed

definition free_resources :: "nat resources" where
  "free_resources = \<lparr>rs_engine_dispose = (\<lambda>n. (Returns (), n + 1)), rs_limiter_closes = [], rs_cache_close = no_shutdown,
     rs_redis_close = no_shutdown, rs_shutdown_tracing = no_shutdown\<rparr>"

theorem commands_end_witness:
  "create_super_admin sample_worker seeding_settings (\<lambda>_. ()) () sample_hasher (\<lambda>u c. (Returns (), c)) int word_of_nat free_resources
       (\<lambda>_. None) ''a@x'' ''AUTH_BOOTSTRAP_PASSWORD'' ((sample_auth_db, ()), 0) = Some (Err (SystemExit 1), ((sample_auth_db, ()), 0)) \<and>
   (\<exists>r s'. outbox_prune_run_once sample_worker seeding_settings free_resources 50 (sample_auth_db, 0) = Some (r, s'))"
  using commands_end [of sample_worker seeding_settings "\<lambda>_. ()" "()" sample_hasher "\<lambda>u c. (Returns (), c)" int word_of_nat free_resources
      "\<lambda>_. None" "''a@x''" "''AUTH_BOOTSTRAP_PASSWORD''" "((sample_auth_db, ()), 0)" 50 sample_auth_db 0]
  by auto

end
