(* ===== verification/Error_Handlers.thy ===== *)
theory Error_Handlers
  imports Http Redaction Settings
begin

text \<open>
  Problem Details responses (\<open>src/app_platform/api/error_handlers.py\<close>, with the
  declared shape of \<open>schemas.py\<close>): what the platform answers when a handler raises.

  The payload is a JSON object. \<open>phrase\<close> is the table of status phrases of the
  running Python, which differs between versions. An entry of
  \<open>RequestValidationError.errors()\<close> is given by Pydantic: a location, a type, a
  message and the offending input, if any, in the object it is logged as. \<open>str\<close> of an
  exception and the encoding of a non-text \<open>detail\<close> are part of the raised value.
\<close>

definition status_title :: "(nat \<Rightarrow> string option) \<Rightarrow> nat \<Rightarrow> string" where
  "status_title phrase code = (case phrase code of Some p \<Rightarrow> p | None \<Rightarrow> ''Error'')"

record validation_error =
  ve_loc :: "json list"
  ve_type :: string
  ve_msg :: string
  ve_input :: "json option"

definition validation_error_entry :: "validation_error \<Rightarrow> json" where
  "validation_error_entry e =
     JObj ([(''type'', JStr (ve_type e)), (''loc'', JList (ve_loc e)), (''msg'', JStr (ve_msg e))] @
           (case ve_input e of None \<Rightarrow> [] | Some v \<Rightarrow> [(''input'', v)]))"

definition pydantic_errors_to_violations :: "bool \<Rightarrow> validation_error list \<Rightarrow> json list" where
  "pydantic_errors_to_violations include_input errors =
     map (\<lambda>e. JObj ([(''loc'', JList (ve_loc e)), (''type'', JStr (ve_type e)), (''msg'', JStr (ve_msg e))] @
            (if include_input then [(''input'', case ve_input e of None \<Rightarrow> JNull | Some v \<Rightarrow> v)] else []))) errors"

text \<open>What the handlers read of a request.\<close>

record request_info =
  ri_url :: string
  ri_path :: string
  ri_method :: string
  ri_request_id :: "string option"
  ri_principal_id :: "string option"

record problem_response =
  pr_status :: nat
  pr_media_type :: string
  pr_payload :: json_object
  pr_headers :: "(string, string) dict"

definition PROBLEM_JSON :: string where
  "PROBLEM_JSON = ''application/problem+json''"

definition dict_update :: "('k, 'v) dict \<Rightarrow> ('k, 'v) dict \<Rightarrow> ('k, 'v) dict" where
  "dict_update d extra = foldl (\<lambda>d (k, v). dict_set d k v) d extra"

definition problem_base ::
  "(nat \<Rightarrow> string option) \<Rightarrow> request_info \<Rightarrow> nat \<Rightarrow> string option \<Rightarrow> string option \<Rightarrow> string \<Rightarrow> json_object" where
  "problem_base phrase req status_code title detail type_uri =
     [(''type'', JStr type_uri),
      (''title'', JStr (case title of Some t \<Rightarrow> t | None \<Rightarrow> status_title phrase status_code)),
      (''status'', JInt (int status_code)), (''instance'', JStr (ri_url req))] @
     (case detail of None \<Rightarrow> [] | Some d \<Rightarrow> [(''detail'', JStr d)])"

definition problem_json_response ::
  "(nat \<Rightarrow> string option) \<Rightarrow> request_info \<Rightarrow> nat \<Rightarrow> string option \<Rightarrow> string option \<Rightarrow> string \<Rightarrow> json_object \<Rightarrow>
   (string, string) dict \<Rightarrow> problem_response" where
  "problem_json_response phrase req status_code title detail type_uri extra headers =
     (let payload = dict_update (problem_base phrase req status_code title detail type_uri) extra
      in \<lparr>pr_status = status_code, pr_media_type = PROBLEM_JSON,
          pr_payload = (case ri_request_id req of
              Some rid \<Rightarrow> if dict_has payload ''request_id'' then payload else dict_set payload ''request_id'' (JStr rid)
            | None \<Rightarrow> payload),
          pr_headers = headers\<rparr>)"

datatype raised =
    DependencyContainerNotReadyError string
  | ApplicationHTTPException http_problem string
  | StarletteHTTPException nat "string option" "(string, string) dict"
  | RequestValidationError "validation_error list"
  | UnhandledException exn

datatype error_log =
    Validation_Failed log_record
  | Unhandled_Logged string string
  | Captured "string option" string string "string option"

text \<open>The handlers, each with the response and what it logs and reports.\<close>

definition SERVICE_UNAVAILABLE_URI :: string where
  "SERVICE_UNAVAILABLE_URI = ''https://starter-template-fastapi.dev/problems/service-unavailable''"

definition dependency_container_not_ready_handler ::
  "(nat \<Rightarrow> string option) \<Rightarrow> request_info \<Rightarrow> string \<Rightarrow> problem_response" where
  "dependency_container_not_ready_handler phrase req text =
     problem_json_response phrase req 503 None (Some text) SERVICE_UNAVAILABLE_URI
       [(''code'', JStr ''dependency_container_not_ready'')] []"

definition application_http_exception_handler ::
  "(nat \<Rightarrow> string option) \<Rightarrow> request_info \<Rightarrow> http_problem \<Rightarrow> string \<Rightarrow> problem_response" where
  "application_http_exception_handler phrase req p detail =
     problem_json_response phrase req (hp_status p) None (Some detail) (problem_urn (hp_type p))
       [(''code'', case hp_code p of None \<Rightarrow> JNull | Some c \<Rightarrow> JStr c)] (hp_headers p)"

definition http_exception_handler ::
  "(nat \<Rightarrow> string option) \<Rightarrow> request_info \<Rightarrow> nat \<Rightarrow> string option \<Rightarrow> (string, string) dict \<Rightarrow> problem_response" where
  "http_exception_handler phrase req status detail headers =
     problem_json_response phrase req status None detail (problem_urn ABOUT_BLANK) [] headers"

definition validation_exception_handler ::
  "(nat \<Rightarrow> string option) \<Rightarrow> app_settings \<Rightarrow> request_info \<Rightarrow> validation_error list \<Rightarrow> problem_response \<times> error_log list" where
  "validation_exception_handler phrase settings req errors =
     (let is_production = (environment settings = Production);
          violations = pydantic_errors_to_violations (\<not> is_production) errors
      in (problem_json_response phrase req 422 (Some (status_title phrase 422))
            (Some (''Validation failed: '' @ str_nat (length violations) @ '' field(s)'')) (problem_urn VALIDATION_FAILED)
            [(''violations'', JList violations)] [],
          if is_production
          then [Validation_Failed \<lparr>lr_args = NoArgs,
                  lr_extra = [(''path'', JStr (ri_path req)), (''validation_errors'', JList (map validation_error_entry errors))]\<rparr>]
          else []))"

definition unhandled_exception_handler ::
  "(nat \<Rightarrow> string option) \<Rightarrow> bool \<Rightarrow> request_info \<Rightarrow> exn \<Rightarrow> problem_response \<times> error_log list" where
  "unhandled_exception_handler phrase has_reporter req e =
     (problem_json_response phrase req 500 (Some (status_title phrase 500)) (Some ''Internal Server Error'')
        (problem_urn ABOUT_BLANK) [] [],
      [Unhandled_Logged (ri_method req) (ri_path req)] @
      (if has_reporter then [Captured (ri_request_id req) (ri_path req) (ri_method req) (ri_principal_id req)] else []))"

fun handle_raised ::
  "(nat \<Rightarrow> string option) \<Rightarrow> app_settings \<Rightarrow> bool \<Rightarrow> request_info \<Rightarrow> raised \<Rightarrow> problem_response \<times> error_log list" where
  "handle_raised phrase settings rep req (DependencyContainerNotReadyError text) =
     (dependency_container_not_ready_handler phrase req text, [])"
| "handle_raised phrase settings rep req (ApplicationHTTPException p detail) =
     (application_http_exception_handler phrase req p detail, [])"
| "handle_raised phrase settings rep req (StarletteHTTPException status detail headers) =
     (http_exception_handler phrase req status detail headers, [])"
| "handle_raised phrase settings rep req (RequestValidationError errors) =
     validation_exception_handler phrase settings req errors"
| "handle_raised phrase settings rep req (UnhandledException e) = unhandled_exception_handler phrase rep req e"


subsection \<open>The declared shape\<close>

text \<open>The models \<open>Violation\<close> and \<open>ProblemDetails\<close>; additional members are allowed.\<close>

fun is_text :: "json option \<Rightarrow> bool" where
  "is_text (Some (JStr s)) = True"
| "is_text v = False"

fun violation_ok :: "json \<Rightarrow> bool" where
  "violation_ok (JObj d) \<longleftrightarrow>
     (case dict_get d ''loc'' of Some (JList loc) \<Rightarrow> True | _ \<Rightarrow> False) \<and>
     is_text (dict_get d ''type'') \<and> is_text (dict_get d ''msg'')"
| "violation_ok v \<longleftrightarrow> False"

definition problem_details_ok :: "json_object \<Rightarrow> bool" where
  "problem_details_ok d \<longleftrightarrow>
     is_text (dict_get d ''type'') \<and> is_text (dict_get d ''title'') \<and>
     (case dict_get d ''status'' of Some (JInt i) \<Rightarrow> True | _ \<Rightarrow> False) \<and>
     (dict_get d ''detail'' = None \<or> is_text (dict_get d ''detail'')) \<and>
     (dict_get d ''instance'' = None \<or> is_text (dict_get d ''instance'')) \<and>
     (case dict_get d ''violations'' of None \<Rightarrow> True | Some (JList vs) \<Rightarrow> list_all violation_ok vs | Some _ \<Rightarrow> False)"

text \<open>The members of a problem with at most one extra member.\<close>

lemma problem_base_get:
  "dict_get (problem_base phrase req code title detail uri) n =
     (if n = ''type'' then Some (JStr uri)
      else if n = ''title'' then Some (JStr (case title of Some t \<Rightarrow> t | None \<Rightarrow> status_title phrase code))
      else if n = ''status'' then Some (JInt (int code))
      else if n = ''instance'' then Some (JStr (ri_url req))
      else if n = ''detail'' then map_option JStr detail else None)"
  by (cases detail) (simp_all add: problem_base_def dict_get_def)

lemma problem_member_plain:
  "dict_get (pr_payload (problem_json_response phrase req code title detail uri [] headers)) n =
     (if n = ''request_id'' then map_option JStr (ri_request_id req) else dict_get (problem_base phrase req code title detail uri) n)"
  by (cases "ri_request_id req") (simp_all add: problem_json_response_def dict_update_def problem_base_get)

lemma problem_member_extra:
  assumes "k \<noteq> ''request_id''"
  shows "dict_get (pr_payload (problem_json_response phrase req code title detail uri [(k, v)] headers)) n =
     (if n = k then Some v else if n = ''request_id'' then map_option JStr (ri_request_id req)
      else dict_get (problem_base phrase req code title detail uri) n)"
  using assms by (cases "ri_request_id req") (simp_all add: problem_json_response_def dict_update_def problem_base_get)

lemma problem_status [simp]:
  "pr_status (problem_json_response phrase req code title detail uri extra headers) = code"
  "pr_media_type (problem_json_response phrase req code title detail uri extra headers) = PROBLEM_JSON"
  "pr_headers (problem_json_response phrase req code title detail uri extra headers) = headers"
  by (simp_all add: problem_json_response_def Let_def)

lemma violations_ok: "list_all violation_ok (pydantic_errors_to_violations include_input errors)"
  by (auto simp: pydantic_errors_to_violations_def list_all_iff dict_get_def)

lemmas handler_defs =
  dependency_container_not_ready_handler_def application_http_exception_handler_def http_exception_handler_def
  validation_exception_handler_def unhandled_exception_handler_def Let_def

lemmas problem_members = problem_member_extra problem_member_plain problem_base_get

lemma handled_members:
  "handle_raised phrase settings rep req r = (resp, logs) \<Longrightarrow>
     pr_media_type resp = PROBLEM_JSON \<and> dict_get (pr_payload resp) ''status'' = Some (JInt (int (pr_status resp))) \<and>
     dict_get (pr_payload resp) ''request_id'' = map_option JStr (ri_request_id req) \<and>
     dict_get (pr_payload resp) ''instance'' = Some (JStr (ri_url req))"
  by (cases r) (auto simp: handler_defs problem_members)

lemma handled_well_typed:
  assumes "handle_raised phrase settings rep req r = (resp, logs)"
  shows "problem_details_ok (pr_payload resp)"
proof (cases r)
  case (RequestValidationError errors)
  then show ?thesis
    using assms by (auto simp: handler_defs problem_members problem_details_ok_def violations_ok)
next
  case (StarletteHTTPException status detail headers)
  then show ?thesis
    using assms by (cases detail) (auto simp: handler_defs problem_members problem_details_ok_def)
qed (use assms in \<open>auto simp: handler_defs problem_members problem_details_ok_def\<close>)

lemma lower_log_keys: "lower ''path'' = ''path''" "lower ''validation_errors'' = ''validation_errors''"
  by code_simp+

lemma validation_log_kept:
  "dict_get (lr_extra (pii_log_filter \<lparr>lr_args = NoArgs, lr_extra = [(''path'', p), (''validation_errors'', v)]\<rparr>)) ''validation_errors'' =
     Some v"
  by (simp add: pii_log_filter_def redact_arg_def redact_value_for_key_def lower_log_keys redaction_keys dict_get_def)


definition sample_request_info :: request_info where
  "sample_request_info = \<lparr>ri_url = ''http://app/auth/login'', ri_path = ''/auth/login'', ri_method = ''POST'',
     ri_request_id = Some ''abc-1'', ri_principal_id = None\<rparr>"

definition sample_rejected :: validation_error where
  "sample_rejected = \<lparr>ve_loc = [JStr ''body'', JStr ''password''], ve_type = ''string_too_long'', ve_msg = ''too long'',
     ve_input = Some (JStr ''hunter2'')\<rparr>"


end
