(* ===== verification/User_Route_Props.thy ===== *)
theory User_Route_Props
  imports User_Routes Account_Props
begin

text \<open>
  Self-erasure through its route, wired as the application wires it: the resolver
  of the authentication feature, its password verifier and the in-process queue.
\<close>

subsection \<open>Self-erasure\<close>

lemma verify_user_password_True:
  assumes "verify_user_password ph dummy user_id password db = Returns True"
  shows "\<exists>credential. get_credential_for_user user_id ''argon2'' db = Some credential \<and>
    verify_password ph (cr_hash credential) password = Returns True"
proof (cases "get_credential_for_user user_id ''argon2'' db")
  case None
  then show ?thesis
    using assms by (cases "verify_password ph dummy password") (auto simp: verify_user_password_def)
qed (use assms in \<open>auto simp: verify_user_password_def\<close>)

lemma erase_user_refused: "erase_user clk ids carrier i reason db = (Raises e, db') \<Longrightarrow> db' = db"
  by (auto simp: erase_user_def transaction_def split: option.splits if_splits prod.splits outcome.splits)

lemma erase_user_Ok:
  assumes "erase_user clk ids carrier i reason db = (Returns (Ok x), db')"
  shows "(\<exists>u. get_raw_by_id i db = Some u \<and> u_is_erased u \<and> db' = db) \<or>
    (\<exists>u. get_raw_by_id i db = Some u \<and> \<not> u_is_erased u) \<and> no_artifacts i db'"
proof (cases "find_user i db")
  case None
  then show ?thesis
    using assms by (simp add: erase_user_def get_raw_by_id_def)
next
  case (Some u)
  show ?thesis
  proof (cases "u_is_erased u")
    case True
    then show ?thesis
      using assms Some by (simp add: erase_user_def get_raw_by_id_def)
  next
    case False
    then show ?thesis
      using assms Some no_artifacts_erased_db [of i clk ids carrier reason db]
      by (auto simp: erase_user_eq [OF Some False] get_raw_by_id_def split: if_splits)
  qed
qed

text \<open>The job that the route enqueues, run by the registered handler.\<close>

lemma erase_job_runs:
  assumes "dict_get (jr_handlers reg) ''erase_user'' =
      Some \<lparr>je_handler = erase_user_handler dedupe clk ids carrier, je_keep_result_seconds = keep\<rparr>"
  shows "in_process_enqueue reg ''erase_user'' (erase_payload user_id ''self_request'' job_id tc) s =
    erase_user_run clk ids carrier user_id ''self_request'' s"
proof -
  let ?p = "erase_payload user_id ''self_request'' job_id tc"
  have "dict_get ?p OUTBOX_MESSAGE_ID_KEY = None" "dict_get ?p ''user_id'' = Some (JStr (str_uuid user_id))"
      "dict_get ?p ''reason'' = Some (JStr ''self_request'')"
    by (auto simp: erase_payload_def OUTBOX_MESSAGE_ID_KEY_def dict_get_def)
  then show ?thesis
    using in_process_enqueue_known [OF assms]
    by (simp add: erase_user_handler_def deduped_def erase_user_body_def payload_uuid_def split: option.split)
qed

lemma route_erase_me_eq:
  assumes "ue_resolver en = Some resolve" and "ue_password_verifier en = Some verify" and "ue_job_queue en = Some queue"
  shows "route_erase_me en dr req password s =
    (case hr_bearer req of
       None \<Rightarrow> (Returns (Err credentials_exception), s)
     | Some token \<Rightarrow>
         (case resolve token s of
            (Raises e, s1) \<Rightarrow> (Raises e, s1)
          | (Returns (Err e), s1) \<Rightarrow> (Returns (Err credentials_exception), s1)
          | (Returns (Ok p), s1) \<Rightarrow>
              (case verify (p_user_id p) password (fst s1) of
                 Raises e \<Rightarrow> (Raises e, s1)
               | Returns False \<Rightarrow> (Returns (Err (application_http_exception 401 ''invalid_credentials'' AUTH_INVALID_CREDENTIALS [])), s1)
               | Returns True \<Rightarrow> enqueue_erasure queue dr (p_user_id p) ''self_request'' ''/me/erase/status/'' s1)))"
  using assms
  by (auto simp: route_erase_me_def http_bind_cases platform_current_principal_def refuse_def reply_def andthen_def
      split: option.split prod.split outcome.split result.split bool.split)

text \<open>The principal resolver as the authentication container wires it, over the database and the principal cache.\<close>

definition wired_resolver ::
  "'tok jwt_lib \<Rightarrow> app_settings \<Rightarrow> 'c cache_port \<Rightarrow> datetime \<Rightarrow> 'tok \<Rightarrow>
   (database \<times> 'c, (principal, auth_error) result) action" where
  "wired_resolver lib st port now token s =
     (case resolve_principal lib st port now token (fst s) (snd s) of (r, c) \<Rightarrow> (r, (fst s, c)))"

lemma erase_user_not_Ok:
  assumes "erase_user clk ids carrier i reason db = (Returns (Err e), db')"
  shows "db' = db"
proof (cases "\<exists>u. find_user i db = Some u \<and> \<not> u_is_erased u")
  case True
  then show ?thesis
    using assms by (auto simp: erase_user_eq split: if_splits)
next
  case False
  then show ?thesis
    using assms by (cases "find_user i db") (auto simp: erase_user_def get_raw_by_id_def)
qed

lemma erase_user_run_cases:
  assumes "erase_user_run clk ids carrier i reason s = (r, s')"
  shows "r = Returns () \<and> (fst s' = fst s \<and> (\<exists>u. get_raw_by_id i (fst s) = Some u \<and> u_is_erased u) \<or> no_artifacts i (fst s'))
    \<or> (\<exists>e. r = Raises e) \<and> fst s' = fst s"
proof -
  obtain r0 db' where run: "erase_user clk ids carrier i reason (fst s) = (r0, db')"
    by fastforce
  consider (raised) e where "r0 = Raises e" | (err) e where "r0 = Returns (Err e)" | (ok) x where "r0 = Returns (Ok x)"
    by (metis outcome.exhaust result.exhaust)
  then show ?thesis
  proof cases
    case raised
    then show ?thesis
      using assms run erase_user_refused [of clk ids carrier i reason "fst s" e db'] by (auto simp: erase_user_run_def)
  next
    case err
    then show ?thesis
      using assms run erase_user_not_Ok [of clk ids carrier i reason "fst s" e db'] by (auto simp: erase_user_run_def)
  next
    case ok
    then have out: "r = Returns ()" "fst s' = db'"
      using assms run by (auto simp: erase_user_run_def)
    have "(\<exists>u. get_raw_by_id i (fst s) = Some u \<and> u_is_erased u) \<and> db' = fst s \<or> no_artifacts i db'"
      using erase_user_Ok [of clk ids carrier i reason "fst s" x db'] run ok by fast
    then show ?thesis
      using out by blast
  qed
qed

text \<open>
  C4. Self-erasure is guarded and complete. In an application wired with the
  authentication feature's resolver and password verifier and the in-process
  queue that holds the erasure handler, \<open>DELETE /me/erase\<close> answers with an
  acceptance only if the bearer token resolves to a principal whose own stored
  credential verifies the submitted password, and then the principal's account
  was erased before or has no artifact left. In every other case, refusals and
  exceptions of any collaborator alike, the database is what it was.
\<close>

theorem erase_me_guarded:
  assumes "ue_resolver en = Some (wired_resolver lib st port now)"
    and "ue_password_verifier en = Some (verify_user_password ph dummy)"
    and "ue_job_queue en = Some (in_process_enqueue reg)"
    and "dict_get (jr_handlers reg) ''erase_user'' =
      Some \<lparr>je_handler = erase_user_handler dedupe clk ids carrier, je_keep_result_seconds = keep\<rparr>"
    and "route_erase_me en dr req password (db, c) = (r, (db', c'))"
  shows "(\<exists>response token p credential. r = Returns (Ok response) \<and> hr_bearer req = Some token \<and>
      fst (resolve_principal lib st port now token db c) = Returns (Ok p) \<and>
      get_credential_for_user (p_user_id p) ''argon2'' db = Some credential \<and>
      verify_password ph (cr_hash credential) password = Returns True \<and>
      (db' = db \<and> (\<exists>u. get_raw_by_id (p_user_id p) db = Some u \<and> u_is_erased u) \<or> no_artifacts (p_user_id p) db'))
    \<or> (\<nexists>response. r = Returns (Ok response)) \<and> db' = db"
proof (cases "hr_bearer req")
  case None
  then show ?thesis
    using assms(5) by (auto simp: route_erase_me_eq [OF assms(1-3)])
next
  case (Some token)
  note run = assms(5) [unfolded route_erase_me_eq [OF assms(1-3)] Some]
  obtain r0 c1 where res: "resolve_principal lib st port now token db c = (r0, c1)"
    by fastforce
  then have wired: "wired_resolver lib st port now token (db, c) = (r0, (db, c1))"
    by (simp add: wired_resolver_def)
  show ?thesis
  proof (cases "\<exists>p. r0 = Returns (Ok p) \<and> verify_user_password ph dummy (p_user_id p) password db = Returns True")
    case False
    then show ?thesis
      using run wired by (auto split: outcome.splits result.splits bool.splits)
  next
    case True
    then obtain p where p: "r0 = Returns (Ok p)" "verify_user_password ph dummy (p_user_id p) password db = Returns True"
      by blast
    obtain rj sj where job: "erase_user_run clk ids carrier (p_user_id p) ''self_request'' (db, c1) = (rj, sj)"
      by (cases "erase_user_run clk ids carrier (p_user_id p) ''self_request'' (db, c1)")
    then have "(r, (db', c')) = (case rj of Raises e \<Rightarrow> (Raises e, sj) | Returns _ \<Rightarrow> (fst (r, (db', c')), sj))"
      and "(\<exists>x. r = Returns (Ok x)) \<longleftrightarrow> rj = Returns ()"
      using run wired p by (auto simp: enqueue_erasure_def Let_def andthen_def erase_job_runs [OF assms(4)] reply_def
          split: outcome.splits)
    then show ?thesis
      using erase_user_run_cases [OF job] verify_user_password_True [OF p(2)] p(1) res Some
      by (cases rj) auto
  qed
qed

type_synonym sample_users_state = "(string \<Rightarrow> principal option) inprocess_cache"

definition sample_handlers :: "(database \<times> sample_users_state) job_handler_registry" where
  "sample_handlers =
     \<lparr>jr_handlers = [(''erase_user'', \<lparr>je_handler = erase_user_handler None (\<lambda>n. 30) (\<lambda>n. of_nat n) [], je_keep_result_seconds = None\<rparr>)],
      jr_sealed = True\<rparr>"

definition sample_users_env :: "(jwt_claims \<times> string \<times> string, sample_users_state) users_env" where
  "sample_users_env =
     \<lparr>ue_settings = sample_settings,
      ue_resolver = Some (wired_resolver sample_jwt sample_settings (inprocess_port sample_ttl) 20),
      ue_authorization = None, ue_revoke = None, ue_outbox_uow = True,
      ue_password_verifier = Some (verify_user_password sample_hasher ''hdummy''),
      ue_job_queue = Some (in_process_enqueue sample_handlers), ue_export_user_data = None\<rparr>"

definition sample_draws_me :: user_draws where
  "sample_draws_me = \<lparr>ud_clk = (\<lambda>n. 30), ud_new_id = 90, ud_carrier = []\<rparr>"

definition bearer_request :: "'tok \<Rightarrow> 'tok http_request" where
  "bearer_request token = \<lparr>hr_path = ''/me/erase'', hr_client = None, hr_headers = [], hr_cookies = [], hr_bearer = Some token\<rparr>"

theorem erase_me_guarded_witness:
  "\<exists>token ttl response db' c'. issue_access_token sample_jwt sample_settings 5 9 7 1 = Returns (token, ttl) \<and>
     route_erase_me sample_users_env sample_draws_me (bearer_request token) ''pw'' (sample_auth_db, \<lparr>ip_cache = Map.empty, ip_user_index = []\<rparr>) =
       (Returns (Ok response), (db', c')) \<and> no_artifacts 7 db'"
proof -
  let ?c = "\<lparr>ip_cache = Map.empty, ip_user_index = []\<rparr> :: sample_users_state"
  have env: "ue_resolver sample_users_env = Some (wired_resolver sample_jwt sample_settings (inprocess_port sample_ttl) 20)"
      "ue_password_verifier sample_users_env = Some (verify_user_password sample_hasher ''hdummy'')"
      "ue_job_queue sample_users_env = Some (in_process_enqueue sample_handlers)"
    by (simp_all add: sample_users_env_def)
  have reg: "dict_get (jr_handlers sample_handlers) ''erase_user'' =
      Some \<lparr>je_handler = erase_user_handler None (\<lambda>n. 30) (\<lambda>n. of_nat n) [], je_keep_result_seconds = None\<rparr>"
    by (simp add: sample_handlers_def dict_get_def)
  obtain token ttl where tok: "issue_access_token sample_jwt sample_settings 5 9 7 1 = Returns (token, ttl)"
    by (auto simp: issue_access_token_def jwt_secret_def)
  have dec: "decode_access_token sample_jwt sample_settings 20 token =
      Returns (Ok \<lparr>tp_subject = 7, tp_authz_version = 1, tp_expires_at = seconds 900, tp_token_id = str_uuid 9\<rparr>)"
    using decode_issued [OF sample_jwt_laws _ tok, of 20] by (simp add: numeric_date_def)
  obtain c1 where res: "resolve_principal sample_jwt sample_settings (inprocess_port sample_ttl) 20 token sample_auth_db ?c =
      (Returns (Ok (principal_from_user sample_account)), c1)"
    by (simp add: resolve_principal_def dec get_by_id_def find_user_def sample_account_def principal_from_user_def Let_def
        inprocess_port_def inprocess_get_def sample_ttl_def)
  have pw: "verify_user_password sample_hasher ''hdummy'' 7 ''pw'' sample_auth_db = Returns True"
    by (simp add: verify_user_password_def get_credential_for_user_def sample_credential_def verify_password_def sample_hasher_def)
  have "find_user 7 sample_auth_db = Some sample_account" "\<not> u_is_erased sample_account"
    by (simp_all add: find_user_def sample_account_def)
  then have "\<exists>db'. erase_user (\<lambda>n. 30) (\<lambda>n. of_nat n) [] 7 ''self_request'' sample_auth_db = (Returns (Ok ()), db')"
    by (simp add: erase_user_eq emails_unique_def users_erased_db)
  then obtain response db' where run: "route_erase_me sample_users_env sample_draws_me (bearer_request token) ''pw'' (sample_auth_db, ?c) =
      (Returns (Ok response), (db', c1))"
    using res pw by (auto simp: route_erase_me_eq [OF env] bearer_request_def wired_resolver_def principal_from_user_def
        sample_account_def enqueue_erasure_def Let_def andthen_def erase_job_runs [OF reg] erase_user_run_def reply_def)
  have "no_artifacts 7 db'"
    using erase_me_guarded [OF env reg run] res \<open>find_user 7 _ = _\<close>
    by (auto simp: bearer_request_def principal_from_user_def sample_account_def get_raw_by_id_def)
  with tok run show ?thesis
    by blast
qed

end
