(* ===== verification/Spec2Isabelle.thy ===== *)
theory Spec2Isabelle
  imports Authz_Spec Auth_Session_Props Auth_Token_Props Auth_Access_Props Email_Delivery Account_Props
    Pagination Cursor_Codec Cookie_Origin Storage_Props Shared_Cache Lifespan_Props Error_Handlers User_Route_Props
begin

text \<open>
  A verification development for the FastAPI starter service under \<open>src/\<close> (paths
  below are relative to it; a feature is a directory of \<open>src/features\<close>).

  \<^bold>\<open>The program.\<close> A service built from features over one relational database.
  \<^item> \<open>authorization\<close>: relationship tuples, a registry of resource types and actions,
    and the check that walks from a resource to its stored ancestor.
  \<^item> \<open>authentication\<close>: registration, login, rotating refresh tokens, single-use
    tokens for password reset and email verification, access tokens with a principal
    cache, rate limits, and the HTTP routes.
  \<^item> \<open>users\<close>: accounts, deactivation, erasure, export, admin listing, HTTP routes.
  \<^item> \<open>outbox\<close>: rows written in the producer's transaction, a relay that dispatches
    them to the job queue with retries, dedup marks, pruning.
  \<^item> \<open>background_jobs\<close>, \<open>email\<close>, \<open>file_storage\<close>: registries and adapters.
  \<^item> \<open>src/app_platform\<close>: results, configuration, middleware, error handlers,
    redaction. \<open>src/main.py\<close> and \<open>src/worker.py\<close> compose the features.

  A request passes the middleware, is resolved to a principal, checked against a
  rate limit or a relation, and runs a use case that writes its rows and its outbox
  rows in one transaction. The relay later hands an outbox row to the queue, which
  runs the registered handler.

  \<^bold>\<open>Conventions\<close> (\<open>Prelude\<close>, \<open>Result\<close>, \<open>Registry_Contract\<close>, \<open>Batch_Drain\<close>,
  \<open>Single_Use\<close>, \<open>Py_Uuid\<close>, \<open>Normalization\<close>). A value of the program's \<open>Result\<close> is
  a \<open>result\<close>; a call that may raise gives an \<open>outcome\<close>; a stateful call is a function
  from a state to an outcome and a state. Datetimes count microseconds, UUIDs are
  128-bit words, dicts are association lists in insertion order. Each clock reading
  and each drawn id is an argument. A loop that might not end is a partial function
  whose \<open>None\<close> is divergence, and ending is proved. No definition uses fuel. The
  locales of \<open>Registry_Contract\<close> (write-once registries), \<open>Batch_Drain\<close> (batched
  deletion) and \<open>Single_Use\<close> (consumed tokens) state contracts several components
  share; every component interprets them on its own operations.

  \<^bold>\<open>The data.\<close> \<open>Database\<close> has one record per table class and the constraints the
  classes declare; \<open>Settings\<close> is \<open>AppSettings\<close>.

  \<^bold>\<open>Authorization.\<close> \<open>Authz_Registry\<close> (\<open>application/registry.py\<close>), \<open>Authz_Engine\<close>
  (\<open>adapters/outbound/sqlmodel/adapter.py\<close>), \<open>Bootstrap\<close>
  (\<open>use_cases/bootstrap_system_admin.py\<close>). \<open>Authz_Spec\<close> shows that a check ends and
  decides what the stored tuples say, that lookups are sound and complete up to their
  limit, and that any history of grants and revokes leaves the last call's tuples and
  counts versions. \<open>Bootstrap\<close> shows that an existing account is promoted only with
  the opt-in and its password.

  \<^bold>\<open>Authentication.\<close> \<open>Crypto\<close> (SHA-256 in full),
  \<open>Access_Tokens\<close>, \<open>Principal_Cache\<close>, \<open>Redis_Cache\<close>,
  \<open>Auth_Repository\<close>, \<open>Auth_UseCases\<close>, \<open>Rate_Limits\<close>, and
  the HTTP side in \<open>Http\<close>, \<open>Auth_Http\<close>, \<open>Auth_Routes\<close>.
  \<open>Auth_Sessions\<close> and \<open>Auth_Session_Props\<close>: families keep one live
  token in every reachable state, rotation consumes, a replay ends the session.
  \<open>Auth_Login_Props\<close>: who gets tokens, and that failures are alike.
  \<open>Auth_Token_Props\<close>: single use, atomic requests, the effect of a reset, the
  purge. \<open>Auth_Access_Props\<close>: the token round trip and final revocation.
  \<open>Shared_Cache\<close>: both principal caches keep the contract of the port, and how long
  a revoked token survives when replicas share the Redis one. \<open>Rate_Limit_Props\<close>:
  both limiters are sliding logs; \<open>Auth_Http_Props\<close> and \<open>Auth_Budget\<close>
  carry this to a bound on password guesses through all routes. \<open>Cookie_Origin\<close>:
  cookie routes act only for trusted origins.

  \<^bold>\<open>Users.\<close> \<open>Users\<close>, \<open>Account_Lifecycle\<close>,
  \<open>User_Data\<close>, \<open>User_Routes\<close>. \<open>Account_Props\<close>: erasure is
  complete and atomic. \<open>User_Data_Props\<close> and \<open>Storage_Props\<close> (with
  \<open>File_Storage\<close>): both storage adapters refine a key-value map, and what cleanup
  leaves. \<open>Pagination\<close>: following cursors lists every row once;
  \<open>Cursor_Codec\<close> (both \<open>cursor.py\<close>, base64 included): tokens decode to
  what they encode. \<open>User_Route_Props\<close>: self-erasure needs the password and erases.

  \<^bold>\<open>Outbox, jobs, email.\<close> \<open>Outbox_Store\<close>, \<open>Outbox_Relay\<close>, \<open>Jobs\<close>, \<open>Email\<close>.
  \<open>Outbox_Props\<close>: a tick accounts for every claimed row, the attempt budget is
  invariant, pruning is exact, and where the relay's documentation does not hold.
  \<open>Email_Delivery\<close>: at most one email per row, and that a failed one is marked
  delivered. \<open>Workers\<close>: the schedule and the job table of a composed worker.

  \<^bold>\<open>Composition.\<close> \<open>Lifespan\<close> has the start, the readiness probe and the shutdown of
  \<open>main.py\<close>, the drain of \<open>worker.py\<close> and the command-line entry points.
  \<open>Lifespan_Props\<close>: what a started application guarantees, when the probe answers 200,
  that shutdown runs every step, and that the commands end.

  \<^bold>\<open>Platform.\<close> \<open>Redaction\<close>: nothing sensitive passes the log filter under its key.
  \<open>Feature_Settings\<close>: which configurations load. \<open>Middleware\<close>: headers, request id,
  size limit. \<open>Error_Handlers\<close>: every problem has the declared shape.

  \<open>Samples\<close> and \<open>Sample_Hashes\<close> hold concrete data for the witnesses.

  \<^bold>\<open>Parameters.\<close> Packages are arguments: Argon2
  (\<open>hasher_laws\<close>), PyJWT (\<open>jwt_laws\<close>), cachetools
  (\<open>ttl_laws\<close>, \<open>attempt_cache_laws\<close>), Redis (\<open>redis_laws\<close>
  for the limiter's sorted sets, \<open>redis_kv_laws\<close> for the cache), the S3 client
  (\<open>s3_laws\<close>), the parsers of JSON and ISO datetimes (\<open>cursor_laws\<close>),
  Jinja2, Starlette's header type (\<open>headers_api_ok\<close>) and its gzip middleware
  (\<open>gzip_ok\<close>), each with the documented behaviour the proofs use as a named
  predicate and a concrete instance in the witnesses.

  \<^bold>\<open>Not modelled.\<close> Set-up of third-party packages (logging, tracing,
  metrics, error reporting, SQLAlchemy engines, OpenAPI tables), the features' accessors of
  \<open>app.state\<close>, the answers of the probed servers, which are arguments; ports, which
  are declarations; command-line parsing. Texts meant for people (problem details, log messages)
  are left out where no behaviour depends on them, requests arrive parsed, and strings are ASCII
  except where a theory says otherwise.
\<close>

end
